(* ===== verification/Prelude.thy ===== *)
theory Prelude
  imports Complex_Main "HOL-Library.Sublist"
begin

text \<open>
  Shared vocabulary of the development: the JavaScript built-ins the TypeScript sources call
  (the nullish operator \<open>??\<close>, truthiness, \<open>Number.prototype.toString\<close>,
  \<open>Array.prototype.join\<close>, \<open>String.prototype.split\<close>, \<open>includes\<close>,
  \<open>startsWith\<close>, \<open>toLowerCase\<close>, \<open>parseInt\<close>), each as an executable HOL function,
  with the generic lemmas on lists, options and strings the component theories share.
  JavaScript numbers are modelled as exact rationals (\<open>rat\<close>): floating-point rounding
  and the exponent notation of \<open>toString\<close> are not modelled. Strings are
  \<open>char list\<close>s.
\<close>

named_theorems js_simps "evaluation rules of the modelled JavaScript built-ins"
named_theorems store_simps "unfolding rules of the store operations"

type_synonym js_number = rat

subsection \<open>Nullish coalescing and truthiness\<close>

text \<open>\<open>a ?? b\<close>: the left operand unless it is \<open>null\<close> or \<open>undefined\<close>.\<close>

fun nullish :: "'a option \<Rightarrow> 'a option \<Rightarrow> 'a option" where
  "nullish (Some x) _ = Some x"
| "nullish None b = b"

text \<open>Truthiness of an optional string (\<open>''''\<close> is falsy) and of an optional number
  (\<open>0\<close> is falsy; \<open>NaN\<close> is not a rational and does not arise).\<close>

fun truthy_str :: "string option \<Rightarrow> bool" where
  "truthy_str None = False"
| "truthy_str (Some s) = (s \<noteq> [])"

fun truthy_num :: "js_number option \<Rightarrow> bool" where
  "truthy_num None = False"
| "truthy_num (Some x) = (x \<noteq> 0)"

lemma nullish_None_right [simp, js_simps]: "nullish a None = a"
  by (cases a) simp_all

lemma nullish_eq_None [simp, js_simps]: "nullish a b = None \<longleftrightarrow> a = None \<and> b = None"
  by (cases a) simp_all

lemma truthy_str_iff [js_simps]: "truthy_str s \<longleftrightarrow> (\<exists>t. s = Some t \<and> t \<noteq> [])"
  by (cases s) simp_all

lemma truthy_num_iff [js_simps]: "truthy_num x \<longleftrightarrow> (\<exists>n. x = Some n \<and> n \<noteq> 0)"
  by (cases x) simp_all

subsection \<open>Decimal printing: \<open>Number.prototype.toString\<close>\<close>

definition digit_char :: "nat \<Rightarrow> char" where
  "digit_char d = char_of (48 + d)"

fun nat_str :: "nat \<Rightarrow> string" where
  "nat_str n = (if n < 10 then [digit_char n] else nat_str (n div 10) @ [digit_char (n mod 10)])"

declare nat_str.simps [simp del]

definition int_str :: "int \<Rightarrow> string" where
  "int_str i = (if i < 0 then CHR ''-'' # nat_str (nat (- i)) else nat_str (nat i))"

text \<open>Fraction digits by long division of the remainder \<open>r\<close> by the denominator \<open>d\<close>,
  stopping when the remainder is zero; the fuel bounds the digits at twenty.\<close>

fun frac_digits :: "nat \<Rightarrow> nat \<Rightarrow> nat \<Rightarrow> string" where
  "frac_digits 0 r d = []"
| "frac_digits (Suc f) r d =
     (if r = 0 then [] else digit_char ((10 * r) div d) # frac_digits f ((10 * r) mod d) d)"

lemma frac_digits_zero [simp]: "frac_digits f 0 d = []"
  by (cases f) simp_all

definition num_str :: "js_number \<Rightarrow> string" where
  "num_str q =
     (let (a, b) = quotient_of q; n = nat \<bar>a\<bar>; m = nat b; fs = frac_digits 20 (n mod m) m
      in (if a < 0 then ''-'' else []) @ nat_str (n div m)
         @ (if fs = [] then [] else CHR ''.'' # fs))"

definition is_digit :: "char \<Rightarrow> bool" where
  "is_digit c \<longleftrightarrow> 48 \<le> (of_char c :: nat) \<and> (of_char c :: nat) < 58"

lemma digit_char_is_digit [simp]: "d < 10 \<Longrightarrow> is_digit (digit_char d)"
  by (simp add: is_digit_def digit_char_def)

lemma nat_str_digits: "c \<in> set (nat_str n) \<Longrightarrow> is_digit c"
proof (induction n rule: nat_str.induct)
  case (1 n)
  then show ?case
    by (subst (asm) nat_str.simps) (auto split: if_splits)
qed

lemma nat_str_nonempty [simp]: "nat_str n \<noteq> []"
  by (subst nat_str.simps) simp

lemma frac_digits_digits:
  "0 < d \<Longrightarrow> c \<in> set (frac_digits f r d) \<Longrightarrow> r < d \<Longrightarrow> is_digit c"
proof (induction f r d rule: frac_digits.induct)
  case (2 f r d)
  have "(10 * r) div d < 10"
    using "2.prems" by (simp add: div_less_iff_less_mult)
  with "2" show ?case by (auto split: if_splits)
qed simp

text \<open>The characters \<open>toString\<close> prints: digits, a sign and a decimal point.\<close>

definition number_char :: "char \<Rightarrow> bool" where
  "number_char c \<longleftrightarrow> is_digit c \<or> c = CHR ''-'' \<or> c = CHR ''.''"

lemma int_str_chars: "c \<in> set (int_str i) \<Longrightarrow> number_char c"
  by (auto simp: int_str_def number_char_def dest: nat_str_digits split: if_splits)

lemma num_str_chars: "c \<in> set (num_str q) \<Longrightarrow> number_char c"
proof -
  assume c: "c \<in> set (num_str q)"
  obtain a b where ab: "quotient_of q = (a, b)" by (cases "quotient_of q")
  then have "0 < b" by (rule quotient_of_denom_pos)
  then have b: "0 < nat b" by simp
  then have r: "nat \<bar>a\<bar> mod nat b < nat b" by simp
  from c ab show ?thesis
    by (auto simp: num_str_def number_char_def Let_def split: if_splits
             dest: nat_str_digits frac_digits_digits [OF b _ r])
qed


lemma printed_number_free:
  "\<not> number_char c \<Longrightarrow> c \<notin> set (int_str i)"
  "\<not> number_char c \<Longrightarrow> c \<notin> set (num_str q)"
  using int_str_chars num_str_chars by blast+

lemma comma_newline_not_number_char [simp]:
  "\<not> number_char CHR '',''" "\<not> number_char (CHR 0x0A)"
  by (simp_all add: number_char_def is_digit_def)

text \<open>Printing a literal integer, for the evaluation of concrete requests by \<open>simp\<close>.\<close>

lemma digit_char_simps:
  "digit_char 0 = CHR ''0''" "digit_char 1 = CHR ''1''" "digit_char (Suc 0) = CHR ''1''"
  "digit_char 2 = CHR ''2''" "digit_char 3 = CHR ''3''" "digit_char 4 = CHR ''4''"
  "digit_char 5 = CHR ''5''" "digit_char 6 = CHR ''6''" "digit_char 7 = CHR ''7''"
  "digit_char 8 = CHR ''8''" "digit_char 9 = CHR ''9''"
  unfolding digit_char_def by code_simp+

lemma nat_str_numeral:
  "nat_str 0 = ''0''" "nat_str 1 = ''1''" "nat_str (Suc 0) = ''1''"
  "nat_str (numeral k) = (if numeral k < (10::nat) then [digit_char (numeral k)]
      else nat_str (numeral k div 10) @ [digit_char (numeral k mod 10)])"
  by (simp_all add: nat_str.simps digit_char_simps)

lemma num_str_of_int: "num_str (of_int i) = int_str i"
  by (simp add: num_str_def quotient_of_rat_of_int int_str_def)

lemma num_str_numeral: "num_str (numeral k) = nat_str (numeral k)" "num_str 1 = ''1''" "num_str 0 = ''0''"
  using num_str_of_int [of "numeral k"] num_str_of_int [of 1] num_str_of_int [of 0]
  by (simp_all add: int_str_def nat_str_numeral)

lemmas num_str_eval = digit_char_simps nat_str_numeral num_str_numeral

subsection \<open>\<open>Array.prototype.join\<close> and \<open>String.prototype.split\<close>\<close>

fun js_join :: "string \<Rightarrow> string list \<Rightarrow> string" where
  "js_join sep [] = []"
| "js_join sep [x] = x"
| "js_join sep (x # xs) = x @ sep @ js_join sep xs"

text \<open>\<open>s.split(c)\<close> for a one-character separator: the result is never empty, and
  the empty string splits into one empty field.\<close>

fun split_on :: "char \<Rightarrow> string \<Rightarrow> string list" where
  "split_on c [] = [[]]"
| "split_on c (x # xs) =
     (let r = split_on c xs in if x = c then [] # r else (x # hd r) # tl r)"

lemma split_on_nonempty [simp]: "split_on c s \<noteq> []"
  by (cases s) (simp_all add: Let_def)

lemma split_on_append_free:
  "c \<notin> set x \<Longrightarrow> split_on c (x @ ys) = (x @ hd (split_on c ys)) # tl (split_on c ys)"
  by (induction x) (auto simp: Let_def)

lemma split_on_free [simp]: "c \<notin> set x \<Longrightarrow> split_on c x = [x]"
  using split_on_append_free [of c x "[]"] by simp

lemma split_on_js_join:
  "xs \<noteq> [] \<Longrightarrow> \<forall>x \<in> set xs. c \<notin> set x \<Longrightarrow> split_on c (js_join [c] xs) = xs"
proof (induction "[c]" xs rule: js_join.induct)
  case (3 x y zs)
  then have "split_on c (x @ c # js_join [c] (y # zs)) = x # split_on c (js_join [c] (y # zs))"
    using split_on_append_free [of c x] by (simp add: Let_def)
  with "3" show ?case by simp
qed simp_all

subsection \<open>\<open>includes\<close>, \<open>startsWith\<close> and \<open>toLowerCase\<close>\<close>

text \<open>\<open>s.includes(t)\<close>, scanning \<open>s\<close> from the left; \<open>sublist\<close> of
  \<open>HOL-Library.Sublist\<close> is the reference meaning (a contiguous occurrence).\<close>

fun str_includes :: "string \<Rightarrow> string \<Rightarrow> bool" where
  "str_includes [] t = (t = [])"
| "str_includes (x # xs) t = (prefix t (x # xs) \<or> str_includes xs t)"

lemma str_includes_sublist [js_simps]: "str_includes s t \<longleftrightarrow> sublist t s"
  by (induction s) (auto simp: sublist_Cons_right)

definition starts_with :: "string \<Rightarrow> string \<Rightarrow> bool" where
  "starts_with s p \<longleftrightarrow> prefix p s"

text \<open>\<open>String.prototype.toLowerCase\<close> on the code units a character of the model stands
  for (U+0000 to U+00FF): the capitals A to Z and the Latin-1 capitals U+00C0 to U+00DE
  (except the sign U+00D7) move 32 code points up; every other unit is its own lower
  case.\<close>

definition lower_char :: "char \<Rightarrow> char" where
  "lower_char c = (let n = (of_char c :: nat) in
     if (65 \<le> n \<and> n \<le> 90) \<or> (192 \<le> n \<and> n \<le> 222 \<and> n \<noteq> 215)
     then char_of (n + 32) else c)"

definition to_lower :: "string \<Rightarrow> string" where
  "to_lower s = map lower_char s"

lemma str_includes_Nil [simp, js_simps]: "str_includes s []"
  by (simp add: str_includes_sublist)

subsection \<open>Hexadecimal digits\<close>

text \<open>The value of a hexadecimal digit of either case, as \<open>%XX\<close> escapes and JSON's
  \<open>\\uXXXX\<close> escapes read it.\<close>

definition hex_val :: "char \<Rightarrow> nat option" where
  "hex_val c = (let n = (of_char c :: nat) in
     if 48 \<le> n \<and> n < 58 then Some (n - 48)
     else if 65 \<le> n \<and> n < 71 then Some (n - 55)
     else if 97 \<le> n \<and> n < 103 then Some (n - 87) else None)"

subsection \<open>\<open>parseInt\<close>\<close>

definition digit_val :: "char \<Rightarrow> nat" where
  "digit_val c = of_char c - 48"

definition nat_of_digits :: "string \<Rightarrow> nat" where
  "nat_of_digits ds = foldl (\<lambda>n c. 10 * n + digit_val c) 0 ds"

definition js_space :: "char \<Rightarrow> bool" where
  "js_space c \<longleftrightarrow> c \<in> {CHR '' '', CHR 0x09, CHR 0x0A, CHR 0x0D}"

text \<open>\<open>parseInt(s)\<close> in base ten: leading white space, an optional sign, then the
  longest run of digits; \<open>None\<close> stands for \<open>NaN\<close> (no digit).\<close>

definition parse_int :: "string \<Rightarrow> int option" where
  "parse_int s =
     (let s1 = dropWhile js_space s;
          (neg, s2) = (case s1 of c # r \<Rightarrow>
                         if c = CHR ''-'' then (True, r) else if c = CHR ''+'' then (False, r)
                         else (False, s1) | [] \<Rightarrow> (False, []));
          ds = takeWhile is_digit s2
      in if ds = [] then None else Some ((if neg then -1 else 1) * int (nat_of_digits ds)))"

lemma digit_val_digit_char [simp]: "d < 10 \<Longrightarrow> digit_val (digit_char d) = d"
  by (simp add: digit_val_def digit_char_def)

lemma nat_of_digits_snoc [simp]: "nat_of_digits (xs @ [c]) = 10 * nat_of_digits xs + digit_val c"
  by (simp add: nat_of_digits_def)

lemma nat_of_digits_nat_str [simp]: "nat_of_digits (nat_str n) = n"
proof (induction n rule: nat_str.induct)
  case (1 n)
  then show ?case
    by (subst nat_str.simps) (simp add: nat_of_digits_def)
qed

lemma takeWhile_nat_str [simp]: "takeWhile is_digit (nat_str n) = nat_str n"
  by (simp add: nat_str_digits)

lemma nat_str_hd_digit: "is_digit (hd (nat_str n))"
  using nat_str_digits hd_in_set nat_str_nonempty by blast

lemma parse_int_int_str [js_simps]: "parse_int (int_str i) = Some i"
proof -
  have nsp: "\<not> js_space (hd (nat_str n))" "hd (nat_str n) \<noteq> CHR ''-''"
    "hd (nat_str n) \<noteq> CHR ''+''" for n
    using nat_str_hd_digit [of n] by (auto simp: js_space_def is_digit_def)
  have dw: "dropWhile js_space (nat_str n) = nat_str n" for n
    using nsp(1) [of n] by (cases "nat_str n") simp_all
  show ?thesis
  proof (cases "i < 0")
    case True
    then show ?thesis by (simp add: parse_int_def int_str_def js_space_def)
  next
    case False
    have "(case nat_str (nat i) of c # r \<Rightarrow>
             if c = CHR ''-'' then (True, r) else if c = CHR ''+'' then (False, r)
             else (False, nat_str (nat i)) | [] \<Rightarrow> (False, [])) = (False, nat_str (nat i))"
      using nsp [of "nat i"] by (cases "nat_str (nat i)") auto
    with False dw [of "nat i"] show ?thesis
      by (simp add: parse_int_def int_str_def)
  qed
qed

lemma int_str_inj: "int_str i = int_str j \<longleftrightarrow> i = j"
  by (metis parse_int_int_str option.inject)


subsection \<open>\<open>Number(s)\<close>, \<open>parseFloat(s)\<close> and \<open>toFixed\<close>\<close>

text \<open>A decimal numeral at the head of a string: an optional sign, digits, an optional
  point and digits, at least one digit in all; the value and the rest of the string.
  Exponents (\<open>1e3\<close>), \<open>Infinity\<close> and hexadecimal literals are not modelled.\<close>

definition frac_value :: "string \<Rightarrow> rat" where
  "frac_value ds = of_nat (nat_of_digits ds) / 10 ^ length ds"

definition decimal_prefix :: "string \<Rightarrow> (rat \<times> string) option" where
  "decimal_prefix s =
     (let (sg, s1) = (case s of c # r \<Rightarrow> if c = CHR ''-'' then (-1, r)
                                      else if c = CHR ''+'' then (1, r) else (1, s)
                              | [] \<Rightarrow> (1, []));
          ip = takeWhile is_digit s1; s2 = dropWhile is_digit s1;
          (fp, s3) = (case s2 of c # r \<Rightarrow> if c = CHR ''.''
                                           then (takeWhile is_digit r, dropWhile is_digit r)
                                           else ([], s2)
                              | [] \<Rightarrow> ([], []))
      in if ip = [] \<and> fp = [] then None
         else Some (sg * (of_nat (nat_of_digits ip) + frac_value fp), s3))"

text \<open>\<open>parseFloat(s)\<close>: leading white space, then the longest numeral prefix; \<open>None\<close>
  is \<open>NaN\<close>.\<close>

definition parse_float :: "string \<Rightarrow> js_number option" where
  "parse_float s = map_option fst (decimal_prefix (dropWhile js_space s))"

text \<open>\<open>Number(s)\<close>: the whole string, white space trimmed at both ends, must be a
  numeral; the empty (or blank) string is \<open>0\<close>.\<close>

definition js_Number :: "string \<Rightarrow> js_number option" where
  "js_Number s =
     (let t = rev (dropWhile js_space (rev (dropWhile js_space s)))
      in if t = [] then Some 0
         else (case decimal_prefix t of Some (q, []) \<Rightarrow> Some q | _ \<Rightarrow> None))"

text \<open>\<open>x.toFixed(f)\<close>: the magnitude rounded to \<open>f\<close> decimals, half away from zero, a
  sign when \<open>x\<close> is negative, and exactly \<open>f\<close> fraction digits.\<close>

definition pad_left :: "nat \<Rightarrow> string \<Rightarrow> string" where
  "pad_left n s = replicate (n - length s) (CHR ''0'') @ s"

definition to_fixed :: "nat \<Rightarrow> js_number \<Rightarrow> string" where
  "to_fixed f x =
     (let n = nat (floor (\<bar>x\<bar> * 10 ^ f + 1/2))
      in (if x < 0 then ''-'' else []) @ nat_str (n div 10 ^ f)
         @ (if f = 0 then [] else CHR ''.'' # pad_left f (nat_str (n mod 10 ^ f))))"

subsection \<open>\<open>toFixed(2)\<close> of a cent amount reads back exactly\<close>

lemma is_digit_not_sign [simp]:
  "is_digit c \<Longrightarrow> c \<noteq> CHR ''-''" "is_digit c \<Longrightarrow> c \<noteq> CHR ''+''"
  "is_digit c \<Longrightarrow> c \<noteq> CHR ''.''" "is_digit c \<Longrightarrow> \<not> js_space c"
  by (auto simp: is_digit_def js_space_def)

lemma not_is_digit_point [simp]: "\<not> is_digit CHR ''.''"
  by (simp add: is_digit_def)

lemma decimal_prefix_point:
  assumes "ip \<noteq> []" "\<forall>c \<in> set ip. is_digit c" "\<forall>c \<in> set fp. is_digit c"
  shows "decimal_prefix (ip @ CHR ''.'' # fp) = Some (of_nat (nat_of_digits ip) + frac_value fp, [])"
    and "decimal_prefix (CHR ''-'' # ip @ CHR ''.'' # fp) = Some (- (of_nat (nat_of_digits ip) + frac_value fp), [])"
proof -
  obtain c r where ip: "ip = c # r" using assms(1) by (cases ip) auto
  have c: "is_digit c" using assms(2) ip by simp
  have tw: "takeWhile is_digit (ip @ CHR ''.'' # fp) = ip" "dropWhile is_digit (ip @ CHR ''.'' # fp) = CHR ''.'' # fp"
    using assms(2) by (simp_all add: takeWhile_append2 dropWhile_append2)
  have tf: "takeWhile is_digit fp = fp" "dropWhile is_digit fp = []"
    using assms(3) by (simp_all add: takeWhile_eq_all_conv dropWhile_eq_Nil_conv)
  have sg: "(case ip @ CHR ''.'' # fp of c # r \<Rightarrow> if c = CHR ''-'' then (-1, r)
                                      else if c = CHR ''+'' then (1, r) else (1, ip @ CHR ''.'' # fp)
                              | [] \<Rightarrow> (1, [])) = (1 :: rat, ip @ CHR ''.'' # fp)"
    using c by (simp add: ip)
  show "decimal_prefix (ip @ CHR ''.'' # fp) = Some (of_nat (nat_of_digits ip) + frac_value fp, [])"
    unfolding decimal_prefix_def Let_def sg using assms(1) by (simp add: tw tf)
  show "decimal_prefix (CHR ''-'' # ip @ CHR ''.'' # fp) = Some (- (of_nat (nat_of_digits ip) + frac_value fp), [])"
    unfolding decimal_prefix_def using assms(1) by (simp add: tw tf)
qed

lemma nat_of_digits_zeros [simp]: "nat_of_digits (replicate k CHR ''0'' @ s) = nat_of_digits s"
proof -
  have "foldl (\<lambda>n c. 10 * n + digit_val c) 0 (replicate k CHR ''0'') = 0"
    by (induction k) (simp_all add: digit_val_def)
  then show ?thesis by (simp add: nat_of_digits_def)
qed

lemma nat_str_length_100: "m < 100 \<Longrightarrow> length (nat_str m) \<le> 2"
  by (subst nat_str.simps, subst nat_str.simps) auto

lemma pad_left_2_length: "m < 100 \<Longrightarrow> length (pad_left 2 (nat_str m)) = 2"
  using nat_str_length_100 [of m] by (simp add: pad_left_def)

lemma pad_left_digits: "c \<in> set (pad_left k (nat_str m)) \<Longrightarrow> is_digit c"
  by (auto simp: pad_left_def dest: nat_str_digits simp: is_digit_def)

lemma floor_int_half: "floor (of_int (k::int) + 1/2 :: rat) = k"
  by (rule floor_unique) (simp_all add: field_simps)

lemma to_fixed_2_cents:
  "to_fixed 2 (of_int c / 100) = (if c < 0 then ''-'' else []) @ nat_str (nat \<bar>c\<bar> div 100) @
     CHR ''.'' # pad_left 2 (nat_str (nat \<bar>c\<bar> mod 100))"
proof -
  have a: "\<bar>of_int c / 100 :: rat\<bar> = of_int \<bar>c\<bar> / 100" by (simp add: abs_divide)
  have b: "(of_int \<bar>c\<bar> / 100 :: rat) * 10 ^ 2 = of_int \<bar>c\<bar>" by simp
  have n: "nat (floor (\<bar>of_int c / 100 :: rat\<bar> * 10 ^ 2 + 1/2)) = nat \<bar>c\<bar>"
    by (simp only: a b floor_int_half)
  have s: "(of_int c / 100 :: rat) < 0 \<longleftrightarrow> c < 0" by simp
  show ?thesis unfolding to_fixed_def Let_def n s by simp
qed
lemma parse_float_to_fixed_cents: "parse_float (to_fixed 2 (of_int c / 100)) = Some (of_int c / 100)"
proof -
  let ?n = "nat \<bar>c\<bar>"
  let ?fp = "pad_left 2 (nat_str (?n mod 100))"
  have fl: "length ?fp = 2" by (simp add: pad_left_2_length)
  have fv: "frac_value ?fp = of_nat (?n mod 100) / 100"
    unfolding frac_value_def fl by (simp add: pad_left_def)
  have "?n = 100 * (?n div 100) + ?n mod 100" by simp
  then have "(of_nat ?n :: rat) = of_nat (100 * (?n div 100) + ?n mod 100)" by (rule arg_cong)
  then have e: "(of_nat ?n :: rat) = 100 * of_nat (?n div 100) + of_nat (?n mod 100)"
    by (simp only: of_nat_add of_nat_mult of_nat_numeral)
  have val: "of_nat (?n div 100) + frac_value ?fp = (of_nat ?n / 100 :: rat)"
    by (simp only: fv e) (simp add: field_simps)
  have dig: "\<forall>x \<in> set (nat_str (?n div 100)). is_digit x" "\<forall>x \<in> set ?fp. is_digit x"
    using nat_str_digits pad_left_digits by blast+
  have dw: "dropWhile js_space (nat_str k @ r) = nat_str k @ r" for k r
    using nat_str_hd_digit [of k] by (cases "nat_str k") simp_all
  show ?thesis
  proof (cases "c < 0")
    case True
    then have "(of_nat ?n :: rat) = - of_int c" by simp
    then show ?thesis using True decimal_prefix_point(2) [OF nat_str_nonempty dig] val
      by (simp add: to_fixed_2_cents parse_float_def js_space_def)
  next
    case False
    then have "(of_nat ?n :: rat) = of_int c" by simp
    then show ?thesis using False decimal_prefix_point(1) [OF nat_str_nonempty dig] val dw
      by (simp add: to_fixed_2_cents parse_float_def)
  qed
qed
end
