(* ===== verification/Venda_Data.thy ===== *)
theory Venda_Data
  imports Prelude
begin

text \<open>
  The data the sales store exchanges with its views and with the remote API
  (\<open>src/src/context/VendaContext.tsx\<close>): the sale record \<open>Venda\<close>, the form draft
  \<open>{dataFormatada, valor}\<close>, the filter argument of \<open>fetchVendas\<close>, the messages the
  store writes into \<open>errors\<close>, and the interface to the HTTP API: the requests the store
  issues through \<open>axios\<close>, the payloads it reads back, and the errors a call rejects with.
\<close>

text \<open>The draft \<open>{dataFormatada: string; valor: number}\<close> (\<open>novaVenda\<close>) and the sale
  \<open>Venda\<close>, which is the draft with an identifier (\<open>editVenda\<close> has the same shape).\<close>

record venda_draft =
  dataFormatada :: string
  valor :: js_number

record venda = venda_draft +
  venda_id :: int

text \<open>The optional argument \<open>filters?: {dia?, mes?, ano?}\<close> of \<open>fetchVendas\<close>.\<close>

record venda_filters =
  f_dia :: "js_number option"
  f_mes :: "js_number option"
  f_ano :: "js_number option"

text \<open>The literal messages the store and the form put into \<open>errors\<close>, one constructor
  per string literal of the source: \<open>'Data \<dots> obrigat\<dots>ria'\<close>,
  \<open>'Valor deve ser maior que zero'\<close>, \<open>'Erro ao criar venda'\<close>,
  \<open>'Erro ao atualizar venda'\<close>, \<open>'Erro ao deletar venda'\<close>.\<close>

datatype message =
  Data_obrigatoria
| Valor_maior_que_zero
| Erro_criar_venda
| Erro_atualizar_venda
| Erro_deletar_venda

subsection \<open>The HTTP interface of the store\<close>

text \<open>One constructor per \<open>axios\<close> call of the store, with its path, query and body:
  \<^item> \<open>Get_vendas ps\<close>: \<open>GET http://localhost:8080/vendas\<close> with query \<open>ps\<close>;
  \<^item> \<open>Post_venda d v\<close>: \<open>POST /vendas\<close> with body \<open>{dataFormatada: d, valor: v}\<close>;
  \<^item> \<open>Put_venda i d v\<close>: \<open>PUT /vendas/${i}\<close> with the same body;
  \<^item> \<open>Delete_venda i\<close>: \<open>DELETE /vendas/${i}\<close>;
  \<^item> \<open>Get_total\<close>: \<open>GET /vendas/total\<close>.\<close>

datatype venda_request =
  Get_vendas "(string \<times> string) list"
| Post_venda string js_number
| Put_venda int string js_number
| Delete_venda int
| Get_total

text \<open>\<open>response.data\<close> of a call that resolved: a list of sales, a number, or an
  empty body.\<close>

datatype venda_response =
  Vendas_data "venda list"
| Total_data js_number
| No_data

text \<open>Why an \<open>axios\<close> promise rejects: no response (transport failure), or a
  response whose status is outside 2xx.\<close>

datatype http_error =
  Network_error
| Http_status nat

text \<open>What the store's operations throw: \<open>new Error('Token n\<dots>o encontrado')\<close> when
  \<open>localStorage\<close> holds no usable token, or the rejection of the \<open>axios\<close> call.\<close>

datatype js_error =
  Token_not_found
| Request_failed http_error

text \<open>The \<open>Authorization\<close> header value \<open>`Bearer ${token}`\<close>.\<close>

definition bearer :: "string \<Rightarrow> string" where
  "bearer tok = ''Bearer '' @ tok"

lemma bearer_inj [simp]: "bearer a = bearer b \<longleftrightarrow> a = b"
  by (simp add: bearer_def)

end
