(* ===== verification/Remote_Api.thy ===== *)
theory Remote_Api
  imports Venda_Data
begin

text \<open>
  The remote sales API and the transport the store reaches it through. The server is not
  part of the repository: it is modelled from the contract of the specification (section 6,
  table of operations), as the system of record the store's cache refreshes from. Its state
  is the list of sales, the next identifier it assigns, the bearer tokens it accepts, and the
  meaning of the query of the list endpoint, which is left as a parameter of the model
  (\<open>list_filter\<close>): every lemma about the store holds whatever that filter is.
  The world around the browser tab is the \<open>localStorage\<close> token, the server, a script of
  transport failures (one entry consumed per request, \<open>True\<close> = the request is lost) and
  the log of the requests sent, with their \<open>Authorization\<close> header.
\<close>

record server =
  db :: "venda list"
  next_id :: int
  api_tokens :: "string list"
  list_filter :: "(string \<times> string) list \<Rightarrow> venda \<Rightarrow> bool"

definition has_id :: "int \<Rightarrow> venda list \<Rightarrow> bool" where
  "has_id i vs \<longleftrightarrow> (\<exists>v \<in> set vs. venda_id v = i)"

text \<open>One authorised request against the server's state.\<close>

fun serve_req :: "server \<Rightarrow> venda_request \<Rightarrow> (http_error + venda_response) \<times> server" where
  "serve_req s (Get_vendas ps) = (Inr (Vendas_data (filter (list_filter s ps) (db s))), s)"
| "serve_req s (Post_venda d v) =
     (Inr No_data, s\<lparr>db := db s @ [\<lparr>dataFormatada = d, valor = v, venda_id = next_id s\<rparr>],
                     next_id := next_id s + 1\<rparr>)"
| "serve_req s (Put_venda i d v) =
     (if has_id i (db s)
      then (Inr No_data, s\<lparr>db := map (\<lambda>x. if venda_id x = i
                                            then x\<lparr>dataFormatada := d, valor := v\<rparr> else x) (db s)\<rparr>)
      else (Inl (Http_status 404), s))"
| "serve_req s (Delete_venda i) =
     (if has_id i (db s)
      then (Inr No_data, s\<lparr>db := filter (\<lambda>x. venda_id x \<noteq> i) (db s)\<rparr>)
      else (Inl (Http_status 404), s))"
| "serve_req s Get_total = (Inr (Total_data (sum_list (map valor (db s)))), s)"

text \<open>A request whose header does not carry an accepted token is refused with 401.\<close>

definition serve :: "server \<Rightarrow> string \<Rightarrow> venda_request \<Rightarrow> (http_error + venda_response) \<times> server" where
  "serve s auth r =
     (if auth \<in> bearer ` set (api_tokens s) then serve_req s r else (Inl (Http_status 401), s))"

record world =
  token :: "string option"
  remote :: server
  faults :: "bool list"
  sent :: "(string \<times> venda_request) list"

text \<open>\<open>axios.get/post/put/delete(url, ..., {headers: {Authorization}})\<close>: the request is
  logged, then either lost (the next fault is \<open>True\<close>) or served.\<close>

definition axios :: "world \<Rightarrow> string \<Rightarrow> venda_request \<Rightarrow> (http_error + venda_response) \<times> world" where
  "axios w auth r =
     (let w1 = w\<lparr>sent := sent w @ [(auth, r)], faults := drop 1 (faults w)\<rparr>
      in if faults w \<noteq> [] \<and> hd (faults w) then (Inl Network_error, w1)
         else (let (res, s') = serve (remote w) auth r in (res, w1\<lparr>remote := s'\<rparr>)))"

text \<open>\<open>const token = localStorage.getItem('token'); if (!token) throw \<dots>\<close>: the token
  the store may use, \<open>None\<close> when it is absent or empty.\<close>

definition get_token :: "world \<Rightarrow> string option" where
  "get_token w = (case token w of Some t \<Rightarrow> if t = [] then None else Some t | None \<Rightarrow> None)"

text \<open>The network delivers the next request when the fault script does not drop it.\<close>

definition delivers :: "world \<Rightarrow> bool" where
  "delivers w \<longleftrightarrow> faults w = [] \<or> \<not> hd (faults w)"

definition authorised :: "world \<Rightarrow> string \<Rightarrow> bool" where
  "authorised w tok \<longleftrightarrow> tok \<in> set (api_tokens (remote w))"


subsection \<open>The transport: lost and served requests\<close>

lemma axios_lost:
  "\<not> delivers w \<Longrightarrow>
   axios w a r = (Inl Network_error, w\<lparr>sent := sent w @ [(a, r)], faults := tl (faults w)\<rparr>)"
  by (simp add: axios_def delivers_def drop_Suc)

lemma axios_served:
  "delivers w \<Longrightarrow>
   axios w a r = (fst (serve (remote w) a r),
                  w\<lparr>sent := sent w @ [(a, r)], faults := drop 1 (faults w),
                    remote := snd (serve (remote w) a r)\<rparr>)"
  by (auto simp: axios_def delivers_def split: prod.splits)

lemma axios_frame [simp]:
  "token (snd (axios w a r)) = token w"
  "sent (snd (axios w a r)) = sent w @ [(a, r)]"
  "faults (snd (axios w a r)) = drop 1 (faults w)"
  unfolding axios_def Let_def by (auto split: prod.splits)

lemma serve_authorised [simp]:
  "authorised w tok \<Longrightarrow> serve (remote w) (bearer tok) r = serve_req (remote w) r"
  by (simp add: serve_def authorised_def)

lemma get_token_Some: "get_token w = Some t \<longleftrightarrow> token w = Some t \<and> t \<noteq> []"
  by (auto simp: get_token_def split: option.splits)

lemma get_token_None: "get_token w = None \<longleftrightarrow> \<not> truthy_str (token w)"
  by (cases "token w") (auto simp: get_token_def)

text \<open>Reading requests leave the server as it is.\<close>

lemma serve_req_read [simp]:
  "snd (serve_req s (Get_vendas ps)) = s" "snd (serve_req s Get_total) = s"
  by simp_all

lemma serve_read [simp]:
  "snd (serve s a (Get_vendas ps)) = s" "snd (serve s a Get_total) = s"
  by (simp_all add: serve_def)

lemma axios_read_remote [simp]:
  "remote (snd (axios w a (Get_vendas ps))) = remote w"
  "remote (snd (axios w a Get_total)) = remote w"
  by (cases "delivers w"; simp add: axios_lost axios_served)+

subsection \<open>Server invariant: identifiers are distinct and below \<open>next_id\<close>\<close>

definition server_inv :: "server \<Rightarrow> bool" where
  "server_inv s \<longleftrightarrow> distinct (map venda_id (db s)) \<and> (\<forall>v \<in> set (db s). venda_id v < next_id s)"

lemma venda_id_update_if [simp]:
  "venda_id (if venda_id x = i then x\<lparr>dataFormatada := d, valor := v\<rparr> else x) = venda_id x"
  by simp

lemma serve_req_inv: "server_inv s \<Longrightarrow> server_inv (snd (serve_req s r))"
proof (cases r)
  case (Post_venda d v)
  assume "server_inv s"
  then show ?thesis using Post_venda
    by (auto simp: server_inv_def)
next
  case (Put_venda i d v)
  assume "server_inv s"
  with Put_venda show ?thesis
    by (auto simp: server_inv_def comp_def)
qed (auto simp: server_inv_def distinct_map_filter)

lemma serve_inv: "server_inv s \<Longrightarrow> server_inv (snd (serve s a r))"
  by (simp add: serve_def serve_req_inv)

lemma axios_inv: "server_inv (remote w) \<Longrightarrow> server_inv (remote (snd (axios w a r)))"
  unfolding axios_def Let_def by (auto dest: serve_inv [of _ a r] split: prod.splits)

subsection \<open>Abstract specification: the API as a finite map from identifiers to drafts\<close>

definition draft_of :: "venda \<Rightarrow> venda_draft" where
  "draft_of v = \<lparr>dataFormatada = dataFormatada v, valor = valor v\<rparr>"

definition db_map :: "venda list \<Rightarrow> int \<rightharpoonup> venda_draft" where
  "db_map vs = map_of (map (\<lambda>v. (venda_id v, draft_of v)) vs)"

text \<open>What each request promises on the abstract map, given the identifier a creation
  receives; \<open>None\<close> is the rejection of an update or delete of an absent identifier.\<close>

fun abs_op :: "venda_request \<Rightarrow> int \<Rightarrow> (int \<rightharpoonup> venda_draft) \<Rightarrow> (int \<rightharpoonup> venda_draft) option" where
  "abs_op (Get_vendas ps) n m = Some m"
| "abs_op (Post_venda d v) n m = Some (m(n \<mapsto> \<lparr>dataFormatada = d, valor = v\<rparr>))"
| "abs_op (Put_venda i d v) n m =
     (if i \<in> dom m then Some (m(i \<mapsto> \<lparr>dataFormatada = d, valor = v\<rparr>)) else None)"
| "abs_op (Delete_venda i) n m = (if i \<in> dom m then Some (m(i := None)) else None)"
| "abs_op Get_total n m = Some m"

lemma dom_db_map: "i \<in> dom (db_map vs) \<longleftrightarrow> has_id i vs"
  by (force simp: db_map_def has_id_def dom_map_of_conv_image_fst)

lemma db_map_filter: "db_map (filter (\<lambda>x. venda_id x \<noteq> i) vs) = (db_map vs)(i := None)"
  by (induction vs) (auto simp: db_map_def)

lemma db_map_update:
  "db_map (map (\<lambda>x. if venda_id x = i then x\<lparr>dataFormatada := d, valor := v\<rparr> else x) vs)
   = (if has_id i vs then (db_map vs)(i \<mapsto> \<lparr>dataFormatada = d, valor = v\<rparr>) else db_map vs)"
  by (induction vs) (auto simp: db_map_def has_id_def draft_of_def fun_upd_twist)

lemma db_map_snoc_fresh:
  "\<not> has_id (venda_id x) vs \<Longrightarrow> db_map (vs @ [x]) = (db_map vs)(venda_id x \<mapsto> draft_of x)"
  by (induction vs) (auto simp: db_map_def has_id_def fun_upd_twist)


lemma serve_req_config [simp]:
  "api_tokens (snd (serve_req s r)) = api_tokens s"
  "list_filter (snd (serve_req s r)) = list_filter s"
  by (cases r; simp)+

lemma server_inv_fresh: "server_inv s \<Longrightarrow> \<not> has_id (next_id s) (db s)"
  by (auto simp: server_inv_def has_id_def)

text \<open>Under the server invariant, every request the store can send acts on the
  abstract map of the sales as the abstract operation promises: creation binds a fresh
  identifier, an update or delete of a present identifier overwrites or removes it, one of
  an absent identifier is rejected with 404 and changes nothing, and reads change nothing.\<close>

theorem serve_req_refines:
  assumes inv: "server_inv s" and run: "serve_req s r = (res, s')"
  shows "(case abs_op r (next_id s) (db_map (db s)) of
            None \<Rightarrow> res = Inl (Http_status 404) \<and> s' = s
          | Some m \<Rightarrow> db_map (db s') = m \<and> (\<exists>x. res = Inr x))"
proof (cases r)
  case (Post_venda d v)
  have "\<not> has_id (next_id s) (db s)" using inv by (rule server_inv_fresh)
  with run Post_venda show ?thesis by (auto simp: db_map_snoc_fresh draft_of_def)
qed (use run in \<open>auto simp: dom_db_map db_map_filter db_map_update\<close>)

theorem serve_req_refines_witness:
  "server_inv \<lparr>db = [], next_id = 1, api_tokens = [''t''], list_filter = (\<lambda>_ _. True)\<rparr> \<and>
   db_map (db (snd (serve_req \<lparr>db = [], next_id = 1, api_tokens = [''t''], list_filter = (\<lambda>_ _. True)\<rparr>
                      (Post_venda ''01/01/2024'' (21/2)))))
     = [1 \<mapsto> \<lparr>dataFormatada = ''01/01/2024'', valor = 21/2\<rparr>]"
proof -
  let ?s = "\<lparr>db = [], next_id = 1, api_tokens = [''t''], list_filter = (\<lambda>_ _. True)\<rparr>
              :: server"
  have inv: "server_inv ?s" by (simp add: server_inv_def)
  have "case abs_op (Post_venda ''01/01/2024'' (21/2)) (next_id ?s) (db_map (db ?s)) of
          None \<Rightarrow> fst (serve_req ?s (Post_venda ''01/01/2024'' (21/2))) = Inl (Http_status 404)
                 \<and> snd (serve_req ?s (Post_venda ''01/01/2024'' (21/2))) = ?s
        | Some m \<Rightarrow> db_map (db (snd (serve_req ?s (Post_venda ''01/01/2024'' (21/2))))) = m
                 \<and> (\<exists>x. fst (serve_req ?s (Post_venda ''01/01/2024'' (21/2))) = Inr x)"
    using serve_req_refines [OF inv, of "Post_venda ''01/01/2024'' (21/2)"] by simp
  with inv show ?thesis by (simp add: db_map_def)
qed

end
