(* ===== verification/Venda_Store.thy ===== *)
theory Venda_Store
  imports Remote_Api
begin

text \<open>
  The sales store \<open>VendaProvider\<close> of \<open>src/src/context/VendaContext.tsx\<close>: its React
  state as a record, and each operation of the context value as a function from the state
  and the world to the new state, the new world and (for the operations that return or
  throw) a result \<open>js_error + _\<close>. Awaited calls run in sequence; every \<open>try/finally\<close>
  is written out, so that \<open>loading\<close> is reset on every path. A thrown error that the
  operation catches and logs leaves no trace but the state; one it re-throws is the
  \<open>Inl\<close> result.
\<close>

record venda_state =
  vendas :: "venda list"
  filtroDia :: "js_number option"
  filtroMes :: "js_number option"
  filtroAno :: "js_number option"
  loading :: bool
  novaVenda :: "venda_draft option"
  errors :: "message list"
  editVenda :: "venda option"

text \<open>The initial \<open>useState\<close> values.\<close>

definition init_state :: venda_state where
  "init_state = \<lparr>vendas = [], filtroDia = None, filtroMes = None, filtroAno = None,
                 loading = False, novaVenda = None, errors = [], editVenda = None\<rparr>"

subsection \<open>\<open>fetchVendas\<close>\<close>

text \<open>\<open>if (v) { const x = v; if (x !== undefined && x !== null)
  params.append(name, x.toString()) }\<close>: a dimension is sent when its value is truthy.\<close>

definition query_param :: "string \<Rightarrow> js_number option \<Rightarrow> (string \<times> string) list" where
  "query_param name v =
     (if truthy_num v then (case v of Some x \<Rightarrow> [(name, num_str x)] | None \<Rightarrow> []) else [])"

text \<open>The query of \<open>fetchVendas(filters)\<close>: each dimension of the argument, or the
  stored filter when it is \<open>null\<close>/\<open>undefined\<close> (\<open>filters?.dia ?? filtroDia\<close>).\<close>

definition fetch_params :: "venda_filters option \<Rightarrow> venda_state \<Rightarrow> (string \<times> string) list" where
  "fetch_params filters st =
     query_param ''dia'' (nullish (Option.bind filters f_dia) (filtroDia st))
     @ query_param ''mes'' (nullish (Option.bind filters f_mes) (filtroMes st))
     @ query_param ''ano'' (nullish (Option.bind filters f_ano) (filtroAno st))"

text \<open>The list is replaced wholesale by \<open>response.data\<close>; every failure is caught and
  logged, leaving the list as it was; \<open>finally\<close> clears \<open>loading\<close>.\<close>

definition fetchVendas :: "venda_filters option \<Rightarrow> venda_state \<Rightarrow> world \<Rightarrow> venda_state \<times> world" where
  "fetchVendas filters st w =
     (let st1 = st\<lparr>loading := True\<rparr> in
      case get_token w of
        None \<Rightarrow> (st1\<lparr>loading := False\<rparr>, w)
      | Some tok \<Rightarrow>
          (case axios w (bearer tok) (Get_vendas (fetch_params filters st)) of
             (Inr (Vendas_data vs), w1) \<Rightarrow> (st1\<lparr>vendas := vs, loading := False\<rparr>, w1)
           | (_, w1) \<Rightarrow> (st1\<lparr>loading := False\<rparr>, w1)))"

subsection \<open>\<open>createVenda\<close>, \<open>updateVenda\<close>, \<open>deleteVenda\<close>\<close>

text \<open>The three mutations share one shape: set \<open>loading\<close>, read the token (throw when
  absent), send the request, on success \<open>await fetchVendas()\<close> (no argument: the stored
  filters) and run the operation's own resets; on any error set \<open>errors\<close> to the
  operation's single message and re-throw; \<open>finally\<close> clear \<open>loading\<close>.\<close>

definition mutation ::
  "venda_request \<Rightarrow> message \<Rightarrow> (venda_state \<Rightarrow> venda_state) \<Rightarrow> venda_state \<Rightarrow> world
   \<Rightarrow> (js_error + unit) \<times> venda_state \<times> world" where
  "mutation req msg on_ok st w =
     (let st1 = st\<lparr>loading := True\<rparr> in
      case get_token w of
        None \<Rightarrow> (Inl Token_not_found, st1\<lparr>errors := [msg], loading := False\<rparr>, w)
      | Some tok \<Rightarrow>
          (case axios w (bearer tok) req of
             (Inl e, w1) \<Rightarrow> (Inl (Request_failed e), st1\<lparr>errors := [msg], loading := False\<rparr>, w1)
           | (Inr _, w1) \<Rightarrow>
               (let (st2, w2) = fetchVendas None st1 w1
                in (Inr (), (on_ok st2)\<lparr>loading := False\<rparr>, w2))))"

definition createVenda :: "string \<Rightarrow> js_number \<Rightarrow> venda_state \<Rightarrow> world
   \<Rightarrow> (js_error + unit) \<times> venda_state \<times> world" where
  "createVenda d v = mutation (Post_venda d v) Erro_criar_venda
                       (\<lambda>st. st\<lparr>novaVenda := None, errors := []\<rparr>)"

definition updateVenda :: "int \<Rightarrow> string \<Rightarrow> js_number \<Rightarrow> venda_state \<Rightarrow> world
   \<Rightarrow> (js_error + unit) \<times> venda_state \<times> world" where
  "updateVenda i d v = mutation (Put_venda i d v) Erro_atualizar_venda
                         (\<lambda>st. st\<lparr>editVenda := None, errors := []\<rparr>)"

definition deleteVenda :: "int \<Rightarrow> venda_state \<Rightarrow> world
   \<Rightarrow> (js_error + unit) \<times> venda_state \<times> world" where
  "deleteVenda i = mutation (Delete_venda i) Erro_deletar_venda (\<lambda>st. st)"

subsection \<open>\<open>getTotalVendas\<close>\<close>

text \<open>Returns \<open>response.data\<close> of \<open>GET /vendas/total\<close>; errors are re-thrown without
  touching \<open>errors\<close>.\<close>

text \<open>The function runs in two parts. Up to its \<open>await\<close> (lines 148-153): \<open>loading\<close>
  set, the token read, and without one the \<open>finally\<close> run at once; with one, the request
  leaves and the provider's state at the \<open>await\<close> is the state React renders. After the
  reply (lines 153-161): the result or the error, and \<open>loading\<close> cleared.\<close>

definition getTotalVendas_begin :: "venda_state \<Rightarrow> world
    \<Rightarrow> ((js_error + venda_response) \<times> venda_state \<times> world) + (venda_state \<times> string)" where
  "getTotalVendas_begin st w =
     (let st1 = st\<lparr>loading := True\<rparr> in
      case get_token w of
        None \<Rightarrow> Inl (Inl Token_not_found, st1\<lparr>loading := False\<rparr>, w)
      | Some tok \<Rightarrow> Inr (st1, tok))"

definition getTotalVendas_resume :: "venda_state \<Rightarrow> string \<Rightarrow> world
    \<Rightarrow> (js_error + venda_response) \<times> venda_state \<times> world" where
  "getTotalVendas_resume st1 tok w =
     (case axios w (bearer tok) Get_total of
        (Inl e, w1) \<Rightarrow> (Inl (Request_failed e), st1\<lparr>loading := False\<rparr>, w1)
      | (Inr r, w1) \<Rightarrow> (Inr r, st1\<lparr>loading := False\<rparr>, w1))"

definition getTotalVendas :: "venda_state \<Rightarrow> world
    \<Rightarrow> (js_error + venda_response) \<times> venda_state \<times> world" where
  "getTotalVendas st w =
     (case getTotalVendas_begin st w of
        Inl r \<Rightarrow> r
      | Inr (st1, tok) \<Rightarrow> getTotalVendas_resume st1 tok w)"

subsection \<open>Editing, deleting with confirmation, submitting, validating\<close>

text \<open>\<open>handleEdit(id)\<close>: the first sale of the list with that identifier is copied into
  \<open>editVenda\<close>; nothing happens when there is none.\<close>

definition handleEdit :: "int \<Rightarrow> venda_state \<Rightarrow> venda_state" where
  "handleEdit i st =
     (case find (\<lambda>v. venda_id v = i) (vendas st) of
        Some v \<Rightarrow> st\<lparr>editVenda := Some \<lparr>dataFormatada = dataFormatada v, valor = valor v,
                                          venda_id = venda_id v\<rparr>\<rparr>
      | None \<Rightarrow> st)"

text \<open>\<open>handleDelete(id)\<close>: \<open>window.confirm\<close> is the Boolean input \<open>confirmed\<close>; the
  promise of \<open>deleteVenda\<close> is not awaited, so its rejection never reaches the caller.\<close>

definition handleDelete :: "bool \<Rightarrow> int \<Rightarrow> venda_state \<Rightarrow> world \<Rightarrow> venda_state \<times> world" where
  "handleDelete confirmed i st w =
     (if confirmed then (case deleteVenda i st w of (_, st', w') \<Rightarrow> (st', w')) else (st, w))"

definition handleUpdate :: "int \<Rightarrow> string \<Rightarrow> js_number \<Rightarrow> venda_state \<Rightarrow> world
   \<Rightarrow> (js_error + unit) \<times> venda_state \<times> world" where
  "handleUpdate i d v st w = updateVenda i d v st w"

definition handleSubmit :: "string \<Rightarrow> js_number \<Rightarrow> venda_state \<Rightarrow> world
   \<Rightarrow> (js_error + unit) \<times> venda_state \<times> world" where
  "handleSubmit d v st w =
     (case editVenda st of
        Some e \<Rightarrow> handleUpdate (venda_id e) d v st w
      | None \<Rightarrow> createVenda d v st w)"

text \<open>\<open>validateForm()\<close>: checks the new-sale draft only, replaces \<open>errors\<close> by the
  messages of all failed rules and returns whether there are none.\<close>

definition validation_errors :: "venda_draft option \<Rightarrow> message list" where
  "validation_errors nv =
     (if \<not> truthy_str (map_option dataFormatada nv) then [Data_obrigatoria] else [])
     @ (case nv of Some n \<Rightarrow> if valor n \<le> 0 then [Valor_maior_que_zero] else [] | None \<Rightarrow> [])"

definition validateForm :: "venda_state \<Rightarrow> bool \<times> venda_state" where
  "validateForm st =
     (let es = validation_errors (novaVenda st) in (es = [], st\<lparr>errors := es\<rparr>))"

subsection \<open>\<open>exportToCSV\<close>\<close>

text \<open>\<open>[['ID,Data,Valor'], ...vendas.map(v => [v.id, v.dataFormatada, v.valor].join(','))]
  .join('\n')\<close>, offered as the download \<open>vendas.csv\<close> of type \<open>text/csv\<close>.\<close>

definition csv_row :: "venda \<Rightarrow> string" where
  "csv_row v = js_join '','' [int_str (venda_id v), dataFormatada v, num_str (valor v)]"

definition csv_header :: string where
  "csv_header = ''ID,Data,Valor''"

definition vendas_csv :: "venda list \<Rightarrow> string" where
  "vendas_csv vs = js_join [CHR 0x0A] (csv_header # map csv_row vs)"

record download =
  file_name :: string
  mime_type :: string
  file_content :: string

definition exportToCSV :: "venda_state \<Rightarrow> download" where
  "exportToCSV st = \<lparr>file_name = ''vendas.csv'', mime_type = ''text/csv'',
                     file_content = vendas_csv (vendas st)\<rparr>"


subsection \<open>Branch equations and frame rules\<close>

lemma fetchVendas_no_token [store_simps]:
  "get_token w = None \<Longrightarrow> fetchVendas f st w = (st\<lparr>loading := False\<rparr>, w)"
  by (simp add: fetchVendas_def)

lemma fetchVendas_token [store_simps]:
  "get_token w = Some tok \<Longrightarrow>
   fetchVendas f st w =
     (case axios w (bearer tok) (Get_vendas (fetch_params f st)) of
        (Inr (Vendas_data vs), w1) \<Rightarrow> (st\<lparr>vendas := vs, loading := False\<rparr>, w1)
      | (_, w1) \<Rightarrow> (st\<lparr>loading := False\<rparr>, w1))"
  by (simp add: fetchVendas_def Let_def split: prod.split sum.split venda_response.split)

text \<open>\<open>fetchVendas\<close> writes \<open>vendas\<close> and \<open>loading\<close> only, never changes the
  token or the server, and clears \<open>loading\<close>.\<close>

lemma fetchVendas_state:
  "\<exists>vs. fst (fetchVendas f st w) = st\<lparr>vendas := vs, loading := False\<rparr>"
proof (cases "get_token w")
  case None
  then show ?thesis by (auto simp: fetchVendas_no_token intro: exI [of _ "vendas st"])
next
  case (Some tok)
  then show ?thesis
    by (auto simp: fetchVendas_token intro: exI [of _ "vendas st"]
             split: prod.splits sum.splits venda_response.splits)
qed

lemma fetchVendas_frame [simp]:
  "filtroDia (fst (fetchVendas f st w)) = filtroDia st"
  "filtroMes (fst (fetchVendas f st w)) = filtroMes st"
  "filtroAno (fst (fetchVendas f st w)) = filtroAno st"
  "novaVenda (fst (fetchVendas f st w)) = novaVenda st"
  "editVenda (fst (fetchVendas f st w)) = editVenda st"
  "errors (fst (fetchVendas f st w)) = errors st"
  "loading (fst (fetchVendas f st w)) = False"
  using fetchVendas_state [of f st w] by auto

lemma fetchVendas_snd:
  "snd (fetchVendas f st w) =
     (case get_token w of None \<Rightarrow> w
      | Some tok \<Rightarrow> snd (axios w (bearer tok) (Get_vendas (fetch_params f st))))"
  by (cases "get_token w")
     (auto simp: fetchVendas_no_token fetchVendas_token split: prod.split sum.split venda_response.split)

lemma fetchVendas_world [simp]:
  "token (snd (fetchVendas f st w)) = token w"
  "remote (snd (fetchVendas f st w)) = remote w"
  by (simp_all add: fetchVendas_snd split: option.split)

lemma mutation_no_token [store_simps]:
  "get_token w = None \<Longrightarrow>
   mutation req msg on_ok st w = (Inl Token_not_found, st\<lparr>errors := [msg], loading := False\<rparr>, w)"
  by (simp add: mutation_def)

lemma mutation_rejected [store_simps]:
  "get_token w = Some tok \<Longrightarrow> axios w (bearer tok) req = (Inl e, w1) \<Longrightarrow>
   mutation req msg on_ok st w = (Inl (Request_failed e), st\<lparr>errors := [msg], loading := False\<rparr>, w1)"
  by (simp add: mutation_def Let_def)

lemma mutation_resolved [store_simps]:
  "get_token w = Some tok \<Longrightarrow> axios w (bearer tok) req = (Inr x, w1) \<Longrightarrow>
   mutation req msg on_ok st w =
     (Inr (), (on_ok (fst (fetchVendas None (st\<lparr>loading := True\<rparr>) w1)))\<lparr>loading := False\<rparr>,
      snd (fetchVendas None (st\<lparr>loading := True\<rparr>) w1))"
  by (simp add: mutation_def Let_def split: prod.splits)

text \<open>Every outcome of a mutation is one of the three branches.\<close>

lemma mutation_cases:
  obtains (no_token) "get_token w = None"
  | (rejected) tok e w1 where "get_token w = Some tok" "axios w (bearer tok) req = (Inl e, w1)"
  | (resolved) tok x w1 where "get_token w = Some tok" "axios w (bearer tok) req = (Inr x, w1)"
proof (cases "get_token w")
  case (Some tok)
  obtain r w1 where ax: "axios w (bearer tok) req = (r, w1)" by (cases "axios w (bearer tok) req")
  show ?thesis using that Some ax by (cases r) auto
qed (use that in auto)

lemmas mutation_defs = createVenda_def updateVenda_def deleteVenda_def


subsection \<open>Properties of the store's operations\<close>

lemma query_param_None [simp]: "query_param m None = []"
  by (simp add: query_param_def)

lemma query_param_Some [simp]:
  "query_param m (Some x) = (if x = 0 then [] else [(m, num_str x)])"
  by (simp add: query_param_def)

lemma query_param_iff:
  "(a, b) \<in> set (query_param m v) \<longleftrightarrow> a = m \<and> (\<exists>x. v = Some x \<and> x \<noteq> 0 \<and> b = num_str x)"
  by (cases v) simp_all

lemma query_param_names: "map fst (query_param m v) = (if truthy_num v then [m] else [])"
  by (cases v) simp_all

text \<open>The value a dimension of the query takes: the argument's, else the stored filter.\<close>

definition effective_filter :: "venda_filters option \<Rightarrow> venda_state \<Rightarrow> string \<Rightarrow> js_number option" where
  "effective_filter f st n =
     (if n = ''dia'' then nullish (Option.bind f f_dia) (filtroDia st)
      else if n = ''mes'' then nullish (Option.bind f f_mes) (filtroMes st)
      else if n = ''ano'' then nullish (Option.bind f f_ano) (filtroAno st) else None)"

text \<open>Claim C1: \<open>fetchVendas\<close> with a token sends exactly one request, \<open>GET /vendas\<close>
  with its bearer token, whose query holds a pair for a dimension exactly when the
  dimension's effective value (argument, else stored filter) is defined and non-zero, with
  that value's decimal string, each dimension at most once.\<close>

theorem fetchVendas_query:
  assumes "get_token w = Some tok"
  shows "sent (snd (fetchVendas f st w)) = sent w @ [(bearer tok, Get_vendas (fetch_params f st))]
       \<and> ((n, s) \<in> set (fetch_params f st) \<longleftrightarrow>
            (\<exists>x. effective_filter f st n = Some x \<and> x \<noteq> 0 \<and> s = num_str x))
       \<and> distinct (map fst (fetch_params f st))"
  using assms
  by (auto simp: fetchVendas_snd fetch_params_def query_param_iff query_param_names
                 effective_filter_def)

text \<open>Claim C2: when the list request fails (lost, or answered with an error status), or no
  token is present, \<open>fetchVendas\<close> swallows the failure: the state is left as it was,
  list included, but for \<open>loading\<close>, which is cleared.\<close>

theorem fetchVendas_failure_keeps_state:
  assumes "get_token w = None \<or>
           (get_token w = Some tok \<and> fst (axios w (bearer tok) (Get_vendas (fetch_params f st))) = Inl e)"
  shows "fst (fetchVendas f st w) = st\<lparr>loading := False\<rparr>"
  using assms
  by (auto simp: fetchVendas_no_token fetchVendas_token split: prod.split)

text \<open>On a delivering network with an accepted token the list is replaced wholesale by the
  server's answer to the query.\<close>

lemma fetchVendas_delivered:
  assumes "get_token w = Some tok" "delivers w" "authorised w tok"
  shows "vendas (fst (fetchVendas f st w))
           = filter (list_filter (remote w) (fetch_params f st)) (db (remote w))"
  using assms by (simp add: fetchVendas_token axios_served)

lemma fetchVendas_delivered_world:
  assumes "get_token w = Some tok" "delivers w" "authorised w tok"
  shows "snd (fetchVendas f st w)
           = w\<lparr>sent := sent w @ [(bearer tok, Get_vendas (fetch_params f st))],
               faults := drop 1 (faults w)\<rparr>"
  using assms by (simp add: fetchVendas_token axios_served)

text \<open>Two successive calls of \<open>fetchVendas\<close> with the same argument and no
  mutation in between yield the same list, when both requests are delivered.\<close>

theorem fetchVendas_idempotent:
  assumes "get_token w = Some tok" "authorised w tok" "faults w = []"
  shows "vendas (fst (fetchVendas f (fst (fetchVendas f st w)) (snd (fetchVendas f st w))))
           = vendas (fst (fetchVendas f st w))"
proof -
  let ?st1 = "fst (fetchVendas f st w)" and ?w1 = "snd (fetchVendas f st w)"
  have d: "delivers w" using assms(3) by (simp add: delivers_def)
  have w1: "?w1 = w\<lparr>sent := sent w @ [(bearer tok, Get_vendas (fetch_params f st))],
                    faults := drop 1 (faults w)\<rparr>"
    using fetchVendas_delivered_world [OF assms(1) d assms(2)] .
  then have "get_token ?w1 = Some tok" "delivers ?w1" "authorised ?w1 tok"
    using assms by (simp_all add: get_token_def delivers_def authorised_def)
  moreover have "fetch_params f ?st1 = fetch_params f st"
    by (simp add: fetch_params_def)
  ultimately show ?thesis
    using fetchVendas_delivered [OF assms(1) d assms(2)] fetchVendas_delivered [of ?w1 tok f ?st1] w1
    by simp
qed

text \<open>Claim C4: a mutation that resolves clears the draft it belongs to and the error set,
  keeps the other draft, and clears \<open>loading\<close>, whatever the refetch does:
  \<open>createVenda\<close> clears \<open>novaVenda\<close> and leaves \<open>editVenda\<close> as it was.\<close>

theorem createVenda_success_resets:
  assumes "createVenda d v st w = (Inr (), st', w')"
  shows "novaVenda st' = None \<and> errors st' = [] \<and> editVenda st' = editVenda st \<and> \<not> loading st'"
proof (cases rule: mutation_cases [where w = w and req = "Post_venda d v"])
  case (resolved tok x w1)
  with assms show ?thesis by (auto simp: createVenda_def mutation_resolved)
qed (use assms in \<open>auto simp: createVenda_def mutation_no_token mutation_rejected\<close>)


text \<open>Claim C3: on a network that delivers every request, with an accepted token, a
  \<open>createVenda\<close> resolves; on the server's abstract map it binds the fresh identifier
  \<open>next_id\<close> to the submitted date and amount and changes nothing else; the store's list
  is then exactly the server's answer to the stored filters (the cache is pulled, not
  pushed); and the server invariant still holds.\<close>

theorem createVenda_refines:
  assumes tok: "get_token w = Some tok" and auth: "authorised w tok" and nf: "faults w = []"
    and inv: "server_inv (remote w)"
    and run: "createVenda d v st w = (r, st', w')"
  shows "r = Inr ()
       \<and> db_map (db (remote w')) = (db_map (db (remote w)))(next_id (remote w) \<mapsto> \<lparr>dataFormatada = d, valor = v\<rparr>)
       \<and> vendas st' = filter (list_filter (remote w') (fetch_params None st)) (db (remote w'))
       \<and> server_inv (remote w')"
proof -
  let ?s1 = "snd (serve_req (remote w) (Post_venda d v))"
  let ?w1 = "w\<lparr>sent := sent w @ [(bearer tok, Post_venda d v)], faults := [], remote := ?s1\<rparr>"
  have d: "delivers w" using nf by (simp add: delivers_def)
  have ax: "axios w (bearer tok) (Post_venda d v) = (Inr No_data, ?w1)"
    using auth nf by (simp add: axios_served [OF d])
  have tok1: "get_token ?w1 = Some tok" "delivers ?w1" "authorised ?w1 tok"
    using tok auth by (simp_all add: get_token_def delivers_def authorised_def)
  have fp: "fetch_params None (st\<lparr>loading := True\<rparr>) = fetch_params None st"
    by (simp add: fetch_params_def)
  have res: "createVenda d v st w = (Inr (),
      (fst (fetchVendas None (st\<lparr>loading := True\<rparr>) ?w1))\<lparr>novaVenda := None, errors := [], loading := False\<rparr>,
      snd (fetchVendas None (st\<lparr>loading := True\<rparr>) ?w1))"
    by (simp add: createVenda_def mutation_resolved [OF tok ax])
  from run res have r: "r = Inr ()"
    and st': "st' = (fst (fetchVendas None (st\<lparr>loading := True\<rparr>) ?w1))\<lparr>novaVenda := None, errors := [], loading := False\<rparr>"
    and w': "w' = snd (fetchVendas None (st\<lparr>loading := True\<rparr>) ?w1)"
    by (metis prod.inject)+
  have rw: "remote w' = ?s1" unfolding w' by simp
  have fresh: "\<not> has_id (next_id (remote w)) (db (remote w))" using inv by (rule server_inv_fresh)
  have "db_map (db ?s1) = (db_map (db (remote w)))(next_id (remote w) \<mapsto> \<lparr>dataFormatada = d, valor = v\<rparr>)"
    using fresh by (simp add: db_map_snoc_fresh draft_of_def)
  moreover have "vendas st' = filter (list_filter ?s1 (fetch_params None st)) (db ?s1)"
    unfolding st' using fetchVendas_delivered [OF tok1, of None "st\<lparr>loading := True\<rparr>"] fp by simp
  moreover have "server_inv ?s1" using inv by (rule serve_req_inv)
  ultimately show ?thesis using rw r by simp
qed

subsection \<open>Validation, error paths, total, edit, CSV\<close>

text \<open>Claim C6: \<open>validateForm\<close> passes exactly when a new-sale draft exists with a
  non-empty date and a positive amount; it replaces the error list by the violated rules'
  messages (at most two) and changes nothing else; the edit draft plays no part in it.\<close>

theorem validateForm_new_draft_only:
  "(fst (validateForm st) \<longleftrightarrow> (\<exists>n. novaVenda st = Some n \<and> dataFormatada n \<noteq> [] \<and> 0 < valor n))
   \<and> snd (validateForm st) = st\<lparr>errors := validation_errors (novaVenda st)\<rparr>
   \<and> length (validation_errors (novaVenda st)) \<le> 2
   \<and> validateForm (st\<lparr>editVenda := e\<rparr>) = (fst (validateForm st), (snd (validateForm st))\<lparr>editVenda := e\<rparr>)"
  by (cases "novaVenda st") (auto simp: validateForm_def validation_errors_def)

text \<open>The cases of section 8 of the specification, and the empty (\<open>null\<close>) draft.\<close>

lemma validateForm_examples:
  "validateForm (init_state\<lparr>novaVenda := Some \<lparr>dataFormatada = [], valor = 0\<rparr>\<rparr>)
     = (False, init_state\<lparr>novaVenda := Some \<lparr>dataFormatada = [], valor = 0\<rparr>,
                          errors := [Data_obrigatoria, Valor_maior_que_zero]\<rparr>)"
  "validateForm (init_state\<lparr>novaVenda := Some \<lparr>dataFormatada = ''01/01/2024'', valor = 10\<rparr>\<rparr>)
     = (True, init_state\<lparr>novaVenda := Some \<lparr>dataFormatada = ''01/01/2024'', valor = 10\<rparr>\<rparr>)"
  "validateForm init_state = (False, init_state\<lparr>errors := [Data_obrigatoria]\<rparr>)"
  by (simp_all add: validateForm_def validation_errors_def init_state_def)

text \<open>Claim C7: \<open>updateVenda\<close> of an identifier the server does not hold still sends the
  \<open>PUT\<close> (the store does not check existence), and surfaces the server's 404: the error is
  re-thrown, the error list holds the update message, and nothing else of the state changes.\<close>

theorem updateVenda_absent_id:
  assumes "get_token w = Some tok" "authorised w tok" "delivers w" "\<not> has_id i (db (remote w))"
  shows "updateVenda i d v st w =
           (Inl (Request_failed (Http_status 404)), st\<lparr>errors := [Erro_atualizar_venda], loading := False\<rparr>,
            w\<lparr>sent := sent w @ [(bearer tok, Put_venda i d v)], faults := drop 1 (faults w)\<rparr>)"
proof -
  have "axios w (bearer tok) (Put_venda i d v)
          = (Inl (Http_status 404), w\<lparr>sent := sent w @ [(bearer tok, Put_venda i d v)], faults := drop 1 (faults w)\<rparr>)"
    using assms by (simp add: axios_served)
  with assms(1) show ?thesis by (simp add: updateVenda_def mutation_rejected)
qed

text \<open>Claim C8: without a usable token every mutation fails locally with the
  token error, sends nothing and leaves the world as it was; the state only gains the
  operation's error message.\<close>

theorem mutations_without_token:
  assumes "get_token w = None"
  shows "createVenda d v st w = (Inl Token_not_found, st\<lparr>errors := [Erro_criar_venda], loading := False\<rparr>, w)
       \<and> updateVenda i d v st w = (Inl Token_not_found, st\<lparr>errors := [Erro_atualizar_venda], loading := False\<rparr>, w)
       \<and> deleteVenda i st w = (Inl Token_not_found, st\<lparr>errors := [Erro_deletar_venda], loading := False\<rparr>, w)"
  using assms by (simp add: mutation_defs mutation_no_token)

text \<open>A rejected \<open>createVenda\<close> re-throws, replaces the error list by the single
  creation message, and keeps the draft and the list, so the form can stay open.\<close>

theorem createVenda_failure:
  assumes "fst (createVenda d v st w) = Inl e"
  shows "fst (snd (createVenda d v st w)) = st\<lparr>errors := [Erro_criar_venda], loading := False\<rparr>"
proof (cases rule: mutation_cases [where w = w and req = "Post_venda d v"])
  case (resolved tok x w1)
  with assms show ?thesis by (simp add: createVenda_def mutation_resolved)
qed (use assms in \<open>auto simp: createVenda_def mutation_no_token mutation_rejected\<close>)

lemmas getTotalVendas_defs = getTotalVendas_def getTotalVendas_begin_def getTotalVendas_resume_def

text \<open>\<open>getTotalVendas\<close> returns the server's total over all its sales,
  whatever the filters and the cached list, and leaves the list unchanged.\<close>

theorem getTotalVendas_server_total:
  assumes "get_token w = Some tok" "authorised w tok" "delivers w"
  shows "fst (getTotalVendas st w) = Inr (Total_data (sum_list (map valor (db (remote w)))))
       \<and> fst (snd (getTotalVendas st w)) = st\<lparr>loading := False\<rparr>"
  using assms by (simp add: getTotalVendas_defs axios_served Let_def)

text \<open>\<open>handleEdit\<close> copies the first listed sale with the identifier into the
  edit draft, and is a silent no-op when there is none; no other field changes.\<close>

theorem handleEdit_spec:
  "handleEdit i st = st\<lparr>editVenda := (case find (\<lambda>v. venda_id v = i) (vendas st) of
                                        Some v \<Rightarrow> Some v | None \<Rightarrow> editVenda st)\<rparr>"
  by (simp add: handleEdit_def split: option.split)

text \<open>A successful delete keeps whatever the error list held before: unlike creation and
  update it does not clear it.\<close>

theorem deleteVenda_keeps_errors:
  assumes "fst (deleteVenda i st w) = Inr ()"
  shows "errors (fst (snd (deleteVenda i st w))) = errors st"
proof (cases rule: mutation_cases [where w = w and req = "Delete_venda i"])
  case (resolved tok x w1)
  then show ?thesis by (simp add: deleteVenda_def mutation_resolved)
qed (use assms in \<open>auto simp: deleteVenda_def mutation_no_token mutation_rejected\<close>)

lemma csv_row_no_newline:
  "CHR 0x0A \<notin> set (dataFormatada v) \<Longrightarrow> CHR 0x0A \<notin> set (csv_row v)"
  by (simp add: csv_row_def printed_number_free)

lemma csv_row_fields:
  "CHR '','' \<notin> set (dataFormatada v) \<Longrightarrow>
   split_on CHR '','' (csv_row v) = [int_str (venda_id v), dataFormatada v, num_str (valor v)]"
proof -
  assume "CHR '','' \<notin> set (dataFormatada v)"
  then have "\<forall>x \<in> set [int_str (venda_id v), dataFormatada v, num_str (valor v)]. CHR '','' \<notin> set x"
    by (simp add: printed_number_free)
  then show ?thesis unfolding csv_row_def by (rule split_on_js_join [rotated]) simp
qed


text \<open>Claim C12: when no date contains a comma or a line feed, the exported CSV splits back
  into the header fields and, per sale, the printed identifier, the date and the printed
  amount; \<open>parseInt\<close> of the first field gives back the identifier.\<close>

theorem vendas_csv_roundtrip:
  assumes "\<forall>v \<in> set vs. CHR '','' \<notin> set (dataFormatada v) \<and> CHR 0x0A \<notin> set (dataFormatada v)"
  shows "map (split_on CHR '','') (split_on (CHR 0x0A) (vendas_csv vs))
           = [''ID'', ''Data'', ''Valor''] # map (\<lambda>v. [int_str (venda_id v), dataFormatada v, num_str (valor v)]) vs
       \<and> map (\<lambda>v. parse_int (int_str (venda_id v))) vs = map (\<lambda>v. Some (venda_id v)) vs"
proof -
  have lines: "split_on (CHR 0x0A) (vendas_csv vs) = csv_header # map csv_row vs"
    unfolding vendas_csv_def
    by (rule split_on_js_join) (use assms in \<open>auto simp: csv_header_def dest: csv_row_no_newline\<close>)
  have hdr: "split_on CHR '','' csv_header = [''ID'', ''Data'', ''Valor'']"
    by (simp add: csv_header_def)
  have "map (split_on CHR '','') (map csv_row vs)
          = map (\<lambda>v. [int_str (venda_id v), dataFormatada v, num_str (valor v)]) vs"
    using assms by (simp add: csv_row_fields)
  with lines hdr show ?thesis by (simp add: parse_int_int_str)
qed

text \<open>The two-sale export of section 8 of the specification, line by line.\<close>

lemma vendas_csv_example:
  "split_on (CHR 0x0A) (vendas_csv [\<lparr>dataFormatada = ''01/01/2024'', valor = 21/2, venda_id = 1\<rparr>,
                                   \<lparr>dataFormatada = ''02/01/2024'', valor = 20, venda_id = 2\<rparr>])
     = [''ID,Data,Valor'', ''1,01/01/2024,10.5'', ''2,02/01/2024,20'']"
  by code_simp

text \<open>Fields are not quoted: a date holding a comma yields a row of four fields.\<close>

lemma csv_row_unquoted_comma:
  "split_on CHR '','' (csv_row \<lparr>dataFormatada = ''1,2'', valor = 3, venda_id = 4\<rparr>) = [''4'', ''1'', ''2'', ''3'']"
  by code_simp


subsection \<open>A concrete scenario for the witnesses\<close>

definition demo_server :: server where
  "demo_server = \<lparr>db = [\<lparr>dataFormatada = ''01/01/2024'', valor = 21/2, venda_id = 1\<rparr>,
                        \<lparr>dataFormatada = ''02/01/2024'', valor = 20, venda_id = 2\<rparr>],
                  next_id = 3, api_tokens = [''t''], list_filter = (\<lambda>_ _. True)\<rparr>"

definition demo_world :: world where
  "demo_world = \<lparr>token = Some ''t'', remote = demo_server, faults = [], sent = []\<rparr>"

lemmas demo_simps = demo_server_def demo_world_def init_state_def get_token_def authorised_def
  delivers_def bearer_def

theorem fetchVendas_query_witness:
  "get_token demo_world = Some ''t'' \<and>
   sent (snd (fetchVendas None (init_state\<lparr>filtroDia := Some 5\<rparr>) demo_world))
     = [(bearer ''t'', Get_vendas [(''dia'', ''5'')])]"
proof -
  have t: "get_token demo_world = Some ''t''" by (simp add: demo_simps)
  have p: "fetch_params None (init_state\<lparr>filtroDia := Some 5\<rparr>) = [(''dia'', ''5'')]"
    by code_simp
  show ?thesis
    using fetchVendas_query [OF t, of None "init_state\<lparr>filtroDia := Some 5\<rparr>"] t p
    by (simp add: demo_simps)
qed

theorem fetchVendas_failure_keeps_state_witness:
  "get_token (demo_world\<lparr>faults := [True]\<rparr>) = Some ''t'' \<and>
   vendas (fst (fetchVendas None (init_state\<lparr>vendas := db demo_server\<rparr>)
                 (demo_world\<lparr>faults := [True]\<rparr>))) = db demo_server"
proof -
  let ?w = "demo_world\<lparr>faults := [True]\<rparr>" and ?st = "init_state\<lparr>vendas := db demo_server\<rparr>"
  have t: "get_token ?w = Some ''t''" by (simp add: demo_simps)
  have "fst (axios ?w (bearer ''t'') (Get_vendas (fetch_params None ?st))) = Inl Network_error"
    by (simp add: axios_lost demo_simps)
  then have "fst (fetchVendas None ?st ?w) = ?st\<lparr>loading := False\<rparr>"
    using t by (intro fetchVendas_failure_keeps_state) blast
  with t show ?thesis by simp
qed

theorem createVenda_success_resets_witness:
  "fst (createVenda ''03/01/2024'' 7 init_state demo_world) = Inr () \<and>
   novaVenda (fst (snd (createVenda ''03/01/2024'' 7 init_state demo_world))) = None"
proof -
  have ax: "axios demo_world (bearer ''t'') (Post_venda ''03/01/2024'' 7)
              = (Inr No_data, snd (axios demo_world (bearer ''t'') (Post_venda ''03/01/2024'' 7)))"
    by (simp add: axios_served demo_simps serve_def)
  have t: "get_token demo_world = Some ''t''" by (simp add: demo_simps)
  have r: "fst (createVenda ''03/01/2024'' 7 init_state demo_world) = Inr ()"
    by (simp add: createVenda_def mutation_resolved [OF t ax])
  then have "createVenda ''03/01/2024'' 7 init_state demo_world
      = (Inr (), fst (snd (createVenda ''03/01/2024'' 7 init_state demo_world)),
         snd (snd (createVenda ''03/01/2024'' 7 init_state demo_world)))"
    by (metis prod.collapse)
  from createVenda_success_resets [OF this] r show ?thesis by simp
qed

theorem fetchVendas_idempotent_witness:
  "get_token demo_world = Some ''t'' \<and> authorised demo_world ''t'' \<and> faults demo_world = [] \<and>
   vendas (fst (fetchVendas None (fst (fetchVendas None init_state demo_world))
                  (snd (fetchVendas None init_state demo_world))))
     = vendas (fst (fetchVendas None init_state demo_world))"
proof -
  have h: "get_token demo_world = Some ''t''" "authorised demo_world ''t''" "faults demo_world = []"
    by (simp_all add: demo_simps)
  show ?thesis using fetchVendas_idempotent [OF h, of None init_state] h by simp
qed


theorem createVenda_refines_witness:
  "get_token demo_world = Some ''t'' \<and> authorised demo_world ''t'' \<and> faults demo_world = [] \<and>
   server_inv (remote demo_world) \<and>
   db_map (db (remote (snd (snd (createVenda ''03/01/2024'' 7 init_state demo_world)))))
     = (db_map (db demo_server))(3 \<mapsto> \<lparr>dataFormatada = ''03/01/2024'', valor = 7\<rparr>)"
proof -
  have h: "get_token demo_world = Some ''t''" "authorised demo_world ''t''" "faults demo_world = []"
      "server_inv (remote demo_world)"
    by (simp_all add: demo_simps server_inv_def)
  have "createVenda ''03/01/2024'' 7 init_state demo_world
      = (fst (createVenda ''03/01/2024'' 7 init_state demo_world),
         fst (snd (createVenda ''03/01/2024'' 7 init_state demo_world)),
         snd (snd (createVenda ''03/01/2024'' 7 init_state demo_world)))"
    by simp
  from createVenda_refines [OF h this] h show ?thesis by (simp add: demo_simps)
qed


theorem updateVenda_absent_id_witness:
  "get_token demo_world = Some ''t'' \<and> authorised demo_world ''t'' \<and> delivers demo_world \<and>
   \<not> has_id 9 (db (remote demo_world)) \<and>
   fst (updateVenda 9 ''04/01/2024'' 5 init_state demo_world) = Inl (Request_failed (Http_status 404))"
proof -
  have h: "get_token demo_world = Some ''t''" "authorised demo_world ''t''" "delivers demo_world"
    "\<not> has_id 9 (db (remote demo_world))"
    by (simp_all add: demo_simps has_id_def)
  show ?thesis using updateVenda_absent_id [OF h, of "''04/01/2024''" 5 init_state] h by simp
qed

theorem mutations_without_token_witness:
  "get_token (demo_world\<lparr>token := Some []\<rparr>) = None \<and>
   fst (createVenda ''03/01/2024'' 7 init_state (demo_world\<lparr>token := Some []\<rparr>)) = Inl Token_not_found"
proof -
  have h: "get_token (demo_world\<lparr>token := Some []\<rparr>) = None" by (simp add: get_token_def)
  show ?thesis using mutations_without_token [OF h, of "''03/01/2024''" 7 init_state] h by simp
qed

theorem createVenda_failure_witness:
  "fst (createVenda ''03/01/2024'' 7 init_state (demo_world\<lparr>faults := [True]\<rparr>)) = Inl (Request_failed Network_error) \<and>
   fst (snd (createVenda ''03/01/2024'' 7 init_state (demo_world\<lparr>faults := [True]\<rparr>)))
     = init_state\<lparr>errors := [Erro_criar_venda], loading := False\<rparr>"
proof -
  let ?w = "demo_world\<lparr>faults := [True]\<rparr>"
  have t: "get_token ?w = Some ''t''" by (simp add: demo_simps)
  have ax: "axios ?w (bearer ''t'') (Post_venda ''03/01/2024'' 7)
     = (Inl Network_error, ?w\<lparr>sent := sent ?w @ [(bearer ''t'', Post_venda ''03/01/2024'' 7)], faults := tl (faults ?w)\<rparr>)"
    by (simp add: axios_lost demo_simps)
  have r: "fst (createVenda ''03/01/2024'' 7 init_state ?w) = Inl (Request_failed Network_error)"
    by (simp add: createVenda_def mutation_rejected [OF t ax])
  show ?thesis using createVenda_failure [OF r] r by simp
qed

theorem getTotalVendas_server_total_witness:
  "get_token demo_world = Some ''t'' \<and> authorised demo_world ''t'' \<and> delivers demo_world \<and>
   fst (getTotalVendas (init_state\<lparr>filtroDia := Some 1\<rparr>) demo_world) = Inr (Total_data (61/2))"
proof -
  have h: "get_token demo_world = Some ''t''" "authorised demo_world ''t''" "delivers demo_world"
    by (simp_all add: demo_simps)
  show ?thesis using getTotalVendas_server_total [OF h, of "init_state\<lparr>filtroDia := Some 1\<rparr>"] h
    by (simp add: demo_simps)
qed

theorem vendas_csv_roundtrip_witness:
  "list_all (\<lambda>v. CHR '','' \<notin> set (dataFormatada v) \<and> CHR 0x0A \<notin> set (dataFormatada v)) (db demo_server) \<and>
   map (split_on CHR '','') (split_on (CHR 0x0A) (vendas_csv (db demo_server)))
     = [[''ID'', ''Data'', ''Valor''], [int_str 1, ''01/01/2024'', num_str (21/2)], [int_str 2, ''02/01/2024'', num_str 20]]"
proof -
  have h: "\<forall>v \<in> set (db demo_server). CHR '','' \<notin> set (dataFormatada v) \<and> CHR 0x0A \<notin> set (dataFormatada v)"
    by (simp add: demo_server_def)
  show ?thesis using vendas_csv_roundtrip [OF h] h by (simp add: demo_server_def list_all_iff)
qed

end
