(* ===== verification/Venda_Form.thy ===== *)
theory Venda_Form
  imports Venda_Store
begin

text \<open>
  The sale form \<open>VendaForm\<close> (\<open>src/src/components/VendaForm.tsx\<close>) and the page that
  hosts it, \<open>VendaFormPage\<close> (\<open>src/src/pages/VendaFormPage.tsx\<close>). The form keeps no
  state of its own: it reads and writes the store's two drafts through the setters of the
  context, and submits through the context's \<open>validateForm\<close>, \<open>handleSubmit\<close> and
  \<open>handleUpdate\<close> (the page passes them as \<open>validateForm\<close>, \<open>onSubmit\<close>,
  \<open>onUpdate\<close>). Its handlers are therefore functions of the store's state and world.
  An input event carries the field it edits and the value after the form's conversion
  (\<open>Number(value)\<close> for the amount; the parsing of the input text is not modelled).
\<close>

datatype form_input =
  Input_dataFormatada string
| Input_valor js_number

text \<open>\<open>{ ...r, [name]: value }\<close> on a draft or a sale (any record with the two fields).\<close>

fun set_field :: "form_input \<Rightarrow> 'a venda_draft_scheme \<Rightarrow> 'a venda_draft_scheme" where
  "set_field (Input_dataFormatada d) r = r\<lparr>dataFormatada := d\<rparr>"
| "set_field (Input_valor v) r = r\<lparr>valor := v\<rparr>"

text \<open>\<open>handleChange\<close>: while a sale is being edited the edit draft takes the value;
  otherwise the new-sale draft does, starting from \<open>{dataFormatada: '', valor: 0}\<close>.\<close>

definition empty_draft :: venda_draft where
  "empty_draft = \<lparr>dataFormatada = [], valor = 0\<rparr>"

definition handleChange :: "form_input \<Rightarrow> venda_state \<Rightarrow> venda_state" where
  "handleChange inp st =
     (case editVenda st of
        Some e \<Rightarrow> st\<lparr>editVenda := Some (set_field inp e)\<rparr>
      | None \<Rightarrow> st\<lparr>novaVenda := Some (set_field inp (case novaVenda st of Some n \<Rightarrow> n
                                                                  | None \<Rightarrow> empty_draft))\<rparr>)"

text \<open>\<open>handleFormSubmit\<close>: validate (and stop when it fails), pick the date and amount
  from the edit draft, else the new draft, else \<open>''''\<close> and \<open>0\<close>, then update the edited
  sale or submit a new one. A rejection of the store's operation propagates out of the
  handler (the \<open>Inl\<close> result).\<close>

definition handleFormSubmit :: "venda_state \<Rightarrow> world \<Rightarrow> (js_error + unit) \<times> venda_state \<times> world" where
  "handleFormSubmit st w =
     (let (ok, st1) = validateForm st in
      if \<not> ok then (Inr (), st1, w)
      else
        (let d = (case nullish (map_option dataFormatada (editVenda st1))
                                (map_option dataFormatada (novaVenda st1)) of
                    Some x \<Rightarrow> x | None \<Rightarrow> []);
             v = (case nullish (map_option valor (editVenda st1)) (map_option valor (novaVenda st1)) of
                    Some x \<Rightarrow> x | None \<Rightarrow> 0)
         in case editVenda st1 of
              Some e \<Rightarrow> handleUpdate (venda_id e) d v st1 w
            | None \<Rightarrow> handleSubmit d v st1 w))"

text \<open>What the form shows: the two inputs' values (\<open>None\<close> is the empty input),
  the error paragraphs when there are errors, and the submit button's label.\<close>

record form_view =
  shown_data :: string
  shown_valor :: "js_number option"
  shown_errors :: "message list"
  submit_label :: string

definition render_form :: "venda_state \<Rightarrow> form_view" where
  "render_form st =
     \<lparr>shown_data = (case nullish (map_option dataFormatada (editVenda st))
                                 (map_option dataFormatada (novaVenda st)) of Some x \<Rightarrow> x | None \<Rightarrow> []),
      shown_valor = nullish (map_option valor (editVenda st)) (map_option valor (novaVenda st)),
      shown_errors = errors st,
      submit_label = (if editVenda st \<noteq> None then ''Atualizar'' else ''Criar'') @ '' Venda''\<rparr>"

subsection \<open>\<open>VendaFormPage\<close>\<close>

text \<open>The page's buttons: logging out removes the token and goes to \<open>/login\<close>; the two
  others only navigate. The result is the world and the route navigated to.\<close>

definition handleLogout :: "world \<Rightarrow> world \<times> string" where
  "handleLogout w = (w\<lparr>token := None\<rparr>, ''/login'')"

definition goToList :: string where
  "goToList = ''/vendas''"

definition goToMenu :: string where
  "goToMenu = ''/''"

text \<open>The three buttons under the form and what a click does: the world after it and the
  route navigated to.\<close>

datatype formpage_button = Ir_para_lista | Deslogar | Voltar_menu

fun formpage_click :: "formpage_button \<Rightarrow> world \<Rightarrow> world \<times> string" where
  "formpage_click Ir_para_lista w = (w, goToList)"
| "formpage_click Deslogar w = handleLogout w"
| "formpage_click Voltar_menu w = (w, goToMenu)"


text \<open>After "Deslogar" the token is gone, so every later submission of the form fails
  locally with the token error and sends nothing.\<close>

lemma formpage_logout_blocks:
  "fst (formpage_click Deslogar w) = w' \<Longrightarrow>
   mutation req msg on_ok st w' = (Inl Token_not_found, st\<lparr>errors := [msg], loading := False\<rparr>, w')"
  by (auto simp: handleLogout_def get_token_def intro: mutation_no_token)

subsection \<open>Store lemmas the form relies on: what a mutation sends first\<close>

lemma fetchVendas_sent_prefix: "\<exists>rest. sent (snd (fetchVendas f st w)) = sent w @ rest"
  by (cases "get_token w") (auto simp: fetchVendas_snd)

lemma mutation_sends_first:
  assumes "get_token w = Some tok"
  shows "\<exists>rest. sent (snd (snd (mutation req msg on_ok st w))) = sent w @ (bearer tok, req) # rest"
proof (cases rule: mutation_cases [where w = w and req = req])
  case (rejected tok' e w1)
  then have "sent w1 = sent w @ [(bearer tok, req)]"
    using assms axios_frame(2) [of w "bearer tok" req] by simp
  with rejected show ?thesis by (simp add: mutation_rejected)
next
  case (resolved tok' x w1)
  then have s1: "sent w1 = sent w @ [(bearer tok, req)]"
    using assms axios_frame(2) [of w "bearer tok" req] by simp
  obtain rest where "sent (snd (fetchVendas None (st\<lparr>loading := True\<rparr>) w1)) = sent w1 @ rest"
    using fetchVendas_sent_prefix by blast
  with resolved s1 show ?thesis by (simp add: mutation_resolved)
qed (use assms in simp)

lemma mutation_no_token_world:
  "get_token w = None \<Longrightarrow> snd (snd (mutation req msg on_ok st w)) = w"
  by (simp add: mutation_no_token)

subsection \<open>The form's handlers\<close>

lemma handleFormSubmit_invalid:
  "\<not> fst (validateForm st) \<Longrightarrow>
   handleFormSubmit st w = (Inr (), st\<lparr>errors := validation_errors (novaVenda st)\<rparr>, w)"
  by (simp add: handleFormSubmit_def validateForm_def Let_def)

lemma handleFormSubmit_edit:
  "fst (validateForm st) \<Longrightarrow> editVenda st = Some e \<Longrightarrow>
   handleFormSubmit st w = updateVenda (venda_id e) (dataFormatada e) (valor e) (st\<lparr>errors := []\<rparr>) w"
  by (simp add: handleFormSubmit_def validateForm_def handleUpdate_def Let_def)

lemma handleFormSubmit_new:
  "fst (validateForm st) \<Longrightarrow> editVenda st = None \<Longrightarrow> novaVenda st = Some n \<Longrightarrow>
   handleFormSubmit st w = createVenda (dataFormatada n) (valor n) (st\<lparr>errors := []\<rparr>) w"
  by (simp add: handleFormSubmit_def validateForm_def handleSubmit_def Let_def)

lemma handleChange_editing:
  "editVenda st \<noteq> None \<Longrightarrow>
   novaVenda (handleChange i st) = novaVenda st \<and> editVenda (handleChange i st) \<noteq> None"
  by (auto simp: handleChange_def)

lemma handleChanges_editing:
  "editVenda st \<noteq> None \<Longrightarrow>
   novaVenda (foldl (\<lambda>s i. handleChange i s) st ins) = novaVenda st
   \<and> editVenda (foldl (\<lambda>s i. handleChange i s) st ins) \<noteq> None"
proof (induction ins arbitrary: st)
  case (Cons i ins)
  from Cons.prems have "editVenda (handleChange i st) \<noteq> None"
    and "novaVenda (handleChange i st) = novaVenda st"
    using handleChange_editing by blast+
  with Cons.IH [of "handleChange i st"] show ?case by simp
qed simp

text \<open>Claim C13: once a sale is being edited and no new-sale draft exists, no sequence of
  edits in the form can be submitted: validation checks the (absent) new-sale draft, fails
  with the missing-date message, and no request is sent.\<close>

theorem edit_mode_never_submits:
  assumes "editVenda st \<noteq> None" and "novaVenda st = None"
  shows "handleFormSubmit (foldl (\<lambda>s i. handleChange i s) st ins) w
           = (Inr (), (foldl (\<lambda>s i. handleChange i s) st ins)\<lparr>errors := [Data_obrigatoria]\<rparr>, w)"
proof -
  let ?s = "foldl (\<lambda>s i. handleChange i s) st ins"
  have "novaVenda ?s = None" using handleChanges_editing [OF assms(1)] assms(2) by simp
  then have "\<not> fst (validateForm ?s)" and "validation_errors (novaVenda ?s) = [Data_obrigatoria]"
    by (simp_all add: validateForm_def validation_errors_def)
  then show ?thesis by (simp add: handleFormSubmit_invalid)
qed

text \<open>Claim C14: in creation mode, a form submission that sends anything first sends the
  \<open>POST\<close> of the new-sale draft, and that draft has a non-empty date and a positive
  amount.\<close>

theorem create_submit_posts_valid_draft:
  assumes "editVenda st = None" and "sent (snd (snd (handleFormSubmit st w))) \<noteq> sent w"
  shows "\<exists>n tok rest. novaVenda st = Some n \<and> dataFormatada n \<noteq> [] \<and> 0 < valor n
           \<and> get_token w = Some tok
           \<and> sent (snd (snd (handleFormSubmit st w)))
               = sent w @ (bearer tok, Post_venda (dataFormatada n) (valor n)) # rest"
proof -
  have ok: "fst (validateForm st)"
    using assms(2) handleFormSubmit_invalid [of st w] by (cases "fst (validateForm st)") auto
  then obtain n where n: "novaVenda st = Some n" "dataFormatada n \<noteq> []" "0 < valor n"
    using validateForm_new_draft_only [of st] by blast
  have sub: "handleFormSubmit st w = createVenda (dataFormatada n) (valor n) (st\<lparr>errors := []\<rparr>) w"
    using handleFormSubmit_new [OF ok assms(1) n(1)] .
  show ?thesis
  proof (cases "get_token w")
    case None
    then have "snd (snd (handleFormSubmit st w)) = w"
      by (simp add: sub createVenda_def mutation_no_token_world)
    with assms(2) show ?thesis by simp
  next
    case (Some tok)
    then obtain rest where "sent (snd (snd (handleFormSubmit st w)))
        = sent w @ (bearer tok, Post_venda (dataFormatada n) (valor n)) # rest"
      using mutation_sends_first [OF Some, of "Post_venda (dataFormatada n) (valor n)" Erro_criar_venda
          "\<lambda>st. st\<lparr>novaVenda := None, errors := []\<rparr>" "st\<lparr>errors := []\<rparr>"]
      by (auto simp: sub createVenda_def)
    with n Some show ?thesis by blast
  qed
qed

text \<open>Claim C15: in edit mode, a submission whose validation passes (because some new-sale
  draft is valid) sends the \<open>PUT\<close> of the edit draft's date and amount as they are: the
  edited values themselves are never validated.\<close>

theorem edit_submit_sends_unvalidated:
  assumes "editVenda st = Some e" and "fst (validateForm st)" and "get_token w = Some tok"
  shows "\<exists>rest. sent (snd (snd (handleFormSubmit st w)))
                = sent w @ (bearer tok, Put_venda (venda_id e) (dataFormatada e) (valor e)) # rest"
  using mutation_sends_first [OF assms(3)] handleFormSubmit_edit [OF assms(2,1)]
  by (simp add: updateVenda_def)

text \<open> the two drafts are not exclusive: typing into the form and then choosing
  a sale to edit leaves both a new-sale draft and an edit draft.\<close>

theorem drafts_not_exclusive:
  "novaVenda (handleEdit 1 (handleChange (Input_valor 5)
       (init_state\<lparr>vendas := [\<lparr>dataFormatada = ''01/01/2024'', valor = 21/2, venda_id = 1\<rparr>]\<rparr>))) \<noteq> None
   \<and> editVenda (handleEdit 1 (handleChange (Input_valor 5)
       (init_state\<lparr>vendas := [\<lparr>dataFormatada = ''01/01/2024'', valor = 21/2, venda_id = 1\<rparr>]\<rparr>))) \<noteq> None"
  by (simp add: handleEdit_def handleChange_def init_state_def)

subsection \<open>Witnesses\<close>

theorem edit_mode_never_submits_witness:
  "editVenda (init_state\<lparr>editVenda := Some \<lparr>dataFormatada = ''01/01/2024'', valor = 21/2, venda_id = 1\<rparr>\<rparr>) \<noteq> None
   \<and> novaVenda (init_state\<lparr>editVenda := Some \<lparr>dataFormatada = ''01/01/2024'', valor = 21/2, venda_id = 1\<rparr>\<rparr>) = None
   \<and> snd (snd (handleFormSubmit (foldl (\<lambda>s i. handleChange i s)
        (init_state\<lparr>editVenda := Some \<lparr>dataFormatada = ''01/01/2024'', valor = 21/2, venda_id = 1\<rparr>\<rparr>)
        [Input_valor 12]) demo_world)) = demo_world"
proof -
  let ?st = "init_state\<lparr>editVenda := Some \<lparr>dataFormatada = ''01/01/2024'', valor = 21/2, venda_id = 1\<rparr>\<rparr>"
  have h: "editVenda ?st \<noteq> None" "novaVenda ?st = None" by (simp_all add: init_state_def)
  show ?thesis using edit_mode_never_submits [OF h, of "[Input_valor 12]" demo_world] h by simp
qed

theorem create_submit_posts_valid_draft_witness:
  "editVenda (init_state\<lparr>novaVenda := Some \<lparr>dataFormatada = ''03/01/2024'', valor = 7\<rparr>\<rparr>) = None
   \<and> sent (snd (snd (handleFormSubmit (init_state\<lparr>novaVenda := Some \<lparr>dataFormatada = ''03/01/2024'', valor = 7\<rparr>\<rparr>) demo_world))) \<noteq> sent demo_world
   \<and> (\<exists>n. novaVenda (init_state\<lparr>novaVenda := Some \<lparr>dataFormatada = ''03/01/2024'', valor = 7\<rparr>\<rparr>) = Some n \<and> 0 < valor n)"
proof -
  let ?st = "init_state\<lparr>novaVenda := Some \<lparr>dataFormatada = ''03/01/2024'', valor = 7\<rparr>\<rparr>"
  have e: "editVenda ?st = None" by (simp add: init_state_def)
  have t: "get_token demo_world = Some ''t''" by (simp add: demo_simps)
  have ok: "fst (validateForm ?st)" by (simp add: validateForm_def validation_errors_def init_state_def)
  have "\<exists>rest. sent (snd (snd (handleFormSubmit ?st demo_world)))
           = sent demo_world @ (bearer ''t'', Post_venda ''03/01/2024'' 7) # rest"
    using mutation_sends_first [OF t] handleFormSubmit_new [OF ok e, of _ demo_world]
    by (simp add: createVenda_def init_state_def)
  then have s: "sent (snd (snd (handleFormSubmit ?st demo_world))) \<noteq> sent demo_world" by auto
  show ?thesis using create_submit_posts_valid_draft [OF e s] e s by auto
qed

theorem edit_submit_sends_unvalidated_witness:
  "editVenda (init_state\<lparr>novaVenda := Some \<lparr>dataFormatada = ''03/01/2024'', valor = 7\<rparr>,
                         editVenda := Some \<lparr>dataFormatada = [], valor = -5, venda_id = 1\<rparr>\<rparr>)
     = Some \<lparr>dataFormatada = [], valor = -5, venda_id = 1\<rparr>
   \<and> fst (validateForm (init_state\<lparr>novaVenda := Some \<lparr>dataFormatada = ''03/01/2024'', valor = 7\<rparr>,
                         editVenda := Some \<lparr>dataFormatada = [], valor = -5, venda_id = 1\<rparr>\<rparr>))
   \<and> get_token demo_world = Some ''t''
   \<and> (\<exists>rest. sent (snd (snd (handleFormSubmit (init_state\<lparr>novaVenda := Some \<lparr>dataFormatada = ''03/01/2024'', valor = 7\<rparr>,
                         editVenda := Some \<lparr>dataFormatada = [], valor = -5, venda_id = 1\<rparr>\<rparr>) demo_world)))
         = sent demo_world @ (bearer ''t'', Put_venda 1 [] (-5)) # rest)"
proof -
  let ?st = "init_state\<lparr>novaVenda := Some \<lparr>dataFormatada = ''03/01/2024'', valor = 7\<rparr>,
                         editVenda := Some \<lparr>dataFormatada = [], valor = -5, venda_id = 1\<rparr>\<rparr>"
  have h: "editVenda ?st = Some \<lparr>dataFormatada = [], valor = -5, venda_id = 1\<rparr>"
    "fst (validateForm ?st)" "get_token demo_world = Some ''t''"
    by (simp_all add: init_state_def validateForm_def validation_errors_def demo_simps)
  show ?thesis using edit_submit_sends_unvalidated [OF h] h by simp
qed

end
