(* ===== verification/Venda_Pages.thy ===== *)
theory Venda_Pages
  imports Venda_Store
begin

text \<open>
  The filter form \<open>VendaFilter\<close> (\<open>src/src/components/VendaFilter.tsx\<close>) with its page
  \<open>VendaFilterPage\<close> (\<open>src/src/pages/VendaFilterPage.tsx\<close>), and the report page
  \<open>VendaReportPage\<close> (\<open>src/src/pages/VendaReportPage.tsx\<close>) with the component it
  renders, \<open>VendaReport\<close> (\<open>src/src/components/VendaReport.tsx\<close>).
  React setters called in an event handler take effect at the next render: a callback of
  the store called in the same handler still reads the values of the render it was created
  in. \<open>handleFilter\<close> is modelled so: \<open>fetchVendas\<close> runs on the state before the
  three \<open>setFiltro\<close> calls.
\<close>

subsection \<open>\<open>VendaFilter\<close>\<close>

text \<open>The three inputs' state (\<open>number | undefined\<close>).\<close>

record filter_form =
  form_dia :: "js_number option"
  form_mes :: "js_number option"
  form_ano :: "js_number option"

definition init_filter_form :: filter_form where
  "init_filter_form = \<lparr>form_dia = None, form_mes = None, form_ano = None\<rparr>"

datatype filter_field = Dia | Mes | Ano

text \<open>\<open>onChange\<close>: \<open>e.target.value ? Number(e.target.value) : undefined\<close>. The
  inputs have \<open>type="number"\<close>, whose value the browser sanitises to the empty string or a
  valid number, so \<open>Number\<close> never meets text it cannot read here; \<open>js_Number\<close> reads
  decimals without an exponent.\<close>

definition input_number :: "string \<Rightarrow> js_number option" where
  "input_number s = (if s = [] then None else js_Number s)"

fun filter_change :: "filter_field \<Rightarrow> string \<Rightarrow> filter_form \<Rightarrow> filter_form" where
  "filter_change Dia s f = f\<lparr>form_dia := input_number s\<rparr>"
| "filter_change Mes s f = f\<lparr>form_mes := input_number s\<rparr>"
| "filter_change Ano s f = f\<lparr>form_ano := input_number s\<rparr>"

subsection \<open>\<open>VendaFilterPage\<close>\<close>

text \<open>\<open>handleFilter(dia, mes, ano)\<close>: the three setters, then \<open>fetchVendas({dia, mes, ano})\<close>
  from the same render, whose stored filters are the old ones; the fetch is not awaited.\<close>

definition handleFilter ::
  "js_number option \<Rightarrow> js_number option \<Rightarrow> js_number option \<Rightarrow> venda_state \<Rightarrow> world
   \<Rightarrow> venda_state \<times> world" where
  "handleFilter dia mes ano st w =
     (let (st1, w1) = fetchVendas (Some \<lparr>f_dia = dia, f_mes = mes, f_ano = ano\<rparr>) st w
      in (st1\<lparr>filtroDia := dia, filtroMes := mes, filtroAno := ano\<rparr>, w1))"

text \<open>\<open>VendaFilter\<close>'s \<open>handleSubmit\<close> calls \<open>onFilter(dia, mes, ano)\<close>, which the page
  binds to \<open>handleFilter\<close>.\<close>

definition filter_submit :: "filter_form \<Rightarrow> venda_state \<Rightarrow> world \<Rightarrow> venda_state \<times> world" where
  "filter_submit f st w = handleFilter (form_dia f) (form_mes f) (form_ano f) st w"

subsection \<open>\<open>VendaReportPage\<close> and \<open>VendaReport\<close>\<close>

text \<open>\<open>fetchTotal\<close>: \<open>setTotal(await getTotalVendas())\<close>, a failure logged and ignored.
  The page's own state is the displayed total.\<close>

definition fetchTotal :: "js_number \<Rightarrow> venda_state \<Rightarrow> world \<Rightarrow> js_number \<times> venda_state \<times> world" where
  "fetchTotal tot st w =
     (case getTotalVendas st w of
        (Inr (Total_data t), st', w') \<Rightarrow> (t, st', w')
      | (_, st', w') \<Rightarrow> (tot, st', w'))"

text \<open>The effect \<open>useEffect(fetchTotal, [getTotalVendas])\<close> runs again after every render
  of the provider, since the provider creates a new \<open>getTotalVendas\<close> at each of its
  renders. React renders the provider when a synchronous part of an update sequence ends
  with a state different from the last one rendered (updates within one part are batched).
  \<open>total_commits\<close> lists the states at the ends of \<open>getTotalVendas\<close>' parts: without a
  token it runs to its \<open>finally\<close> in one part; with one, it stops at its \<open>await\<close> and
  ends after the reply. \<open>setTotal\<close> renders only the page, not the provider.\<close>

fun commits_change :: "'a \<Rightarrow> 'a list \<Rightarrow> bool" where
  "commits_change s [] = False"
| "commits_change s (x # xs) = (x \<noteq> s \<or> commits_change x xs)"

definition total_commits :: "venda_state \<Rightarrow> world \<Rightarrow> venda_state list" where
  "total_commits st w =
     (case getTotalVendas_begin st w of
        Inl (_, st', _) \<Rightarrow> [st']
      | Inr (st1, tok) \<Rightarrow> [st1, fst (snd (getTotalVendas_resume st1 tok w))])"

definition provider_rerenders :: "venda_state \<Rightarrow> world \<Rightarrow> bool" where
  "provider_rerenders st w \<longleftrightarrow> commits_change st (total_commits st w)"

text \<open>\<open>n\<close> rounds of the effect (the fuel bounds what a run of the page is observed for).\<close>

fun report_effect :: "nat \<Rightarrow> js_number \<Rightarrow> venda_state \<Rightarrow> world \<Rightarrow> js_number \<times> venda_state \<times> world" where
  "report_effect 0 tot st w = (tot, st, w)"
| "report_effect (Suc n) tot st w =
     (case fetchTotal tot st w of
        (t, st', w') \<Rightarrow> if provider_rerenders st w then report_effect n t st' w' else (t, st', w'))"

text \<open>\<open>VendaReport\<close>: the paragraph \<open>Total: R$ {total.toFixed(2)}\<close>.\<close>

definition report_text :: "js_number \<Rightarrow> string" where
  "report_text tot = ''Total: R$ '' @ to_fixed 2 tot"


subsection \<open>Properties\<close>

lemma getTotalVendas_state: "fst (snd (getTotalVendas st w)) = st\<lparr>loading := False\<rparr>"
  by (auto simp: getTotalVendas_defs Let_def split: option.split prod.split sum.split)

lemma getTotalVendas_world:
  "get_token w = Some tok \<Longrightarrow> snd (snd (getTotalVendas st w)) = snd (axios w (bearer tok) Get_total)"
  by (auto simp: getTotalVendas_defs Let_def split: prod.split sum.split)

lemma getTotalVendas_sent:
  "get_token w = Some tok \<Longrightarrow> sent (snd (snd (getTotalVendas st w))) = sent w @ [(bearer tok, Get_total)]"
  "get_token w = Some tok \<Longrightarrow> token (snd (snd (getTotalVendas st w))) = token w"
  by (simp_all add: getTotalVendas_world)

lemma fetchTotal_parts:
  "fst (snd (fetchTotal t st w)) = st\<lparr>loading := False\<rparr>"
  "snd (snd (fetchTotal t st w)) = snd (snd (getTotalVendas st w))"
  using getTotalVendas_state [of st w]
  by (auto simp: fetchTotal_def split: prod.split sum.split venda_response.split)

text \<open>With a token the request's \<open>await\<close> separates \<open>loading := true\<close> from
  \<open>loading := false\<close>, so the provider renders at least once; without one both updates
  fall in one part and cancel out when \<open>loading\<close> was off.\<close>

lemma provider_rerenders_token: "get_token w = Some tok \<Longrightarrow> provider_rerenders st w"
proof -
  assume tk: "get_token w = Some tok"
  let ?st1 = "st\<lparr>loading := True\<rparr>"
  have "fst (snd (getTotalVendas_resume ?st1 tok w)) = ?st1\<lparr>loading := False\<rparr>"
    by (simp add: getTotalVendas_resume_def split: prod.split sum.split)
  moreover have "?st1\<lparr>loading := False\<rparr> \<noteq> ?st1"
  proof
    assume "?st1\<lparr>loading := False\<rparr> = ?st1"
    then have "loading (?st1\<lparr>loading := False\<rparr>) = loading ?st1" by (rule arg_cong)
    then show False by simp
  qed
  ultimately show ?thesis using tk
    by (simp add: provider_rerenders_def total_commits_def getTotalVendas_begin_def Let_def)
qed

lemma provider_settles_no_token:
  "get_token w = None \<Longrightarrow> \<not> loading st \<Longrightarrow> \<not> provider_rerenders st w"
  by (simp add: provider_rerenders_def total_commits_def getTotalVendas_begin_def Let_def)

text \<open>Claim C37: without a token the report page settles: \<open>getTotalVendas\<close> sets and
  clears \<open>loading\<close> in one synchronous part, the provider does not render, and the effect
  runs once and stops (no request is sent).\<close>

theorem report_effect_no_token:
  assumes "get_token w = None" and "\<not> loading st"
  shows "report_effect (Suc n) t st w = (t, st, w)"
proof -
  have "st\<lparr>loading := False\<rparr> = st" using assms(2) by simp
  then have "fetchTotal t st w = (t, st, w)"
    using assms(1) by (simp add: fetchTotal_def getTotalVendas_defs Let_def)
  then show ?thesis using provider_settles_no_token [OF assms] by simp
qed

text \<open>Claim C17: the report page never settles: with a token in storage, every round of
  its effect sends one more \<open>GET /vendas/total\<close>, and the provider state rendered at the
  request's \<open>await\<close> differs from the one rendered after the reply, so the provider
  renders, \<open>getTotalVendas\<close> is a new function and the effect runs again: after \<open>n\<close>
  rounds exactly \<open>n\<close> requests have been sent, for every \<open>n\<close>.\<close>

theorem report_effect_unbounded:
  assumes "get_token w = Some tok"
  shows "sent (snd (snd (report_effect n t st w))) = sent w @ replicate n (bearer tok, Get_total)"
  using assms
proof (induction n arbitrary: t st w)
  case (Suc n)
  obtain t' st' w' where ft: "fetchTotal t st w = (t', st', w')" by (cases "fetchTotal t st w")
  have st': "st' = st\<lparr>loading := False\<rparr>" and w': "w' = snd (snd (getTotalVendas st w))"
    using fetchTotal_parts [of t st w] ft by simp_all
  have s: "sent w' = sent w @ [(bearer tok, Get_total)]" and tk: "get_token w' = Some tok"
    using getTotalVendas_sent [OF Suc.prems, of st] Suc.prems w' by (simp_all add: get_token_def)
  have "report_effect (Suc n) t st w = report_effect n t' st' w'"
    using ft provider_rerenders_token [OF Suc.prems] by simp
  with Suc.IH [OF tk, of t' st'] s show ?case by (simp add: replicate_append_same)
qed simp

text \<open>Claim C18: \<open>handleFilter\<close> reads the stored filters of the render it was created
  in: clearing the day filter (argument \<open>undefined\<close>) while a day filter is stored sends
  the list query with the old day, although the store afterwards records no day filter.\<close>

theorem handleFilter_stale_day:
  assumes "filtroDia st = Some x" and "x \<noteq> 0" and "get_token w = Some tok"
    and "handleFilter None m a st w = (st', w')"
  shows "filtroDia st' = None
       \<and> (\<exists>ps. sent w' = sent w @ [(bearer tok, Get_vendas ps)] \<and> (''dia'', num_str x) \<in> set ps)"
proof -
  let ?f = "Some \<lparr>f_dia = None, f_mes = m, f_ano = a\<rparr>"
  have "(''dia'', num_str x) \<in> set (fetch_params ?f st)"
    using assms(1,2) by (simp add: fetch_params_def)
  moreover have "sent (snd (fetchVendas ?f st w)) = sent w @ [(bearer tok, Get_vendas (fetch_params ?f st))]"
    using fetchVendas_query [OF assms(3)] by blast
  moreover have "w' = snd (fetchVendas ?f st w)" and "filtroDia st' = None"
    using assms(4) by (auto simp: handleFilter_def split: prod.splits)
  ultimately show ?thesis by auto
qed

text \<open>Claim C39: the report shows every amount of whole cents exactly: for each integer
  \<open>c\<close> the paragraph is \<open>Total: R$ \<close> followed by a numeral with exactly two fraction
  digits, which \<open>parseFloat\<close> reads back as \<open>c/100\<close>.\<close>

theorem report_text_exact_cents:
  "\<exists>s i f. report_text (of_int c / 100) = ''Total: R$ '' @ s
     \<and> s = i @ CHR ''.'' # f \<and> length f = 2 \<and> parse_float s = Some (of_int c / 100)"
proof -
  let ?s = "to_fixed 2 (of_int c / 100)"
  have "?s = ((if c < 0 then ''-'' else []) @ nat_str (nat \<bar>c\<bar> div 100)) @
       CHR ''.'' # pad_left 2 (nat_str (nat \<bar>c\<bar> mod 100))"
    by (simp add: to_fixed_2_cents)
  moreover have "length (pad_left 2 (nat_str (nat \<bar>c\<bar> mod 100))) = 2" by (simp add: pad_left_2_length)
  ultimately obtain i f where sf: "?s = i @ CHR ''.'' # f" "length f = 2" by blast
  show ?thesis using sf parse_float_to_fixed_cents [of c] unfolding report_text_def by blast
qed

theorem report_effect_unbounded_witness:
  "get_token demo_world = Some ''t'' \<and>
   length (sent (snd (snd (report_effect 3 0 init_state demo_world)))) = 3"
proof -
  have h: "get_token demo_world = Some ''t''" by (simp add: demo_simps)
  show ?thesis using report_effect_unbounded [OF h, of 3 0 init_state] h by (simp add: demo_simps)
qed

theorem handleFilter_stale_day_witness:
  "filtroDia (init_state\<lparr>filtroDia := Some 5\<rparr>) = Some 5 \<and> (5::rat) \<noteq> 0 \<and> get_token demo_world = Some ''t''
   \<and> filtroDia (fst (handleFilter None None None (init_state\<lparr>filtroDia := Some 5\<rparr>) demo_world)) = None
   \<and> (\<exists>ps. sent (snd (handleFilter None None None (init_state\<lparr>filtroDia := Some 5\<rparr>) demo_world))
            = [(bearer ''t'', Get_vendas ps)] \<and> (''dia'', num_str 5) \<in> set ps)"
proof -
  have h: "filtroDia (init_state\<lparr>filtroDia := Some 5\<rparr>) = Some 5" "(5::rat) \<noteq> 0"
    "get_token demo_world = Some ''t''"
    by (simp_all add: demo_simps)
  show ?thesis
    using handleFilter_stale_day [OF h, of None None
            "fst (handleFilter None None None (init_state\<lparr>filtroDia := Some 5\<rparr>) demo_world)"
            "snd (handleFilter None None None (init_state\<lparr>filtroDia := Some 5\<rparr>) demo_world)"] h
    by (simp add: demo_simps)
qed

text \<open>The inputs: an empty field is \<open>undefined\<close>, a numeral is its value.\<close>

lemma filter_change_examples:
  "form_dia (filter_change Dia [] (init_filter_form\<lparr>form_dia := Some 5\<rparr>)) = None"
  "form_mes (filter_change Mes ''12'' init_filter_form) = Some 12"
  "form_ano (filter_change Ano ''abc'' init_filter_form) = None"
  by (simp add: input_number_def init_filter_form_def, code_simp, code_simp)


text \<open>With no token in storage the report page, mounted on the initial state, stops after
  its first round with everything as it was.\<close>

theorem report_effect_no_token_witness:
  "get_token (demo_world\<lparr>token := None\<rparr>) = None \<and> \<not> loading init_state
   \<and> report_effect 3 0 init_state (demo_world\<lparr>token := None\<rparr>) = (0, init_state, demo_world\<lparr>token := None\<rparr>)"
proof -
  have h: "get_token (demo_world\<lparr>token := None\<rparr>) = None" "\<not> loading init_state"
    by (simp_all add: get_token_def init_state_def)
  show ?thesis using report_effect_no_token [OF h, of 2 0] h by (simp add: numeral_eq_Suc)
qed

end
