(* ===== verification/Url_Query.thy ===== *)
theory Url_Query
  imports Prelude
begin

text \<open>
  The query strings the API services build: \<open>URLSearchParams\<close>' serialiser
  (\<open>application/x-www-form-urlencoded\<close>: unreserved bytes kept, space as \<open>+\<close>, every
  other byte as \<open>%XX\<close> in upper-case hexadecimal), the parser a server applies to the
  query, and the split of a URL at its first \<open>?\<close>. Strings are byte strings (the UTF-8
  encoding of the text). The round trip \<open>parse_query (url_params ps) = ps\<close> holds for
  every list of pairs; template literals that paste raw text into a URL have no such
  guarantee (see \<open>Api_Service\<close>).
\<close>

definition hex_digit :: "nat \<Rightarrow> char" where
  "hex_digit n = (if n < 10 then char_of (48 + n) else char_of (55 + n))"

definition url_unreserved :: "char \<Rightarrow> bool" where
  "url_unreserved c \<longleftrightarrow> (let n = (of_char c :: nat) in
     (48 \<le> n \<and> n < 58) \<or> (65 \<le> n \<and> n < 91) \<or> (97 \<le> n \<and> n < 123)
     \<or> n = 42 \<or> n = 45 \<or> n = 46 \<or> n = 95)"

fun url_encode :: "string \<Rightarrow> string" where
  "url_encode [] = []"
| "url_encode (c # s) =
     (if url_unreserved c then [c]
      else if c = CHR '' '' then ''+''
      else [CHR ''%'', hex_digit (of_char c div 16), hex_digit (of_char c mod 16)]) @ url_encode s"

text \<open>Percent-decoding: \<open>+\<close> is a space, \<open>%\<close> followed by two hexadecimal digits is that
  byte, any other \<open>%\<close> is kept.\<close>

function url_decode :: "string \<Rightarrow> string" where
  "url_decode [] = []"
| "url_decode (c # s) =
     (if c = CHR ''+'' then CHR '' '' # url_decode s
      else if c = CHR ''%'' \<and> length s \<ge> 2 \<and> hex_val (s ! 0) \<noteq> None \<and> hex_val (s ! 1) \<noteq> None
      then char_of (16 * the (hex_val (s ! 0)) + the (hex_val (s ! 1))) # url_decode (drop 2 s)
      else c # url_decode s)"
  by pat_completeness auto
termination by (relation "measure length") auto

text \<open>\<open>params.toString()\<close>: \<open>name=value\<close> pairs joined by \<open>&\<close>.\<close>

definition url_params :: "(string \<times> string) list \<Rightarrow> string" where
  "url_params ps = js_join ''&'' (map (\<lambda>(k, v). url_encode k @ ''='' @ url_encode v) ps)"

text \<open>The urlencoded parser: split at \<open>&\<close>, skip empty sequences, split each at its
  first \<open>=\<close>, decode both sides.\<close>

definition parse_pair :: "string \<Rightarrow> string \<times> string" where
  "parse_pair s = (let k = takeWhile (\<lambda>c. c \<noteq> CHR ''='') s
                   in (url_decode k, url_decode (drop (Suc (length k)) s)))"

definition parse_query :: "string \<Rightarrow> (string \<times> string) list" where
  "parse_query q = map parse_pair (filter (\<lambda>s. s \<noteq> []) (split_on CHR ''&'' q))"

definition url_path :: "string \<Rightarrow> string" where
  "url_path u = takeWhile (\<lambda>c. c \<noteq> CHR ''?'') u"

definition url_query :: "string \<Rightarrow> string" where
  "url_query u = drop (Suc (length (url_path u))) u"

subsection \<open>Lemmas\<close>

lemma hex_val_hex_digit [simp]: "n < 16 \<Longrightarrow> hex_val (hex_digit n) = Some n"
  by (auto simp: hex_val_def hex_digit_def Let_def)

lemma of_char_hex_digit:
  "n < 16 \<Longrightarrow> (of_char (hex_digit n) :: nat) = (if n < 10 then 48 + n else 55 + n)"
  by (simp add: hex_digit_def)

lemma hex_digit_unreserved [simp]: "n < 16 \<Longrightarrow> url_unreserved (hex_digit n)"
  by (simp add: url_unreserved_def of_char_hex_digit)

lemma of_char_div16 [simp]: "(of_char c :: nat) div 16 < 16"
  using nat_of_char_less_256 [of c] by linarith

lemma char_of_hex_split: "char_of (16 * ((of_char c :: nat) div 16) + of_char c mod 16) = c"
  by simp

lemma url_unreserved_not [simp]:
  "url_unreserved c \<Longrightarrow> c \<noteq> CHR ''+''" "url_unreserved c \<Longrightarrow> c \<noteq> CHR ''%''"
  "url_unreserved c \<Longrightarrow> c \<noteq> CHR ''&''" "url_unreserved c \<Longrightarrow> c \<noteq> CHR ''=''"
  by (auto simp: url_unreserved_def Let_def)

lemma hex_digit_not [simp]:
  "n < 16 \<Longrightarrow> hex_digit n \<noteq> CHR ''&''" "n < 16 \<Longrightarrow> hex_digit n \<noteq> CHR ''=''"
  "n < 16 \<Longrightarrow> hex_digit n \<noteq> CHR ''+''" "n < 16 \<Longrightarrow> hex_digit n \<noteq> CHR ''%''"
  by (simp_all add: url_unreserved_not)

lemma url_decode_encode [simp]: "url_decode (url_encode s) = s"
proof (induction s)
  case (Cons c s)
  have "(of_char c :: nat) div 16 < 16" by simp
  moreover have "(of_char c :: nat) mod 16 < 16" by simp
  ultimately show ?case using Cons
    by (auto simp del: char_of_hex_split simp add: char_of_hex_split [of c])
qed simp

lemma url_encode_chars:
  "c \<in> set (url_encode s) \<Longrightarrow> url_unreserved c \<or> c = CHR ''+'' \<or> c = CHR ''%''"
  by (induction s) (auto split: if_splits)

lemma url_encode_free [simp]:
  "CHR ''&'' \<notin> set (url_encode s)" "CHR ''='' \<notin> set (url_encode s)"
  using url_encode_chars [of "CHR ''&''" s] url_encode_chars [of "CHR ''='' " s]
  by (auto simp: url_unreserved_def)

lemma takeWhile_append_stop:
  "\<not> P c \<Longrightarrow> \<forall>x \<in> set xs. P x \<Longrightarrow> takeWhile P (xs @ c # ys) = xs"
  by (induction xs) auto

lemma parse_pair_encoded [simp]: "parse_pair (url_encode k @ CHR ''='' # url_encode v) = (k, v)"
proof -
  have "takeWhile (\<lambda>c. c \<noteq> CHR ''='') (url_encode k @ CHR ''='' # url_encode v) = url_encode k"
    by (rule takeWhile_append_stop) auto
  then show ?thesis by (simp add: parse_pair_def)
qed

text \<open>Round trip: the parser reads back exactly the pairs \<open>URLSearchParams\<close> serialised, in
  order, duplicates and empty names or values included.\<close>

lemma parse_query_url_params [simp]: "parse_query (url_params ps) = ps"
proof (cases "ps = []")
  case False
  let ?segs = "map (\<lambda>(k, v). url_encode k @ ''='' @ url_encode v) ps"
  have "split_on CHR ''&'' (js_join [CHR ''&''] ?segs) = ?segs"
    by (rule split_on_js_join) (use False in auto)
  moreover have "filter (\<lambda>s. s \<noteq> []) ?segs = ?segs" by (auto intro: filter_True)
  ultimately show ?thesis
    by (simp add: parse_query_def url_params_def comp_def case_prod_beta)
qed (simp add: parse_query_def url_params_def)

end
