(* ===== verification/Api_Service.thy ===== *)
theory Api_Service
  imports Url_Query Venda_Data
begin

text \<open>
  The API gateway client of \<open>src/src/services/api.ts\<close>: the \<open>axios\<close> instance with its
  request interceptor (the bearer token from \<open>localStorage\<close>) and its response
  interceptor (a 401 clears the token and sends the browser to \<open>/login\<close>), the data
  types the remote API returns, and the four service objects. Each service method is a
  constructor of a call datatype, and \<open>service_request\<close> gives the request it makes.
  The remote API is not part of the repository. Its behaviour is a script: the world holds
  the list of replies the server gives, one per request, in order, and an exhausted script is
  a lost request. Every theorem about the services therefore holds for every server.
\<close>

subsection \<open>Requests and replies\<close>

definition API_BASE_URL :: string where
  "API_BASE_URL = ''https://vendas-api-production.up.railway.app/api''"

text \<open>JSON bodies as \<open>JSON.stringify\<close> writes them: \<open>undefined\<close> members are left out and
  \<open>NaN\<close> (\<open>None\<close> of a number) is \<open>null\<close>.\<close>

datatype json = JNull | JBool bool | JNum js_number | JStr string

type_synonym json_object = "(string \<times> json) list"

definition json_num :: "js_number option \<Rightarrow> json" where
  "json_num x = (case x of Some n \<Rightarrow> JNum n | None \<Rightarrow> JNull)"

definition opt_member :: "string \<Rightarrow> json option \<Rightarrow> json_object" where
  "opt_member k v = (case v of Some j \<Rightarrow> [(k, j)] | None \<Rightarrow> [])"

datatype http_method = GET | POST | PATCH | DELETE

text \<open>A request as the interceptor sees it: the path relative to \<open>API_BASE_URL\<close>, the
  \<open>Authorization\<close> header, the JSON body, and whether a \<open>blob\<close> is expected.\<close>

record api_request =
  req_method :: http_method
  req_url :: string
  req_auth :: "string option"
  req_body :: "json_object option"
  req_blob :: bool

definition request :: "http_method \<Rightarrow> string \<Rightarrow> json_object option \<Rightarrow> api_request" where
  "request m u b = \<lparr>req_method = m, req_url = u, req_auth = None, req_body = b, req_blob = False\<rparr>"

subsection \<open>The API's types (\<open>User\<close>, \<open>Produto\<close>, \<open>Venda\<close>, \<open>Dashboard\<close>)\<close>

text \<open>The members every entity has; \<open>id\<close> is \<open>ent_id\<close>.\<close>

record api_entity =
  ent_id :: int
  usuarioId :: int
  createdAt :: string
  updatedAt :: string

record produto = api_entity +
  nome :: string
  descricao :: "string option"
  preco :: string
  categoria :: "string option"
  ativo :: bool
  count_vendas :: "js_number option"

record produto_ref =
  ref_id :: int
  ref_nome :: string
  ref_categoria :: "string option"

record api_venda = api_entity +
  produtoId :: int
  quantidade :: js_number
  valorUnit :: string
  valorTotal :: string
  dataVenda :: string
  observacoes :: "string option"
  produto :: produto_ref

record resumo =
  totalVendas :: js_number
  quantidadeVendas :: js_number
  ticketMedio :: js_number

record mais_vendido =
  mv_nome :: string
  mv_categoria :: "string option"
  quantidadeVendida :: js_number
  mv_valorTotal :: string

record dashboard =
  resumoMensal :: resumo
  resumoAnual :: resumo
  produtosMaisVendidos :: "mais_vendido list"
  vendasPorCategoria :: "(string \<times> js_number \<times> js_number) list"
  vendasPorDia :: "(string \<times> js_number) list"

text \<open>\<open>response.data\<close>: a page (\<open>PaginatedResponse\<close>, whose \<open>data\<close> member may be
  missing), one entity, a list, the login answer (its \<open>access_token\<close> member), the
  dashboard, a blob, or a body of another shape.\<close>

datatype api_data =
    Page_produtos "produto list option"
  | Page_vendas "api_venda list option"
  | One_produto produto
  | List_produtos "produto list"
  | One_venda api_venda
  | List_vendas "api_venda list"
  | Auth_answer "string option"
  | Dashboard_payload dashboard
  | Blob_payload string
  | Other_payload json_object

text \<open>A rejection: no response at all, or an error status with the body's \<open>message\<close>.\<close>

datatype api_error = Api_network | Api_status nat "string option"

record app_world =
  ls_token :: "string option"
  location :: string
  today_iso :: string
  api_log :: "api_request list"
  replies :: "(api_error + api_data) list"

subsection \<open>The \<open>axios\<close> instance and its interceptors\<close>

text \<open>\<open>if (token) config.headers.Authorization = `Bearer ${token}`\<close>; the headers object
  always exists on an \<open>axios\<close> config, so the inner test always holds.\<close>

definition request_interceptor :: "string option \<Rightarrow> api_request \<Rightarrow> api_request" where
  "request_interceptor tok cfg =
     (case tok of Some t \<Rightarrow> if t \<noteq> [] then cfg\<lparr>req_auth := Some (bearer t)\<rparr> else cfg | None \<Rightarrow> cfg)"

definition response_interceptor :: "api_error \<Rightarrow> app_world \<Rightarrow> app_world" where
  "response_interceptor e w =
     (case e of Api_status n _ \<Rightarrow> if n = 401 then w\<lparr>ls_token := None, location := ''/login''\<rparr> else w
      | Api_network \<Rightarrow> w)"

text \<open>A request leaves (the request interceptor runs and reads the token) and later its
  reply arrives (the response interceptor runs). The i-th reply of the script answers the
  i-th request.\<close>

definition api_send :: "api_request \<Rightarrow> app_world \<Rightarrow> app_world" where
  "api_send cfg w = w\<lparr>api_log := api_log w @ [request_interceptor (ls_token w) cfg]\<rparr>"

definition api_receive :: "app_world \<Rightarrow> (api_error + api_data) \<times> app_world" where
  "api_receive w =
     (let r = (case replies w of [] \<Rightarrow> Inl Api_network | x # _ \<Rightarrow> x);
          w1 = w\<lparr>replies := drop 1 (replies w)\<rparr>
      in case r of Inl e \<Rightarrow> (Inl e, response_interceptor e w1) | Inr d \<Rightarrow> (Inr d, w1))"

definition api_call :: "api_request \<Rightarrow> app_world \<Rightarrow> (api_error + api_data) \<times> app_world" where
  "api_call cfg w = api_receive (api_send cfg w)"

subsection \<open>The services\<close>

definition str_param :: "string \<Rightarrow> string option \<Rightarrow> (string \<times> string) list" where
  "str_param k v = (case v of Some s \<Rightarrow> if s \<noteq> [] then [(k, s)] else [] | None \<Rightarrow> [])"

definition num_param :: "string \<Rightarrow> js_number option \<Rightarrow> (string \<times> string) list" where
  "num_param k v = (case v of Some n \<Rightarrow> if n \<noteq> 0 then [(k, num_str n)] else [] | None \<Rightarrow> [])"

datatype auth_call = Login string string | Register string string string

datatype produto_call =
    Produto_listar js_number js_number "string option"
  | Produto_criar json_object
  | Produto_atualizar int json_object
  | Produto_deletar int
  | Produto_obterPorId int
  | Produto_obterMaisVendidos js_number
  | Produto_obterPorCategoria string

datatype venda_call =
    Venda_listar js_number js_number "string option" "string option"
  | Venda_criar json_object
  | Venda_atualizar int json_object
  | Venda_deletar int
  | Venda_obterPorId int
  | Venda_obterPorPeriodo string string
  | Venda_obterResumoMensal js_number js_number

datatype export_format = Formato_json | Formato_csv

datatype relatorio_call =
    Relatorio_dashboard
  | Relatorio_comparativoMensal js_number
  | Relatorio_detalhado js_number js_number
  | Relatorio_exportar export_format "js_number option" "js_number option"

datatype service =
    Auth auth_call | Produtos produto_call | Vendas venda_call | Relatorios relatorio_call

fun auth_request :: "auth_call \<Rightarrow> api_request" where
  "auth_request (Login email senha) =
     request POST ''/auth/login'' (Some [(''email'', JStr email), (''senha'', JStr senha)])"
| "auth_request (Register n email senha) =
     request POST ''/auth/register''
       (Some [(''nome'', JStr n), (''email'', JStr email), (''senha'', JStr senha)])"

fun produto_request :: "produto_call \<Rightarrow> api_request" where
  "produto_request (Produto_listar page limit cat) =
     request GET (''/produtos?'' @ url_params ([(''page'', num_str page), (''limit'', num_str limit)]
                                             @ str_param ''categoria'' cat)) None"
| "produto_request (Produto_criar p) = request POST ''/produtos'' (Some p)"
| "produto_request (Produto_atualizar i p) = request PATCH (''/produtos/'' @ int_str i) (Some p)"
| "produto_request (Produto_deletar i) = request DELETE (''/produtos/'' @ int_str i) None"
| "produto_request (Produto_obterPorId i) = request GET (''/produtos/'' @ int_str i) None"
| "produto_request (Produto_obterMaisVendidos l) =
     request GET (''/produtos/mais-vendidos?limit='' @ num_str l) None"
| "produto_request (Produto_obterPorCategoria c) = request GET (''/produtos/categoria/'' @ c) None"

fun venda_api_request :: "venda_call \<Rightarrow> api_request" where
  "venda_api_request (Venda_listar page limit di df) =
     request GET (''/vendas?'' @ url_params ([(''page'', num_str page), (''limit'', num_str limit)]
                    @ str_param ''dataInicio'' di @ str_param ''dataFim'' df)) None"
| "venda_api_request (Venda_criar v) = request POST ''/vendas'' (Some v)"
| "venda_api_request (Venda_atualizar i v) = request PATCH (''/vendas/'' @ int_str i) (Some v)"
| "venda_api_request (Venda_deletar i) = request DELETE (''/vendas/'' @ int_str i) None"
| "venda_api_request (Venda_obterPorId i) = request GET (''/vendas/'' @ int_str i) None"
| "venda_api_request (Venda_obterPorPeriodo di df) =
     request GET (''/vendas/periodo?dataInicio='' @ di @ ''&dataFim='' @ df) None"
| "venda_api_request (Venda_obterResumoMensal m a) =
     request GET (''/vendas/resumo-mensal?mes='' @ num_str m @ ''&ano='' @ num_str a) None"

definition formato_str :: "export_format \<Rightarrow> string" where
  "formato_str f = (case f of Formato_json \<Rightarrow> ''json'' | Formato_csv \<Rightarrow> ''csv'')"

fun relatorio_request :: "relatorio_call \<Rightarrow> api_request" where
  "relatorio_request Relatorio_dashboard = request GET ''/relatorios/dashboard'' None"
| "relatorio_request (Relatorio_comparativoMensal a) =
     request GET (''/relatorios/comparativo-mensal?ano='' @ num_str a) None"
| "relatorio_request (Relatorio_detalhado m a) =
     request GET (''/relatorios/detalhado?mes='' @ num_str m @ ''&ano='' @ num_str a) None"
| "relatorio_request (Relatorio_exportar f m a) =
     (request GET (''/relatorios/exportar?'' @ url_params ([(''formato'', formato_str f)]
                    @ num_param ''mes'' m @ num_param ''ano'' a)) None)\<lparr>req_blob := True\<rparr>"

fun service_request :: "service \<Rightarrow> api_request" where
  "service_request (Auth c) = auth_request c"
| "service_request (Produtos c) = produto_request c"
| "service_request (Vendas c) = venda_api_request c"
| "service_request (Relatorios c) = relatorio_request c"

definition send :: "service \<Rightarrow> app_world \<Rightarrow> app_world" where
  "send s w = api_send (service_request s) w"

definition call :: "service \<Rightarrow> app_world \<Rightarrow> (api_error + api_data) \<times> app_world" where
  "call s w = api_call (service_request s) w"

subsection \<open>The transport\<close>

lemma service_request_auth [simp]: "req_auth (service_request s) = None"
proof -
  have "req_auth (auth_request a) = None" for a by (cases a) (simp_all add: request_def)
  moreover have "req_auth (produto_request c) = None" for c by (cases c) (simp_all add: request_def)
  moreover have "req_auth (venda_api_request c) = None" for c by (cases c) (simp_all add: request_def)
  moreover have "req_auth (relatorio_request c) = None" for c by (cases c) (simp_all add: request_def)
  ultimately show ?thesis by (cases s) simp_all
qed

lemma api_call_frame [simp]:
  "api_log (snd (api_call cfg w)) = api_log w @ [request_interceptor (ls_token w) cfg]"
  "replies (snd (api_call cfg w)) = drop 1 (replies w)"
  "today_iso (snd (api_call cfg w)) = today_iso w"
  by (auto simp: api_call_def api_send_def api_receive_def Let_def response_interceptor_def
           split: list.split sum.split api_error.split)

lemma request_interceptor_keeps [simp]:
  "req_method (request_interceptor t cfg) = req_method cfg"
  "req_url (request_interceptor t cfg) = req_url cfg"
  "req_body (request_interceptor t cfg) = req_body cfg"
  "req_blob (request_interceptor t cfg) = req_blob cfg"
  by (simp_all add: request_interceptor_def split: option.split)

lemma response_interceptor_frame [simp]:
  "api_log (response_interceptor e w) = api_log w" "replies (response_interceptor e w) = replies w"
  "today_iso (response_interceptor e w) = today_iso w"
  by (simp_all add: response_interceptor_def split: api_error.split)

lemma api_send_frame [simp]:
  "api_log (api_send cfg w) = api_log w @ [request_interceptor (ls_token w) cfg]"
  "replies (api_send cfg w) = replies w" "ls_token (api_send cfg w) = ls_token w"
  "location (api_send cfg w) = location w" "today_iso (api_send cfg w) = today_iso w"
  by (simp_all add: api_send_def)

lemma api_receive_frame [simp]:
  "api_log (snd (api_receive w)) = api_log w"
  "replies (snd (api_receive w)) = drop 1 (replies w)"
  "today_iso (snd (api_receive w)) = today_iso w"
  by (auto simp: api_receive_def Let_def response_interceptor_def
           split: list.split sum.split api_error.split)

lemma api_receive_ok: "replies w = Inr d # rs \<Longrightarrow> api_receive w = (Inr d, w\<lparr>replies := rs\<rparr>)"
  by (simp add: api_receive_def)

lemma api_receive_error:
  "replies w = Inl e # rs \<Longrightarrow> api_receive w = (Inl e, response_interceptor e (w\<lparr>replies := rs\<rparr>))"
  by (simp add: api_receive_def)

lemma api_receive_lost: "replies w = [] \<Longrightarrow> api_receive w = (Inl Api_network, w)"
  by (simp add: api_receive_def response_interceptor_def)

lemma send_frame [simp]:
  "api_log (send s w) = api_log w @ [request_interceptor (ls_token w) (service_request s)]"
  "replies (send s w) = replies w" "ls_token (send s w) = ls_token w"
  "location (send s w) = location w" "today_iso (send s w) = today_iso w"
  by (simp_all add: send_def)

lemma api_call_ok:
  "replies w = Inr d # rs \<Longrightarrow>
   api_call cfg w = (Inr d, w\<lparr>api_log := api_log w @ [request_interceptor (ls_token w) cfg], replies := rs\<rparr>)"
  by (simp add: api_call_def api_send_def api_receive_def)

lemma api_call_error:
  "replies w = Inl e # rs \<Longrightarrow>
   api_call cfg w = (Inl e, response_interceptor e
      (w\<lparr>api_log := api_log w @ [request_interceptor (ls_token w) cfg], replies := rs\<rparr>))"
  by (simp add: api_call_def api_send_def api_receive_def)

lemma api_call_lost:
  "replies w = [] \<Longrightarrow>
   api_call cfg w = (Inl Api_network, w\<lparr>api_log := api_log w @ [request_interceptor (ls_token w) cfg]\<rparr>)"
  by (simp add: api_call_def api_send_def api_receive_def response_interceptor_def)

lemma api_call_cases:
  obtains (ok) d rs where "replies w = Inr d # rs"
    "api_call cfg w = (Inr d, w\<lparr>api_log := api_log w @ [request_interceptor (ls_token w) cfg], replies := rs\<rparr>)"
  | (error) e rs where "replies w = Inl e # rs"
    "api_call cfg w = (Inl e, response_interceptor e
       (w\<lparr>api_log := api_log w @ [request_interceptor (ls_token w) cfg], replies := rs\<rparr>))"
  | (lost) "replies w = []"
    "api_call cfg w = (Inl Api_network, w\<lparr>api_log := api_log w @ [request_interceptor (ls_token w) cfg]\<rparr>)"
proof (cases "replies w")
  case Nil
  then show ?thesis using lost api_call_lost by blast
next
  case (Cons x rs)
  then show ?thesis using ok error api_call_ok api_call_error by (cases x) blast+
qed

lemma url_path_Cons [simp]: "url_path (c # s) = (if c = CHR ''?'' then [] else c # url_path s)"
  by (simp add: url_path_def)

lemma url_query_Cons [simp]: "url_query (c # s) = (if c = CHR ''?'' then s else url_query s)"
  by (simp add: url_query_def)

lemma url_encode_unreserved: "\<forall>c \<in> set s. url_unreserved c \<Longrightarrow> url_encode s = s"
  by (induction s) auto

subsection \<open>Properties\<close>

text \<open>Claim C19: the three services that build their query with \<open>URLSearchParams\<close>
  (\<open>produtoService.listar\<close>, \<open>vendaService.listar\<close>, \<open>relatorioService.exportar\<close>)
  request their endpoint's path, and the server reads back exactly the intended parameters,
  whatever text the caller passed: the optional ones only when truthy.\<close>

theorem list_queries_roundtrip:
  "url_path (req_url (service_request (Produtos (Produto_listar p l c)))) = ''/produtos''
   \<and> parse_query (url_query (req_url (service_request (Produtos (Produto_listar p l c)))))
       = [(''page'', num_str p), (''limit'', num_str l)] @ (if truthy_str c then [(''categoria'', the c)] else [])
   \<and> url_path (req_url (service_request (Vendas (Venda_listar p l di df)))) = ''/vendas''
   \<and> parse_query (url_query (req_url (service_request (Vendas (Venda_listar p l di df)))))
       = [(''page'', num_str p), (''limit'', num_str l)] @ (if truthy_str di then [(''dataInicio'', the di)] else [])
         @ (if truthy_str df then [(''dataFim'', the df)] else [])
   \<and> url_path (req_url (service_request (Relatorios (Relatorio_exportar f m a))))
       = ''/relatorios/exportar''
   \<and> parse_query (url_query (req_url (service_request (Relatorios (Relatorio_exportar f m a)))))
       = [(''formato'', formato_str f)] @ (if truthy_num m then [(''mes'', num_str (the m))] else [])
         @ (if truthy_num a then [(''ano'', num_str (the a))] else [])"
  by (simp add: request_def str_param_def num_param_def split: option.split)

lemma url_path_unreserved:
  "\<forall>c \<in> set a. url_unreserved c \<Longrightarrow> url_path (a @ xs) = a @ url_path xs"
  by (induction a) (auto simp: url_path_def url_unreserved_def)

text \<open>Claim C20: \<open>vendaService.obterPorPeriodo\<close> and \<open>produtoService.obterPorCategoria\<close>
  paste their arguments into the URL unencoded. For any texts of plain characters, a start
  date holding \<open>&dataFim=\<close> makes the server read a second \<open>dataFim\<close> (the injected one
  first), and a category holding \<open>/\<close> and \<open>?\<close> changes the path the server routes on.\<close>

theorem unencoded_urls_injectable:
  assumes "\<forall>c \<in> set x. url_unreserved c" and "\<forall>c \<in> set y. url_unreserved c"
    and "\<forall>c \<in> set z. url_unreserved c"
    and "\<forall>c \<in> set a. url_unreserved c" and "\<forall>c \<in> set b. url_unreserved c"
  shows "parse_query (url_query (req_url (service_request (Vendas (Venda_obterPorPeriodo (x @ ''&dataFim='' @ y) z)))))
           = [(''dataInicio'', x), (''dataFim'', y), (''dataFim'', z)]
    \<and> url_path (req_url (service_request (Produtos (Produto_obterPorCategoria (a @ CHR ''/'' # b @ CHR ''?'' # r)))))
           = ''/produtos/categoria/'' @ a @ CHR ''/'' # b"
proof -
  have enc: "url_encode x = x" "url_encode y = y" "url_encode z = z"
    using assms(1-3) by (simp_all add: url_encode_unreserved)
  have "url_params [(''dataInicio'', x), (''dataFim'', y), (''dataFim'', z)]
        = ''dataInicio='' @ x @ ''&dataFim='' @ y @ ''&dataFim='' @ z"
    by (simp add: url_params_def enc url_unreserved_def)
  then have q: "url_query (req_url (service_request (Vendas (Venda_obterPorPeriodo (x @ ''&dataFim='' @ y) z))))
      = url_params [(''dataInicio'', x), (''dataFim'', y), (''dataFim'', z)]"
    by (simp add: request_def url_query_def url_path_def)
  have "\<forall>c \<in> set (''/produtos/categoria/'' @ a @ CHR ''/'' # b). c \<noteq> CHR ''?''"
    using assms(4,5) by (auto simp: url_unreserved_def)
  then have "url_path ((''/produtos/categoria/'' @ a @ CHR ''/'' # b) @ CHR ''?'' # r)
      = ''/produtos/categoria/'' @ a @ CHR ''/'' # b"
    unfolding url_path_def by (rule takeWhile_append_stop [rotated]) simp
  then show ?thesis using q by (simp add: request_def)
qed

text \<open>Claim C32: when both dates consist of unreserved characters (an ISO date such as
  \<open>2024-01-31\<close> does), \<open>obterPorPeriodo\<close>'s hand-built query is the one
  \<open>URLSearchParams\<close> would build, and the server reads exactly the two dates.\<close>

theorem periodo_query_safe:
  assumes "\<forall>c \<in> set di. url_unreserved c" and "\<forall>c \<in> set df. url_unreserved c"
  shows "url_path (req_url (service_request (Vendas (Venda_obterPorPeriodo di df)))) = ''/vendas/periodo''
    \<and> parse_query (url_query (req_url (service_request (Vendas (Venda_obterPorPeriodo di df)))))
        = [(''dataInicio'', di), (''dataFim'', df)]"
proof -
  have enc: "url_encode di = di" "url_encode df = df"
    using assms by (simp_all add: url_encode_unreserved)
  have "url_params [(''dataInicio'', di), (''dataFim'', df)] = ''dataInicio='' @ di @ ''&dataFim='' @ df"
    by (simp add: url_params_def enc url_unreserved_def)
  then have "url_query (req_url (service_request (Vendas (Venda_obterPorPeriodo di df))))
      = url_params [(''dataInicio'', di), (''dataFim'', df)]"
    by (simp add: request_def)
  moreover have "url_path (di @ xs) = di @ url_path xs" for xs
    using url_path_unreserved [OF assms(1)] .
  ultimately show ?thesis by (simp add: request_def)
qed

text \<open>Claim C22: every service request leaves with \<open>Authorization: Bearer <token>\<close> exactly
  when \<open>localStorage\<close> holds a non-empty token, and is otherwise sent as the service built
  it; one request is logged per call and one server reply is consumed.\<close>

theorem call_sends_bearer:
  "api_log (snd (call s w)) = api_log w @
     [(service_request s)\<lparr>req_auth := (case ls_token w of
         Some t \<Rightarrow> if t \<noteq> [] then Some (bearer t) else None | None \<Rightarrow> None)\<rparr>]
   \<and> replies (snd (call s w)) = drop 1 (replies w)"
proof -
  have "request_interceptor tok (service_request s) = (service_request s)\<lparr>req_auth := (case tok of
         Some t \<Rightarrow> if t \<noteq> [] then Some (bearer t) else None | None \<Rightarrow> None)\<rparr>" for tok
    using service_request_auth [of s]
    by (auto simp: request_interceptor_def split: option.split)
  then show ?thesis by (simp add: call_def)
qed

text \<open>Claim C23: a rejection with an HTTP status reaches the caller unchanged; the response
  interceptor clears the token and navigates to \<open>/login\<close> exactly when the status is 401,
  and leaves both alone for every other status.\<close>

theorem call_rejected_status:
  assumes "replies w = Inl (Api_status n m) # rs"
  shows "fst (call s w) = Inl (Api_status n m) \<and> replies (snd (call s w)) = rs
    \<and> ls_token (snd (call s w)) = (if n = 401 then None else ls_token w)
    \<and> location (snd (call s w)) = (if n = 401 then ''/login'' else location w)"
  using assms by (simp add: call_def api_call_error response_interceptor_def)

text \<open>A well-formed request: a path relative to the base URL, no header before the
  interceptor, a JSON body exactly for \<open>POST\<close> and \<open>PATCH\<close>, and a \<open>blob\<close> only for a
  \<open>GET\<close>.\<close>

definition wf_request :: "api_request \<Rightarrow> bool" where
  "wf_request r \<longleftrightarrow> take 1 (req_url r) = ''/'' \<and> req_auth r = None
     \<and> (req_body r \<noteq> None \<longleftrightarrow> req_method r = POST \<or> req_method r = PATCH)
     \<and> (req_blob r \<longrightarrow> req_method r = GET)"

text \<open>Claim C29: every method of the four service objects builds a well-formed request.\<close>

theorem service_request_wf: "wf_request (service_request s)"
proof -
  have "wf_request (auth_request a)" for a by (cases a) (simp_all add: wf_request_def request_def)
  moreover have "wf_request (produto_request c)" for c by (cases c) (simp_all add: wf_request_def request_def)
  moreover have "wf_request (venda_api_request c)" for c by (cases c) (simp_all add: wf_request_def request_def)
  moreover have "wf_request (relatorio_request c)" for c by (cases c) (simp_all add: wf_request_def request_def)
  ultimately show ?thesis by (cases s) simp_all
qed

subsection \<open>Witnesses\<close>

definition demo_app_world :: app_world where
  "demo_app_world = \<lparr>ls_token = Some ''t'', location = ''/vendas'', today_iso = ''2024-05-10T12:00:00.000Z'',
     api_log = [], replies = []\<rparr>"

theorem periodo_query_safe_witness:
  "list_all url_unreserved ''2024-01-01'' \<and> list_all url_unreserved ''2024-01-31''
   \<and> parse_query (url_query (req_url (service_request
        (Vendas (Venda_obterPorPeriodo ''2024-01-01'' ''2024-01-31'')))))
       = [(''dataInicio'', ''2024-01-01''), (''dataFim'', ''2024-01-31'')]"
proof -
  have h: "list_all url_unreserved ''2024-01-01''" "list_all url_unreserved ''2024-01-31''"
    by (simp_all add: url_unreserved_def)
  show ?thesis
    using periodo_query_safe [OF h [unfolded list_all_iff]] h by simp
qed

theorem call_rejected_status_witness:
  "replies (demo_app_world\<lparr>replies := [Inl (Api_status 401 None)]\<rparr>) = [Inl (Api_status 401 None)]
   \<and> ls_token (snd (call (Relatorios Relatorio_dashboard) (demo_app_world\<lparr>replies := [Inl (Api_status 401 None)]\<rparr>))) = None
   \<and> location (snd (call (Relatorios Relatorio_dashboard) (demo_app_world\<lparr>replies := [Inl (Api_status 401 None)]\<rparr>))) = ''/login''"
proof -
  have h: "replies (demo_app_world\<lparr>replies := [Inl (Api_status 401 None)]\<rparr>) = Inl (Api_status 401 None) # []"
    by simp
  show ?thesis using call_rejected_status [OF h, of "Relatorios Relatorio_dashboard"] by simp
qed

theorem service_request_wf_witness:
  "wf_request (service_request (Relatorios (Relatorio_exportar Formato_csv None None)))
   \<and> req_blob (service_request (Relatorios (Relatorio_exportar Formato_csv None None)))"
  using service_request_wf [of "Relatorios (Relatorio_exportar Formato_csv None None)"]
  by (simp add: request_def)


text \<open>The injection at work: a start date carrying \<open>&dataFim=2099-12-31\<close> and a
  category \<open>a/b?x=1\<close>.\<close>

theorem unencoded_urls_injectable_witness:
  "parse_query (url_query (req_url (service_request
      (Vendas (Venda_obterPorPeriodo (''2024-01-01'' @ ''&dataFim='' @ ''2099-12-31'') ''2024-01-31'')))))
     = [(''dataInicio'', ''2024-01-01''), (''dataFim'', ''2099-12-31''), (''dataFim'', ''2024-01-31'')]
   \<and> url_path (req_url (service_request (Produtos (Produto_obterPorCategoria (''a'' @ CHR ''/'' # ''b'' @ CHR ''?'' # ''x=1'')))))
     = ''/produtos/categoria/a/b''"
proof -
  have u: "\<forall>c \<in> set ''2024-01-01''. url_unreserved c" "\<forall>c \<in> set ''2099-12-31''. url_unreserved c"
    "\<forall>c \<in> set ''2024-01-31''. url_unreserved c" "\<forall>c \<in> set ''a''. url_unreserved c"
    "\<forall>c \<in> set ''b''. url_unreserved c"
    by (simp_all add: url_unreserved_def)
  show ?thesis using unencoded_urls_injectable [OF u, of "''x=1''"] by simp
qed

end
