(* ===== verification/Intl_Format.thy ===== *)
theory Intl_Format
  imports Prelude
begin

text \<open>
  \<open>new Intl.NumberFormat('pt-BR', {style: 'currency', currency: 'BRL'}).format(x)\<close>, the
  currency text of the dashboard, the sales page and the products page: an optional minus,
  \<open>R$\<close>, a no-break space (U+00A0), the integer part grouped by thousands with \<open>.\<close>, a
  decimal comma and exactly two fraction digits, rounded half away from zero (ECMA-402's
  default \<open>halfExpand\<close>); \<open>NaN\<close> gives \<open>R$ NaN\<close>. Numbers are the exact rationals of
  \<open>Prelude\<close>, so the rounding of the decimal value of a double is not modelled. The reader
  \<open>read_brl\<close> is the reference the text is checked against.
\<close>

text \<open>Thousands grouping, applied to the reversed digits: a separator after every third
  digit that has more digits after it.\<close>

fun group3 :: "string \<Rightarrow> string" where
  "group3 (a # b # c # d # rest) = a # b # c # CHR ''.'' # group3 (d # rest)"
| "group3 xs = xs"

definition group_thousands :: "string \<Rightarrow> string" where
  "group_thousands s = rev (group3 (rev s))"

definition brl_cents :: "js_number \<Rightarrow> nat" where
  "brl_cents x = nat \<lfloor>\<bar>x\<bar> * 100 + 1/2\<rfloor>"

definition brl_prefix :: string where
  "brl_prefix = ''R$'' @ [CHR 0xA0]"

definition intl_brl :: "js_number option \<Rightarrow> string" where
  "intl_brl v =
     (case v of
        None \<Rightarrow> brl_prefix @ ''NaN''
      | Some x \<Rightarrow>
          (if x < 0 then ''-'' else []) @ brl_prefix @ group_thousands (nat_str (brl_cents x div 100))
          @ CHR '','' # pad_left 2 (nat_str (brl_cents x mod 100)))"

text \<open>Reading a currency text back: sign, prefix, the integer digits with their separators
  dropped, the comma and two digits.\<close>

definition read_brl :: "string \<Rightarrow> js_number option" where
  "read_brl t =
     (let (neg, t1) = (if take 1 t = ''-'' then (True, drop 1 t) else (False, t)) in
      if take 3 t1 \<noteq> brl_prefix then None
      else
        (let body = drop 3 t1; ip = takeWhile (\<lambda>c. c \<noteq> CHR '','') body;
             fp = dropWhile (\<lambda>c. c \<noteq> CHR '','') body; ds = filter (\<lambda>c. c \<noteq> CHR ''.'') ip
         in if fp = [] \<or> ds = [] \<or> \<not> list_all is_digit ds \<or> length (tl fp) \<noteq> 2 \<or> \<not> list_all is_digit (tl fp)
            then None
            else Some ((if neg then -1 else 1) * (of_nat (nat_of_digits ds) + of_nat (nat_of_digits (tl fp)) / 100))))"

subsection \<open>Calendar dates\<close>

text \<open>Proleptic Gregorian dates as (year, month, day), the calendar of ECMAScript's
  \<open>MakeDay\<close>; days are stepped one at a time, and a shift by \<open>k\<close> days iterates the step.\<close>

type_synonym ymd = "int \<times> nat \<times> nat"

definition leap_year :: "int \<Rightarrow> bool" where
  "leap_year y \<longleftrightarrow> y mod 4 = 0 \<and> (y mod 100 \<noteq> 0 \<or> y mod 400 = 0)"

definition days_in_month :: "int \<Rightarrow> nat \<Rightarrow> nat" where
  "days_in_month y m =
     (if m = 2 then (if leap_year y then 29 else 28)
      else if m = 4 \<or> m = 6 \<or> m = 9 \<or> m = 11 then 30 else 31)"

definition valid_ymd :: "ymd \<Rightarrow> bool" where
  "valid_ymd dt = (case dt of (y, m, d) \<Rightarrow> 1 \<le> m \<and> m \<le> 12 \<and> 1 \<le> d \<and> d \<le> days_in_month y m)"

definition next_day :: "ymd \<Rightarrow> ymd" where
  "next_day dt = (case dt of (y, m, d) \<Rightarrow>
     if d < days_in_month y m then (y, m, Suc d) else if m < 12 then (y, Suc m, 1) else (y + 1, 1, 1))"

definition prev_day :: "ymd \<Rightarrow> ymd" where
  "prev_day dt = (case dt of (y, m, d) \<Rightarrow>
     if 1 < d then (y, m, d - 1) else if 1 < m then (y, m - 1, days_in_month y (m - 1)) else (y - 1, 12, 31))"

definition shift_days :: "int \<Rightarrow> ymd \<Rightarrow> ymd" where
  "shift_days k dt = (if 0 \<le> k then (next_day ^^ nat k) dt else (prev_day ^^ nat (- k)) dt)"

subsection \<open>\<open>new Date(s)\<close>: the date-time string format\<close>

text \<open>ECMA-262's date-time string format \<open>YYYY-MM-DD\<close> optionally followed by
  \<open>THH:mm\<close>, \<open>:ss\<close>, \<open>.sss\<close> and a zone \<open>Z\<close> or \<open>+HH:mm\<close>/\<open>-HH:mm\<close>. A date-only
  form is UTC, a date-time form without zone is local time. The day may be any of 01 to 31:
  \<open>MakeDay\<close> carries an overflowing day into the next month. A string outside the format
  goes to the engine's own heuristics, the parameter \<open>fallback\<close> (\<open>None\<close> is an invalid
  date). The local time zone is a fixed offset \<open>tz\<close> in minutes east of UTC (-180 in
  Brasilia). Zone offsets are whole minutes, so seconds and milliseconds never move the
  calendar date, and a time value is kept as its UTC date and minute of the day.\<close>

definition digits_n :: "nat \<Rightarrow> string \<Rightarrow> nat option" where
  "digits_n n s = (if length s = n \<and> list_all is_digit s then Some (nat_of_digits s) else None)"

definition iso_date_fields :: "string \<Rightarrow> ymd option" where
  "iso_date_fields s =
     (if length s = 10 \<and> s ! 4 = CHR ''-'' \<and> s ! 7 = CHR ''-'' then
        (case (digits_n 4 (take 4 s), digits_n 2 (take 2 (drop 5 s)), digits_n 2 (drop 8 s)) of
           (Some y, Some m, Some d) \<Rightarrow>
             if 1 \<le> m \<and> m \<le> 12 \<and> 1 \<le> d \<and> d \<le> 31 then Some (int y, m, d) else None
         | _ \<Rightarrow> None)
      else None)"

text \<open>The optional seconds and milliseconds after \<open>HH:mm\<close>; the rest is the zone.\<close>

definition iso_seconds :: "string \<Rightarrow> (nat \<times> nat \<times> string) option" where
  "iso_seconds r =
     (if take 1 r = '':'' then
        (case digits_n 2 (take 2 (drop 1 r)) of
           None \<Rightarrow> None
         | Some ss \<Rightarrow>
             if take 1 (drop 3 r) = ''.'' then
               (case digits_n 3 (take 3 (drop 4 r)) of None \<Rightarrow> None | Some ms \<Rightarrow> Some (ss, ms, drop 7 r))
             else Some (ss, 0, drop 3 r))
      else Some (0, 0, r))"

text \<open>The zone: \<open>None\<close> when absent (local time), else its offset in minutes.\<close>

definition iso_zone :: "string \<Rightarrow> int option option" where
  "iso_zone z =
     (if z = [] then Some None
      else if z = ''Z'' then Some (Some 0)
      else if length z = 6 \<and> (z ! 0 = CHR ''+'' \<or> z ! 0 = CHR ''-'') \<and> z ! 3 = CHR '':'' then
        (case (digits_n 2 (take 2 (drop 1 z)), digits_n 2 (drop 4 z)) of
           (Some hh, Some mm) \<Rightarrow>
             if hh \<le> 23 \<and> mm \<le> 59
             then Some (Some ((if z ! 0 = CHR ''-'' then -1 else 1) * int (hh * 60 + mm))) else None
         | _ \<Rightarrow> None)
      else None)"

text \<open>The time after \<open>T\<close>: its minute of the day (1440 for \<open>24:00\<close>) and its zone.\<close>

definition iso_time :: "string \<Rightarrow> (nat \<times> int option) option" where
  "iso_time t =
     (if 5 \<le> length t \<and> t ! 2 = CHR '':'' then
        (case (digits_n 2 (take 2 t), digits_n 2 (take 2 (drop 3 t)), iso_seconds (drop 5 t)) of
           (Some hh, Some mm, Some (ss, ms, z)) \<Rightarrow>
             if (hh < 24 \<or> (hh = 24 \<and> mm = 0 \<and> ss = 0 \<and> ms = 0)) \<and> mm \<le> 59 \<and> ss \<le> 59
             then map_option (\<lambda>off. (hh * 60 + mm, off)) (iso_zone z) else None
         | _ \<Rightarrow> None)
      else None)"

text \<open>A string of the format as its UTC date (before carrying the day over) and its UTC
  minute relative to that date's midnight.\<close>

definition iso_parse :: "int \<Rightarrow> string \<Rightarrow> (ymd \<times> int) option" where
  "iso_parse tz s =
     (case iso_date_fields (take 10 s) of
        None \<Rightarrow> None
      | Some dt \<Rightarrow>
          if length s = 10 then Some (dt, 0)
          else if s ! 10 = CHR ''T'' then
            (case iso_time (drop 11 s) of
               None \<Rightarrow> None
             | Some (mi, off) \<Rightarrow> Some (dt, int mi - (case off of None \<Rightarrow> tz | Some zo \<Rightarrow> zo)))
          else None)"

definition date_parse :: "(string \<Rightarrow> (ymd \<times> nat) option) \<Rightarrow> int \<Rightarrow> string \<Rightarrow> (ymd \<times> nat) option" where
  "date_parse fallback tz s =
     (case iso_parse tz s of
        Some ((y, m, d), mi) \<Rightarrow> Some (shift_days (mi div 1440) (shift_days (int d - 1) (y, m, 1)), nat (mi mod 1440))
      | None \<Rightarrow> fallback s)"

subsection \<open>\<open>toLocaleDateString('pt-BR')\<close>\<close>

text \<open>The local calendar date of a time value, and its pt-BR numeric text \<open>dd/MM/y\<close>
  (years before 1, written with an era by the locale, are not modelled).\<close>

definition local_date :: "int \<Rightarrow> ymd \<times> nat \<Rightarrow> ymd" where
  "local_date tz v = (case v of (dt, mi) \<Rightarrow> shift_days ((int mi + tz) div 1440) dt)"

definition pt_br_date :: "ymd \<Rightarrow> string" where
  "pt_br_date dt = (case dt of (y, m, d) \<Rightarrow>
     pad_left 2 (nat_str d) @ ''/'' @ pad_left 2 (nat_str m) @ ''/'' @ int_str y)"

definition locale_date_string :: "int \<Rightarrow> (ymd \<times> nat) option \<Rightarrow> string" where
  "locale_date_string tz v = (case v of None \<Rightarrow> ''Invalid Date'' | Some t \<Rightarrow> pt_br_date (local_date tz t))"

text \<open>The day of the week (0 is Sunday) by Sakamoto's rule on the proleptic calendar,
  and its long pt-BR name; \<open>{weekday: 'long', day: '2-digit', month: '2-digit'}\<close> gives
  \<open>"<weekday>, dd/MM"\<close>.\<close>

definition year_shift :: "int \<Rightarrow> int" where
  "year_shift z = z + z div 4 - z div 100 + z div 400"

definition week_base :: "int \<Rightarrow> nat \<Rightarrow> int" where
  "week_base y m =
     year_shift (if m < 3 then y - 1 else y) + int ([0, 3, 2, 5, 0, 3, 5, 1, 4, 6, 2, 4] ! (m - 1))"

definition week_day :: "ymd \<Rightarrow> nat" where
  "week_day dt = (case dt of (y, m, d) \<Rightarrow> nat ((week_base y m + int d) mod 7))"

definition weekday_long_pt :: "nat \<Rightarrow> string" where
  "weekday_long_pt n = [''domingo'', ''segunda-feira'', ''ter'' @ CHR 0xE7 # ''a-feira'', ''quarta-feira'',
                        ''quinta-feira'', ''sexta-feira'', ''s'' @ CHR 0xE1 # ''bado''] ! n"

definition pt_br_weekday_day_month :: "ymd \<Rightarrow> string" where
  "pt_br_weekday_day_month dt = (case dt of (y, m, d) \<Rightarrow>
     weekday_long_pt (week_day dt) @ '', '' @ pad_left 2 (nat_str d) @ ''/'' @ pad_left 2 (nat_str m))"

text \<open>The \<open>YYYY-MM-DD\<close> text \<open>toISOString().split('T')[0]\<close> gives for a date.\<close>

definition iso_ymd :: "ymd \<Rightarrow> string" where
  "iso_ymd dt = (case dt of (y, m, d) \<Rightarrow>
     pad_left 4 (nat_str (nat y)) @ ''-'' @ pad_left 2 (nat_str m) @ ''-'' @ pad_left 2 (nat_str d))"

subsection \<open>Lemmas\<close>

subsubsection \<open>Currency\<close>

lemma group3_filter: "CHR ''.'' \<notin> set xs \<Longrightarrow> filter (\<lambda>c. c \<noteq> CHR ''.'') (group3 xs) = xs"
  by (induction xs rule: group3.induct) auto

lemma group3_set: "set (group3 xs) \<subseteq> insert (CHR ''.'') (set xs)"
  by (induction xs rule: group3.induct) auto

lemma group_thousands_filter:
  "CHR ''.'' \<notin> set s \<Longrightarrow> filter (\<lambda>c. c \<noteq> CHR ''.'') (group_thousands s) = s"
  by (simp add: group_thousands_def rev_filter [symmetric] group3_filter)

lemma group_thousands_set: "set (group_thousands s) \<subseteq> insert (CHR ''.'') (set s)"
  using group3_set [of "rev s"] by (simp add: group_thousands_def)

lemma digit_not_punct [simp]: "is_digit c \<Longrightarrow> c \<noteq> CHR ''.''" "is_digit c \<Longrightarrow> c \<noteq> CHR '',''"
  by (auto simp: is_digit_def)

lemma nat_of_digits_pad: "nat_of_digits (pad_left k (nat_str m)) = m"
  by (simp add: pad_left_def)

text \<open>The rounded amount is within half a cent of the value.\<close>

lemma brl_cents_bound: "\<bar>of_nat (brl_cents x) / 100 - \<bar>x\<bar>\<bar> \<le> 1 / 200"
proof -
  let ?y = "\<bar>x\<bar> * 100 + 1/2"
  have nn: "0 \<le> \<lfloor>?y\<rfloor>" by simp
  have c: "of_nat (brl_cents x) = (of_int \<lfloor>?y\<rfloor> :: rat)" using nn by (simp add: brl_cents_def)
  define f where "f = (of_int \<lfloor>?y\<rfloor> :: rat)"
  have "f \<le> ?y" "?y < f + 1" unfolding f_def by linarith+
  then have "f / 100 - \<bar>x\<bar> \<le> 1 / 200" "- (1 / 200) \<le> f / 100 - \<bar>x\<bar>" by linarith+
  then have "\<bar>f / 100 - \<bar>x\<bar>\<bar> \<le> 1 / 200" by (simp only: abs_le_iff) simp
  then show ?thesis unfolding c f_def .
qed

lemma group_thousands_no_comma: "CHR '','' \<notin> set (group_thousands (nat_str n))"
proof
  assume "CHR '','' \<in> set (group_thousands (nat_str n))"
  then have "CHR '','' \<in> set (nat_str n)" using group_thousands_set by fastforce
  then show False using nat_str_digits digit_not_punct(2) by blast
qed

lemma brl_prefix_len [simp]: "length brl_prefix = 3"
  by (simp add: brl_prefix_def)

text \<open>The reader inverts a currency text built from an amount of whole units and cents.\<close>

lemma read_brl_text:
  assumes "c < 100"
  shows "read_brl ((if neg then ''-'' else []) @ brl_prefix @ group_thousands (nat_str u)
                   @ CHR '','' # pad_left 2 (nat_str c))
         = Some ((if neg then -1 else 1) * (of_nat u + of_nat c / 100))"
proof -
  let ?g = "group_thousands (nat_str u)" and ?f = "pad_left 2 (nat_str c)"
  let ?body = "?g @ CHR '','' # ?f"
  have nc: "\<forall>x\<in>set ?g. x \<noteq> CHR '',''" using group_thousands_no_comma by blast
  have tw: "takeWhile (\<lambda>c. c \<noteq> CHR '','') ?body = ?g"
    using nc by (simp add: takeWhile_append2)
  have dw: "dropWhile (\<lambda>c. c \<noteq> CHR '','') ?body = CHR '','' # ?f"
    using nc by (simp add: dropWhile_append2)
  have nodot: "CHR ''.'' \<notin> set (nat_str u)" using nat_str_digits by fastforce
  have fl: "filter (\<lambda>c. c \<noteq> CHR ''.'') ?g = nat_str u"
    using group_thousands_filter [OF nodot] .
  have dg: "list_all is_digit (nat_str u)" "list_all is_digit ?f"
    using nat_str_digits pad_left_digits by (auto simp: list_all_iff)
  have len: "length ?f = 2" using pad_left_2_length [OF assms] .
  have pre: "take 3 (brl_prefix @ ?body) = brl_prefix" "drop 3 (brl_prefix @ ?body) = ?body"
    by simp_all
  have sign: "(if take 1 ((if neg then ''-'' else []) @ brl_prefix @ ?body) = ''-''
               then (True, drop 1 ((if neg then ''-'' else []) @ brl_prefix @ ?body))
               else (False, (if neg then ''-'' else []) @ brl_prefix @ ?body))
             = (neg, brl_prefix @ ?body)"
    by (simp add: brl_prefix_def)
  show ?thesis
    unfolding read_brl_def sign Let_def split_beta fst_conv snd_conv pre tw dw fl
    using dg len by (simp add: nat_of_digits_pad)
qed

lemma brl_cents_split: "of_nat (brl_cents x div 100) + of_nat (brl_cents x mod 100) / 100
    = (of_nat (brl_cents x) / 100 :: rat)"
proof -
  have e: "brl_cents x = 100 * (brl_cents x div 100) + brl_cents x mod 100" by simp
  have "(of_nat (brl_cents x) :: rat) = 100 * of_nat (brl_cents x div 100) + of_nat (brl_cents x mod 100)"
    using arg_cong [OF e, of "of_nat :: nat \<Rightarrow> rat"] by (simp only: of_nat_add of_nat_mult of_nat_numeral)
  then show ?thesis by (simp add: field_simps)
qed

lemma read_brl_intl_brl:
  "read_brl (intl_brl (Some x)) = Some ((if x < 0 then -1 else 1) * of_nat (brl_cents x) / 100)"
  using read_brl_text [of "brl_cents x mod 100" "x < 0" "brl_cents x div 100"]
  by (simp add: intl_brl_def brl_cents_split)

lemma brl_signed_bound: "\<bar>(if x < 0 then -1 else 1) * of_nat (brl_cents x) / 100 - x\<bar> \<le> 1 / 200"
proof -
  have "\<bar>(if x < 0 then -1 else 1) * of_nat (brl_cents x) / 100 - x\<bar> = \<bar>of_nat (brl_cents x) / 100 - \<bar>x\<bar>\<bar>"
  proof (cases "x < 0")
    case True
    then have "(if x < 0 then -1 else 1) * of_nat (brl_cents x) / 100 - x = - (of_nat (brl_cents x) / 100 - \<bar>x\<bar>)"
      by simp
    then show ?thesis by (simp only: abs_minus_cancel)
  next
    case False
    then show ?thesis by simp
  qed
  then show ?thesis using brl_cents_bound [of x] by simp
qed

lemma read_brl_nan: "read_brl (intl_brl None) = None"
  by (simp add: intl_brl_def read_brl_def brl_prefix_def)

text \<open>The currency text and \<open>toFixed(2)\<close>, which the report page prints, round alike:
  both read back as the same amount.\<close>

lemma to_fixed_2_brl:
  "to_fixed 2 x = (if x < 0 then ''-'' else []) @ nat_str (brl_cents x div 100)
     @ CHR ''.'' # pad_left 2 (nat_str (brl_cents x mod 100))"
  by (simp add: to_fixed_def brl_cents_def Let_def)

lemma parse_float_to_fixed_2:
  "parse_float (to_fixed 2 x) = Some ((if x < 0 then -1 else 1) * of_nat (brl_cents x) / 100)"
proof -
  let ?n = "brl_cents x"
  let ?fp = "pad_left 2 (nat_str (?n mod 100))"
  have fl: "length ?fp = 2" by (simp add: pad_left_2_length)
  have fv: "frac_value ?fp = of_nat (?n mod 100) / 100"
    unfolding frac_value_def fl by (simp add: nat_of_digits_pad)
  have val: "of_nat (?n div 100) + frac_value ?fp = (of_nat ?n / 100 :: rat)"
    unfolding fv by (rule brl_cents_split)
  have dig: "\<forall>x \<in> set (nat_str (?n div 100)). is_digit x" "\<forall>x \<in> set ?fp. is_digit x"
    using nat_str_digits pad_left_digits by blast+
  have dw: "dropWhile js_space (nat_str k @ r) = nat_str k @ r" for k r
    using nat_str_hd_digit [of k] by (cases "nat_str k") simp_all
  show ?thesis
  proof (cases "x < 0")
    case True
    then show ?thesis using decimal_prefix_point(2) [OF nat_str_nonempty dig] val
      by (simp add: to_fixed_2_brl parse_float_def js_space_def)
  next
    case False
    then show ?thesis using decimal_prefix_point(1) [OF nat_str_nonempty dig] val dw
      by (simp add: to_fixed_2_brl parse_float_def)
  qed
qed

lemma read_brl_to_fixed: "read_brl (intl_brl (Some x)) = parse_float (to_fixed 2 x)"
  by (simp add: read_brl_intl_brl parse_float_to_fixed_2)
subsubsection \<open>Calendar steps\<close>

lemma days_in_month_bounds: "28 \<le> days_in_month y m" "days_in_month y m \<le> 31" "Suc 0 \<le> days_in_month y m"
  by (simp_all add: days_in_month_def)

lemma next_day_pow_first:
  "k < days_in_month y m \<Longrightarrow> (next_day ^^ k) (y, m, 1) = (y, m, Suc k)"
  by (induction k) (simp_all add: next_day_def)

lemma shift_days_zero [simp]: "shift_days 0 dt = dt"
  by (simp add: shift_days_def)

lemma shift_days_minus_one [simp]: "shift_days (-1) dt = prev_day dt"
  by (simp add: shift_days_def)

lemma shift_days_one [simp]: "shift_days 1 dt = next_day dt"
  by (simp add: shift_days_def)

lemma shift_days_first:
  "valid_ymd (y, m, d) \<Longrightarrow> shift_days (int d - 1) (y, m, 1) = (y, m, d)"
proof -
  assume v: "valid_ymd (y, m, d)"
  then have "d - 1 < days_in_month y m" "1 \<le> d" by (auto simp: valid_ymd_def)
  then show ?thesis
    using next_day_pow_first [of "d - 1" y m] by (simp add: shift_days_def nat_diff_distrib)
qed

lemma valid_next_day: "valid_ymd (y, m, d) \<Longrightarrow> valid_ymd (next_day (y, m, d))"
  using days_in_month_bounds [of y] days_in_month_bounds [of "y + 1"]
  by (simp add: valid_ymd_def next_day_def)

lemma valid_prev_day:
  assumes "valid_ymd (y, m, d)"
  shows "valid_ymd (prev_day (y, m, d))"
proof -
  have v: "1 \<le> m" "m \<le> 12" "1 \<le> d" "d \<le> days_in_month y m" using assms by (simp_all add: valid_ymd_def)
  consider "1 < d" | "d = 1" "1 < m" | "d = 1" "m = 1"
    using v by linarith
  then show ?thesis
  proof cases
    case 1
    then have "1 \<le> d - 1" "d - 1 \<le> days_in_month y m" using v by linarith+
    then show ?thesis using 1 v by (simp add: valid_ymd_def prev_day_def)
  next
    case 2
    then have "1 \<le> m - 1" "m - 1 \<le> 12" using v by linarith+
    then show ?thesis using 2 days_in_month_bounds [of y "m - 1"] by (simp add: valid_ymd_def prev_day_def)
  next
    case 3
    then show ?thesis by (simp add: valid_ymd_def prev_day_def days_in_month_def)
  qed
qed

lemma prev_next_day:
  assumes "valid_ymd (y, m, d)"
  shows "prev_day (next_day (y, m, d)) = (y, m, d)"
proof -
  have v: "1 \<le> m" "m \<le> 12" "1 \<le> d" "d \<le> days_in_month y m" using assms by (simp_all add: valid_ymd_def)
  consider "d < days_in_month y m" | "d = days_in_month y m" "m < 12" | "d = days_in_month y m" "m = 12"
    using v by linarith
  then show ?thesis
  proof cases
    case 1
    then show ?thesis using v by (simp add: next_day_def prev_day_def)
  next
    case 2
    then have "0 < m" using v by linarith
    then show ?thesis using 2 by (simp add: next_day_def prev_day_def)
  next
    case 3
    then show ?thesis by (simp add: next_day_def prev_day_def days_in_month_def)
  qed
qed

lemma next_prev_day:
  assumes "valid_ymd (y, m, d)"
  shows "next_day (prev_day (y, m, d)) = (y, m, d)"
proof -
  have v: "1 \<le> m" "m \<le> 12" "1 \<le> d" "d \<le> days_in_month y m" using assms by (simp_all add: valid_ymd_def)
  consider "1 < d" | "d = 1" "1 < m" | "d = 1" "m = 1"
    using v by linarith
  then show ?thesis
  proof cases
    case 1
    then have "d - 1 < days_in_month y m" using v by linarith
    then show ?thesis using 1 by (simp add: next_day_def prev_day_def)
  next
    case 2
    then have "m - 1 < 12" "Suc (m - 1) = m" using v by linarith+
    then show ?thesis using 2 by (simp add: next_day_def prev_day_def)
  next
    case 3
    then show ?thesis by (simp add: next_day_def prev_day_def days_in_month_def)
  qed
qed

subsubsection \<open>Fixed-width fields\<close>

lemma nat_str_length_pow: "n < 10 ^ k \<Longrightarrow> 0 < k \<Longrightarrow> length (nat_str n) \<le> k"
proof (induction k arbitrary: n)
  case 0
  then show ?case by simp
next
  case (Suc j)
  show ?case
  proof (cases "n < 10")
    case True
    then show ?thesis by (subst nat_str.simps) simp
  next
    case False
    have "n < 10 ^ j * 10" using Suc.prems(1) by (simp add: mult.commute)
    then have "n div 10 < 10 ^ j" by (rule less_mult_imp_div_less)
    moreover have "0 < j" using False Suc.prems(1) by (cases j) auto
    ultimately have "length (nat_str (n div 10)) \<le> j" using Suc.IH by blast
    then show ?thesis using False by (subst nat_str.simps) simp
  qed
qed

lemma digits_n_pad: "n < 10 ^ k \<Longrightarrow> 0 < k \<Longrightarrow> digits_n k (pad_left k (nat_str n)) = Some n"
  using nat_str_length_pow [of n k] pad_left_digits [of _ k n]
  by (simp add: digits_n_def pad_left_def nat_of_digits_pad list_all_iff)

lemma pad_left_length: "n < 10 ^ k \<Longrightarrow> 0 < k \<Longrightarrow> length (pad_left k (nat_str n)) = k"
  using nat_str_length_pow [of n k] by (simp add: pad_left_def)

subsubsection \<open>Reading a \<open>YYYY-MM-DD\<close> date\<close>

lemma iso_ymd_length: "valid_ymd (y, m, d) \<Longrightarrow> y \<le> 9999 \<Longrightarrow> length (iso_ymd (y, m, d)) = 10"
  using pad_left_length [of "nat y" 4] pad_left_length [of m 2] pad_left_length [of d 2]
    days_in_month_bounds(2) [of y m] by (simp add: valid_ymd_def iso_ymd_def)

lemma iso_date_fields_ymd:
  assumes "valid_ymd (y, m, d)" "0 \<le> y" "y \<le> 9999"
  shows "iso_date_fields (iso_ymd (y, m, d)) = Some (y, m, d)"
proof -
  have v: "1 \<le> m" "m \<le> 12" "1 \<le> d" "d \<le> 31"
    using assms(1) days_in_month_bounds(2) [of y m] by (simp_all add: valid_ymd_def)
  let ?Y = "pad_left 4 (nat_str (nat y))" and ?M = "pad_left 2 (nat_str m)" and ?D = "pad_left 2 (nat_str d)"
  have ny: "nat y < 10 ^ 4" using assms(3) by simp
  have l: "length ?Y = 4" "length ?M = 2" "length ?D = 2"
    using pad_left_length [OF ny] pad_left_length [of m 2] pad_left_length [of d 2] v by simp_all
  have dg: "digits_n 4 ?Y = Some (nat y)" "digits_n 2 ?M = Some m" "digits_n 2 ?D = Some d"
    using digits_n_pad [OF ny] digits_n_pad [of m 2] digits_n_pad [of d 2] v by simp_all
  have s: "iso_ymd (y, m, d) = ?Y @ CHR ''-'' # ?M @ CHR ''-'' # ?D" by (simp add: iso_ymd_def)
  have parts: "length (iso_ymd (y, m, d)) = 10" "iso_ymd (y, m, d) ! 4 = CHR ''-''"
    "iso_ymd (y, m, d) ! 7 = CHR ''-''" "take 4 (iso_ymd (y, m, d)) = ?Y"
    "take 2 (drop 5 (iso_ymd (y, m, d))) = ?M" "drop 8 (iso_ymd (y, m, d)) = ?D"
    unfolding s using l by (simp_all add: nth_append)
  show ?thesis unfolding iso_date_fields_def parts dg using v assms(2) by simp
qed

lemma date_parse_ymd:
  assumes "valid_ymd (y, m, d)" "0 \<le> y" "y \<le> 9999"
  shows "date_parse fb tz (iso_ymd (y, m, d)) = Some ((y, m, d), 0)"
proof -
  have l: "length (iso_ymd (y, m, d)) = 10"
    using iso_ymd_length [OF assms(1,3)] .
  have "iso_parse tz (iso_ymd (y, m, d)) = Some ((y, m, d), 0)"
    using iso_date_fields_ymd [OF assms] l by (simp add: iso_parse_def)
  then show ?thesis using shift_days_first [OF assms(1)] by (simp add: date_parse_def)
qed

lemma local_date_midnight:
  "- 1440 < tz \<Longrightarrow> tz < 1440 \<Longrightarrow> local_date tz (dt, 0) = (if tz < 0 then prev_day dt else dt)"
proof -
  assume "- 1440 < tz" "tz < 1440"
  moreover have "(tz + 1440) div 1440 = tz div 1440 + 1" by simp
  ultimately have "tz div 1440 = (if tz < 0 then -1 else 0)"
    using div_pos_pos_trivial [of tz 1440] div_pos_pos_trivial [of "tz + 1440" 1440] by auto
  then show ?thesis by (simp add: local_date_def)
qed

lemma prev_day_neq: "prev_day (y, m, d) \<noteq> (y, m, d)"
  by (auto simp: prev_day_def)

subsubsection \<open>The pt-BR date text determines the date\<close>

lemma pt_br_date_inj:
  assumes "m1 < 100" "d1 < 100" "m2 < 100" "d2 < 100"
    and "pt_br_date (y1, m1, d1) = pt_br_date (y2, m2, d2)"
  shows "(y1, m1, d1) = (y2, m2, d2)"
proof -
  have l: "length (pad_left 2 (nat_str m1)) = 2" "length (pad_left 2 (nat_str d1)) = 2"
    "length (pad_left 2 (nat_str m2)) = 2" "length (pad_left 2 (nat_str d2)) = 2"
    using assms(1-4) by (simp_all add: pad_left_2_length)
  have t: "\<And>y m d. length (pad_left 2 (nat_str m)) = 2 \<Longrightarrow> length (pad_left 2 (nat_str d)) = 2 \<Longrightarrow>
      take 2 (pt_br_date (y, m, d)) = pad_left 2 (nat_str d)
    \<and> take 2 (drop 3 (pt_br_date (y, m, d))) = pad_left 2 (nat_str m)
    \<and> drop 6 (pt_br_date (y, m, d)) = int_str y"
    by (simp add: pt_br_date_def)
  have "pad_left 2 (nat_str d1) = pad_left 2 (nat_str d2)" "pad_left 2 (nat_str m1) = pad_left 2 (nat_str m2)"
    "int_str y1 = int_str y2"
    using t [OF l(1,2)] t [OF l(3,4)] assms(5) by metis+
  then show ?thesis by (metis int_str_inj nat_of_digits_pad)
qed

subsubsection \<open>The day of the week follows the calendar\<close>

text \<open>Sakamoto's rule agrees with stepping the calendar: the next day's weekday is the
  following one. The year term grows by one, or two across a leap day; each month's table
  entry differs from the previous one by that month's length modulo seven.\<close>

lemma div_pred_step:
  assumes "0 < (b::int)"
  shows "y div b - (y - 1) div b = (if y mod b = 0 then 1 else 0)"
proof -
  have e: "y = b * (y div b) + y mod b" by simp
  have r: "0 \<le> y mod b" "y mod b < b" using assms by simp_all
  show ?thesis
  proof (cases "y mod b = 0")
    case True
    moreover have "b * (y div b - 1) = b * (y div b) - b" by (simp add: right_diff_distrib)
    ultimately have "y - 1 = b * (y div b - 1) + (b - 1)" using e by linarith
    then have "(y - 1) div b = y div b - 1" by (rule int_div_pos_eq) (use assms in simp_all)
    then show ?thesis using True by simp
  next
    case False
    have "y - 1 = b * (y div b) + (y mod b - 1)" using e by linarith
    then have "(y - 1) div b = y div b" by (rule int_div_pos_eq) (use r False in simp_all)
    then show ?thesis using False by simp
  qed
qed

lemma year_shift_step: "year_shift y = year_shift (y - 1) + 1 + (if leap_year y then 1 else 0)"
proof -
  have d4: "y div 4 - (y - 1) div 4 = (if y mod 4 = 0 then 1 else 0)"
    and d100: "y div 100 - (y - 1) div 100 = (if y mod 100 = 0 then 1 else 0)"
    and d400: "y div 400 - (y - 1) div 400 = (if y mod 400 = 0 then 1 else 0)"
    by (rule div_pred_step; simp)+
  have i1: "y mod 100 = 0 \<Longrightarrow> y mod 4 = 0" and i2: "y mod 400 = 0 \<Longrightarrow> y mod 100 = 0"
    using mod_mod_cancel [of 4 100 y] mod_mod_cancel [of 100 400 y] by simp_all
  have l: "(if y mod 4 = 0 then 1 else 0) - (if y mod 100 = 0 then 1 else 0) + (if y mod 400 = 0 then 1 else 0)
         = (if leap_year y then 1 else (0::int))"
    using i1 i2 by (cases "y mod 400 = 0"; cases "y mod 100 = 0"; cases "y mod 4 = 0") (simp_all add: leap_year_def)
  have "year_shift y - year_shift (y - 1)
        = 1 + (y div 4 - (y - 1) div 4) - (y div 100 - (y - 1) div 100) + (y div 400 - (y - 1) div 400)"
    by (simp add: year_shift_def)
  then show ?thesis using l unfolding d4 d100 d400 by linarith
qed

lemma mod7_add_cancel:
  "((a::int) + c) mod 7 = (a + d) mod 7 \<longleftrightarrow> c mod 7 = d mod 7"
proof
  assume "(a + c) mod 7 = (a + d) mod 7"
  then have "(a + c + - a) mod 7 = (a + d + - a) mod 7" by (rule mod_add_cong) simp
  then show "c mod 7 = d mod 7" by simp
next
  assume "c mod 7 = d mod 7"
  then show "(a + c) mod 7 = (a + d) mod 7" by (rule mod_add_cong [OF refl])
qed

lemma mod7_add_cancel_0: "(a::int) mod 7 = (a + d) mod 7 \<longleftrightarrow> d mod 7 = 0"
  using mod7_add_cancel [of a 0 d] by simp

lemma nat_mod7_step: "a mod 7 = (b + 1) mod (7::int) \<Longrightarrow> nat (a mod 7) = Suc (nat (b mod 7)) mod 7"
proof -
  assume h: "a mod 7 = (b + 1) mod (7::int)"
  have "0 \<le> b mod 7" "b mod 7 < 7" by simp_all
  then have "(b + 1) mod 7 = (if b mod 7 = 6 then 0 else b mod 7 + 1)" by presburger
  then show ?thesis using h by (auto simp: nat_add_distrib)
qed

lemma week_base_next_month:
  assumes "1 \<le> m" "m < 12"
  shows "week_base y (Suc m) mod 7 = (week_base y m + int (days_in_month y m)) mod 7"
proof -
  have "m = 2 \<or> (m = 1 \<or> m = 3 \<or> m = 4 \<or> m = 5 \<or> m = 6 \<or> m = 7 \<or> m = 8 \<or> m = 9 \<or> m = 10 \<or> m = 11)"
    using assms by presburger
  then consider "m = 2" | "m = 1 \<or> m = 3 \<or> m = 4 \<or> m = 5 \<or> m = 6 \<or> m = 7 \<or> m = 8 \<or> m = 9 \<or> m = 10 \<or> m = 11"
    by blast
  then show ?thesis
  proof cases
    case 1
    have "week_base y 3 mod 7 = (week_base y 2 + int (days_in_month y 2)) mod 7"
    proof (cases "leap_year y")
      case True
      then show ?thesis using year_shift_step [of y]
        by (simp add: week_base_def days_in_month_def add.assoc mod7_add_cancel)
    next
      case False
      then show ?thesis using year_shift_step [of y]
        by (simp add: week_base_def days_in_month_def add.assoc mod7_add_cancel)
    qed
    then show ?thesis using 1 by (simp add: eval_nat_numeral)
  next
    case 2
    then show ?thesis
      by (elim disjE) (simp_all add: week_base_def days_in_month_def add.assoc eval_nat_numeral
                                   mod7_add_cancel mod7_add_cancel_0)
  qed
qed

lemma week_base_next_year: "week_base (y + 1) 1 mod 7 = (week_base y 12 + 31) mod 7"
  by (simp add: week_base_def add.assoc mod7_add_cancel_0)

lemma mod7_cong_succ: "a mod 7 = b mod (7::int) \<Longrightarrow> (a + 1) mod 7 = (b + 1) mod 7"
  by (rule mod_add_cong) simp_all

lemma week_day_ymd: "week_day (y, m, d) = nat ((week_base y m + int d) mod 7)"
  by (simp add: week_day_def)

lemma week_day_next:
  assumes "valid_ymd (y, m, d)"
  shows "week_day (next_day (y, m, d)) = Suc (week_day (y, m, d)) mod 7"
proof -
  have v: "1 \<le> m" "m \<le> 12" "1 \<le> d" "d \<le> days_in_month y m" using assms by (simp_all add: valid_ymd_def)
  consider "d < days_in_month y m" | "d = days_in_month y m" "m < 12" | "d = days_in_month y m" "m = 12"
    using v by linarith
  then show ?thesis
  proof cases
    case 1
    then have n: "next_day (y, m, d) = (y, m, Suc d)" by (simp add: next_day_def)
    have "(week_base y m + int (Suc d)) mod 7 = (week_base y m + int d + 1) mod 7" by (simp add: ac_simps)
    then show ?thesis unfolding n week_day_ymd by (rule nat_mod7_step)
  next
    case 2
    then have n: "next_day (y, m, d) = (y, Suc m, 1)" by (simp add: next_day_def)
    have "(week_base y (Suc m) + int 1) mod 7 = (week_base y m + int d + 1) mod 7"
      using mod7_cong_succ [OF week_base_next_month [OF v(1) 2(2), of y]] 2(1) by simp
    then show ?thesis unfolding n week_day_ymd by (rule nat_mod7_step)
  next
    case 3
    then have d: "d = 31" by (simp add: days_in_month_def)
    have n: "next_day (y, 12, 31) = (y + 1, 1, 1)" by (simp add: next_day_def days_in_month_def)
    have "(week_base (y + 1) 1 + int 1) mod 7 = (week_base y 12 + int 31 + 1) mod 7"
      using mod7_cong_succ [OF week_base_next_year [of y]] by simp
    then show ?thesis unfolding d 3(2) n week_day_ymd by (rule nat_mod7_step)
  qed
qed

lemma week_day_prev:
  assumes "valid_ymd (y, m, d)"
  shows "Suc (week_day (prev_day (y, m, d))) mod 7 = week_day (y, m, d)"
proof -
  obtain y' m' d' where p: "prev_day (y, m, d) = (y', m', d')" by (metis prod_cases3)
  have "valid_ymd (y', m', d')" using valid_prev_day [OF assms] p by simp
  then have "week_day (next_day (y', m', d')) = Suc (week_day (y', m', d')) mod 7" by (rule week_day_next)
  then show ?thesis using next_prev_day [OF assms] p by simp
qed

end
