(* ===== verification/Sales_Page.thy ===== *)
theory Sales_Page
  imports Api_Service Intl_Format
begin

text \<open>
  The sales page \<open>Vendas\<close> of \<open>src/src/pages/Vendas.tsx\<close>, which talks to the API
  services directly (not to the store of \<open>VendaContext\<close>). Its \<open>useState\<close> hooks
  are the record \<open>vendas_page\<close>; \<open>loadData\<close>, \<open>handleSubmit\<close> and \<open>resetForm\<close>
  are functions of the page state and the world of \<open>Api_Service\<close>; the derived views
  \<open>filteredVendas\<close>, \<open>getTotalVendas\<close> and the average ticket are functions of the
  state; the rendered output is a view record (the texts and numbers shown, not the markup);
  the user's actions are the events of \<open>vendas_step\<close>.
\<close>

subsection \<open>State\<close>

record venda_form =
  fd_produtoId :: string
  fd_quantidade :: string
  fd_dataVenda :: string
  fd_observacoes :: string

record vendas_page =
  vp_vendas :: "api_venda list"
  vp_produtos :: "produto list"
  vp_loading :: bool
  vp_error :: string
  vp_showForm :: bool
  vp_searchTerm :: string
  vp_dateFilter :: string
  vp_formData :: venda_form

text \<open>\<open>new Date().toISOString().split('T')[0]\<close>: the date part of the clock.\<close>

definition today :: "app_world \<Rightarrow> string" where
  "today w = hd (split_on CHR ''T'' (today_iso w))"

definition empty_venda_form :: "app_world \<Rightarrow> venda_form" where
  "empty_venda_form w = \<lparr>fd_produtoId = [], fd_quantidade = [], fd_dataVenda = today w, fd_observacoes = []\<rparr>"

definition init_vendas_page :: "app_world \<Rightarrow> vendas_page" where
  "init_vendas_page w = \<lparr>vp_vendas = [], vp_produtos = [], vp_loading = True, vp_error = [],
     vp_showForm = False, vp_searchTerm = [], vp_dateFilter = [], vp_formData = empty_venda_form w\<rparr>"

subsection \<open>\<open>loadData\<close>\<close>

text \<open>\<open>response.data || []\<close>: the page's \<open>data\<close> member, or the empty list when the
  member (or the page) is missing.\<close>

definition page_vendas :: "api_data \<Rightarrow> api_venda list" where
  "page_vendas d = (case d of Page_vendas (Some vs) \<Rightarrow> vs | _ \<Rightarrow> [])"

definition page_produtos :: "api_data \<Rightarrow> produto list" where
  "page_produtos d = (case d of Page_produtos (Some ps) \<Rightarrow> ps | _ \<Rightarrow> [])"

text \<open>\<open>Promise.all([vendaService.listar(1, 50), produtoService.listar(1, 100)])\<close>: both
  requests leave before either reply is read; the lists are set only when both succeed, the
  message is set otherwise, and \<open>finally\<close> clears \<open>loading\<close>.\<close>

definition loadData :: "vendas_page \<Rightarrow> app_world \<Rightarrow> vendas_page \<times> app_world" where
  "loadData st w =
     (let st1 = st\<lparr>vp_loading := True\<rparr>;
          w1 = send (Produtos (Produto_listar 1 100 None)) (send (Vendas (Venda_listar 1 50 None None)) w);
          (r1, w2) = api_receive w1;
          (r2, w3) = api_receive w2;
          st2 = (case (r1, r2) of
                   (Inr d1, Inr d2) \<Rightarrow> st1\<lparr>vp_vendas := page_vendas d1, vp_produtos := page_produtos d2\<rparr>
                 | _ \<Rightarrow> st1\<lparr>vp_error := ''Erro ao carregar dados''\<rparr>)
      in (st2\<lparr>vp_loading := False\<rparr>, w3))"

subsection \<open>\<open>handleSubmit\<close> and \<open>resetForm\<close>\<close>

text \<open>The body of \<open>vendaService.criar\<close>: \<open>parseInt\<close> of the two numeric fields
  (\<open>NaN\<close> is sent as \<open>null\<close>), the date as typed, and \<open>observacoes || undefined\<close>.\<close>

definition venda_body :: "venda_form \<Rightarrow> json_object" where
  "venda_body f =
     [(''produtoId'', json_num (map_option of_int (parse_int (fd_produtoId f)))),
      (''quantidade'', json_num (map_option of_int (parse_int (fd_quantidade f)))),
      (''dataVenda'', JStr (fd_dataVenda f))]
     @ opt_member ''observacoes'' (if fd_observacoes f \<noteq> [] then Some (JStr (fd_observacoes f)) else None)"

definition resetForm_vendas :: "vendas_page \<Rightarrow> app_world \<Rightarrow> vendas_page" where
  "resetForm_vendas st w = st\<lparr>vp_formData := empty_venda_form w, vp_showForm := False\<rparr>"

text \<open>\<open>await criar(...)\<close>, then \<open>await loadData()\<close> (which never throws), then
  \<open>resetForm()\<close>; a rejected \<open>criar\<close> only sets the message.\<close>

definition handleSubmit_vendas :: "vendas_page \<Rightarrow> app_world \<Rightarrow> vendas_page \<times> app_world" where
  "handleSubmit_vendas st w =
     (case call (Vendas (Venda_criar (venda_body (vp_formData st)))) w of
        (Inr _, w1) \<Rightarrow> (let (st2, w2) = loadData st w1 in (resetForm_vendas st2 w2, w2))
      | (Inl _, w1) \<Rightarrow> (st\<lparr>vp_error := ''Erro ao registrar venda''\<rparr>, w1))"

subsection \<open>Derived views\<close>

text \<open>\<open>filteredVendas\<close>: the product name contains the search term, ignoring case, and
  the sale date starts with the month filter when one is set.\<close>

definition matches_venda :: "string \<Rightarrow> string \<Rightarrow> api_venda \<Rightarrow> bool" where
  "matches_venda term df v \<longleftrightarrow>
     str_includes (to_lower (ref_nome (produto v))) (to_lower term)
     \<and> (df = [] \<or> starts_with (dataVenda v) df)"

definition filteredVendas :: "vendas_page \<Rightarrow> api_venda list" where
  "filteredVendas st = filter (matches_venda (vp_searchTerm st) (vp_dateFilter st)) (vp_vendas st)"

text \<open>\<open>formatCurrency\<close>: the pt-BR \<open>BRL\<close> text of \<open>parseFloat(value)\<close>, so a string
  that does not parse shows \<open>R$ NaN\<close>. \<open>formatDate\<close>: \<open>new Date(dateString)\<close> shown
  by \<open>toLocaleDateString('pt-BR')\<close> in the browser's time zone \<open>tz\<close>; \<open>fallback\<close> is the
  engine's parser for strings outside the ISO format.\<close>

definition formatCurrency_vendas :: "string \<Rightarrow> string" where
  "formatCurrency_vendas value = intl_brl (parse_float value)"

definition formatDate :: "int \<Rightarrow> (string \<Rightarrow> (ymd \<times> nat) option) \<Rightarrow> string \<Rightarrow> string" where
  "formatDate tz fallback dateString = locale_date_string tz (date_parse fallback tz dateString)"

text \<open>\<open>reduce((total, v) => total + parseFloat(v.valorTotal), 0)\<close>; \<open>None\<close> is \<open>NaN\<close>,
  which absorbs every later addition.\<close>

definition add_parsed :: "js_number option \<Rightarrow> api_venda \<Rightarrow> js_number option" where
  "add_parsed acc v = (case (acc, parse_float (valorTotal v)) of
                         (Some a, Some b) \<Rightarrow> Some (a + b) | _ \<Rightarrow> None)"

definition getTotalVendas_page :: "vendas_page \<Rightarrow> js_number option" where
  "getTotalVendas_page st = foldl add_parsed (Some 0) (filteredVendas st)"

text \<open>The "Ticket Medio" card: the total divided by the count when there are sales, the
  constant \<open>R$ 0,00\<close> (zero) otherwise. The number reaches \<open>formatCurrency\<close> through
  \<open>toString\<close> and \<open>parseFloat\<close>, which give back the same double.\<close>

definition ticket_medio :: "vendas_page \<Rightarrow> js_number option" where
  "ticket_medio st =
     (if length (filteredVendas st) > 0
      then map_option (\<lambda>t. t / of_nat (length (filteredVendas st))) (getTotalVendas_page st)
      else Some 0)"

subsection \<open>Rendering\<close>

text \<open>One row of the history list; the currency cells hold the number
  \<open>formatCurrency\<close> receives (\<open>parseFloat\<close> of the API's string), the date cell the
  string \<open>formatDate\<close> receives, and the remark is shown only when truthy.\<close>

record venda_row =
  row_nome :: string
  row_quantidade :: js_number
  row_valorUnit :: "js_number option"
  row_data :: string
  row_observacoes :: "string option"
  row_valorTotal :: "js_number option"

definition venda_row_view :: "api_venda \<Rightarrow> venda_row" where
  "venda_row_view v = \<lparr>row_nome = ref_nome (produto v), row_quantidade = quantidade v,
     row_valorUnit = parse_float (valorUnit v), row_data = dataVenda v,
     row_observacoes = (if truthy_str (observacoes v) then observacoes v else None),
     row_valorTotal = parse_float (valorTotal v)\<rparr>"

text \<open>The product select: only active products, each as its id, name and price.\<close>

record produto_option =
  opt_id :: int
  opt_nome :: string
  opt_preco :: "js_number option"

definition produto_options :: "produto list \<Rightarrow> produto_option list" where
  "produto_options ps = map (\<lambda>p. \<lparr>opt_id = ent_id p, opt_nome = nome p, opt_preco = parse_float (preco p)\<rparr>)
                             (filter ativo ps)"

datatype empty_message = Nenhuma_venda_encontrada | Nenhuma_venda_registrada

text \<open>The empty list: which message, and whether the "Registrar Venda" button is shown.\<close>

definition empty_view :: "vendas_page \<Rightarrow> empty_message \<times> bool" where
  "empty_view st =
     (if vp_searchTerm st \<noteq> [] \<or> vp_dateFilter st \<noteq> [] then (Nenhuma_venda_encontrada, False)
      else (Nenhuma_venda_registrada, True))"

record vendas_view =
  vv_error :: "string option"
  vv_count :: nat
  vv_total :: "js_number option"
  vv_ticket :: "js_number option"
  vv_form :: "produto_option list option"
  vv_rows :: "venda_row list"
  vv_empty :: "(empty_message \<times> bool) option"

datatype vendas_screen = Vendas_loading | Vendas_screen vendas_view

definition render_vendas :: "vendas_page \<Rightarrow> vendas_screen" where
  "render_vendas st =
     (if vp_loading st then Vendas_loading
      else Vendas_screen \<lparr>vv_error = (if vp_error st \<noteq> [] then Some (vp_error st) else None),
        vv_count = length (filteredVendas st), vv_total = getTotalVendas_page st,
        vv_ticket = ticket_medio st,
        vv_form = (if vp_showForm st then Some (produto_options (vp_produtos st)) else None),
        vv_rows = map venda_row_view (filteredVendas st),
        vv_empty = (if filteredVendas st = [] then Some (empty_view st) else None)\<rparr>)"

subsection \<open>User events\<close>

text \<open>The page's handlers: the two "Nova Venda"/"Registrar Venda" buttons, the four form
  fields, the two filters, "Cancelar" and the form's submission. Each handler runs to its
  end before the next event (the page shows only the spinner while \<open>loadData\<close> runs).\<close>

datatype vendas_event =
    Open_form
  | Input_produtoId string
  | Input_quantidade string
  | Input_dataVenda string
  | Input_observacoes string
  | Input_search string
  | Input_date string
  | Cancel_form
  | Submit_form

fun vendas_step :: "vendas_event \<Rightarrow> vendas_page \<times> app_world \<Rightarrow> vendas_page \<times> app_world" where
  "vendas_step Open_form (st, w) = (st\<lparr>vp_showForm := True\<rparr>, w)"
| "vendas_step (Input_produtoId x) (st, w) = (st\<lparr>vp_formData := (vp_formData st)\<lparr>fd_produtoId := x\<rparr>\<rparr>, w)"
| "vendas_step (Input_quantidade x) (st, w) = (st\<lparr>vp_formData := (vp_formData st)\<lparr>fd_quantidade := x\<rparr>\<rparr>, w)"
| "vendas_step (Input_dataVenda x) (st, w) = (st\<lparr>vp_formData := (vp_formData st)\<lparr>fd_dataVenda := x\<rparr>\<rparr>, w)"
| "vendas_step (Input_observacoes x) (st, w) = (st\<lparr>vp_formData := (vp_formData st)\<lparr>fd_observacoes := x\<rparr>\<rparr>, w)"
| "vendas_step (Input_search x) (st, w) = (st\<lparr>vp_searchTerm := x\<rparr>, w)"
| "vendas_step (Input_date x) (st, w) = (st\<lparr>vp_dateFilter := x\<rparr>, w)"
| "vendas_step Cancel_form (st, w) = (resetForm_vendas st w, w)"
| "vendas_step Submit_form (st, w) = handleSubmit_vendas st w"

text \<open>The page's runs: mounted with \<open>loadData\<close> (the effect with no dependencies),
  then any sequence of events.\<close>

inductive vendas_reachable :: "vendas_page \<times> app_world \<Rightarrow> bool" where
  mount: "vendas_reachable (loadData (init_vendas_page w) w)"
| step: "vendas_reachable c \<Longrightarrow> vendas_reachable (vendas_step e c)"

subsection \<open>Lemmas\<close>

lemma loadData_world:
  "api_log (snd (loadData st w)) = api_log w @
     [request_interceptor (ls_token w) (service_request (Vendas (Venda_listar 1 50 None None))),
      request_interceptor (ls_token w) (service_request (Produtos (Produto_listar 1 100 None)))]"
  "replies (snd (loadData st w)) = drop 2 (replies w)"
  "today_iso (snd (loadData st w)) = today_iso w"
  by (simp_all add: loadData_def Let_def split_def numeral_2_eq_2)

lemma loadData_state:
  "fst (loadData st w) = (case take 2 (replies w) of
      [Inr d1, Inr d2] \<Rightarrow> st\<lparr>vp_vendas := page_vendas d1, vp_produtos := page_produtos d2, vp_loading := False\<rparr>
    | _ \<Rightarrow> st\<lparr>vp_error := ''Erro ao carregar dados'', vp_loading := False\<rparr>)"
proof -
  let ?w1 = "send (Produtos (Produto_listar 1 100 None)) (send (Vendas (Venda_listar 1 50 None None)) w)"
  have r: "replies ?w1 = replies w" by simp
  show ?thesis
  proof (cases "replies w")
    case Nil
    then show ?thesis using r by (simp add: loadData_def Let_def split_def api_receive_lost)
  next
    case (Cons x rs)
    show ?thesis
    proof (cases rs)
      case Nil
      then show ?thesis using r Cons
        by (cases x) (simp_all add: loadData_def Let_def split_def api_receive_ok api_receive_error api_receive_lost)
    next
      case (Cons y rs')
      then show ?thesis using r \<open>replies w = x # rs\<close>
        by (cases x; cases y) (simp_all add: loadData_def Let_def split_def api_receive_ok api_receive_error)
    qed
  qed
qed

lemma loadData_keeps [simp]:
  "vp_showForm (fst (loadData st w)) = vp_showForm st"
  "vp_searchTerm (fst (loadData st w)) = vp_searchTerm st"
  "vp_dateFilter (fst (loadData st w)) = vp_dateFilter st"
  "vp_formData (fst (loadData st w)) = vp_formData st"
  "vp_loading (fst (loadData st w)) = False"
  by (simp_all add: loadData_state split: list.split sum.split)

lemma add_parsed_simps [simp]:
  "add_parsed None v = None"
  "add_parsed (Some a) v = map_option (\<lambda>b. a + b) (parse_float (valorTotal v))"
  by (simp_all add: add_parsed_def split: option.split)

lemma foldl_add_parsed_None [simp]: "foldl add_parsed None vs = None"
  by (induction vs) simp_all

lemma foldl_add_parsed:
  "foldl add_parsed (Some a) vs =
     (if list_all (\<lambda>v. parse_float (valorTotal v) \<noteq> None) vs
      then Some (a + sum_list (map (\<lambda>v. the (parse_float (valorTotal v))) vs)) else None)"
proof (induction vs arbitrary: a)
  case (Cons v vs)
  then show ?case by (cases "parse_float (valorTotal v)") (simp_all add: add.assoc)
qed simp

lemma foldl_add_parsed_those:
  "foldl add_parsed (Some a) vs = map_option (\<lambda>s. a + sum_list s) (those (map (\<lambda>v. parse_float (valorTotal v)) vs))"
proof (induction vs arbitrary: a)
  case (Cons v vs)
  then show ?case by (cases "parse_float (valorTotal v)") (simp_all add: option.map_comp comp_def add.assoc)
qed simp

lemma those_length: "those ys = Some xs \<Longrightarrow> length xs = length ys"
proof (induction ys arbitrary: xs)
  case (Cons y ys)
  then show ?case by (cases y) (auto split: option.splits)
qed simp

lemma sum_list_bounds:
  fixes xs :: "rat list"
  shows "\<forall>x \<in> set xs. m \<le> x \<and> x \<le> M \<Longrightarrow>
     of_nat (length xs) * m \<le> sum_list xs \<and> sum_list xs \<le> of_nat (length xs) * M"
  by (induction xs) (auto simp: algebra_simps add_mono)

lemma to_lower_Nil [simp]: "to_lower [] = []"
  by (simp add: to_lower_def)

lemma handleSubmit_vendas_ok:
  assumes "replies w = Inr d # rs"
  shows "handleSubmit_vendas st w =
    (let w1 = w\<lparr>api_log := api_log w @ [request_interceptor (ls_token w)
                  (service_request (Vendas (Venda_criar (venda_body (vp_formData st)))))], replies := rs\<rparr>
     in (resetForm_vendas (fst (loadData st w1)) (snd (loadData st w1)), snd (loadData st w1)))"
  using assms by (simp add: handleSubmit_vendas_def call_def api_call_ok Let_def split_def)

lemma handleSubmit_vendas_rejected:
  assumes "replies w = Inl e # rs"
  shows "handleSubmit_vendas st w = (st\<lparr>vp_error := ''Erro ao registrar venda''\<rparr>,
     snd (call (Vendas (Venda_criar (venda_body (vp_formData st)))) w))"
  using assms by (simp add: handleSubmit_vendas_def call_def api_call_error)

lemma loadData_error:
  "vp_error (fst (loadData st w)) = vp_error st \<or> vp_error (fst (loadData st w)) = ''Erro ao carregar dados''"
  by (simp add: loadData_state split: list.split sum.split)

lemma handleSubmit_vendas_error:
  "vp_error (fst (handleSubmit_vendas st w)) \<in> {vp_error st, ''Erro ao carregar dados'', ''Erro ao registrar venda''}"
  using loadData_error [of st]
  by (auto simp: handleSubmit_vendas_def resetForm_vendas_def split_def Let_def split: prod.split sum.split)

lemma handleSubmit_vendas_loading:
  "\<not> vp_loading st \<Longrightarrow> \<not> vp_loading (fst (handleSubmit_vendas st w))"
  by (auto simp: handleSubmit_vendas_def resetForm_vendas_def split_def Let_def split: prod.split sum.split)

lemma vendas_step_error:
  "vp_error (fst (vendas_step e c)) \<in> {vp_error (fst c), ''Erro ao carregar dados'', ''Erro ao registrar venda''}"
  using handleSubmit_vendas_error by (cases c; cases e) (simp_all add: resetForm_vendas_def)

lemma vendas_step_loading: "\<not> vp_loading (fst c) \<Longrightarrow> \<not> vp_loading (fst (vendas_step e c))"
  using handleSubmit_vendas_loading by (cases c; cases e) (simp_all add: resetForm_vendas_def)

subsection \<open>Properties\<close>

text \<open>The search keeps exactly the sales whose product name contains the search
  term, ignoring case, and whose date starts with the month filter when one is set; it keeps
  their order; with both inputs empty it keeps every sale.\<close>

theorem filteredVendas_spec:
  "set (filteredVendas st) = {v \<in> set (vp_vendas st).
       sublist (to_lower (vp_searchTerm st)) (to_lower (ref_nome (produto v)))
       \<and> (vp_dateFilter st = [] \<or> prefix (vp_dateFilter st) (dataVenda v))}
   \<and> subseq (filteredVendas st) (vp_vendas st)
   \<and> filteredVendas (st\<lparr>vp_searchTerm := [], vp_dateFilter := []\<rparr>) = vp_vendas st"
  by (auto simp: filteredVendas_def matches_venda_def str_includes_sublist starts_with_def)

text \<open>The "Valor Total" card's \<open>reduce\<close>, which adds \<open>parseFloat\<close> of each
  filtered sale's \<open>valorTotal\<close> with \<open>NaN\<close> absorbing, is equivalent to the reference
  "parse all, then sum": the library's \<open>those\<close> (\<open>None\<close> as soon as one string does not
  parse) followed by \<open>sum_list\<close>.\<close>

theorem getTotalVendas_page_equiv:
  "getTotalVendas_page st = map_option sum_list (those (map (\<lambda>v. parse_float (valorTotal v)) (filteredVendas st)))"
  by (simp add: getTotalVendas_page_def foldl_add_parsed_those option.map_comp comp_def)

text \<open>The average ticket is bounded: with no sale shown it is zero (no division by
  zero); when every shown total parses, it lies between the smallest and the largest of
  them.\<close>

theorem ticket_medio_bounds:
  "(filteredVendas st = [] \<longrightarrow> ticket_medio st = Some 0)
   \<and> (those (map (\<lambda>v. parse_float (valorTotal v)) (filteredVendas st)) = Some xs \<and> xs \<noteq> []
      \<longrightarrow> (\<exists>a. ticket_medio st = Some a \<and> Min (set xs) \<le> a \<and> a \<le> Max (set xs)))"
proof -
  have empty: "filteredVendas st = [] \<longrightarrow> ticket_medio st = Some 0"
    by (simp add: ticket_medio_def)
  have "\<exists>a. ticket_medio st = Some a \<and> Min (set xs) \<le> a \<and> a \<le> Max (set xs)"
    if th: "those (map (\<lambda>v. parse_float (valorTotal v)) (filteredVendas st)) = Some xs" and ne: "xs \<noteq> []"
  proof -
    have len: "length xs = length (filteredVendas st)" using those_length [OF th] by simp
    then have pos: "0 < length (filteredVendas st)" using ne by (metis length_greater_0_conv)
    have tot: "getTotalVendas_page st = Some (sum_list xs)"
      using th by (simp add: getTotalVendas_page_def foldl_add_parsed_those)
    have b: "of_nat (length xs) * Min (set xs) \<le> sum_list xs \<and> sum_list xs \<le> of_nat (length xs) * Max (set xs)"
      using ne by (intro sum_list_bounds) simp
    have n0: "(0::rat) < of_nat (length xs)" using ne by simp
    have "Min (set xs) \<le> sum_list xs / of_nat (length xs)" "sum_list xs / of_nat (length xs) \<le> Max (set xs)"
      using b n0 by (simp_all add: field_simps)
    then show ?thesis using pos tot len by (simp add: ticket_medio_def)
  qed
  then show ?thesis using empty by blast
qed

text \<open>Claim C9: \<open>formatCurrency\<close> shows exactly two decimals: its text reads back as a
  whole number of cents, with the sign of \<open>parseFloat(value)\<close>, within half a cent of it
  (rounding half away from zero); a string that does not parse shows \<open>R$ NaN\<close>.\<close>

theorem formatCurrency_vendas_reads:
  "(case parse_float value of
      None \<Rightarrow> formatCurrency_vendas value = ''R$'' @ CHR 0xA0 # ''NaN''
    | Some x \<Rightarrow> (\<exists>c :: nat. read_brl (formatCurrency_vendas value) = Some ((if x < 0 then -1 else 1) * of_nat c / 100)
                   \<and> \<bar>(if x < 0 then -1 else 1) * of_nat c / 100 - x\<bar> \<le> 1 / 200))"
proof (cases "parse_float value")
  case None
  then show ?thesis by (simp add: formatCurrency_vendas_def intl_brl_def brl_prefix_def)
next
  case (Some x)
  then show ?thesis
    using read_brl_intl_brl [of x] brl_signed_bound [of x] by (auto simp: formatCurrency_vendas_def)
qed

text \<open>Claim C26: \<open>formatDate\<close> of a \<open>YYYY-MM-DD\<close> date, the form the page itself sends
  (\<open>toISOString().split('T')[0]\<close>): \<open>new Date\<close> reads it as UTC midnight, so in any time
  zone west of UTC (Brasilia is UTC-3) the page shows the day before, and east of UTC the day
  itself.\<close>

theorem formatDate_utc_day:
  assumes "valid_ymd (y, m, d)" "0 \<le> y" "y \<le> 9999" "- 1440 < tz" "tz < 1440"
  shows "formatDate tz fallback (iso_ymd (y, m, d)) = pt_br_date (if tz < 0 then prev_day (y, m, d) else (y, m, d))
         \<and> (tz < 0 \<longrightarrow> formatDate tz fallback (iso_ymd (y, m, d)) \<noteq> pt_br_date (y, m, d))"
proof -
  have eq: "formatDate tz fallback (iso_ymd (y, m, d)) = pt_br_date (if tz < 0 then prev_day (y, m, d) else (y, m, d))"
    using date_parse_ymd [OF assms(1-3)] local_date_midnight [OF assms(4,5)]
    by (simp add: formatDate_def locale_date_string_def)
  have "pt_br_date (prev_day (y, m, d)) \<noteq> pt_br_date (y, m, d)"
  proof
    assume same: "pt_br_date (prev_day (y, m, d)) = pt_br_date (y, m, d)"
    obtain y' m' d' where p: "prev_day (y, m, d) = (y', m', d')" by (metis prod_cases3)
    have "valid_ymd (y', m', d')" using valid_prev_day [OF assms(1)] p by simp
    then have "m' < 100" "d' < 100" using days_in_month_bounds(2) [of y' m'] by (simp_all add: valid_ymd_def)
    moreover have "m < 100" "d < 100" using assms(1) days_in_month_bounds(2) [of y m] by (simp_all add: valid_ymd_def)
    ultimately have "(y', m', d') = (y, m, d)" using pt_br_date_inj same p by metis
    then show False using prev_day_neq p by simp
  qed
  then show ?thesis using eq by simp
qed

text \<open>Claim C27: \<open>loadData\<close> sends the sales page request and then the products page
  request, both with the header the token gave before either reply (a 401 on the first does
  not strip the second), consumes two replies, sets both lists only when both succeed (a
  missing \<open>data\<close> member giving the empty list), sets the load message otherwise, and ends
  with \<open>loading\<close> false.\<close>

theorem loadData_spec:
  "api_log (snd (loadData st w)) = api_log w @
     [request_interceptor (ls_token w) (service_request (Vendas (Venda_listar 1 50 None None))),
      request_interceptor (ls_token w) (service_request (Produtos (Produto_listar 1 100 None)))]
   \<and> replies (snd (loadData st w)) = drop 2 (replies w)
   \<and> fst (loadData st w) = (case take 2 (replies w) of
      [Inr d1, Inr d2] \<Rightarrow> st\<lparr>vp_vendas := page_vendas d1, vp_produtos := page_produtos d2, vp_loading := False\<rparr>
    | _ \<Rightarrow> st\<lparr>vp_error := ''Erro ao carregar dados'', vp_loading := False\<rparr>)"
  using loadData_world loadData_state by blast

text \<open>Claim C28: a sale the server accepts is posted as \<open>POST /vendas\<close> with the body
  built from the form, then both lists are reloaded (two more requests), and the form is
  emptied, dated today, and hidden.\<close>

theorem handleSubmit_vendas_created:
  assumes "replies w = Inr d # rs"
  shows "map req_url (drop (length (api_log w)) (api_log (snd (handleSubmit_vendas st w))))
           = [''/vendas'', ''/vendas?page=1&limit=50'', ''/produtos?page=1&limit=100'']
    \<and> map req_method (drop (length (api_log w)) (api_log (snd (handleSubmit_vendas st w)))) = [POST, GET, GET]
    \<and> req_body (api_log (snd (handleSubmit_vendas st w)) ! length (api_log w)) = Some (venda_body (vp_formData st))
    \<and> vp_formData (fst (handleSubmit_vendas st w)) = empty_venda_form w
    \<and> \<not> vp_showForm (fst (handleSubmit_vendas st w))
    \<and> replies (snd (handleSubmit_vendas st w)) = drop 2 rs"
  using assms
  by (simp add: handleSubmit_vendas_ok Let_def loadData_world resetForm_vendas_def empty_venda_form_def
      today_def request_def url_params_def str_param_def url_unreserved_def num_str_eval nth_append)

text \<open>A rejected sale sets only the message: the form stays open with what the
  user typed, the lists are kept, and no reload is requested.\<close>

theorem handleSubmit_vendas_failed:
  assumes "replies w = Inl e # rs"
  shows "fst (handleSubmit_vendas st w) = st\<lparr>vp_error := ''Erro ao registrar venda''\<rparr>
    \<and> api_log (snd (handleSubmit_vendas st w)) = api_log w @
        [request_interceptor (ls_token w) (service_request (Vendas (Venda_criar (venda_body (vp_formData st)))))]
    \<and> replies (snd (handleSubmit_vendas st w)) = rs"
  using assms by (simp add: handleSubmit_vendas_rejected call_def)

text \<open>Claim C30: no event clears the error banner: once a load or a submission failed, the
  message stays on the page through every later event, successful reloads and submissions
  included (\<open>setError('')\<close> is never called).\<close>

theorem error_banner_persists:
  assumes "vp_error (fst c) \<noteq> []"
  shows "vp_error (fst (vendas_step e c)) \<noteq> []"
  using vendas_step_error [of e c] assms by auto

text \<open>Claim C31: in every run of the page (mounted, then any events, against any server)
  the spinner is gone and the banner is empty or one of the two messages.\<close>

theorem vendas_reachable_inv:
  assumes "vendas_reachable c"
  shows "\<not> vp_loading (fst c) \<and> render_vendas (fst c) \<noteq> Vendas_loading
    \<and> vp_error (fst c) \<in> {[], ''Erro ao carregar dados'', ''Erro ao registrar venda''}"
  using assms
proof (induction rule: vendas_reachable.induct)
  case (mount w)
  then show ?case using loadData_error [of "init_vendas_page w" w]
    by (auto simp: render_vendas_def init_vendas_page_def)
next
  case (step c e)
  then show ?case using vendas_step_error [of e c] vendas_step_loading [of c e]
    by (auto simp: render_vendas_def)
qed

subsection \<open>Witnesses\<close>

definition demo_api_venda :: "int \<Rightarrow> string \<Rightarrow> string \<Rightarrow> string \<Rightarrow> api_venda" where
  "demo_api_venda i n d t = \<lparr>ent_id = i, usuarioId = 1, createdAt = d, updatedAt = d,
     produtoId = i, quantidade = 1, valorUnit = t, valorTotal = t, dataVenda = d, observacoes = None,
     produto = \<lparr>ref_id = i, ref_nome = n, ref_categoria = None\<rparr>\<rparr>"

definition demo_vendas_page :: vendas_page where
  "demo_vendas_page = (init_vendas_page demo_app_world)\<lparr>vp_loading := False,
     vp_vendas := [demo_api_venda 1 ''Cafe'' ''2024-05-02'' ''10.50'', demo_api_venda 2 ''Bolo'' ''2024-05-03'' ''20'']\<rparr>"

theorem ticket_medio_bounds_witness:
  "those (map (\<lambda>v. parse_float (valorTotal v)) (filteredVendas demo_vendas_page)) = Some [21/2, 20]
   \<and> (\<exists>a. ticket_medio demo_vendas_page = Some a \<and> 21/2 \<le> a \<and> a \<le> 20)
   \<and> filteredVendas (demo_vendas_page\<lparr>vp_searchTerm := ''x''\<rparr>) = []
   \<and> ticket_medio (demo_vendas_page\<lparr>vp_searchTerm := ''x''\<rparr>) = Some 0"
proof -
  have t: "those (map (\<lambda>v. parse_float (valorTotal v)) (filteredVendas demo_vendas_page)) = Some [21/2, 20]"
    by (simp add: demo_vendas_page_def init_vendas_page_def demo_api_venda_def
        filteredVendas_def matches_venda_def) code_simp
  have e: "filteredVendas (demo_vendas_page\<lparr>vp_searchTerm := ''x''\<rparr>) = []"
    by (simp add: demo_vendas_page_def init_vendas_page_def demo_api_venda_def filteredVendas_def
        matches_venda_def) code_simp
  show ?thesis
    using ticket_medio_bounds [of demo_vendas_page "[21/2, 20]"]
      ticket_medio_bounds [of "demo_vendas_page\<lparr>vp_searchTerm := ''x''\<rparr>"] t e by simp
qed

definition demo_submit_world :: app_world where
  "demo_submit_world = demo_app_world\<lparr>replies :=
     [Inr (One_venda (demo_api_venda 3 ''Cafe'' ''2024-05-10'' ''5'')),
      Inr (Page_vendas (Some [demo_api_venda 3 ''Cafe'' ''2024-05-10'' ''5''])), Inr (Page_produtos None)]\<rparr>"

definition demo_form_page :: vendas_page where
  "demo_form_page = demo_vendas_page\<lparr>vp_showForm := True,
     vp_formData := \<lparr>fd_produtoId = ''3'', fd_quantidade = ''1'', fd_dataVenda = ''2024-05-10'', fd_observacoes = []\<rparr>\<rparr>"

theorem handleSubmit_vendas_created_witness:
  "replies demo_submit_world = Inr (One_venda (demo_api_venda 3 ''Cafe'' ''2024-05-10'' ''5'')) #
      [Inr (Page_vendas (Some [demo_api_venda 3 ''Cafe'' ''2024-05-10'' ''5''])), Inr (Page_produtos None)]
   \<and> map req_url (api_log (snd (handleSubmit_vendas demo_form_page demo_submit_world)))
       = [''/vendas'', ''/vendas?page=1&limit=50'', ''/produtos?page=1&limit=100'']
   \<and> \<not> vp_showForm (fst (handleSubmit_vendas demo_form_page demo_submit_world))"
proof -
  have h: "replies demo_submit_world = Inr (One_venda (demo_api_venda 3 ''Cafe'' ''2024-05-10'' ''5'')) #
      [Inr (Page_vendas (Some [demo_api_venda 3 ''Cafe'' ''2024-05-10'' ''5''])), Inr (Page_produtos None)]"
    by (simp add: demo_submit_world_def)
  show ?thesis using handleSubmit_vendas_created [OF h, of demo_form_page] h
    by (simp add: demo_submit_world_def demo_app_world_def)
qed

theorem handleSubmit_vendas_failed_witness:
  "replies (demo_app_world\<lparr>replies := [Inl (Api_status 500 None)]\<rparr>) = Inl (Api_status 500 None) # []
   \<and> vp_error (fst (handleSubmit_vendas demo_form_page (demo_app_world\<lparr>replies := [Inl (Api_status 500 None)]\<rparr>)))
       = ''Erro ao registrar venda''
   \<and> vp_showForm (fst (handleSubmit_vendas demo_form_page (demo_app_world\<lparr>replies := [Inl (Api_status 500 None)]\<rparr>)))"
proof -
  have h: "replies (demo_app_world\<lparr>replies := [Inl (Api_status 500 None)]\<rparr>) = Inl (Api_status 500 None) # []"
    by simp
  show ?thesis using handleSubmit_vendas_failed [OF h, of demo_form_page] h
    by (simp add: demo_form_page_def)
qed

theorem error_banner_persists_witness:
  "vp_error (demo_form_page\<lparr>vp_error := ''Erro ao carregar dados''\<rparr>) \<noteq> []
   \<and> vp_error (fst (vendas_step Submit_form (demo_form_page\<lparr>vp_error := ''Erro ao carregar dados''\<rparr>, demo_submit_world))) \<noteq> []
   \<and> length (api_log (snd (vendas_step Submit_form (demo_form_page\<lparr>vp_error := ''Erro ao carregar dados''\<rparr>, demo_submit_world)))) = 3"
proof -
  have h: "vp_error (fst (demo_form_page\<lparr>vp_error := ''Erro ao carregar dados''\<rparr>, demo_submit_world)) \<noteq> []"
    by simp
  have l: "length (api_log (snd (vendas_step Submit_form (demo_form_page\<lparr>vp_error := ''Erro ao carregar dados''\<rparr>, demo_submit_world)))) = 3"
    by (simp add: handleSubmit_vendas_ok demo_submit_world_def demo_app_world_def Let_def loadData_world)
  show ?thesis using error_banner_persists [OF h, of Submit_form] l by simp
qed

theorem vendas_reachable_inv_witness:
  "vendas_reachable (vendas_step (Input_search ''caf'') (loadData (init_vendas_page demo_app_world) demo_app_world))
   \<and> render_vendas (fst (vendas_step (Input_search ''caf'') (loadData (init_vendas_page demo_app_world) demo_app_world)))
       \<noteq> Vendas_loading
   \<and> vp_error (fst (vendas_step (Input_search ''caf'') (loadData (init_vendas_page demo_app_world) demo_app_world)))
       = ''Erro ao carregar dados''"
proof -
  let ?I = "init_vendas_page demo_app_world"
  have r: "vendas_reachable (vendas_step (Input_search ''caf'') (loadData ?I demo_app_world))"
    by (intro vendas_reachable.step vendas_reachable.mount)
  have "fst (loadData ?I demo_app_world) = ?I\<lparr>vp_error := ''Erro ao carregar dados'', vp_loading := False\<rparr>"
    by (simp add: loadData_state demo_app_world_def)
  then obtain w' where s: "loadData ?I demo_app_world = (?I\<lparr>vp_error := ''Erro ao carregar dados'', vp_loading := False\<rparr>, w')"
    by (metis prod.collapse)
  have e: "vp_error (fst (vendas_step (Input_search ''caf'') (loadData ?I demo_app_world))) = ''Erro ao carregar dados''"
    by (simp add: s)
  show ?thesis using vendas_reachable_inv [OF r] r e by simp
qed


text \<open>The sale of 10 May 2024 as the form sends it, shown in Brasilia (UTC-3): the page
  prints 9 May.\<close>

theorem formatDate_utc_day_witness:
  "valid_ymd (2024, 5, 10) \<and> (0::int) \<le> 2024 \<and> (2024::int) \<le> 9999 \<and> - 1440 < (-180::int) \<and> (-180::int) < 1440
   \<and> iso_ymd (2024, 5, 10) = ''2024-05-10''
   \<and> formatDate (-180) (\<lambda>_. None) ''2024-05-10'' = ''09/05/2024''
   \<and> formatDate (-180) (\<lambda>_. None) ''2024-05-10'' \<noteq> ''10/05/2024''"
proof -
  have v: "valid_ymd (2024, 5, 10)" by (simp add: valid_ymd_def days_in_month_def)
  have i: "iso_ymd (2024, 5, 10) = ''2024-05-10''" by (simp add: iso_ymd_def pad_left_def num_str_eval)
  have p: "pt_br_date (prev_day (2024, 5, 10)) = ''09/05/2024''" "pt_br_date (2024, 5, 10) = ''10/05/2024''"
    by (simp_all add: prev_day_def pt_br_date_def pad_left_def int_str_def num_str_eval)
  show ?thesis using formatDate_utc_day [OF v, of "-180" "\<lambda>_. None"] v i p by simp
qed

end
