(* ===== verification/Products_Page.thy ===== *)
theory Products_Page
  imports Sales_Page
begin

text \<open>
  The products page \<open>Produtos\<close> of \<open>src/src/pages/Produtos.tsx\<close>, on the services of
  \<open>Api_Service\<close>: its \<open>useState\<close> hooks as the record \<open>produtos_page\<close>,
  \<open>loadProdutos\<close>, \<open>handleSubmit\<close> (create or update), \<open>handleDelete\<close>,
  \<open>handleEdit\<close>, \<open>resetForm\<close>, the search \<open>filteredProdutos\<close>, the rendered
  content, and the user's events with the inductive set of the page's runs. The page's
  \<open>error\<close> may be set to \<open>undefined\<close> (the message of an error body that has none), so it
  is a \<open>string option\<close> here; \<open>None\<close> is \<open>undefined\<close>.
\<close>

subsection \<open>State\<close>

record produto_form =
  pf_nome :: string
  pf_descricao :: string
  pf_preco :: string
  pf_categoria :: string
  pf_ativo :: bool

record produtos_page =
  pp_produtos :: "produto list"
  pp_loading :: bool
  pp_error :: "string option"
  pp_searchTerm :: string
  pp_showForm :: bool
  pp_editingProduct :: "produto option"
  pp_formData :: produto_form

definition empty_produto_form :: produto_form where
  "empty_produto_form = \<lparr>pf_nome = [], pf_descricao = [], pf_preco = [], pf_categoria = [], pf_ativo = True\<rparr>"

definition init_produtos_page :: produtos_page where
  "init_produtos_page = \<lparr>pp_produtos = [], pp_loading = True, pp_error = Some [], pp_searchTerm = [],
     pp_showForm = False, pp_editingProduct = None, pp_formData = empty_produto_form\<rparr>"

subsection \<open>Handlers\<close>

definition loadProdutos :: "produtos_page \<Rightarrow> app_world \<Rightarrow> produtos_page \<times> app_world" where
  "loadProdutos st w =
     (let st1 = st\<lparr>pp_loading := True\<rparr> in
      case call (Produtos (Produto_listar 1 50 None)) w of
        (Inr d, w1) \<Rightarrow> (st1\<lparr>pp_produtos := page_produtos d, pp_loading := False\<rparr>, w1)
      | (Inl _, w1) \<Rightarrow> (st1\<lparr>pp_error := Some ''Erro ao carregar produtos'', pp_loading := False\<rparr>, w1))"

text \<open>\<open>{...produtoData, preco: Number(produtoData.preco)}\<close>: the form's members in their
  order, the price converted (\<open>NaN\<close> is sent as \<open>null\<close>, the empty string as 0).\<close>

definition produto_body :: "produto_form \<Rightarrow> json_object" where
  "produto_body f =
     [(''nome'', JStr (pf_nome f)), (''descricao'', JStr (pf_descricao f)),
      (''preco'', json_num (js_Number (pf_preco f))), (''categoria'', JStr (pf_categoria f)),
      (''ativo'', JBool (pf_ativo f))]"

definition resetForm_produtos :: "produtos_page \<Rightarrow> produtos_page" where
  "resetForm_produtos st = st\<lparr>pp_formData := empty_produto_form, pp_editingProduct := None, pp_showForm := False\<rparr>"

text \<open>\<open>atualizar(editingProduct.id, ...)\<close> when a product is being edited, \<open>criar(...)\<close>
  otherwise; then \<open>loadProdutos\<close> (which never throws) and \<open>resetForm\<close>.\<close>

definition save_call :: "produtos_page \<Rightarrow> service" where
  "save_call st = (case pp_editingProduct st of
      Some p \<Rightarrow> Produtos (Produto_atualizar (ent_id p) (produto_body (pp_formData st)))
    | None \<Rightarrow> Produtos (Produto_criar (produto_body (pp_formData st))))"

definition handleSubmit_produtos :: "produtos_page \<Rightarrow> app_world \<Rightarrow> produtos_page \<times> app_world" where
  "handleSubmit_produtos st w =
     (case call (save_call st) w of
        (Inr _, w1) \<Rightarrow> (let (st2, w2) = loadProdutos st w1 in (resetForm_produtos st2, w2))
      | (Inl _, w1) \<Rightarrow> (st\<lparr>pp_error := Some ''Erro ao salvar produto''\<rparr>, w1))"

text \<open>\<open>handleDelete\<close>: after \<open>window.confirm\<close>, \<open>deletar\<close> then \<open>loadProdutos\<close>. Its
  \<open>catch\<close> reads \<open>err.response.data.message\<close>: an error status sets the error to the
  body's message (\<open>undefined\<close> when it has none), and a rejection without a response
  makes that read throw a \<open>TypeError\<close> out of the handler, with no state change.\<close>

datatype outcome = Completed | Uncaught_TypeError

definition handleDelete_produtos ::
  "bool \<Rightarrow> int \<Rightarrow> produtos_page \<Rightarrow> app_world \<Rightarrow> outcome \<times> produtos_page \<times> app_world" where
  "handleDelete_produtos confirmed i st w =
     (if \<not> confirmed then (Completed, st, w)
      else case call (Produtos (Produto_deletar i)) w of
        (Inr _, w1) \<Rightarrow> (let (st2, w2) = loadProdutos st w1 in (Completed, st2, w2))
      | (Inl (Api_status _ msg), w1) \<Rightarrow> (Completed, st\<lparr>pp_error := msg\<rparr>, w1)
      | (Inl Api_network, w1) \<Rightarrow> (Uncaught_TypeError, st, w1))"

definition handleEdit_produtos :: "produto \<Rightarrow> produtos_page \<Rightarrow> produtos_page" where
  "handleEdit_produtos p st = st\<lparr>pp_editingProduct := Some p,
     pp_formData := \<lparr>pf_nome = nome p, pf_descricao = (case descricao p of Some d \<Rightarrow> d | None \<Rightarrow> []),
                     pf_preco = preco p, pf_categoria = (case categoria p of Some c \<Rightarrow> c | None \<Rightarrow> []),
                     pf_ativo = ativo p\<rparr>,
     pp_showForm := True\<rparr>"

subsection \<open>The search\<close>

text \<open>The name contains the term, or the category is truthy and contains it; both
  ignoring case.\<close>

definition matches_produto :: "string \<Rightarrow> produto \<Rightarrow> bool" where
  "matches_produto term p \<longleftrightarrow>
     str_includes (to_lower (nome p)) (to_lower term)
     \<or> (case categoria p of Some c \<Rightarrow> c \<noteq> [] \<and> str_includes (to_lower c) (to_lower term) | None \<Rightarrow> False)"

definition filteredProdutos :: "produtos_page \<Rightarrow> produto list" where
  "filteredProdutos st = filter (matches_produto (pp_searchTerm st)) (pp_produtos st)"

text \<open>\<open>formatCurrency\<close>: the pt-BR \<open>BRL\<close> text of \<open>parseFloat(value)\<close>.\<close>

definition formatCurrency_produtos :: "string \<Rightarrow> string" where
  "formatCurrency_produtos value = intl_brl (parse_float value)"

subsection \<open>Rendering\<close>

text \<open>One product card: the name, the category and the description when truthy, the
  status, the price \<open>formatCurrency\<close> receives, and the sales count when \<open>_count\<close> is
  present.\<close>

record produto_card =
  pc_nome :: string
  pc_categoria :: "string option"
  pc_ativo :: bool
  pc_descricao :: "string option"
  pc_preco :: "js_number option"
  pc_vendas :: "js_number option"

definition produto_card_view :: "produto \<Rightarrow> produto_card" where
  "produto_card_view p = \<lparr>pc_nome = nome p,
     pc_categoria = (if truthy_str (categoria p) then categoria p else None), pc_ativo = ativo p,
     pc_descricao = (if truthy_str (descricao p) then descricao p else None),
     pc_preco = parse_float (preco p), pc_vendas = count_vendas p\<rparr>"

datatype form_mode = Editar_produto | Novo_produto

datatype empty_produtos = Nenhum_produto_encontrado | Nenhum_produto_cadastrado

record produtos_view =
  pv_error :: "string option"
  pv_form :: "(form_mode \<times> produto_form) option"
  pv_cards :: "produto_card list"
  pv_empty :: "(empty_produtos \<times> bool) option"

datatype produtos_screen = Produtos_loading | Produtos_screen produtos_view

definition render_produtos :: "produtos_page \<Rightarrow> produtos_screen" where
  "render_produtos st =
     (if pp_loading st then Produtos_loading
      else Produtos_screen \<lparr>pv_error = (if truthy_str (pp_error st) then pp_error st else None),
        pv_form = (if pp_showForm st
                   then Some (if pp_editingProduct st \<noteq> None then Editar_produto else Novo_produto, pp_formData st)
                   else None),
        pv_cards = map produto_card_view (filteredProdutos st),
        pv_empty = (if filteredProdutos st \<noteq> [] then None
                    else if pp_searchTerm st \<noteq> [] then Some (Nenhum_produto_encontrado, False)
                    else Some (Nenhum_produto_cadastrado, True))\<rparr>)"

subsection \<open>User events\<close>

text \<open>The page's handlers. The form's inputs exist only while the form is shown, and the
  edit and delete buttons only on the cards listed; nothing is enabled while the spinner is
  shown. \<open>Input_ativo\<close> carries the select's value (\<open>"true"\<close> or \<open>"false"\<close>).\<close>

datatype produtos_event =
    Open_produto_form
  | Input_nome string
  | Input_preco string
  | Input_categoria string
  | Input_ativo string
  | Input_descricao string
  | Search_produtos string
  | Edit_produto produto
  | Delete_produto bool int
  | Cancel_produto_form
  | Submit_produto_form

fun produtos_enabled :: "produtos_event \<Rightarrow> produtos_page \<Rightarrow> bool" where
  "produtos_enabled (Edit_produto p) st = (\<not> pp_loading st \<and> p \<in> set (filteredProdutos st))"
| "produtos_enabled (Delete_produto _ i) st =
     (\<not> pp_loading st \<and> list_ex (\<lambda>p. ent_id p = i) (filteredProdutos st))"
| "produtos_enabled Open_produto_form st = (\<not> pp_loading st)"
| "produtos_enabled (Search_produtos _) st = (\<not> pp_loading st)"
| "produtos_enabled _ st = (\<not> pp_loading st \<and> pp_showForm st)"

definition set_form :: "(produto_form \<Rightarrow> produto_form) \<Rightarrow> produtos_page \<Rightarrow> produtos_page" where
  "set_form f st = st\<lparr>pp_formData := f (pp_formData st)\<rparr>"

fun produtos_step :: "produtos_event \<Rightarrow> produtos_page \<times> app_world \<Rightarrow> produtos_page \<times> app_world" where
  "produtos_step Open_produto_form (st, w) = (st\<lparr>pp_showForm := True\<rparr>, w)"
| "produtos_step (Input_nome x) (st, w) = (set_form (\<lambda>f. f\<lparr>pf_nome := x\<rparr>) st, w)"
| "produtos_step (Input_preco x) (st, w) = (set_form (\<lambda>f. f\<lparr>pf_preco := x\<rparr>) st, w)"
| "produtos_step (Input_categoria x) (st, w) = (set_form (\<lambda>f. f\<lparr>pf_categoria := x\<rparr>) st, w)"
| "produtos_step (Input_ativo x) (st, w) = (set_form (\<lambda>f. f\<lparr>pf_ativo := (x = ''true'')\<rparr>) st, w)"
| "produtos_step (Input_descricao x) (st, w) = (set_form (\<lambda>f. f\<lparr>pf_descricao := x\<rparr>) st, w)"
| "produtos_step (Search_produtos x) (st, w) = (st\<lparr>pp_searchTerm := x\<rparr>, w)"
| "produtos_step (Edit_produto p) (st, w) = (handleEdit_produtos p st, w)"
| "produtos_step (Delete_produto ok i) (st, w) = snd (handleDelete_produtos ok i st w)"
| "produtos_step Cancel_produto_form (st, w) = (resetForm_produtos st, w)"
| "produtos_step Submit_produto_form (st, w) = handleSubmit_produtos st w"

inductive produtos_reachable :: "produtos_page \<times> app_world \<Rightarrow> bool" where
  mount: "produtos_reachable (loadProdutos init_produtos_page w)"
| step: "produtos_reachable c \<Longrightarrow> produtos_enabled e (fst c) \<Longrightarrow> produtos_reachable (produtos_step e c)"

subsection \<open>Lemmas\<close>

lemma loadProdutos_cases:
  obtains (ok) d w1 where "call (Produtos (Produto_listar 1 50 None)) w = (Inr d, w1)"
    "loadProdutos st w = (st\<lparr>pp_produtos := page_produtos d, pp_loading := False\<rparr>, w1)"
  | (failed) e w1 where "call (Produtos (Produto_listar 1 50 None)) w = (Inl e, w1)"
    "loadProdutos st w = (st\<lparr>pp_error := Some ''Erro ao carregar produtos'', pp_loading := False\<rparr>, w1)"
  by (cases "call (Produtos (Produto_listar 1 50 None)) w" rule: prod.exhaust; rename_tac r w1; case_tac r)
     (auto simp: loadProdutos_def)

lemma loadProdutos_keeps [simp]:
  "pp_showForm (fst (loadProdutos st w)) = pp_showForm st"
  "pp_editingProduct (fst (loadProdutos st w)) = pp_editingProduct st"
  "pp_formData (fst (loadProdutos st w)) = pp_formData st"
  "pp_searchTerm (fst (loadProdutos st w)) = pp_searchTerm st"
  "pp_loading (fst (loadProdutos st w)) = False"
  by (rule loadProdutos_cases [of w st]; simp)+

lemma loadProdutos_world:
  "api_log (snd (loadProdutos st w)) =
     api_log w @ [request_interceptor (ls_token w) (service_request (Produtos (Produto_listar 1 50 None)))]"
  "replies (snd (loadProdutos st w)) = drop 1 (replies w)"
  by (rule loadProdutos_cases [of w st]; metis api_call_frame(1,2) call_def snd_conv)+

lemma handleSubmit_produtos_ok:
  assumes "replies w = Inr d # rs"
  shows "handleSubmit_produtos st w =
    (let w1 = w\<lparr>api_log := api_log w @ [request_interceptor (ls_token w) (service_request (save_call st))],
                 replies := rs\<rparr>
     in (resetForm_produtos (fst (loadProdutos st w1)), snd (loadProdutos st w1)))"
  using assms by (simp add: handleSubmit_produtos_def call_def api_call_ok Let_def split_def)

lemma handleSubmit_produtos_inv:
  "pp_editingProduct (fst (handleSubmit_produtos st w)) \<noteq> None \<longrightarrow> pp_showForm (fst (handleSubmit_produtos st w))"
  if "pp_editingProduct st \<noteq> None \<longrightarrow> pp_showForm st"
  using that by (auto simp: handleSubmit_produtos_def resetForm_produtos_def split_def Let_def
                      split: prod.split sum.split)

lemma handleDelete_produtos_inv:
  "pp_editingProduct (fst (snd (handleDelete_produtos ok i st w))) = pp_editingProduct st"
  "pp_showForm (fst (snd (handleDelete_produtos ok i st w))) = pp_showForm st"
  by (auto simp: handleDelete_produtos_def split_def split: prod.split sum.split api_error.split)

lemma handleSubmit_produtos_loading:
  "\<not> pp_loading st \<Longrightarrow> \<not> pp_loading (fst (handleSubmit_produtos st w))"
  by (auto simp: handleSubmit_produtos_def resetForm_produtos_def split_def Let_def split: prod.split sum.split)

lemma handleDelete_produtos_loading:
  "\<not> pp_loading st \<Longrightarrow> \<not> pp_loading (fst (snd (handleDelete_produtos ok i st w)))"
  by (auto simp: handleDelete_produtos_def split_def split: prod.split sum.split api_error.split)

lemma filteredProdutos_error [simp]: "filteredProdutos (st\<lparr>pp_error := x\<rparr>) = filteredProdutos st"
  by (simp add: filteredProdutos_def)

lemma produtos_step_inv:
  assumes "\<not> pp_loading (fst c)" and "pp_editingProduct (fst c) \<noteq> None \<longrightarrow> pp_showForm (fst c)"
  shows "\<not> pp_loading (fst (produtos_step e c))
    \<and> (pp_editingProduct (fst (produtos_step e c)) \<noteq> None \<longrightarrow> pp_showForm (fst (produtos_step e c)))"
proof (cases c)
  case (Pair st w)
  then show ?thesis using assms handleSubmit_produtos_inv [of st w] handleSubmit_produtos_loading [of st w]
      handleDelete_produtos_inv handleDelete_produtos_loading
    by (cases e) (simp_all add: set_form_def handleEdit_produtos_def resetForm_produtos_def)
qed

subsection \<open>Properties\<close>

text \<open>The product search keeps exactly, and in order, the products whose name
  contains the search term, or whose non-empty category contains it, ignoring case; with an
  empty term it keeps every product.\<close>

theorem filteredProdutos_spec:
  "set (filteredProdutos st) = {p \<in> set (pp_produtos st).
      sublist (to_lower (pp_searchTerm st)) (to_lower (nome p))
      \<or> (\<exists>c. categoria p = Some c \<and> c \<noteq> [] \<and> sublist (to_lower (pp_searchTerm st)) (to_lower c))}
   \<and> subseq (filteredProdutos st) (pp_produtos st)
   \<and> filteredProdutos (st\<lparr>pp_searchTerm := []\<rparr>) = pp_produtos st"
  by (auto simp: filteredProdutos_def matches_produto_def str_includes_sublist split: option.split)

text \<open>Claim C33: a save the server accepts goes to \<open>PATCH /produtos/{id}\<close> of the product
  being edited, or to \<open>POST /produtos\<close> when none is, with the form's body; then the list
  is reloaded and the form is emptied, leaves edit mode and is hidden.\<close>

theorem handleSubmit_produtos_routes:
  assumes "replies w = Inr d # rs"
  shows "map (\<lambda>r. (req_method r, req_url r)) (drop (length (api_log w)) (api_log (snd (handleSubmit_produtos st w))))
       = [(case pp_editingProduct st of Some p \<Rightarrow> (PATCH, ''/produtos/'' @ int_str (ent_id p))
                                       | None \<Rightarrow> (POST, ''/produtos'')),
          (GET, ''/produtos?page=1&limit=50'')]
    \<and> req_body (api_log (snd (handleSubmit_produtos st w)) ! length (api_log w)) = Some (produto_body (pp_formData st))
    \<and> pp_editingProduct (fst (handleSubmit_produtos st w)) = None
    \<and> \<not> pp_showForm (fst (handleSubmit_produtos st w))
    \<and> pp_formData (fst (handleSubmit_produtos st w)) = empty_produto_form"
  using assms
  by (simp add: handleSubmit_produtos_ok Let_def loadProdutos_world resetForm_produtos_def save_call_def
      request_def url_params_def str_param_def url_unreserved_def num_str_eval nth_append split: option.split)

text \<open>Claim C34: deletion. Without confirmation nothing happens. A rejection with a status
  sets the error to the body's message, which clears the banner when the body has none; a
  rejection without a response throws a \<open>TypeError\<close> out of the \<open>catch\<close> block and shows
  nothing. A successful deletion reloads the list but leaves the edit form, if open, on the
  deleted product.\<close>

theorem handleDelete_produtos_spec:
  "handleDelete_produtos False i st w = (Completed, st, w)
   \<and> (replies w = Inl e # rs \<longrightarrow>
        fst (handleDelete_produtos True i st w) = (if e = Api_network then Uncaught_TypeError else Completed)
        \<and> fst (snd (handleDelete_produtos True i st w))
            = (case e of Api_status _ msg \<Rightarrow> st\<lparr>pp_error := msg\<rparr> | Api_network \<Rightarrow> st))
   \<and> (replies w = Inr d # rs \<longrightarrow>
        map req_url (drop (length (api_log w)) (api_log (snd (snd (handleDelete_produtos True i st w)))))
          = [''/produtos/'' @ int_str i, ''/produtos?page=1&limit=50'']
        \<and> pp_editingProduct (fst (snd (handleDelete_produtos True i st w))) = pp_editingProduct st
        \<and> pp_showForm (fst (snd (handleDelete_produtos True i st w))) = pp_showForm st)"
proof -
  have rej: "replies w = Inl e # rs \<Longrightarrow>
      fst (handleDelete_produtos True i st w) = (if e = Api_network then Uncaught_TypeError else Completed)
      \<and> fst (snd (handleDelete_produtos True i st w))
          = (case e of Api_status _ msg \<Rightarrow> st\<lparr>pp_error := msg\<rparr> | Api_network \<Rightarrow> st)"
    by (cases e) (simp_all add: handleDelete_produtos_def call_def api_call_error)
  have ok: "replies w = Inr d # rs \<Longrightarrow>
      map req_url (drop (length (api_log w)) (api_log (snd (snd (handleDelete_produtos True i st w)))))
        = [''/produtos/'' @ int_str i, ''/produtos?page=1&limit=50'']"
    by (simp add: handleDelete_produtos_def call_def api_call_ok split_def loadProdutos_world request_def
        url_params_def str_param_def url_unreserved_def num_str_eval)
  have no: "handleDelete_produtos False i st w = (Completed, st, w)"
    by (simp add: handleDelete_produtos_def)
  show ?thesis using no rej ok handleDelete_produtos_inv [of True i st w] by blast
qed

text \<open>Claim C35: in every run of the products page (mounted, then any enabled events,
  against any server) the spinner is gone, and whenever a product is being edited the form
  is shown with the title "Editar Produto".\<close>

theorem produtos_reachable_inv:
  assumes "produtos_reachable c"
  shows "\<not> pp_loading (fst c) \<and> (pp_editingProduct (fst c) \<noteq> None \<longrightarrow> pp_showForm (fst c))
    \<and> (\<exists>v. render_produtos (fst c) = Produtos_screen v
           \<and> (pp_editingProduct (fst c) \<noteq> None \<longrightarrow> map_option fst (pv_form v) = Some Editar_produto))"
proof -
  have "\<not> pp_loading (fst c) \<and> (pp_editingProduct (fst c) \<noteq> None \<longrightarrow> pp_showForm (fst c))"
    using assms
  proof (induction rule: produtos_reachable.induct)
    case (mount w)
    then show ?case by (simp add: init_produtos_page_def)
  next
    case (step c e)
    then show ?case using produtos_step_inv by blast
  qed
  then show ?thesis by (simp add: render_produtos_def)
qed

subsection \<open>Witnesses\<close>

definition demo_produto :: produto where
  "demo_produto = \<lparr>ent_id = 7, usuarioId = 1, createdAt = ''2024-05-01'', updatedAt = ''2024-05-01'',
     nome = ''Cafe'', descricao = None, preco = ''10.50'', categoria = Some ''Bebidas'', ativo = True,
     count_vendas = None\<rparr>"

definition demo_produtos_page :: produtos_page where
  "demo_produtos_page = init_produtos_page\<lparr>pp_loading := False, pp_produtos := [demo_produto]\<rparr>"

theorem handleSubmit_produtos_routes_witness:
  "replies (demo_app_world\<lparr>replies := [Inr (One_produto demo_produto), Inr (Page_produtos None)]\<rparr>)
     = Inr (One_produto demo_produto) # [Inr (Page_produtos None)]
   \<and> map (\<lambda>r. (req_method r, req_url r)) (api_log (snd (handleSubmit_produtos
        (handleEdit_produtos demo_produto demo_produtos_page)
        (demo_app_world\<lparr>replies := [Inr (One_produto demo_produto), Inr (Page_produtos None)]\<rparr>))))
     = [(PATCH, ''/produtos/7''), (GET, ''/produtos?page=1&limit=50'')]"
proof -
  have h: "replies (demo_app_world\<lparr>replies := [Inr (One_produto demo_produto), Inr (Page_produtos None)]\<rparr>)
     = Inr (One_produto demo_produto) # [Inr (Page_produtos None)]" by simp
  show ?thesis
    using handleSubmit_produtos_routes [OF h, of "handleEdit_produtos demo_produto demo_produtos_page"] h
    by (simp add: demo_app_world_def handleEdit_produtos_def demo_produto_def int_str_def num_str_eval)
qed

theorem handleDelete_produtos_spec_witness:
  "replies (demo_app_world\<lparr>replies := [Inl (Api_status 404 None)]\<rparr>) = Inl (Api_status 404 None) # []
   \<and> render_produtos (fst (snd (handleDelete_produtos True 7 (demo_produtos_page\<lparr>pp_error := Some ''Erro ao salvar produto''\<rparr>)
        (demo_app_world\<lparr>replies := [Inl (Api_status 404 None)]\<rparr>))))
     = render_produtos demo_produtos_page
   \<and> replies (demo_app_world\<lparr>replies := [Inl Api_network]\<rparr>) = Inl Api_network # []
   \<and> fst (handleDelete_produtos True 7 demo_produtos_page (demo_app_world\<lparr>replies := [Inl Api_network]\<rparr>))
     = Uncaught_TypeError"
proof -
  have h1: "replies (demo_app_world\<lparr>replies := [Inl (Api_status 404 None)]\<rparr>) = Inl (Api_status 404 None) # []"
    by simp
  have h2: "replies (demo_app_world\<lparr>replies := [Inl Api_network]\<rparr>) = Inl Api_network # []" by simp
  have e: "(demo_produtos_page\<lparr>pp_error := Some ''Erro ao salvar produto''\<rparr>)\<lparr>pp_error := None\<rparr>
      = demo_produtos_page\<lparr>pp_error := None\<rparr>" by simp
  have r: "render_produtos (demo_produtos_page\<lparr>pp_error := None\<rparr>) = render_produtos demo_produtos_page"
    by (simp add: render_produtos_def demo_produtos_page_def init_produtos_page_def del: filteredProdutos_error)
       (simp add: filteredProdutos_def)
  show ?thesis
    using handleDelete_produtos_spec [of 7 "demo_produtos_page\<lparr>pp_error := Some ''Erro ao salvar produto''\<rparr>"
            "demo_app_world\<lparr>replies := [Inl (Api_status 404 None)]\<rparr>" "Api_status 404 None" "[]"]
          handleDelete_produtos_spec [of 7 demo_produtos_page "demo_app_world\<lparr>replies := [Inl Api_network]\<rparr>"
            Api_network "[]"] h1 h2 e r
    by simp
qed

theorem produtos_reachable_inv_witness:
  "produtos_reachable (produtos_step (Edit_produto demo_produto)
      (loadProdutos init_produtos_page (demo_app_world\<lparr>replies := [Inr (Page_produtos (Some [demo_produto]))]\<rparr>)))
   \<and> pp_showForm (fst (produtos_step (Edit_produto demo_produto)
      (loadProdutos init_produtos_page (demo_app_world\<lparr>replies := [Inr (Page_produtos (Some [demo_produto]))]\<rparr>))))"
proof -
  let ?w = "demo_app_world\<lparr>replies := [Inr (Page_produtos (Some [demo_produto]))]\<rparr>"
  have l: "fst (loadProdutos init_produtos_page ?w)
      = init_produtos_page\<lparr>pp_produtos := [demo_produto], pp_loading := False\<rparr>"
    by (simp add: loadProdutos_def call_def api_call_ok page_produtos_def)
  have en: "produtos_enabled (Edit_produto demo_produto) (fst (loadProdutos init_produtos_page ?w))"
    unfolding l by (simp add: filteredProdutos_def matches_produto_def init_produtos_page_def)
  have r: "produtos_reachable (produtos_step (Edit_produto demo_produto) (loadProdutos init_produtos_page ?w))"
    by (rule produtos_reachable.step [OF produtos_reachable.mount en])
  have e: "pp_editingProduct (fst (produtos_step (Edit_produto demo_produto) (loadProdutos init_produtos_page ?w))) \<noteq> None"
    by (cases "loadProdutos init_produtos_page ?w") (simp add: handleEdit_produtos_def)
  show ?thesis using produtos_reachable_inv [OF r] r e by blast
qed

end
