(* ===== verification/Dashboard_Page.thy ===== *)
theory Dashboard_Page
  imports Api_Service Intl_Format
begin

text \<open>
  The dashboard \<open>src/src/pages/Dashboard.tsx\<close>: its state, \<open>loadDashboard\<close>,
  \<open>handleExport\<close> with the file it offers, the screen it renders (spinner, error card, empty
  message, a crash when the answer is not a dashboard, or the metrics), and its events
  ("Tentar Novamente" and the two export buttons). \<open>setData\<close> stores whatever the server
  answered, so the state holds the raw \<open>api_data\<close>. \<open>Object.entries\<close> is the order of the
  server's association lists (its reordering of integer-like keys is not modelled).
\<close>

record dashboard_page =
  dp_data :: "api_data option"
  dp_loading :: bool
  dp_error :: string
  dp_exportLoading :: bool

definition init_dashboard_page :: dashboard_page where
  "init_dashboard_page = \<lparr>dp_data = None, dp_loading = True, dp_error = [], dp_exportLoading = False\<rparr>"

definition loadDashboard :: "dashboard_page \<Rightarrow> app_world \<Rightarrow> dashboard_page \<times> app_world" where
  "loadDashboard st w =
     (let st1 = st\<lparr>dp_loading := True\<rparr> in
      case call (Relatorios Relatorio_dashboard) w of
        (Inr d, w1) \<Rightarrow> (st1\<lparr>dp_data := Some d, dp_loading := False\<rparr>, w1)
      | (Inl _, w1) \<Rightarrow> (st1\<lparr>dp_error := ''Erro ao carregar dados do dashboard'', dp_loading := False\<rparr>, w1))"

text \<open>The file \<open>handleExport\<close> offers: its name \<open>relatorio-vendas.<formato>\<close> and the
  blob's content.\<close>

record export_file =
  ef_name :: string
  ef_content :: string

definition blob_content :: "api_data \<Rightarrow> string" where
  "blob_content d = (case d of Blob_payload b \<Rightarrow> b | _ \<Rightarrow> [])"

definition handleExport ::
  "export_format \<Rightarrow> dashboard_page \<Rightarrow> app_world \<Rightarrow> export_file option \<times> dashboard_page \<times> app_world" where
  "handleExport f st w =
     (let st1 = st\<lparr>dp_exportLoading := True\<rparr> in
      case call (Relatorios (Relatorio_exportar f None None)) w of
        (Inr d, w1) \<Rightarrow> (Some \<lparr>ef_name = ''relatorio-vendas.'' @ formato_str f, ef_content = blob_content d\<rparr>,
                        st1\<lparr>dp_exportLoading := False\<rparr>, w1)
      | (Inl _, w1) \<Rightarrow> (None, st1\<lparr>dp_error := ''Erro ao exportar relatorio'', dp_exportLoading := False\<rparr>, w1))"

text \<open>\<open>useEffect(() => { loadDashboard(); }, [])\<close>: the first load on mount.\<close>

definition dashboard_mount :: "app_world \<Rightarrow> dashboard_page \<times> app_world" where
  "dashboard_mount w = loadDashboard init_dashboard_page w"

text \<open>\<open>formatCurrency(value: number)\<close>: the pt-BR \<open>BRL\<close> text of the number (\<open>None\<close> is
  \<open>NaN\<close>).\<close>

definition formatCurrency :: "js_number option \<Rightarrow> string" where
  "formatCurrency value = intl_brl value"

subsection \<open>Rendering\<close>

text \<open>\<open>Object.entries(data.vendasPorDia).slice(-7)\<close>: the last seven entries, all of them
  when there are fewer.\<close>

definition ultimos_dias :: "'a list \<Rightarrow> 'a list" where
  "ultimos_dias xs = drop (length xs - 7) xs"

text \<open>The five best sellers with their rank, the category or \<open>Sem categoria\<close>, the units
  and the parsed total; the categories; the last seven days.\<close>

record top_row =
  tr_rank :: nat
  tr_nome :: string
  tr_categoria :: string
  tr_quantidade :: js_number
  tr_valor :: "js_number option"

definition top_rows :: "mais_vendido list \<Rightarrow> top_row list" where
  "top_rows ms = map (\<lambda>(i, m). \<lparr>tr_rank = i + 1, tr_nome = mv_nome m,
       tr_categoria = (case mv_categoria m of Some c \<Rightarrow> if c \<noteq> [] then c else ''Sem categoria''
                                            | None \<Rightarrow> ''Sem categoria''),
       tr_quantidade = quantidadeVendida m, tr_valor = parse_float (mv_valorTotal m)\<rparr>)
     (zip [0..<length (take 5 ms)] (take 5 ms))"

text \<open>The label of a day of \<open>vendasPorDia\<close>: \<open>new Date(data).toLocaleDateString('pt-BR',
  {weekday: 'long', day: '2-digit', month: '2-digit'})\<close> in the time zone \<open>tz\<close>.\<close>

definition dia_label :: "int \<Rightarrow> (string \<Rightarrow> (ymd \<times> nat) option) \<Rightarrow> string \<Rightarrow> string" where
  "dia_label tz fallback data =
     (case date_parse fallback tz data of
        None \<Rightarrow> ''Invalid Date''
      | Some t \<Rightarrow> pt_br_weekday_day_month (local_date tz t))"

record dashboard_view =
  dv_mensal :: resumo
  dv_anual :: resumo
  dv_top_count :: nat
  dv_top :: "top_row list"
  dv_categorias :: "(string \<times> js_number \<times> js_number) list"
  dv_dias :: "(string \<times> js_number) list"
  dv_export_disabled :: bool

datatype dashboard_screen =
    Dash_loading | Dash_error string | Dash_empty | Dash_crash | Dash_view dashboard_view

text \<open>The checks in the order of the code: loading, then error, then no data. Data that is not
  a dashboard makes \<open>data.resumoMensal.totalVendas\<close> throw while rendering.\<close>

definition render_dashboard :: "dashboard_page \<Rightarrow> dashboard_screen" where
  "render_dashboard st =
     (if dp_loading st then Dash_loading
      else if dp_error st \<noteq> [] then Dash_error (dp_error st)
      else case dp_data st of
        None \<Rightarrow> Dash_empty
      | Some (Dashboard_payload d) \<Rightarrow> Dash_view \<lparr>dv_mensal = resumoMensal d, dv_anual = resumoAnual d,
          dv_top_count = length (produtosMaisVendidos d), dv_top = top_rows (produtosMaisVendidos d),
          dv_categorias = map (\<lambda>(c, q, v). (if c \<noteq> [] then c else ''Sem categoria'', q, v)) (vendasPorCategoria d),
          dv_dias = ultimos_dias (vendasPorDia d),
          dv_export_disabled = dp_exportLoading st\<rparr>
      | Some _ \<Rightarrow> Dash_crash)"

subsection \<open>Events\<close>

datatype dashboard_event = Tentar_novamente | Exportar export_format

fun dashboard_step :: "dashboard_event \<Rightarrow> dashboard_page \<times> app_world \<Rightarrow> dashboard_page \<times> app_world" where
  "dashboard_step Tentar_novamente (st, w) = loadDashboard st w"
| "dashboard_step (Exportar f) (st, w) = snd (handleExport f st w)"

subsection \<open>Properties\<close>

lemma ultimos_dias_suffix: "length (ultimos_dias xs) = min 7 (length xs) \<and> suffix (ultimos_dias xs) xs"
  by (simp add: ultimos_dias_def suffix_drop)

lemma dashboard_mount_screen:
  "render_dashboard (fst (dashboard_mount w)) \<noteq> Dash_loading"
  by (simp add: dashboard_mount_def loadDashboard_def init_dashboard_page_def render_dashboard_def Let_def
           split: prod.split sum.split option.split api_data.split)

lemma loadDashboard_error:
  "dp_error (fst (loadDashboard st w)) \<in> {dp_error st, ''Erro ao carregar dados do dashboard''}"
  "\<not> dp_loading (fst (loadDashboard st w))"
  by (auto simp: loadDashboard_def Let_def split: prod.split sum.split)

lemma handleExport_error:
  "dp_error (fst (snd (handleExport f st w))) \<in> {dp_error st, ''Erro ao exportar relatorio''}"
  "dp_loading (fst (snd (handleExport f st w))) = dp_loading st"
  by (auto simp: handleExport_def Let_def split: prod.split sum.split)

text \<open>Claim C24: a day key \<open>YYYY-MM-DD\<close> of \<open>vendasPorDia\<close> is read by \<open>new Date\<close>
  as UTC midnight: west of UTC the dashboard labels it with the day before, and with the
  weekday before it in the calendar.\<close>

lemma dia_label_utc_day:
  assumes "valid_ymd (y, m, d)" "0 \<le> y" "y \<le> 9999" "- 1440 < tz" "tz < 0"
  shows "dia_label tz fallback (iso_ymd (y, m, d)) = pt_br_weekday_day_month (prev_day (y, m, d))
         \<and> Suc (week_day (prev_day (y, m, d))) mod 7 = week_day (y, m, d)"
  using date_parse_ymd [OF assms(1-3)] local_date_midnight [of tz "(y, m, d)"] assms(4,5)
    week_day_prev [OF assms(1)] by (simp add: dia_label_def)

text \<open>Claim C40: the dashboard's error screen is a dead end. "Tentar Novamente" calls
  \<open>loadDashboard\<close>, which never clears \<open>error\<close>, and the render tests \<open>error\<close>
  before the data: from a shown error screen every event, a retry the server answers
  successfully included, leads to an error screen again.\<close>

theorem dashboard_error_absorbing:
  assumes "\<not> dp_loading (fst c)" and "dp_error (fst c) \<noteq> []"
  shows "\<exists>m. m \<noteq> [] \<and> render_dashboard (fst (dashboard_step e c)) = Dash_error m"
proof (cases c)
  case (Pair st w)
  show ?thesis
  proof (cases e)
    case Tentar_novamente
    then show ?thesis using Pair assms loadDashboard_error [of st w] by (auto simp: render_dashboard_def)
  next
    case (Exportar f)
    then show ?thesis using Pair assms handleExport_error [of f st w] by (auto simp: render_dashboard_def)
  qed
qed

definition demo_dashboard :: dashboard where
  "demo_dashboard = \<lparr>resumoMensal = \<lparr>totalVendas = 30, quantidadeVendas = 2, ticketMedio = 15\<rparr>,
     resumoAnual = \<lparr>totalVendas = 30, quantidadeVendas = 2, ticketMedio = 15\<rparr>,
     produtosMaisVendidos = [], vendasPorCategoria = [], vendasPorDia = []\<rparr>"

theorem dashboard_error_absorbing_witness:
  "\<not> dp_loading (fst (init_dashboard_page\<lparr>dp_loading := False, dp_error := ''Erro ao carregar dados do dashboard''\<rparr>,
       demo_app_world\<lparr>replies := [Inr (Dashboard_payload demo_dashboard)]\<rparr>))
   \<and> render_dashboard (fst (dashboard_step Tentar_novamente
       (init_dashboard_page\<lparr>dp_loading := False, dp_error := ''Erro ao carregar dados do dashboard''\<rparr>,
        demo_app_world\<lparr>replies := [Inr (Dashboard_payload demo_dashboard)]\<rparr>)))
     = Dash_error ''Erro ao carregar dados do dashboard''"
proof -
  let ?c = "(init_dashboard_page\<lparr>dp_loading := False, dp_error := ''Erro ao carregar dados do dashboard''\<rparr>,
        demo_app_world\<lparr>replies := [Inr (Dashboard_payload demo_dashboard)]\<rparr>)"
  have h: "\<not> dp_loading (fst ?c)" "dp_error (fst ?c) \<noteq> []" by simp_all
  have "render_dashboard (fst (dashboard_step Tentar_novamente ?c)) = Dash_error ''Erro ao carregar dados do dashboard''"
    using dashboard_error_absorbing [OF h, of Tentar_novamente]
    by (simp add: loadDashboard_def call_def api_call_ok render_dashboard_def)
  then show ?thesis by simp
qed


text \<open>The day 10 May 2024 (a Friday) in Brasilia is labelled Thursday the 9th.\<close>

theorem dia_label_utc_day_witness:
  "valid_ymd (2024, 5, 10) \<and> (0::int) \<le> 2024 \<and> (2024::int) \<le> 9999 \<and> - 1440 < (-180::int) \<and> (-180::int) < 0
   \<and> iso_ymd (2024, 5, 10) = ''2024-05-10''
   \<and> dia_label (-180) (\<lambda>_. None) ''2024-05-10'' = ''quinta-feira, 09/05''
   \<and> week_day (2024, 5, 10) = 5"
proof -
  have v: "valid_ymd (2024, 5, 10)" by (simp add: valid_ymd_def days_in_month_def)
  have i: "iso_ymd (2024, 5, 10) = ''2024-05-10''" by (simp add: iso_ymd_def pad_left_def num_str_eval)
  have p: "pt_br_weekday_day_month (prev_day (2024, 5, 10)) = ''quinta-feira, 09/05''"
    by (simp add: prev_day_def pt_br_weekday_day_month_def week_day_def week_base_def year_shift_def
        weekday_long_pt_def pad_left_def num_str_eval)
  have w: "week_day (2024, 5, 10) = 5"
    by (simp add: week_day_def week_base_def year_shift_def)
  show ?thesis using dia_label_utc_day [OF v, of "-180" "\<lambda>_. None"] v i p w by simp
qed

end
