(* ===== verification/Auth_Routes.thy ===== *)
theory Auth_Routes
  imports Api_Service
begin

text \<open>
  Authentication and routing: the registration page \<open>Register\<close>
  (\<open>src/src/pages/Register.tsx\<close>), the route table of \<open>App\<close> (\<open>src/src/App.tsx\<close>)
  with its guard \<open>ProtectedRoute\<close> (\<open>src/src/components/ProtectedRoute.tsx\<close>), and the
  logout of \<open>Layout\<close> (\<open>src/src/components/Layout.tsx\<close>). Navigation is the world's
  \<open>location\<close>; route resolution follows \<open><Navigate>\<close> redirects with fuel, and three
  hops are enough for every path (lemma \<open>resolve_total\<close>). The login page the route table
  names is not in the repository.
\<close>

subsection \<open>\<open>Register\<close>\<close>

record register_form =
  rf_nome :: string
  rf_email :: string
  rf_senha :: string
  rf_confirmSenha :: string

text \<open>The page's messages (the Portuguese texts are not ASCII): the two local checks, a
  server's message, and the default text.\<close>

datatype register_message =
    Senhas_nao_coincidem | Senha_curta | Mensagem_servidor string | Erro_criar_conta

record register_page =
  rg_formData :: register_form
  rg_showPassword :: bool
  rg_showConfirmPassword :: bool
  rg_error :: "register_message option"
  rg_loading :: bool

definition init_register_page :: register_page where
  "init_register_page = \<lparr>rg_formData = \<lparr>rf_nome = [], rf_email = [], rf_senha = [], rf_confirmSenha = []\<rparr>,
     rg_showPassword = False, rg_showConfirmPassword = False, rg_error = None, rg_loading = False\<rparr>"

datatype register_field = Nome | Email | Senha | ConfirmSenha

fun register_change :: "register_field \<Rightarrow> string \<Rightarrow> register_page \<Rightarrow> register_page" where
  "register_change Nome x st = st\<lparr>rg_formData := (rg_formData st)\<lparr>rf_nome := x\<rparr>\<rparr>"
| "register_change Email x st = st\<lparr>rg_formData := (rg_formData st)\<lparr>rf_email := x\<rparr>\<rparr>"
| "register_change Senha x st = st\<lparr>rg_formData := (rg_formData st)\<lparr>rf_senha := x\<rparr>\<rparr>"
| "register_change ConfirmSenha x st = st\<lparr>rg_formData := (rg_formData st)\<lparr>rf_confirmSenha := x\<rparr>\<rparr>"

text \<open>\<open>err.response?.data?.message || 'Erro ao criar conta. Tente novamente.'\<close>\<close>

definition register_error :: "api_error \<Rightarrow> register_message" where
  "register_error e = (case e of Api_status _ (Some m) \<Rightarrow> if m \<noteq> [] then Mensagem_servidor m else Erro_criar_conta
                       | _ \<Rightarrow> Erro_criar_conta)"

text \<open>\<open>localStorage.setItem('token', loginResponse.access_token)\<close>: \<open>setItem\<close> stores the
  string form of its argument, so a missing \<open>access_token\<close> is stored as
  \<open>"undefined"\<close>.\<close>

definition access_token_str :: "api_data \<Rightarrow> string" where
  "access_token_str d = (case d of Auth_answer (Some t) \<Rightarrow> t | _ \<Rightarrow> ''undefined'')"

text \<open>\<open>handleRegister\<close>: the two checks (\<open>senha.length\<close> counts characters), then
  \<open>register\<close>, then \<open>login\<close> with the same credentials, the token stored and
  \<open>navigate('/dashboard')\<close>; \<open>finally\<close> clears \<open>loading\<close>.\<close>

definition handleRegister :: "register_page \<Rightarrow> app_world \<Rightarrow> register_page \<times> app_world" where
  "handleRegister st w =
     (let f = rg_formData st; st1 = st\<lparr>rg_loading := True, rg_error := None\<rparr> in
      if rf_senha f \<noteq> rf_confirmSenha f
      then (st1\<lparr>rg_error := Some Senhas_nao_coincidem, rg_loading := False\<rparr>, w)
      else if length (rf_senha f) < 6
      then (st1\<lparr>rg_error := Some Senha_curta, rg_loading := False\<rparr>, w)
      else case call (Auth (Register (rf_nome f) (rf_email f) (rf_senha f))) w of
        (Inl e, w1) \<Rightarrow> (st1\<lparr>rg_error := Some (register_error e), rg_loading := False\<rparr>, w1)
      | (Inr _, w1) \<Rightarrow>
          (case call (Auth (Login (rf_email f) (rf_senha f))) w1 of
             (Inl e, w2) \<Rightarrow> (st1\<lparr>rg_error := Some (register_error e), rg_loading := False\<rparr>, w2)
           | (Inr d, w2) \<Rightarrow>
               (st1\<lparr>rg_loading := False\<rparr>,
                w2\<lparr>ls_token := Some (access_token_str d), location := ''/dashboard''\<rparr>)))"

subsection \<open>Routes, \<open>ProtectedRoute\<close> and logout\<close>

datatype screen =
    Screen_login | Screen_register | Screen_dashboard | Screen_produtos | Screen_vendas
  | Screen_relatorios | Screen_configuracoes | Screen_venda_form

datatype route_element = Public screen | Protected screen | Redirect string

text \<open>The \<open><Routes>\<close> of \<open>App\<close>, in order; every protected page is wrapped in
  \<open>ProtectedRoute\<close>.\<close>

definition routes :: "(string \<times> route_element) list" where
  "routes =
     [(''/login'', Public Screen_login), (''/register'', Public Screen_register),
      (''/dashboard'', Protected Screen_dashboard), (''/produtos'', Protected Screen_produtos),
      (''/vendas'', Protected Screen_vendas), (''/relatorios'', Protected Screen_relatorios),
      (''/configuracoes'', Protected Screen_configuracoes), (''/venda-form'', Protected Screen_venda_form),
      (''/'', Redirect ''/dashboard''), (''/menu'', Redirect ''/dashboard'')]"

definition is_protected :: "screen \<Rightarrow> bool" where
  "is_protected s \<longleftrightarrow> s \<noteq> Screen_login \<and> s \<noteq> Screen_register"

text \<open>\<open>ProtectedRoute\<close>: the child when the token is truthy, otherwise
  \<open><Navigate to="/login"/>\<close> (\<open>None\<close>).\<close>

definition protected_route :: "string option \<Rightarrow> screen \<Rightarrow> screen option" where
  "protected_route tok s = (if truthy_str tok then Some s else None)"

text \<open>The path reached and the screen shown (\<open>None\<close>: no route matches, nothing is
  rendered). The fuel counts route look-ups.\<close>

fun resolve :: "nat \<Rightarrow> string option \<Rightarrow> string \<Rightarrow> (string \<times> screen option) option" where
  "resolve 0 tok p = None"
| "resolve (Suc n) tok p =
     (case map_of routes p of
        None \<Rightarrow> Some (p, None)
      | Some (Public s) \<Rightarrow> Some (p, Some s)
      | Some (Protected s) \<Rightarrow>
          (case protected_route tok s of Some s' \<Rightarrow> Some (p, Some s') | None \<Rightarrow> resolve n tok ''/login'')
      | Some (Redirect q) \<Rightarrow> resolve n tok q)"

text \<open>\<open>Layout\<close>'s \<open>handleLogout\<close>.\<close>

definition layout_logout :: "app_world \<Rightarrow> app_world" where
  "layout_logout w = w\<lparr>ls_token := None, location := ''/login''\<rparr>"

subsection \<open>Lemmas\<close>

lemma resolve_login [simp]: "resolve (Suc n) tok ''/login'' = Some (''/login'', Some Screen_login)"
  by (simp add: routes_def)

lemmas route_simps = routes_def protected_route_def

lemma resolve_dashboard [simp]:
  "resolve (Suc (Suc n)) tok ''/dashboard'' =
     (if truthy_str tok then Some (''/dashboard'', Some Screen_dashboard) else Some (''/login'', Some Screen_login))"
  by (simp add: route_simps)

lemma handleRegister_accepted:
  assumes "rf_senha (rg_formData st) = rf_confirmSenha (rg_formData st)"
    and "\<not> length (rf_senha (rg_formData st)) < 6"
    and "replies w = Inr d1 # Inr d2 # rs"
  shows "snd (handleRegister st w) =
     (w\<lparr>api_log := api_log w @
          [request_interceptor (ls_token w) (service_request (Auth (Register (rf_nome (rg_formData st))
              (rf_email (rg_formData st)) (rf_senha (rg_formData st))))),
           request_interceptor (ls_token w) (service_request (Auth (Login (rf_email (rg_formData st))
              (rf_senha (rg_formData st)))))],
        replies := rs\<rparr>)\<lparr>ls_token := Some (access_token_str d2), location := ''/dashboard''\<rparr>"
  using assms by (simp add: handleRegister_def Let_def call_def api_call_ok)

lemma resolve_mono: "resolve n tok p = Some r \<Longrightarrow> resolve (Suc n) tok p = Some r"
proof (induction n arbitrary: p)
  case (Suc n)
  show ?case
  proof (cases "map_of routes p")
    case (Some e)
    show ?thesis
    proof (cases e)
      case (Protected sc)
      then show ?thesis using Suc Some by (cases "protected_route tok sc") simp_all
    next
      case (Redirect q)
      then show ?thesis using Suc Some by simp
    qed (use Suc Some in simp)
  qed (use Suc in simp)
qed simp

lemma resolve_total: "\<exists>r. resolve 3 tok p = Some r"
proof (cases "map_of routes p")
  case (Some e)
  then have "(p, e) \<in> set routes" by (rule map_of_SomeD)
  then show ?thesis by (auto simp: route_simps eval_nat_numeral)
qed (simp add: eval_nat_numeral)

subsection \<open>Properties\<close>

text \<open>Claim C36: route resolution always ends (three look-ups suffice, \<open>/\<close> and
  \<open>/menu\<close> redirect once and a guard at most once more); a protected screen is shown only
  with a truthy token; without one, every routed path other than \<open>/register\<close> ends on the
  login screen at \<open>/login\<close>.\<close>

theorem routes_guarded:
  "(\<exists>r. resolve 3 tok p = Some r)
   \<and> (\<forall>q sc. resolve 3 tok p = Some (q, Some sc) \<and> is_protected sc \<longrightarrow> truthy_str tok)
   \<and> (\<not> truthy_str tok \<and> map_of routes p \<noteq> None \<and> p \<noteq> ''/register''
        \<longrightarrow> resolve 3 tok p = Some (''/login'', Some Screen_login))"
proof (cases "map_of routes p")
  case None
  then show ?thesis by (simp add: eval_nat_numeral)
next
  case (Some e)
  then have "(p, e) \<in> set routes" by (rule map_of_SomeD)
  then show ?thesis by (auto simp: route_simps is_protected_def eval_nat_numeral)
qed

text \<open>The page's two checks come before any request, in this order: different
  passwords give the mismatch message, and matching ones shorter than six characters the
  length message; in both cases nothing is sent and \<open>loading\<close> ends false.\<close>

theorem handleRegister_checks:
  "(rf_senha (rg_formData st) \<noteq> rf_confirmSenha (rg_formData st) \<longrightarrow>
      handleRegister st w = (st\<lparr>rg_error := Some Senhas_nao_coincidem, rg_loading := False\<rparr>, w))
   \<and> (rf_senha (rg_formData st) = rf_confirmSenha (rg_formData st) \<and> length (rf_senha (rg_formData st)) < 6 \<longrightarrow>
      handleRegister st w = (st\<lparr>rg_error := Some Senha_curta, rg_loading := False\<rparr>, w))"
  by (auto simp: handleRegister_def Let_def)

text \<open>Route resolution terminates: three look-ups give a result for every path
  and token (\<open>/\<close> and \<open>/menu\<close> redirect once, a guard at most once more), and more fuel
  never changes it.\<close>

theorem resolve_terminates: "\<exists>r. resolve 3 tok p = Some r \<and> (\<forall>n \<ge> 3. resolve n tok p = Some r)"
proof -
  obtain r where r: "resolve 3 tok p = Some r" using resolve_total by blast
  have "resolve n tok p = Some r" if "3 \<le> n" for n
    using that
  proof (induction n rule: dec_induct)
    case (step m)
    then show ?case using resolve_mono by blast
  qed (rule r)
  with r show ?thesis by blast
qed

theorem routes_guarded_witness:
  "resolve 3 None ''/'' = Some (''/login'', Some Screen_login)
   \<and> resolve 3 (Some ''t'') ''/'' = Some (''/dashboard'', Some Screen_dashboard)"
proof -
  have "\<not> truthy_str None \<and> map_of routes ''/'' \<noteq> None \<and> ''/'' \<noteq> ''/register''"
    by (simp add: routes_def)
  then show ?thesis using routes_guarded [of None "''/''"] by (simp add: eval_nat_numeral route_simps)
qed

theorem handleRegister_checks_witness:
  "rf_senha (rg_formData (init_register_page\<lparr>rg_formData := \<lparr>rf_nome = ''Ana'', rf_email = ''a@b.c'',
      rf_senha = ''abc'', rf_confirmSenha = ''abc''\<rparr>\<rparr>)) = ''abc''
   \<and> fst (handleRegister (init_register_page\<lparr>rg_formData := \<lparr>rf_nome = ''Ana'', rf_email = ''a@b.c'',
      rf_senha = ''abc'', rf_confirmSenha = ''abc''\<rparr>\<rparr>) demo_app_world)
     = init_register_page\<lparr>rg_formData := \<lparr>rf_nome = ''Ana'', rf_email = ''a@b.c'',
      rf_senha = ''abc'', rf_confirmSenha = ''abc''\<rparr>, rg_error := Some Senha_curta\<rparr>"
  using handleRegister_checks [of "init_register_page\<lparr>rg_formData := \<lparr>rf_nome = ''Ana'', rf_email = ''a@b.c'',
      rf_senha = ''abc'', rf_confirmSenha = ''abc''\<rparr>\<rparr>" demo_app_world]
  by (simp add: init_register_page_def)

theorem resolve_terminates_witness:
  "resolve 5 None ''/menu'' = Some (''/login'', Some Screen_login)"
proof -
  obtain r where r: "resolve 3 None ''/menu'' = Some r" "\<forall>n \<ge> 3. resolve n None ''/menu'' = Some r"
    using resolve_terminates [of None "''/menu''"] by blast
  have "resolve 3 None ''/menu'' = Some (''/login'', Some Screen_login)"
    by (simp add: route_simps eval_nat_numeral)
  then show ?thesis using r by simp
qed

end
