(* ===== verification/Js_Codec.thy ===== *)
theory Js_Codec
  imports Prelude
begin

text \<open>
  Two decoders of the browser the sources call: \<open>atob\<close> (the forgiving base64 decode of
  the HTML standard) and \<open>JSON.parse\<close> (ECMA-404 text to a value). Strings are the
  Latin-1 strings \<open>atob\<close> produces (one 8-bit \<open>char\<close> per code unit); a JSON string
  value is the list of its UTF-16 code units, since \<open>\u\<close> escapes may denote units above
  255. The encoders \<open>btoa\<close> and the JSON printer are the references the round trips are
  stated against: the token's issuer is not part of the repository.
\<close>

subsection \<open>Base64: \<open>atob\<close> and \<open>btoa\<close>\<close>

text \<open>The alphabet \<open>A-Z a-z 0-9 + /\<close>: a 6-bit value and its character.\<close>

definition b64_char :: "nat \<Rightarrow> char" where
  "b64_char i =
     (if i < 26 then char_of (65 + i) else if i < 52 then char_of (71 + i)
      else if i < 62 then char_of (i - 4) else if i = 62 then CHR ''+'' else CHR ''/'')"

definition b64_val :: "char \<Rightarrow> nat option" where
  "b64_val c =
     (let n = of_char c :: nat in
      if 65 \<le> n \<and> n \<le> 90 then Some (n - 65) else if 97 \<le> n \<and> n \<le> 122 then Some (n - 71)
      else if 48 \<le> n \<and> n \<le> 57 then Some (n + 4) else if n = 43 then Some 62
      else if n = 47 then Some 63 else None)"

text \<open>ASCII whitespace, which \<open>atob\<close> strips first.\<close>

definition ascii_ws :: "char \<Rightarrow> bool" where
  "ascii_ws c \<longleftrightarrow> of_char c \<in> {9, 10, 12, 13, 32::nat}"

text \<open>Groups of four 6-bit values give three bytes; a final group of three values gives two
  bytes and one of two values gives one byte, the left-over bits dropped.\<close>

fun b64_decode_vals :: "nat list \<Rightarrow> string" where
  "b64_decode_vals (a # b # c # d # rest) =
     [char_of (a * 4 + b div 16), char_of ((b mod 16) * 16 + c div 4), char_of ((c mod 4) * 64 + d)]
     @ b64_decode_vals rest"
| "b64_decode_vals [a, b, c] = [char_of (a * 4 + b div 16), char_of ((b mod 16) * 16 + c div 4)]"
| "b64_decode_vals [a, b] = [char_of (a * 4 + b div 16)]"
| "b64_decode_vals _ = []"

text \<open>The forgiving decode: strip whitespace; when the length is a multiple of four drop one
  or two final \<open>=\<close>; a length of \<open>4k + 1\<close> or a character outside the alphabet throws
  (\<open>None\<close>).\<close>

definition strip_padding :: "string \<Rightarrow> string" where
  "strip_padding d =
     (if length d mod 4 = 0 then
        (if drop (length d - 2) d = ''=='' then take (length d - 2) d
         else if drop (length d - 1) d = ''='' then take (length d - 1) d else d)
      else d)"

definition atob :: "string \<Rightarrow> string option" where
  "atob s =
     (let d = strip_padding (filter (\<lambda>c. \<not> ascii_ws c) s) in
      if length d mod 4 = 1 then None else map_option b64_decode_vals (those (map b64_val d)))"

text \<open>The encoder: three bytes to four values, a final one or two bytes padded with zero bits,
  the output padded with \<open>=\<close> to a multiple of four.\<close>

fun b64_encode_vals :: "string \<Rightarrow> nat list" where
  "b64_encode_vals (x # y # z # rest) =
     (let a = of_char x; b = of_char y; c = of_char z in
      [a div 4, (a mod 4) * 16 + b div 16, (b mod 16) * 4 + c div 64, c mod 64]) @ b64_encode_vals rest"
| "b64_encode_vals [x, y] =
     (let a = of_char x; b = of_char y in [a div 4, (a mod 4) * 16 + b div 16, (b mod 16) * 4])"
| "b64_encode_vals [x] = (let a = of_char x in [a div 4, (a mod 4) * 16])"
| "b64_encode_vals [] = []"

definition b64_padding :: "nat \<Rightarrow> nat" where
  "b64_padding n = (if n mod 3 = 0 then 0 else 3 - n mod 3)"

definition btoa :: "string \<Rightarrow> string" where
  "btoa s = map b64_char (b64_encode_vals s) @ replicate (b64_padding (length s)) CHR ''=''"

text \<open>The URL-safe alphabet of JSON Web Tokens (RFC 7515): \<open>-\<close> and \<open>_\<close> for 62 and 63,
  no padding.\<close>

definition b64url_char :: "nat \<Rightarrow> char" where
  "b64url_char i = (if i = 62 then CHR ''-'' else if i = 63 then CHR ''_'' else b64_char i)"

definition base64url :: "string \<Rightarrow> string" where
  "base64url s = map b64url_char (b64_encode_vals s)"

subsubsection \<open>Lemmas\<close>

lemma group_div_mod [simp]:
  "y < (k::nat) \<Longrightarrow> (x * k + y) div k = x" "y < (k::nat) \<Longrightarrow> (x * k + y) mod k = y"
  by simp_all

lemma b64_val_char [simp]: "i < 64 \<Longrightarrow> b64_val (b64_char i) = Some i"
  by (auto simp: b64_val_def b64_char_def Let_def)

lemma b64_char_not_eq [simp]: "i < 64 \<Longrightarrow> b64_char i \<noteq> CHR ''=''"
  using b64_val_char [of i] by (auto simp: b64_val_def)

lemma b64_char_not_ws [simp]: "i < 64 \<Longrightarrow> \<not> ascii_ws (b64_char i)"
  using b64_val_char [of i] by (auto simp: b64_val_def ascii_ws_def Let_def split: if_splits)

lemma b64_group_nat:
  fixes a b c :: nat
  assumes "a < 256" "b < 256" "c < 256"
  shows "a div 4 * 4 + ((a mod 4) * 16 + b div 16) div 16 = a"
    and "((a mod 4) * 16 + b div 16) mod 16 * 16 + ((b mod 16) * 4 + c div 64) div 4 = b"
    and "((b mod 16) * 4 + c div 64) mod 4 * 64 + c mod 64 = c"
    and "a div 4 < 64" "(a mod 4) * 16 + b div 16 < 64" "(b mod 16) * 4 + c div 64 < 64"
proof -
  have b16: "b div 16 < 16" and c64: "c div 64 < 4" and a4: "a mod 4 < 4" and b16': "b mod 16 < 16"
    using assms by simp_all
  have d1: "((a mod 4) * 16 + b div 16) div 16 = a mod 4"
    and m1: "((a mod 4) * 16 + b div 16) mod 16 = b div 16"
    using b16 by simp_all
  have d2: "((b mod 16) * 4 + c div 64) div 4 = b mod 16"
    and m2: "((b mod 16) * 4 + c div 64) mod 4 = c div 64"
    using c64 by simp_all
  show "a div 4 * 4 + ((a mod 4) * 16 + b div 16) div 16 = a" using d1 by simp
  show "((a mod 4) * 16 + b div 16) mod 16 * 16 + ((b mod 16) * 4 + c div 64) div 4 = b"
    using m1 d2 by simp
  show "((b mod 16) * 4 + c div 64) mod 4 * 64 + c mod 64 = c" using m2 by simp
  show "a div 4 < 64" using assms by simp
  show "(a mod 4) * 16 + b div 16 < 64" using a4 b16 by linarith
  show "(b mod 16) * 4 + c div 64 < 64" using b16' c64 by linarith
qed

lemma b64_encode_vals_bound: "v \<in> set (b64_encode_vals s) \<Longrightarrow> v < 64"
proof (induction s rule: b64_encode_vals.induct)
  case (1 x y z rest)
  then show ?case
    using nat_of_char_less_256 b64_group_nat(4-6) [of "of_char x" "of_char y" "of_char z"] by (auto simp: Let_def)
next
  case (2 x y)
  then show ?case
    using nat_of_char_less_256 b64_group_nat(4-6) [of "of_char x" "of_char y" "of_char y"] by (auto simp: Let_def)
next
  case (3 x)
  then show ?case
    using nat_of_char_less_256 b64_group_nat(4,5) [of "of_char x" "of_char (CHR 0x00)" "of_char x"] by (auto simp: Let_def)
qed simp

lemma b64_encode_vals_length:
  "length (b64_encode_vals s) = 4 * (length s div 3) + (if length s mod 3 = 0 then 0 else length s mod 3 + 1)"
  by (induction s rule: b64_encode_vals.induct) (auto simp: Let_def)

lemma b64_decode_encode: "b64_decode_vals (b64_encode_vals s) = s"
proof (induction s rule: b64_encode_vals.induct)
  case (1 x y z rest)
  then show ?case
    using nat_of_char_less_256 b64_group_nat(1-3) [of "of_char x" "of_char y" "of_char z"] by (simp add: Let_def)
next
  case (2 x y)
  then show ?case
    using nat_of_char_less_256 b64_group_nat(1-3) [of "of_char x" "of_char y" "of_char (CHR 0x00)"] by (simp add: Let_def)
next
  case (3 x)
  then show ?case
    using nat_of_char_less_256 b64_group_nat(1) [of "of_char x" "of_char (CHR 0x00)" "of_char x"] by (simp add: Let_def)
qed simp

lemma those_b64_chars: "\<forall>v \<in> set vs. v < 64 \<Longrightarrow> those (map b64_val (map b64_char vs)) = Some vs"
  by (induction vs) auto

lemma strip_padding_pad:
  assumes "p \<le> 2" "(length xs + p) mod 4 = 0" "\<forall>c \<in> set xs. c \<noteq> CHR ''=''" "0 < p \<Longrightarrow> xs \<noteq> []"
  shows "strip_padding (xs @ replicate p CHR ''='') = xs"
proof -
  consider "p = 0" | "p = 1" | "p = 2" using assms(1) by linarith
  then show ?thesis
  proof cases
    case 1
    have "drop (length xs - 2) xs \<noteq> ''==''" and "drop (length xs - 1) xs \<noteq> ''=''"
      using assms(3) by (metis in_set_dropD list.set_intros(1))+
    then show ?thesis using 1 assms(2) by (simp add: strip_padding_def)
  next
    case 2
    obtain ys y where xs: "xs = ys @ [y]" using assms(4) 2 by (metis rev_exhaust zero_less_one)
    then have "y \<noteq> CHR ''=''" using assms(3) by simp
    then show ?thesis using 2 xs assms(2) by (simp add: strip_padding_def)
  next
    case 3
    then show ?thesis using assms(2) by (simp add: strip_padding_def numeral_2_eq_2)
  qed
qed

text \<open>\<open>atob\<close> inverts \<open>btoa\<close> on every string.\<close>

lemma atob_btoa: "atob (btoa s) = Some s"
proof -
  let ?vs = "b64_encode_vals s"
  have bound: "\<forall>v \<in> set ?vs. v < 64" using b64_encode_vals_bound by blast
  have noeq: "\<forall>c \<in> set (map b64_char ?vs). c \<noteq> CHR ''=''" using bound by auto
  have ws: "filter (\<lambda>c. \<not> ascii_ws c) (btoa s) = btoa s"
  proof -
    have "\<not> ascii_ws CHR ''=''" by (simp add: ascii_ws_def)
    then show ?thesis using bound by (auto simp: btoa_def filter_id_conv)
  qed
  have l: "length ?vs = 4 * (length s div 3) + (if length s mod 3 = 0 then 0 else length s mod 3 + 1)"
    by (rule b64_encode_vals_length)
  have len: "length ?vs mod 4 \<noteq> 1 \<and> (length ?vs + b64_padding (length s)) mod 4 = 0
    \<and> b64_padding (length s) \<le> 2 \<and> (0 < b64_padding (length s) \<longrightarrow> ?vs \<noteq> [])"
  proof -
    consider "length s mod 3 = 0" | "length s mod 3 = 1" | "length s mod 3 = 2" by linarith
    then show ?thesis
    proof cases
      case 1 then show ?thesis using l by (simp add: b64_padding_def)
    next
      case 2
      then have m: "length ?vs = 4 * (length s div 3) + 2" using l by simp
      then have "length ?vs mod 4 = 2" by presburger
      then show ?thesis using 2 m by (auto simp: b64_padding_def)
    next
      case 3
      then have m: "length ?vs = 4 * (length s div 3) + 3" using l by simp
      then have "length ?vs mod 4 = 3" by presburger
      then show ?thesis using 3 m by (auto simp: b64_padding_def)
    qed
  qed
  have "strip_padding (btoa s) = map b64_char ?vs"
    unfolding btoa_def by (rule strip_padding_pad) (use len noeq in auto)
  then show ?thesis using ws len those_b64_chars [OF bound]
    by (simp add: atob_def b64_decode_encode)
qed


subsection \<open>\<open>JSON.parse\<close>\<close>

text \<open>JSON values; a string is the list of its UTF-16 code units, an object the list of its
  members in the order of the text (duplicates included).\<close>

datatype jvalue =
    JV_null | JV_bool bool | JV_num js_number | JV_str "nat list"
  | JV_arr "jvalue list" | JV_obj "(nat list \<times> jvalue) list"

text \<open>A parse fails on the text (\<open>Json_syntax\<close>, \<open>JSON.parse\<close> throws) or, in the
  fuelled parser only, on its fuel (\<open>Json_fuel\<close>); the fuel bound below never runs out.\<close>

datatype json_err = Json_syntax | Json_fuel

type_synonym 'a json_result = "json_err + ('a \<times> string)"

definition skip_ws :: "string \<Rightarrow> string" where
  "skip_ws s = dropWhile js_space s"

definition hex4 :: "string \<Rightarrow> nat option" where
  "hex4 s = (case those (map hex_val s) of
               Some [a, b, c, d] \<Rightarrow> Some (a * 4096 + b * 256 + c * 16 + d) | _ \<Rightarrow> None)"

text \<open>The body of a string after its opening quote: up to the closing quote, with the
  escapes \<open>\" \\ \/ \b \f \n \r \t \uXXXX\<close>; a raw control character is an error.\<close>

fun json_escape :: "char \<Rightarrow> nat option" where
  "json_escape c =
     (if c = CHR 0x22 then Some 34 else if c = CHR 0x5C then Some 92 else if c = CHR ''/'' then Some 47
      else if c = CHR ''b'' then Some 8 else if c = CHR ''f'' then Some 12 else if c = CHR ''n'' then Some 10
      else if c = CHR ''r'' then Some 13 else if c = CHR ''t'' then Some 9 else None)"

fun json_str :: "string \<Rightarrow> nat list json_result" where
  "json_str [] = Inl Json_syntax"
| "json_str (c # r) =
     (if c = CHR 0x22 then Inr ([], r)
      else if c = CHR 0x5C then
        (case r of
           [] \<Rightarrow> Inl Json_syntax
         | e # r2 \<Rightarrow>
             if e = CHR ''u'' then
               (case hex4 (take 4 r2) of
                  None \<Rightarrow> Inl Json_syntax
                | Some u \<Rightarrow> (case json_str (drop 4 r2) of Inr (us, r3) \<Rightarrow> Inr (u # us, r3) | Inl x \<Rightarrow> Inl x))
             else (case json_escape e of
                     None \<Rightarrow> Inl Json_syntax
                   | Some u \<Rightarrow> (case json_str r2 of Inr (us, r3) \<Rightarrow> Inr (u # us, r3) | Inl x \<Rightarrow> Inl x)))
      else if of_char c < (32::nat) then Inl Json_syntax
      else (case json_str r of Inr (us, r3) \<Rightarrow> Inr (of_char c # us, r3) | Inl x \<Rightarrow> Inl x))"

text \<open>A number: \<open>-? (0 | [1-9][0-9]*) (. [0-9]+)? ([eE] [+-]? [0-9]+)?\<close>, read exactly.\<close>

definition digits_prefix :: "string \<Rightarrow> string \<times> string" where
  "digits_prefix s = (takeWhile is_digit s, dropWhile is_digit s)"

definition json_exponent :: "string \<Rightarrow> int json_result" where
  "json_exponent s =
     (if s \<noteq> [] \<and> (hd s = CHR ''e'' \<or> hd s = CHR ''E'') then
        (let r = tl s;
             (neg, r1) = (if r \<noteq> [] \<and> hd r = CHR ''-'' then (True, tl r)
                          else if r \<noteq> [] \<and> hd r = CHR ''+'' then (False, tl r) else (False, r));
             (ds, r2) = digits_prefix r1
         in if ds = [] then Inl Json_syntax
            else Inr ((if neg then - int (nat_of_digits ds) else int (nat_of_digits ds)), r2))
      else Inr (0, s))"

definition json_fraction :: "string \<Rightarrow> js_number json_result" where
  "json_fraction s =
     (if s \<noteq> [] \<and> hd s = CHR ''.'' then
        (let (ds, r) = digits_prefix (tl s) in
         if ds = [] then Inl Json_syntax else Inr (of_nat (nat_of_digits ds) / 10 ^ length ds, r))
      else Inr (0, s))"

definition json_number :: "string \<Rightarrow> js_number json_result" where
  "json_number s =
     (let (neg, r) = (if s \<noteq> [] \<and> hd s = CHR ''-'' then (True, tl s) else (False, s)) in
      if r = [] \<or> \<not> is_digit (hd r) then Inl Json_syntax
      else
        (let (ip, r1) = (if hd r = CHR ''0'' then (0, tl r) else (nat_of_digits (fst (digits_prefix r)), snd (digits_prefix r)))
         in case json_fraction r1 of
              Inl x \<Rightarrow> Inl x
            | Inr (f, r2) \<Rightarrow>
                (case json_exponent r2 of
                   Inl x \<Rightarrow> Inl x
                 | Inr (e, r3) \<Rightarrow>
                     (let m = (of_nat ip + f) * (if 0 \<le> e then 10 ^ nat e else 1 / 10 ^ nat (- e))
                      in Inr ((if neg then - m else m), r3)))))"

text \<open>\<open>true\<close>, \<open>false\<close>, \<open>null\<close>.\<close>

definition json_literal :: "string \<Rightarrow> jvalue json_result" where
  "json_literal s =
     (if take 4 s = ''true'' then Inr (JV_bool True, drop 4 s)
      else if take 5 s = ''false'' then Inr (JV_bool False, drop 5 s)
      else if take 4 s = ''null'' then Inr (JV_null, drop 4 s) else Inl Json_syntax)"

definition next_is :: "char \<Rightarrow> string \<Rightarrow> bool" where
  "next_is c s \<longleftrightarrow> s \<noteq> [] \<and> hd s = c"

text \<open>Values, array elements and object members, each call spending one unit of fuel.\<close>

fun json_value :: "nat \<Rightarrow> string \<Rightarrow> jvalue json_result"
and json_elems :: "nat \<Rightarrow> string \<Rightarrow> jvalue list json_result"
and json_members :: "nat \<Rightarrow> string \<Rightarrow> (nat list \<times> jvalue) list json_result" where
  "json_value 0 s = Inl Json_fuel"
| "json_value (Suc n) s =
     (let t = skip_ws s in
      if t = [] then Inl Json_syntax
      else if hd t = CHR ''{'' then
        (if next_is CHR ''}'' (skip_ws (tl t)) then Inr (JV_obj [], tl (skip_ws (tl t)))
         else (case json_members n (tl t) of Inr (kvs, r) \<Rightarrow> Inr (JV_obj kvs, r) | Inl x \<Rightarrow> Inl x))
      else if hd t = CHR ''['' then
        (if next_is CHR '']'' (skip_ws (tl t)) then Inr (JV_arr [], tl (skip_ws (tl t)))
         else (case json_elems n (tl t) of Inr (vs, r) \<Rightarrow> Inr (JV_arr vs, r) | Inl x \<Rightarrow> Inl x))
      else if hd t = CHR 0x22 then
        (case json_str (tl t) of Inr (u, r) \<Rightarrow> Inr (JV_str u, r) | Inl x \<Rightarrow> Inl x)
      else if hd t = CHR ''-'' \<or> is_digit (hd t) then
        (case json_number t of Inr (x, r) \<Rightarrow> Inr (JV_num x, r) | Inl x \<Rightarrow> Inl x)
      else json_literal t)"
| "json_elems 0 s = Inl Json_fuel"
| "json_elems (Suc n) s =
     (case json_value n s of
        Inl x \<Rightarrow> Inl x
      | Inr (v, r) \<Rightarrow>
          (let r1 = skip_ws r in
           if next_is CHR '','' r1 then
             (case json_elems n (tl r1) of Inr (vs, r2) \<Rightarrow> Inr (v # vs, r2) | Inl x \<Rightarrow> Inl x)
           else if next_is CHR '']'' r1 then Inr ([v], tl r1) else Inl Json_syntax))"
| "json_members 0 s = Inl Json_fuel"
| "json_members (Suc n) s =
     (let t = skip_ws s in
      if \<not> next_is CHR 0x22 t then Inl Json_syntax
      else case json_str (tl t) of
        Inl x \<Rightarrow> Inl x
      | Inr (k, r) \<Rightarrow>
          (let r1 = skip_ws r in
           if \<not> next_is CHR '':'' r1 then Inl Json_syntax
           else case json_value n (tl r1) of
             Inl x \<Rightarrow> Inl x
           | Inr (v, r2) \<Rightarrow>
               (let r3 = skip_ws r2 in
                if next_is CHR '','' r3 then
                  (case json_members n (tl r3) of Inr (kvs, r4) \<Rightarrow> Inr ((k, v) # kvs, r4) | Inl x \<Rightarrow> Inl x)
                else if next_is CHR ''}'' r3 then Inr ([(k, v)], tl r3) else Inl Json_syntax)))"

text \<open>\<open>JSON.parse(text)\<close>: one value, then only whitespace; the fuel is twice the length
  of the text and two more (lemma \<open>json_value_fuel_enough\<close>).\<close>

definition json_fuel :: "string \<Rightarrow> nat" where
  "json_fuel s = 2 * length s + 2"

definition JSON_parse :: "string \<Rightarrow> jvalue option" where
  "JSON_parse s =
     (case json_value (json_fuel s) s of Inr (v, r) \<Rightarrow> if skip_ws r = [] then Some v else None | Inl _ \<Rightarrow> None)"

text \<open>Property access on a parsed value: \<open>v.key\<close> reads the last member with that key
  of an object (\<open>JSON.parse\<close> keeps the last duplicate); on a string, number, boolean or
  array it is \<open>undefined\<close> (\<open>None\<close>) for the names used here.\<close>

definition js_prop :: "jvalue \<Rightarrow> nat list \<Rightarrow> jvalue option" where
  "js_prop v k = (case v of JV_obj kvs \<Rightarrow> map_of (rev kvs) k | _ \<Rightarrow> None)"

definition truthy_json :: "jvalue \<Rightarrow> bool" where
  "truthy_json v = (case v of JV_null \<Rightarrow> False | JV_bool b \<Rightarrow> b | JV_num x \<Rightarrow> x \<noteq> 0
                     | JV_str u \<Rightarrow> u \<noteq> [] | _ \<Rightarrow> True)"


subsubsection \<open>Every successful step consumes input\<close>

lemma skip_ws_length: "length (skip_ws s) \<le> length s"
  by (simp add: skip_ws_def length_dropWhile_le)

lemma json_str_consumes: "json_str s = Inr (u, r) \<Longrightarrow> length r < length s"
proof (induction s arbitrary: u rule: json_str.induct)
  case (2 c r)
  show ?case
  proof (cases "c = CHR 0x22 \<or> c \<noteq> CHR 0x5C")
    case True
    then show ?thesis using 2 by (auto split: if_splits sum.splits prod.splits)
  next
    case False
    then obtain e r2 where r: "r = e # r2" using 2(4) by (cases r) auto
    show ?thesis
    proof (cases "e = CHR ''u''")
      case True
      then show ?thesis using 2(1) [of e r2] 2(4) r False
        by (fastforce split: option.splits sum.splits prod.splits)
    next
      case ne: False
      then show ?thesis using 2(2) [of e r2] 2(4) r False
        by (fastforce split: option.splits sum.splits prod.splits)
    qed
  qed
qed simp

lemma digits_prefix_length: "length (snd (digits_prefix s)) \<le> length s"
  by (simp add: digits_prefix_def length_dropWhile_le)

lemma json_fraction_consumes: "json_fraction s = Inr (f, r) \<Longrightarrow> length r \<le> length s"
  using digits_prefix_length [of "tl s"]
  by (auto simp: json_fraction_def split: if_splits prod.splits)

lemma json_exponent_consumes: "json_exponent s = Inr (e, r) \<Longrightarrow> length r \<le> length s"
  using digits_prefix_length [of "tl s"] digits_prefix_length [of "tl (tl s)"]
  by (auto simp: json_exponent_def Let_def split: if_splits prod.splits)

lemma json_number_consumes: "json_number s = Inr (x, r) \<Longrightarrow> length r < length s"
proof -
  assume a: "json_number s = Inr (x, r)"
  obtain neg t where nt: "(neg, t) = (if s \<noteq> [] \<and> hd s = CHR ''-'' then (True, tl s) else (False, s))"
    by (metis surj_pair)
  then have t: "length t \<le> length s" by (auto split: if_splits)
  have ne: "t \<noteq> []" using a nt by (auto simp: json_number_def split: if_splits)
  obtain ip r1 where ir: "(ip, r1) = (if hd t = CHR ''0'' then (0, tl t)
      else (nat_of_digits (fst (digits_prefix t)), snd (digits_prefix t)))" by (metis surj_pair)
  have dig: "is_digit (hd t)" using a nt ne by (auto simp: json_number_def split: if_splits)
  have "length r1 < length t"
  proof (cases "hd t = CHR ''0''")
    case False
    have "takeWhile is_digit t \<noteq> []" using dig ne by (cases t) auto
    then have "length (dropWhile is_digit t) < length t"
      by (metis length_append less_add_same_cancel2 length_greater_0_conv takeWhile_dropWhile_id)
    then show ?thesis using ir False by (simp add: digits_prefix_def)
  qed (use ir ne in simp)
  moreover obtain f r2 where fr: "json_fraction r1 = Inr (f, r2)"
    using a nt ne dig ir by (auto simp: json_number_def split: sum.splits prod.splits if_splits)
  moreover obtain e r3 where er: "json_exponent r2 = Inr (e, r3)"
    using a nt ne dig ir fr by (auto simp: json_number_def Let_def split: sum.splits prod.splits if_splits)
  moreover have "r = r3"
    using a nt ne dig ir fr er by (auto simp: json_number_def Let_def split: if_splits prod.splits)
  ultimately show ?thesis using t json_fraction_consumes [OF fr] json_exponent_consumes [OF er] by simp
qed

lemma json_literal_consumes: "json_literal s = Inr (v, r) \<Longrightarrow> length r < length s"
  by (auto simp: json_literal_def split: if_splits dest!: arg_cong [where f = length])


lemma tl_skip_ws_length: "skip_ws s \<noteq> [] \<Longrightarrow> length (tl (skip_ws s)) < length s"
  using skip_ws_length [of s] by (cases "skip_ws s") auto

lemma json_consumes:
  "json_value n s = Inr (v, r) \<Longrightarrow> length r < length s"
  "json_elems n s = Inr (vs, r) \<Longrightarrow> length r < length s"
  "json_members n s = Inr (kvs, r) \<Longrightarrow> length r < length s"
proof (induction n s and n s and n s arbitrary: v r and vs r and kvs r
       rule: json_value_json_elems_json_members.induct)
  case (2 n s)
  let ?t = "skip_ws s"
  have t: "?t \<noteq> []" using 2(3) by (auto simp: Let_def)
  have tt: "length (tl ?t) < length s" using tl_skip_ws_length [OF t] .
  have ttt: "skip_ws (tl ?t) \<noteq> [] \<Longrightarrow> length (tl (skip_ws (tl ?t))) < length s"
    using tl_skip_ws_length [of "tl ?t"] tt by simp
  have tlen: "length ?t \<le> length s" by (rule skip_ws_length)
  show ?case
  proof (cases "hd ?t = CHR ''{''")
    case True
    then show ?thesis using 2(1) [of ?t] 2(3) t tt ttt
      by (auto simp: Let_def next_is_def split: if_splits sum.splits prod.splits)
  next
    case c1: False
    show ?thesis
    proof (cases "hd ?t = CHR ''[''")
      case True
      then show ?thesis using 2(2) [of ?t] 2(3) t tt ttt c1
        by (auto simp: Let_def next_is_def split: if_splits sum.splits prod.splits)
    next
      case c2: False
      then show ?thesis using 2(3) t tt tlen c1
        json_str_consumes [of "tl ?t"] json_number_consumes [of ?t] json_literal_consumes [of ?t]
        by (auto simp: Let_def split: if_splits sum.splits prod.splits)
    qed
  qed
next
  case (4 n s)
  obtain v0 r0 where v: "json_value n s = Inr (v0, r0)"
    using 4(3) by (auto split: sum.splits)
  have r0: "length r0 < length s" using 4(1) [OF v] .
  have r1: "skip_ws r0 \<noteq> [] \<Longrightarrow> length (tl (skip_ws r0)) < length s"
    using tl_skip_ws_length [of r0] r0 by simp
  show ?case
  proof (cases "next_is CHR '','' (skip_ws r0)")
    case True
    then obtain vs' where e: "json_elems n (tl (skip_ws r0)) = Inr (vs', r)"
      using 4(3) v by (auto simp: Let_def split: sum.splits)
    have "length r < length (tl (skip_ws r0))" using 4(2) v e True by blast
    then show ?thesis using r1 True by (simp add: next_is_def)
  next
    case False
    then show ?thesis using 4(3) v r1
      by (auto simp: Let_def next_is_def split: if_splits sum.splits prod.splits)
  qed
next
  case (6 n s)
  let ?t = "skip_ws s"
  have nq: "next_is CHR 0x22 ?t" using 6(3) by (auto simp: Let_def split: if_splits)
  then have t: "?t \<noteq> []" by (simp add: next_is_def)
  obtain k r0 where k: "json_str (tl ?t) = Inr (k, r0)"
    using 6(3) nq by (auto simp: Let_def split: sum.splits)
  have r0: "length r0 < length s" using json_str_consumes [OF k] tl_skip_ws_length [OF t] by simp
  have nc: "next_is CHR '':'' (skip_ws r0)" using 6(3) nq k by (auto simp: Let_def split: if_splits)
  then have r1: "length (tl (skip_ws r0)) < length s"
    using tl_skip_ws_length [of r0] r0 by (simp add: next_is_def)
  obtain v0 r2 where v: "json_value n (tl (skip_ws r0)) = Inr (v0, r2)"
    using 6(3) nq k nc by (auto simp: Let_def split: sum.splits)
  have "length r2 < length (tl (skip_ws r0))" using 6(1) nq k nc v by blast
  then have r2: "length r2 < length s" using r1 by simp
  have r3: "skip_ws r2 \<noteq> [] \<Longrightarrow> length (tl (skip_ws r2)) < length s"
    using tl_skip_ws_length [of r2] r2 by simp
  show ?case
  proof (cases "next_is CHR '','' (skip_ws r2)")
    case True
    then obtain kvs' where e: "json_members n (tl (skip_ws r2)) = Inr (kvs', r)"
      using 6(3) nq k nc v by (auto simp: Let_def split: sum.splits)
    have "length r < length (tl (skip_ws r2))" using 6(2) nq k nc v e True by blast
    then show ?thesis using r3 True by (simp add: next_is_def)
  next
    case False
    then show ?thesis using 6(3) nq k nc v r3
      by (auto simp: Let_def next_is_def split: if_splits sum.splits prod.splits)
  qed
qed simp_all


subsubsection \<open>The fuel of \<open>JSON_parse\<close> never runs out\<close>

lemma json_str_err: "json_str s = Inl x \<Longrightarrow> x = Json_syntax"
proof (induction s arbitrary: x rule: json_str.induct)
  case (2 c r)
  show ?case
  proof (cases "c = CHR 0x22 \<or> c \<noteq> CHR 0x5C")
    case True
    then show ?thesis using 2 by (auto split: if_splits sum.splits prod.splits)
  next
    case False
    show ?thesis
    proof (cases r)
      case (Cons e r2)
      show ?thesis
      proof (cases "e = CHR ''u''")
        case True
        then show ?thesis using 2(1) [of e r2] 2(4) Cons False
          by (auto split: option.splits sum.splits prod.splits)
      next
        case ne: False
        then show ?thesis using 2(2) [of e r2] 2(4) Cons False
          by (auto split: option.splits sum.splits prod.splits)
      qed
    qed (use 2(4) False in simp)
  qed
qed simp

lemma json_str_no_fuel: "json_str s \<noteq> Inl Json_fuel"
  using json_str_err [of s Json_fuel] by auto

lemma json_fraction_err: "json_fraction s = Inl x \<Longrightarrow> x = Json_syntax"
  by (auto simp: json_fraction_def split: if_splits prod.splits)

lemma json_exponent_err: "json_exponent s = Inl x \<Longrightarrow> x = Json_syntax"
  by (auto simp: json_exponent_def Let_def split: if_splits prod.splits)

lemma json_number_no_fuel: "json_number s \<noteq> Inl Json_fuel"
  unfolding json_number_def Let_def split_beta
  by (auto split: sum.split dest: json_fraction_err json_exponent_err)

lemma json_literal_no_fuel: "json_literal s \<noteq> Inl Json_fuel"
  by (simp add: json_literal_def)

lemma json_value_Suc_cases:
  assumes "skip_ws s \<noteq> []"
  shows "hd (skip_ws s) = CHR ''{'' \<Longrightarrow> \<not> next_is CHR ''}'' (skip_ws (tl (skip_ws s))) \<Longrightarrow>
           json_value (Suc n) s = (case json_members n (tl (skip_ws s)) of Inr (kvs, r) \<Rightarrow> Inr (JV_obj kvs, r) | Inl x \<Rightarrow> Inl x)"
    and "hd (skip_ws s) \<noteq> CHR ''{'' \<Longrightarrow> hd (skip_ws s) = CHR ''['' \<Longrightarrow> \<not> next_is CHR '']'' (skip_ws (tl (skip_ws s))) \<Longrightarrow>
           json_value (Suc n) s = (case json_elems n (tl (skip_ws s)) of Inr (vs, r) \<Rightarrow> Inr (JV_arr vs, r) | Inl x \<Rightarrow> Inl x)"
  using assms by (simp_all add: Let_def)

lemma json_elems_Suc_value:
  "json_value n s = Inr (v, r0) \<Longrightarrow>
   json_elems (Suc n) s =
     (if next_is CHR '','' (skip_ws r0) then
        (case json_elems n (tl (skip_ws r0)) of Inr (vs, r2) \<Rightarrow> Inr (v # vs, r2) | Inl x \<Rightarrow> Inl x)
      else if next_is CHR '']'' (skip_ws r0) then Inr ([v], tl (skip_ws r0)) else Inl Json_syntax)"
  by (simp add: Let_def)

lemma json_members_Suc_value:
  "next_is CHR 0x22 (skip_ws s) \<Longrightarrow> json_str (tl (skip_ws s)) = Inr (k, r0) \<Longrightarrow>
   next_is CHR '':'' (skip_ws r0) \<Longrightarrow> json_value n (tl (skip_ws r0)) = Inr (v, r2) \<Longrightarrow>
   json_members (Suc n) s =
     (if next_is CHR '','' (skip_ws r2) then
        (case json_members n (tl (skip_ws r2)) of Inr (kvs, r4) \<Rightarrow> Inr ((k, v) # kvs, r4) | Inl x \<Rightarrow> Inl x)
      else if next_is CHR ''}'' (skip_ws r2) then Inr ([(k, v)], tl (skip_ws r2)) else Inl Json_syntax)"
  by (simp add: Let_def)

lemma json_fuel_enough_all:
  "\<forall>s. (2 * length s + 1 \<le> n \<longrightarrow> json_value n s \<noteq> Inl Json_fuel)
      \<and> (2 * length s + 2 \<le> n \<longrightarrow> json_elems n s \<noteq> Inl Json_fuel)
      \<and> (2 * length s + 2 \<le> n \<longrightarrow> json_members n s \<noteq> Inl Json_fuel)"
proof (induction n)
  case (Suc n)
  have val: "json_value (Suc n) s \<noteq> Inl Json_fuel" if "2 * length s + 1 \<le> Suc n" for s
  proof (cases "skip_ws s = []")
    case False
    then have tt: "length (tl (skip_ws s)) < length s" by (rule tl_skip_ws_length)
    then have n: "2 * length (tl (skip_ws s)) + 2 \<le> n" using that by simp
    then have "json_members n (tl (skip_ws s)) \<noteq> Inl Json_fuel" "json_elems n (tl (skip_ws s)) \<noteq> Inl Json_fuel"
      using Suc.IH by blast+
    then show ?thesis using False json_str_no_fuel [of "tl (skip_ws s)"] json_number_no_fuel [of "skip_ws s"]
      json_literal_no_fuel [of "skip_ws s"] by (auto simp: Let_def split: sum.splits prod.splits)
  qed (simp add: Let_def)
  have el: "json_elems (Suc n) s \<noteq> Inl Json_fuel" if "2 * length s + 2 \<le> Suc n" for s
  proof (cases "json_value n s")
    case (Inl x)
    have "x \<noteq> Json_fuel" using Suc.IH that Inl by fastforce
    then show ?thesis using Inl by simp
  next
    case (Inr p)
    obtain v0 r0 where p: "p = (v0, r0)" by (cases p)
    have r0: "length r0 < length s" using json_consumes(1) [of n s v0 r0] Inr p by simp
    have "next_is CHR '','' (skip_ws r0) \<Longrightarrow> json_elems n (tl (skip_ws r0)) \<noteq> Inl Json_fuel"
    proof -
      assume "next_is CHR '','' (skip_ws r0)"
      then have "2 * length (tl (skip_ws r0)) + 2 \<le> n"
        using tl_skip_ws_length [of r0] r0 that by (simp add: next_is_def)
      then show ?thesis using Suc.IH by blast
    qed
    then show ?thesis using json_elems_Suc_value [of n s v0 r0] Inr p by (auto split: sum.splits)
  qed
  have mem: "json_members (Suc n) s \<noteq> Inl Json_fuel" if "2 * length s + 2 \<le> Suc n" for s
  proof (cases "next_is CHR 0x22 (skip_ws s) \<and> (\<exists>k r0. json_str (tl (skip_ws s)) = Inr (k, r0)
                 \<and> next_is CHR '':'' (skip_ws r0))")
    case True
    then obtain k r0 where nq: "next_is CHR 0x22 (skip_ws s)" and k: "json_str (tl (skip_ws s)) = Inr (k, r0)"
      and nc: "next_is CHR '':'' (skip_ws r0)" by blast
    have r0: "length r0 < length s"
      using json_str_consumes [OF k] tl_skip_ws_length [of s] nq by (simp add: next_is_def)
    have r1: "length (tl (skip_ws r0)) < length s"
      using tl_skip_ws_length [of r0] r0 nc by (simp add: next_is_def)
    show ?thesis
    proof (cases "json_value n (tl (skip_ws r0))")
      case (Inl x)
      have "x \<noteq> Json_fuel" using Suc.IH that Inl r1 by fastforce
      then show ?thesis using Inl nq k nc by (simp add: Let_def)
    next
      case (Inr q)
      obtain v0 r2 where q: "q = (v0, r2)" by (cases q)
      have r2: "length r2 < length s" using json_consumes(1) [of n "tl (skip_ws r0)" v0 r2] Inr q r1 by simp
      have "next_is CHR '','' (skip_ws r2) \<Longrightarrow> json_members n (tl (skip_ws r2)) \<noteq> Inl Json_fuel"
      proof -
        assume "next_is CHR '','' (skip_ws r2)"
        then have "2 * length (tl (skip_ws r2)) + 2 \<le> n"
          using tl_skip_ws_length [of r2] r2 that by (simp add: next_is_def)
        then show ?thesis using Suc.IH by blast
      qed
      then show ?thesis using json_members_Suc_value [OF nq k nc, of n v0 r2] Inr q by (auto split: sum.splits)
    qed
  next
    case False
    then show ?thesis using json_str_no_fuel [of "tl (skip_ws s)"]
      by (auto simp: Let_def split: sum.splits prod.splits)
  qed
  show ?case using val el mem by blast
qed simp

lemma json_fuel_enough:
  "2 * length s + 1 \<le> n \<Longrightarrow> json_value n s \<noteq> Inl Json_fuel"
  using json_fuel_enough_all by blast


subsection \<open>The JSON printer of flat objects\<close>

text \<open>The reference printer the round trip is stated against: an object whose members are
  \<open>null\<close>, booleans, integers or strings (the shape of a token's claims), printed without
  whitespace; in strings the quote, the backslash, control units and units above 255 are
  escaped, the other Latin-1 units written as they are.\<close>

definition hex_digit_lower :: "nat \<Rightarrow> char" where
  "hex_digit_lower d = (if d < 10 then char_of (48 + d) else char_of (87 + d))"

definition json_esc_unit :: "nat \<Rightarrow> string" where
  "json_esc_unit u =
     (if u = 34 then [CHR 0x5C, CHR 0x22] else if u = 92 then [CHR 0x5C, CHR 0x5C]
      else if u < 32 \<or> 255 < u then
        CHR 0x5C # CHR ''u'' # map hex_digit_lower [u div 4096 mod 16, u div 256 mod 16, u div 16 mod 16, u mod 16]
      else [char_of u])"

definition json_print_str :: "nat list \<Rightarrow> string" where
  "json_print_str u = CHR 0x22 # concat (map json_esc_unit u) @ [CHR 0x22]"

definition flat_json :: "jvalue \<Rightarrow> bool" where
  "flat_json v = (case v of JV_num x \<Rightarrow> x = of_int \<lfloor>x\<rfloor> | JV_str u \<Rightarrow> (\<forall>c \<in> set u. c < 65536)
                  | JV_arr _ \<Rightarrow> False | JV_obj _ \<Rightarrow> False | _ \<Rightarrow> True)"

definition json_print_flat :: "jvalue \<Rightarrow> string" where
  "json_print_flat v = (case v of JV_null \<Rightarrow> ''null'' | JV_bool b \<Rightarrow> if b then ''true'' else ''false''
                        | JV_num x \<Rightarrow> int_str \<lfloor>x\<rfloor> | JV_str u \<Rightarrow> json_print_str u | _ \<Rightarrow> ''null'')"

fun json_print_members :: "(nat list \<times> jvalue) list \<Rightarrow> string" where
  "json_print_members [] = ''}''"
| "json_print_members [(k, v)] = json_print_str k @ CHR '':'' # json_print_flat v @ ''}''"
| "json_print_members ((k, v) # kvs) = json_print_str k @ CHR '':'' # json_print_flat v @ CHR '','' # json_print_members kvs"

definition json_print_obj :: "(nat list \<times> jvalue) list \<Rightarrow> string" where
  "json_print_obj kvs = CHR ''{'' # json_print_members kvs"

subsubsection \<open>Strings read back\<close>

lemma hex_val_digit [simp]: "d < 16 \<Longrightarrow> hex_val (hex_digit_lower d) = Some d"
  by (auto simp: hex_val_def hex_digit_lower_def Let_def)

lemma hex4_digits:
  assumes "u < 65536"
  shows "hex4 (map hex_digit_lower [u div 4096 mod 16, u div 256 mod 16, u div 16 mod 16, u mod 16]) = Some u"
proof -
  have e1: "u = u div 16 * 16 + u mod 16" by simp
  have d1: "u div 16 div 16 = u div 256" by (simp add: div_mult2_eq [symmetric])
  have d2: "u div 256 div 16 = u div 4096" by (simp add: div_mult2_eq [symmetric])
  have e2: "u div 16 = u div 256 * 16 + u div 16 mod 16"
    using div_mult_mod_eq [of "u div 16" 16] d1 by simp
  have e3: "u div 256 = u div 4096 * 16 + u div 256 mod 16"
    using div_mult_mod_eq [of "u div 256" 16] d2 by simp
  have e4: "u div 4096 mod 16 = u div 4096" using assms by simp
  have "u div 4096 mod 16 * 4096 + u div 256 mod 16 * 256 + u div 16 mod 16 * 16 + u mod 16 = u"
    using e1 e2 e3 e4 by linarith
  moreover have "u div 4096 < 16" using assms by simp
  ultimately show ?thesis using e4 by (simp add: hex4_def)
qed


lemma json_str_esc_unit:
  assumes "x < 65536"
  shows "json_str (json_esc_unit x @ s) = (case json_str s of Inr (us, r) \<Rightarrow> Inr (x # us, r) | Inl e \<Rightarrow> Inl e)"
proof (cases "x = 34 \<or> x = 92")
  case True
  then show ?thesis by (auto simp: json_esc_unit_def)
next
  case nq: False
  show ?thesis
  proof (cases "x < 32 \<or> 255 < x")
    case True
    let ?h = "map hex_digit_lower [x div 4096 mod 16, x div 256 mod 16, x div 16 mod 16, x mod 16]"
    have "json_esc_unit x @ s = CHR 0x5C # CHR ''u'' # ?h @ s" using nq True by (simp add: json_esc_unit_def)
    moreover have "take 4 (?h @ s) = ?h" "drop 4 (?h @ s) = s" by simp_all
    ultimately show ?thesis using hex4_digits [OF assms] by simp
  next
    case False
    then have c: "json_esc_unit x = [char_of x]" and x: "32 \<le> x" "x < 256" using nq by (auto simp: json_esc_unit_def)
    have ofx: "of_char (char_of x) = x" using x by (simp add: of_char_of)
    have "char_of x \<noteq> CHR 0x22"
    proof
      assume "char_of x = CHR 0x22"
      then have "of_char (char_of x) = (34::nat)" by simp
      then show False using ofx nq by simp
    qed
    moreover have "char_of x \<noteq> CHR 0x5C"
    proof
      assume "char_of x = CHR 0x5C"
      then have "of_char (char_of x) = (92::nat)" by simp
      then show False using ofx nq by simp
    qed
    ultimately show ?thesis using c x by (simp del: of_char_of, simp only: ofx, simp)
  qed
qed

lemma json_str_print:
  "\<forall>c \<in> set u. c < 65536 \<Longrightarrow> json_str (tl (json_print_str u) @ s) = Inr (u, s)"
proof (induction u)
  case Nil
  then show ?case by (simp add: json_print_str_def)
next
  case (Cons x u)
  then have "json_str (concat (map json_esc_unit u) @ CHR 0x22 # s) = Inr (u, s)"
    by (simp add: json_print_str_def)
  then show ?case using Cons(2) json_str_esc_unit [of x "concat (map json_esc_unit u) @ CHR 0x22 # s"]
    by (simp add: json_print_str_def)
qed


subsubsection \<open>Integers and flat values read back\<close>

definition json_number_end :: "string \<Rightarrow> bool" where
  "json_number_end s \<longleftrightarrow>
     s = [] \<or> (\<not> is_digit (hd s) \<and> hd s \<noteq> CHR ''.'' \<and> hd s \<noteq> CHR ''e'' \<and> hd s \<noteq> CHR ''E'')"

lemma nat_str_zero: "nat_str 0 = ''0''"
proof -
  have h: "of_char (CHR ''0'') = (48::nat)" by simp
  have "char_of (48::nat) = CHR ''0''" by (metis h char_of_char)
  then show ?thesis by (subst nat_str.simps) (simp add: digit_char_def)
qed

lemma nat_str_hd_zero: "hd (nat_str n) = CHR ''0'' \<Longrightarrow> n = 0"
proof (induction n rule: nat_str.induct)
  case (1 n)
  show ?case
  proof (cases "n < 10")
    case True
    then have "digit_char n = CHR ''0''" using 1(2) by (subst (asm) nat_str.simps) simp
    then have "of_char (char_of (48 + n)) = (of_char (CHR ''0'') :: nat)" by (simp add: digit_char_def)
    then show ?thesis using True by (simp add: of_char_of)
  next
    case False
    then have "hd (nat_str (n div 10)) = CHR ''0''" using 1(2) by (subst (asm) nat_str.simps) simp
    then have "n div 10 = 0" using 1(1) False by blast
    then show ?thesis using False by simp
  qed
qed

lemma json_fraction_none: "\<not> next_is CHR ''.'' s \<Longrightarrow> json_fraction s = Inr (0, s)"
  by (auto simp: json_fraction_def next_is_def)

lemma json_exponent_none:
  "\<not> next_is CHR ''e'' s \<Longrightarrow> \<not> next_is CHR ''E'' s \<Longrightarrow> json_exponent s = Inr (0, s)"
  by (auto simp: json_exponent_def next_is_def)

lemma digits_prefix_nat_str:
  "json_number_end s \<Longrightarrow> digits_prefix (nat_str n @ s) = (nat_str n, s)"
  using nat_str_digits [of _ n]
  by (cases s) (auto simp: digits_prefix_def json_number_end_def takeWhile_append2 dropWhile_append2)

lemma json_number_unsigned:
  assumes "json_number_end s"
  shows "json_number (nat_str n @ s) = Inr (of_nat n, s)"
proof -
  have e: "json_fraction s = Inr (0, s)" "json_exponent s = Inr (0, s)"
    using assms by (auto simp: json_number_end_def next_is_def intro!: json_fraction_none json_exponent_none)
  have d: "is_digit (hd (nat_str n @ s))" "hd (nat_str n @ s) \<noteq> CHR ''-''"
    using nat_str_hd_digit [of n] by (auto simp: is_digit_def)
  show ?thesis
  proof (cases "n = 0")
    case True
    then show ?thesis using e by (simp add: json_number_def nat_str_zero is_digit_def)
  next
    case False
    then have "hd (nat_str n @ s) \<noteq> CHR ''0''" using nat_str_hd_zero by auto
    then show ?thesis using d e digits_prefix_nat_str [OF assms, of n] by (simp add: json_number_def)
  qed
qed

lemma json_number_int_str:
  assumes "json_number_end s"
  shows "json_number (int_str i @ s) = Inr (of_int i, s)"
proof (cases "i < 0")
  case True
  have e: "json_fraction s = Inr (0, s)" "json_exponent s = Inr (0, s)"
    using assms by (auto simp: json_number_end_def next_is_def intro!: json_fraction_none json_exponent_none)
  have d: "is_digit (hd (nat_str (nat (- i)) @ s))" using nat_str_hd_digit [of "nat (- i)"] by simp
  have z: "nat (- i) \<noteq> 0" using True by simp
  then have "hd (nat_str (nat (- i)) @ s) \<noteq> CHR ''0''" using nat_str_hd_zero [of "nat (- i)"] by auto
  then show ?thesis using True d e z digits_prefix_nat_str [OF assms, of "nat (- i)"]
    by (simp add: json_number_def int_str_def)
next
  case False
  then show ?thesis using json_number_unsigned [OF assms, of "nat i"] by (simp add: int_str_def)
qed


lemma skip_ws_nonspace [simp]: "\<not> js_space c \<Longrightarrow> skip_ws (c # t) = c # t"
  by (simp add: skip_ws_def)

lemma json_print_flat_Cons: "\<exists>c t. json_print_flat v = c # t \<and> \<not> js_space c \<and> c \<noteq> CHR ''{'' \<and> c \<noteq> CHR ''[''"
proof (cases v)
  case (JV_num x)
  have "int_str \<lfloor>x\<rfloor> \<noteq> [] \<and> (hd (int_str \<lfloor>x\<rfloor>) = CHR ''-'' \<or> is_digit (hd (int_str \<lfloor>x\<rfloor>)))"
    using nat_str_hd_digit by (simp add: int_str_def)
  then show ?thesis using JV_num
    by (cases "int_str \<lfloor>x\<rfloor>") (auto simp: json_print_flat_def js_space_def is_digit_def)
qed (auto simp: json_print_flat_def json_print_str_def js_space_def)

lemma json_value_flat:
  assumes "flat_json v" "json_number_end s"
  shows "json_value (Suc n) (json_print_flat v @ s) = Inr (v, s)"
proof -
  obtain c t where ct: "json_print_flat v = c # t" "\<not> js_space c" "c \<noteq> CHR ''{''" "c \<noteq> CHR ''[''"
    using json_print_flat_Cons by blast
  then have sk: "skip_ws (json_print_flat v @ s) = json_print_flat v @ s" by simp
  show ?thesis
  proof (cases v)
    case JV_null
    then show ?thesis using sk by (simp add: json_print_flat_def json_literal_def Let_def is_digit_def)
  next
    case (JV_bool b)
    then show ?thesis using sk by (cases b) (simp_all add: json_print_flat_def json_literal_def Let_def is_digit_def)
  next
    case (JV_str u)
    then show ?thesis using sk assms(1) json_str_print [of u s]
      by (simp add: json_print_flat_def json_print_str_def flat_json_def Let_def)
  next
    case (JV_num x)
    have x: "x = of_int \<lfloor>x\<rfloor>" using assms(1) JV_num by (simp add: flat_json_def)
    have n: "json_number (int_str \<lfloor>x\<rfloor> @ s) = Inr (x, s)"
      using json_number_int_str [OF assms(2), of "\<lfloor>x\<rfloor>"] x by simp
    have "int_str \<lfloor>x\<rfloor> \<noteq> [] \<and> (hd (int_str \<lfloor>x\<rfloor>) = CHR ''-'' \<or> is_digit (hd (int_str \<lfloor>x\<rfloor>)))"
      using nat_str_hd_digit by (simp add: int_str_def)
    moreover have "hd (int_str \<lfloor>x\<rfloor>) \<noteq> CHR 0x22"
      using calculation by (auto simp: is_digit_def)
    ultimately show ?thesis using JV_num sk ct n by (simp add: json_print_flat_def Let_def)
  qed (use assms(1) in \<open>simp_all add: flat_json_def\<close>)
qed

definition flat_members :: "(nat list \<times> jvalue) list \<Rightarrow> bool" where
  "flat_members kvs \<longleftrightarrow> list_all (\<lambda>(k, v). flat_json v \<and> list_all (\<lambda>c. c < 65536) k) kvs"

lemma json_number_end_punct [simp]:
  "json_number_end (CHR '','' # s)" "json_number_end (CHR ''}'' # s)"
  by (simp_all add: json_number_end_def is_digit_def)

lemma json_members_print:
  "flat_members kvs \<Longrightarrow> kvs \<noteq> [] \<Longrightarrow> length kvs < n \<Longrightarrow>
   json_members n (json_print_members kvs @ s) = Inr (kvs, s)"
proof (induction kvs arbitrary: n rule: json_print_members.induct)
  case (2 k v)
  obtain m where n: "n = Suc m" and m: "0 < m" using 2(3) by (cases n) auto
  obtain m' where m': "m = Suc m'" using m by (cases m) auto
  have kv: "flat_json v" "\<forall>c \<in> set k. c < 65536" using 2(1) by (auto simp: flat_members_def list_all_iff)
  have str: "json_str (tl (json_print_str k) @ CHR '':'' # json_print_flat v @ CHR ''}'' # s)
      = Inr (k, CHR '':'' # json_print_flat v @ CHR ''}'' # s)"
    using json_str_print [OF kv(2)] by blast
  have val: "json_value m (json_print_flat v @ CHR ''}'' # s) = Inr (v, CHR ''}'' # s)"
    using json_value_flat [OF kv(1), of "CHR ''}'' # s" m'] m' by simp
  show ?case using n str val
    by (simp add: json_print_str_def Let_def next_is_def js_space_def)
next
  case (3 k v kv2 kvs)
  obtain m where n: "n = Suc m" and m: "length (kv2 # kvs) < m" using 3(4) by (cases n) auto
  obtain m' where m': "m = Suc m'" using m by (cases m) auto
  have kv: "flat_json v" "\<forall>c \<in> set k. c < 65536" using 3(2) by (auto simp: flat_members_def list_all_iff)
  have rest: "flat_members (kv2 # kvs)" using 3(2) by (simp add: flat_members_def)
  let ?r = "json_print_members (kv2 # kvs) @ s"
  have str: "json_str (tl (json_print_str k) @ CHR '':'' # json_print_flat v @ CHR '','' # ?r)
      = Inr (k, CHR '':'' # json_print_flat v @ CHR '','' # ?r)"
    using json_str_print [OF kv(2)] by blast
  have val: "json_value m (json_print_flat v @ CHR '','' # ?r) = Inr (v, CHR '','' # ?r)"
    using json_value_flat [OF kv(1), of "CHR '','' # ?r" m'] m' by simp
  have ih: "json_members m ?r = Inr (kv2 # kvs, s)" using 3(1) [OF rest _ m] by simp
  show ?case using n str val ih
    by (simp add: json_print_str_def Let_def next_is_def js_space_def)
qed simp_all

lemma json_print_members_length: "length kvs \<le> length (json_print_members kvs)"
  by (induction kvs rule: json_print_members.induct) (simp_all add: json_print_str_def)

text \<open>\<open>JSON.parse\<close> reads back every printed flat object.\<close>

lemma JSON_parse_print_obj:
  assumes "flat_members kvs"
  shows "JSON_parse (json_print_obj kvs) = Some (JV_obj kvs)"
proof (cases "kvs = []")
  case True
  then show ?thesis
    by (simp add: JSON_parse_def json_print_obj_def json_fuel_def Let_def next_is_def skip_ws_def js_space_def
        numeral_eq_Suc)
next
  case False
  let ?f = "json_fuel (json_print_obj kvs)"
  have f: "length kvs < ?f - 1" and f1: "?f = Suc (?f - 1)"
    using json_print_members_length [of kvs] by (simp_all add: json_fuel_def json_print_obj_def)
  have m: "json_members (?f - 1) (json_print_members kvs @ []) = Inr (kvs, [])"
    by (rule json_members_print [OF assms False f])
  have nb: "\<not> next_is CHR ''}'' (skip_ws (json_print_members kvs))"
    using False by (cases kvs rule: json_print_members.cases)
      (auto simp: next_is_def json_print_str_def js_space_def)
  have "json_value ?f (json_print_obj kvs) = Inr (JV_obj kvs, [])"
    using m nb by (subst f1) (simp add: json_print_obj_def Let_def js_space_def)
  then show ?thesis by (simp add: JSON_parse_def skip_ws_def)
qed


subsubsection \<open>\<open>atob\<close> rejects characters outside its alphabet\<close>

lemma strip_padding_keeps: "c \<in> set d \<Longrightarrow> c \<noteq> CHR ''='' \<Longrightarrow> c \<in> set (strip_padding d)"
proof -
  assume c: "c \<in> set d" "c \<noteq> CHR ''=''"
  have "d = take k d @ drop k d" for k by simp
  then have split: "c \<in> set (take k d) \<or> c \<in> set (drop k d)" for k using c(1)
    by (metis Un_iff set_append)
  show ?thesis
  proof (cases "length d mod 4 = 0 \<and> (drop (length d - 2) d = ''=='' \<or> drop (length d - 1) d = ''='')")
    case True
    then show ?thesis using split [of "length d - 2"] split [of "length d - 1"] c(2)
      by (auto simp: strip_padding_def)
  qed (auto simp: strip_padding_def c(1))
qed

lemma those_None: "None \<in> set xs \<Longrightarrow> those xs = None"
  by (induction xs) (auto split: option.splits)

lemma atob_rejects:
  assumes "c \<in> set s" "b64_val c = None" "\<not> ascii_ws c" "c \<noteq> CHR ''=''"
  shows "atob s = None"
proof -
  let ?d = "strip_padding (filter (\<lambda>c. \<not> ascii_ws c) s)"
  have "c \<in> set ?d" using assms by (intro strip_padding_keeps) auto
  then have "None \<in> set (map b64_val ?d)" using assms(2) by (metis image_eqI list.set_map)
  then have "those (map b64_val ?d) = None" by (rule those_None)
  then show ?thesis by (simp add: atob_def Let_def)
qed

end
