(* ===== verification/Layout_Nav.thy ===== *)
theory Layout_Nav
  imports Auth_Routes Js_Codec
begin

text \<open>
  The navigation of \<open>Layout\<close> (\<open>src/src/components/Layout.tsx\<close>), the frame of every
  page of the newer interface: the menu items, the active item (\<open>location.pathname ===
  item.href\<close>), the mobile sidebar, the links and the logout button. A link navigates within
  the application: the world's \<open>location\<close> becomes the item's path, and the mobile links
  also close the sidebar. The user name shown in the sidebar (\<open>getUserName\<close>) decodes the
  token's payload with \<open>atob\<close> and \<open>JSON.parse\<close> (theory \<open>Js_Codec\<close>).
\<close>

datatype menu_name = Menu_dashboard | Menu_produtos | Menu_vendas | Menu_relatorios | Menu_configuracoes

record menu_item =
  mi_name :: menu_name
  mi_href :: string

definition menuItems :: "menu_item list" where
  "menuItems =
     [\<lparr>mi_name = Menu_dashboard, mi_href = ''/dashboard''\<rparr>, \<lparr>mi_name = Menu_produtos, mi_href = ''/produtos''\<rparr>,
      \<lparr>mi_name = Menu_vendas, mi_href = ''/vendas''\<rparr>, \<lparr>mi_name = Menu_relatorios, mi_href = ''/relatorios''\<rparr>,
      \<lparr>mi_name = Menu_configuracoes, mi_href = ''/configuracoes''\<rparr>]"

definition isActive :: "string \<Rightarrow> menu_item \<Rightarrow> bool" where
  "isActive pathname item \<longleftrightarrow> pathname = mi_href item"

text \<open>The menu as rendered on a path: each item with its active flag.\<close>

definition render_menu :: "string \<Rightarrow> (menu_name \<times> bool) list" where
  "render_menu pathname = map (\<lambda>i. (mi_name i, isActive pathname i)) menuItems"

datatype layout_event =
    Open_sidebar | Close_sidebar | Desktop_link menu_item | Mobile_link menu_item | Logout_button

text \<open>\<open>sidebarOpen\<close> and the world; the links of the mobile sidebar close it.\<close>

fun layout_step :: "layout_event \<Rightarrow> bool \<times> app_world \<Rightarrow> bool \<times> app_world" where
  "layout_step Open_sidebar (s, w) = (True, w)"
| "layout_step Close_sidebar (s, w) = (False, w)"
| "layout_step (Desktop_link i) (s, w) = (s, w\<lparr>location := mi_href i\<rparr>)"
| "layout_step (Mobile_link i) (s, w) = (False, w\<lparr>location := mi_href i\<rparr>)"
| "layout_step Logout_button (s, w) = (s, layout_logout w)"

subsection \<open>\<open>getUserName\<close>\<close>

text \<open>What the sidebar shows: the payload's \<open>nome\<close> when it is truthy, else the default
  \<open>'Usuario'\<close> (the accented text is a constructor).\<close>

datatype shown_name = Usuario_padrao | Nome_payload jvalue

definition js_units :: "string \<Rightarrow> nat list" where
  "js_units s = map of_char s"

text \<open>\<open>token.split('.')[1]\<close> is \<open>undefined\<close> when the token has no dot, and
  \<open>atob(undefined)\<close> decodes the string \<open>"undefined"\<close>; every exception (\<open>atob\<close>,
  \<open>JSON.parse\<close>, reading \<open>nome\<close> of \<open>null\<close>) is caught and gives the default.\<close>

definition token_segment :: "string \<Rightarrow> string" where
  "token_segment t = (let parts = split_on CHR ''.'' t in if 1 < length parts then parts ! 1 else ''undefined'')"

definition getUserName :: "string option \<Rightarrow> shown_name" where
  "getUserName tok =
     (if \<not> truthy_str tok then Usuario_padrao
      else case atob (token_segment (the tok)) of
        None \<Rightarrow> Usuario_padrao
      | Some txt \<Rightarrow>
          (case JSON_parse txt of
             None \<Rightarrow> Usuario_padrao
           | Some payload \<Rightarrow>
               (case js_prop payload (js_units ''nome'') of
                  Some v \<Rightarrow> if truthy_json v then Nome_payload v else Usuario_padrao
                | None \<Rightarrow> Usuario_padrao)))"

subsection \<open>The rendered frame\<close>

text \<open>What \<open>Layout\<close> renders around a page: the desktop sidebar with the menu and the
  user block (\<open>getUserName()\<close> of the stored token, and the logout button), the mobile
  sidebar with the same menu only while \<open>sidebarOpen\<close>, and the mobile header with the
  open and logout buttons; the page itself is the \<open>children\<close>.\<close>

record layout_view =
  lv_desktop_menu :: "(menu_name \<times> bool) list"
  lv_user :: shown_name
  lv_mobile_menu :: "(menu_name \<times> bool) list option"

definition render_layout :: "bool \<Rightarrow> app_world \<Rightarrow> layout_view" where
  "render_layout sidebarOpen w =
     \<lparr>lv_desktop_menu = render_menu (location w), lv_user = getUserName (ls_token w),
      lv_mobile_menu = (if sidebarOpen then Some (render_menu (location w)) else None)\<rparr>"

subsection \<open>Lemmas\<close>

lemma token_segment_parts:
  "CHR ''.'' \<notin> set h \<Longrightarrow> CHR ''.'' \<notin> set p \<Longrightarrow> token_segment (h @ CHR ''.'' # p @ CHR ''.'' # g) = p"
proof -
  assume h: "CHR ''.'' \<notin> set h" and p: "CHR ''.'' \<notin> set p"
  have "split_on CHR ''.'' (h @ CHR ''.'' # p @ CHR ''.'' # g) = h # p # split_on CHR ''.'' g"
    using split_on_append_free [OF h, of "CHR ''.'' # p @ CHR ''.'' # g"]
      split_on_append_free [OF p, of "CHR ''.'' # g"] by (simp add: Let_def)
  then show ?thesis by (simp add: token_segment_def)
qed

lemma btoa_no_dot: "CHR ''.'' \<notin> set (btoa s)"
proof
  assume "CHR ''.'' \<in> set (btoa s)"
  then obtain v where "v \<in> set (b64_encode_vals s)" "b64_char v = CHR ''.''"
    by (auto simp: btoa_def)
  then show False using b64_val_char [of v] b64_encode_vals_bound [of v s] by (simp add: b64_val_def)
qed

lemma menu_hrefs_distinct: "distinct (map mi_href menuItems)"
  by (simp add: menuItems_def)

lemma render_menu_active:
  "i \<in> set menuItems \<Longrightarrow> filter snd (render_menu (mi_href i)) = [(mi_name i, True)]"
  by (auto simp: render_menu_def menuItems_def isActive_def)


text \<open>A link of the mobile sidebar closes it and leaves its own item the only active one of
  the desktop menu; the user block is unchanged, since navigation keeps the token.\<close>

lemma render_layout_mobile_link:
  assumes "i \<in> set menuItems"
  shows "lv_mobile_menu (render_layout (fst (layout_step (Mobile_link i) (s, w))) (snd (layout_step (Mobile_link i) (s, w)))) = None
    \<and> filter snd (lv_desktop_menu (render_layout (fst (layout_step (Mobile_link i) (s, w))) (snd (layout_step (Mobile_link i) (s, w)))))
        = [(mi_name i, True)]
    \<and> lv_user (render_layout (fst (layout_step (Mobile_link i) (s, w))) (snd (layout_step (Mobile_link i) (s, w))))
        = lv_user (render_layout s w)"
  using render_menu_active [OF assms] by (simp add: render_layout_def)

text \<open>After logout the sidebar shows the default name.\<close>

lemma render_layout_logout:
  "lv_user (render_layout (fst (layout_step Logout_button (s, w))) (snd (layout_step Logout_button (s, w)))) = Usuario_padrao"
  by (simp add: render_layout_def layout_logout_def getUserName_def)

subsection \<open>The name shown for a token\<close>

text \<open>Claim C5: the sidebar shows the name carried by the token. For any header without a
  dot and any signature, a token whose payload segment is the base64 (\<open>btoa\<close>) of a
  printed object of flat claims whose last \<open>nome\<close> member is a non-empty string shows
  exactly that string.\<close>

theorem getUserName_roundtrip:
  assumes "CHR ''.'' \<notin> set h" and "flat_members kvs"
    and "map_of (rev kvs) (js_units ''nome'') = Some (JV_str n)" and "n \<noteq> []"
  shows "getUserName (Some (h @ CHR ''.'' # btoa (json_print_obj kvs) @ CHR ''.'' # g)) = Nome_payload (JV_str n)"
proof -
  have seg: "token_segment (h @ CHR ''.'' # btoa (json_print_obj kvs) @ CHR ''.'' # g) = btoa (json_print_obj kvs)"
    using token_segment_parts [OF assms(1) btoa_no_dot] .
  show ?thesis
    using seg atob_btoa JSON_parse_print_obj [OF assms(2)] assms(3,4)
    by (simp add: getUserName_def js_prop_def truthy_json_def)
qed

text \<open>Claim C21: a payload segment written in the URL-safe alphabet of JSON Web Tokens
  (RFC 7515), that is containing \<open>-\<close> or \<open>_\<close>, makes \<open>atob\<close> throw: whatever the
  payload says, the sidebar shows the default name.\<close>

theorem getUserName_base64url:
  assumes "CHR ''.'' \<notin> set h" and "CHR ''.'' \<notin> set p" and "CHR ''-'' \<in> set p \<or> CHR ''_'' \<in> set p"
  shows "getUserName (Some (h @ CHR ''.'' # p @ CHR ''.'' # g)) = Usuario_padrao"
proof -
  have "atob p = None"
  proof (cases "CHR ''-'' \<in> set p")
    case True
    then show ?thesis by (rule atob_rejects) (simp_all add: b64_val_def ascii_ws_def)
  next
    case False
    then have "CHR ''_'' \<in> set p" using assms(3) by blast
    then show ?thesis by (rule atob_rejects) (simp_all add: b64_val_def ascii_ws_def)
  qed
  then show ?thesis using token_segment_parts [OF assms(1,2), of g] by (simp add: getUserName_def)
qed


subsection \<open>Witnesses\<close>

text \<open>A token for the claims \<open>nome\<close> = "Joao" with a tilde on the a (units 74 111 227
  111) and \<open>sub\<close> = 2, encoded from the UTF-8 bytes of its JSON text as token issuers do:
  \<open>atob\<close> reads the payload byte by byte, so the sidebar shows the five units of the
  UTF-8 encoding (74 111 195 163 111) instead of the name.\<close>

theorem getUserName_roundtrip_witness:
  "getUserName (Some (''eyJhbGciOiJIUzI1NiJ9'' @ CHR ''.'' #
      btoa (json_print_obj [(js_units ''nome'', JV_str [74, 111, 195, 163, 111]), (js_units ''sub'', JV_num 2)])
      @ CHR ''.'' # ''c2ln''))
   = Nome_payload (JV_str [74, 111, 195, 163, 111])
   \<and> [74, 111, 195, 163, 111] \<noteq> [74, 111, 227, 111::nat]"
proof -
  have "CHR ''.'' \<notin> set ''eyJhbGciOiJIUzI1NiJ9''" by simp
  moreover have "flat_members [(js_units ''nome'', JV_str [74, 111, 195, 163, 111]), (js_units ''sub'', JV_num 2)]"
    by (simp add: flat_members_def flat_json_def js_units_def)
  moreover have "map_of (rev [(js_units ''nome'', JV_str [74, 111, 195, 163, 111]), (js_units ''sub'', JV_num 2)])
      (js_units ''nome'') = Some (JV_str [74, 111, 195, 163, 111])"
    by (simp add: js_units_def)
  ultimately show ?thesis using getUserName_roundtrip [of "''eyJhbGciOiJIUzI1NiJ9''"
      "[(js_units ''nome'', JV_str [74, 111, 195, 163, 111]), (js_units ''sub'', JV_num 2)]"
      "[74, 111, 195, 163, 111]" "''c2ln''"] by simp
qed

text \<open>The same claims encoded in base64url, as a JSON Web Token carries them: the segment
  \<open>eyJub21lIjoiSm_Do28iLCJzdWIiOjJ9\<close> contains \<open>_\<close>.\<close>

theorem getUserName_base64url_witness:
  "getUserName (Some (''eyJhbGciOiJIUzI1NiJ9'' @ CHR ''.'' # ''eyJub21lIjoiSm_Do28iLCJzdWIiOjJ9'' @ CHR ''.'' # ''c2ln''))
   = Usuario_padrao"
  using getUserName_base64url [of "''eyJhbGciOiJIUzI1NiJ9''" "''eyJub21lIjoiSm_Do28iLCJzdWIiOjJ9''" "''c2ln''"]
  by simp

end
