(* ===== verification/Venda_Table.thy ===== *)
theory Venda_Table
  imports Venda_Store
begin

text \<open>
  The table \<open>VendaTable\<close> of \<open>src/src/components/VendaTable.tsx\<close>: one row per sale
  with the date, the amount as \<open>R$ {valor.toFixed(2)}\<close> and the two buttons, keyed by
  \<open>venda.id || venda.dataFormatada\<close>. React compares keys as strings, so a key is the
  printed identifier or the date. The component is not mounted by any page; its handlers
  are props, so the model gives the actions its enabled buttons offer.
\<close>

record table_row =
  vt_key :: string
  vt_data :: string
  vt_valor :: string
  vt_delete_enabled :: bool

definition venda_key :: "venda \<Rightarrow> string" where
  "venda_key v = (if venda_id v \<noteq> 0 then int_str (venda_id v) else dataFormatada v)"

definition table_row_view :: "venda \<Rightarrow> table_row" where
  "table_row_view v = \<lparr>vt_key = venda_key v, vt_data = dataFormatada v,
     vt_valor = ''R$ '' @ to_fixed 2 (valor v), vt_delete_enabled = (venda_id v \<noteq> 0)\<rparr>"

text \<open>The table is faded out (\<open>opacity-0\<close>) while \<open>loading\<close>.\<close>

record table_view =
  table_visible :: bool
  table_rows :: "table_row list"

definition venda_table :: "venda list \<Rightarrow> bool \<Rightarrow> table_view" where
  "venda_table vs busy = \<lparr>table_visible = (\<not> busy), table_rows = map table_row_view vs\<rparr>"

datatype table_action = Table_edit venda | Table_delete int

text \<open>The enabled buttons, row by row: "Editar" always, "Deletar" unless \<open>!venda.id\<close>.\<close>

definition table_actions :: "venda list \<Rightarrow> table_action list" where
  "table_actions vs = concat (map (\<lambda>v. Table_edit v # (if venda_id v \<noteq> 0 then [Table_delete (venda_id v)] else [])) vs)"

subsection \<open>Lemmas\<close>

lemma venda_key_id: "venda_id v \<noteq> 0 \<Longrightarrow> venda_key v = int_str (venda_id v)"
  by (simp add: venda_key_def)

lemma table_keys_distinct:
  assumes "distinct (map venda_id vs)" and "0 \<notin> venda_id ` set vs"
  shows "distinct (map vt_key (table_rows (venda_table vs l)))"
proof -
  have "map vt_key (table_rows (venda_table vs l)) = map (int_str \<circ> venda_id) vs"
    using assms(2) by (auto simp: venda_table_def table_row_view_def venda_key_def)
  moreover have "inj_on (int_str \<circ> venda_id) (set vs)"
    using assms(1) by (auto simp: inj_on_def int_str_inj distinct_map)
  ultimately show ?thesis using assms(1) by (simp add: distinct_map)
qed

end
