(* ===== verification/Venda_Context.thy ===== *)
theory Venda_Context
  imports Venda_Table
begin

text \<open>
  The value \<open>VendaProvider\<close> puts into \<open>VendaContext\<close>
  (\<open>src/src/context/VendaContext.tsx\<close>, the interface \<open>VendaContextType\<close> and the
  \<open>value={{...}}\<close> object): its operations as one datatype and one dispatch function over
  the store's state and the world, as the consumers of the context see them. The state
  fields of the value are the record \<open>venda_state\<close>; the setters are record updates. The
  runs of the provider are the states reached from the initial one by any sequence of
  operations.
\<close>

datatype store_op =
    Op_fetchVendas "venda_filters option"
  | Op_createVenda string js_number
  | Op_updateVenda int string js_number
  | Op_deleteVenda int
  | Op_getTotalVendas
  | Op_setFiltroDia "js_number option"
  | Op_setFiltroMes "js_number option"
  | Op_setFiltroAno "js_number option"
  | Op_handleEdit int
  | Op_handleDelete bool int
  | Op_exportToCSV
  | Op_setNovaVenda "venda_draft option"
  | Op_setEditVenda "venda option"
  | Op_handleSubmit string js_number
  | Op_handleUpdate int string js_number
  | Op_validateForm

text \<open>What an operation gives back to its caller: nothing, a thrown error, the response of
  \<open>getTotalVendas\<close>, the boolean of \<open>validateForm\<close>, or the file \<open>exportToCSV\<close>
  offers.\<close>

datatype store_result = Done | Thrown js_error | Answer venda_response | Valid bool | Offered download

definition of_result :: "(js_error + unit) \<times> venda_state \<times> world \<Rightarrow> store_result \<times> venda_state \<times> world" where
  "of_result r = (case r of (Inl e, st, w) \<Rightarrow> (Thrown e, st, w) | (Inr _, st, w) \<Rightarrow> (Done, st, w))"

fun store_dispatch :: "store_op \<Rightarrow> venda_state \<times> world \<Rightarrow> store_result \<times> venda_state \<times> world" where
  "store_dispatch (Op_fetchVendas f) (st, w) = (Done, fetchVendas f st w)"
| "store_dispatch (Op_createVenda d v) (st, w) = of_result (createVenda d v st w)"
| "store_dispatch (Op_updateVenda i d v) (st, w) = of_result (updateVenda i d v st w)"
| "store_dispatch (Op_deleteVenda i) (st, w) = of_result (deleteVenda i st w)"
| "store_dispatch Op_getTotalVendas (st, w) =
     (case getTotalVendas st w of (Inl e, st', w') \<Rightarrow> (Thrown e, st', w') | (Inr r, st', w') \<Rightarrow> (Answer r, st', w'))"
| "store_dispatch (Op_setFiltroDia x) (st, w) = (Done, st\<lparr>filtroDia := x\<rparr>, w)"
| "store_dispatch (Op_setFiltroMes x) (st, w) = (Done, st\<lparr>filtroMes := x\<rparr>, w)"
| "store_dispatch (Op_setFiltroAno x) (st, w) = (Done, st\<lparr>filtroAno := x\<rparr>, w)"
| "store_dispatch (Op_handleEdit i) (st, w) = (Done, handleEdit i st, w)"
| "store_dispatch (Op_handleDelete ok i) (st, w) = (Done, handleDelete ok i st w)"
| "store_dispatch Op_exportToCSV (st, w) = (Offered (exportToCSV st), st, w)"
| "store_dispatch (Op_setNovaVenda x) (st, w) = (Done, st\<lparr>novaVenda := x\<rparr>, w)"
| "store_dispatch (Op_setEditVenda x) (st, w) = (Done, st\<lparr>editVenda := x\<rparr>, w)"
| "store_dispatch (Op_handleSubmit d v) (st, w) = of_result (handleSubmit d v st w)"
| "store_dispatch (Op_handleUpdate i d v) (st, w) = of_result (handleUpdate i d v st w)"
| "store_dispatch Op_validateForm (st, w) = (case validateForm st of (b, st') \<Rightarrow> (Valid b, st', w))"

text \<open>Identifiers the server hands out are positive: \<open>next_id\<close> starts positive and only
  grows, so every stored sale has a positive identifier.\<close>

definition pos_ids :: "server \<Rightarrow> bool" where
  "pos_ids s \<longleftrightarrow> 0 < next_id s \<and> list_all (\<lambda>v. 0 < venda_id v) (db s)"

inductive provider_reachable :: "venda_state \<times> world \<Rightarrow> bool" where
  init: "server_inv (remote w) \<Longrightarrow> pos_ids (remote w) \<Longrightarrow> provider_reachable (init_state, w)"
| step: "provider_reachable c \<Longrightarrow> provider_reachable (snd (store_dispatch op c))"

subsection \<open>The provider's invariant\<close>

text \<open>The server keeps its invariants, no operation is left half-done (\<open>loading\<close> is
  off between operations), and the cached list holds distinct, positive identifiers.\<close>

definition provider_inv :: "venda_state \<Rightarrow> world \<Rightarrow> bool" where
  "provider_inv st w \<longleftrightarrow> server_inv (remote w) \<and> pos_ids (remote w) \<and> \<not> loading st
     \<and> distinct (map venda_id (vendas st)) \<and> list_all (\<lambda>v. 0 < venda_id v) (vendas st)"

lemma serve_req_pos: "pos_ids s \<Longrightarrow> pos_ids (snd (serve_req s r))"
  by (cases r) (auto simp: pos_ids_def list_all_iff)

lemma axios_pos: "pos_ids (remote w) \<Longrightarrow> pos_ids (remote (snd (axios w a r)))"
  unfolding axios_def Let_def serve_def by (auto dest: serve_req_pos [of _ r] split: prod.splits)

text \<open>A list the server answers is a sublist of its store.\<close>

lemma axios_vendas_data:
  assumes "axios w a (Get_vendas ps) = (Inr (Vendas_data vs), w')"
  shows "\<exists>P. vs = filter P (db (remote w))"
proof (cases "delivers w")
  case True
  then show ?thesis using assms
    by (auto simp: axios_served serve_def split: if_splits)
qed (use assms in \<open>simp add: axios_lost\<close>)

lemma cache_inv_filter:
  "distinct (map venda_id xs) \<and> list_all (\<lambda>v. 0 < venda_id v) xs \<Longrightarrow>
   distinct (map venda_id (filter P xs)) \<and> list_all (\<lambda>v. 0 < venda_id v) (filter P xs)"
  by (simp add: distinct_map_filter list_all_iff)

lemma fetchVendas_inv:
  assumes "provider_inv (st\<lparr>loading := False\<rparr>) w"
  shows "provider_inv (fst (fetchVendas f st w)) (snd (fetchVendas f st w))"
proof (cases "get_token w")
  case (Some tok)
  obtain r w1 where ax: "axios w (bearer tok) (Get_vendas (fetch_params f st)) = (r, w1)"
    by (cases "axios w (bearer tok) (Get_vendas (fetch_params f st))")
  have w1: "remote w1 = remote w"
    using axios_read_remote(1) [of w "bearer tok" "fetch_params f st"] ax by simp
  show ?thesis
  proof (cases "\<exists>vs. r = Inr (Vendas_data vs)")
    case True
    then obtain vs where r: "r = Inr (Vendas_data vs)" by blast
    obtain P where "vs = filter P (db (remote w))" using axios_vendas_data ax r by blast
    then show ?thesis using assms Some ax r w1 cache_inv_filter [of "db (remote w)" P]
      by (simp add: fetchVendas_token provider_inv_def server_inv_def pos_ids_def)
  next
    case False
    then have "fetchVendas f st w = (st\<lparr>loading := False\<rparr>, w1)"
      using Some ax by (auto simp: fetchVendas_token split: sum.split venda_response.split)
    then show ?thesis using assms w1 by (simp add: provider_inv_def)
  qed
qed (use assms in \<open>simp add: fetchVendas_no_token provider_inv_def\<close>)

lemma mutation_inv:
  assumes "provider_inv st w" and "\<And>s. vendas (on_ok s) = vendas s"
  shows "provider_inv (fst (snd (mutation req msg on_ok st w))) (snd (snd (mutation req msg on_ok st w)))"
proof (cases rule: mutation_cases [where w = w and req = req])
  case no_token
  then show ?thesis using assms(1) by (simp add: mutation_no_token provider_inv_def)
next
  case (rejected tok e w1)
  have "server_inv (remote w1) \<and> pos_ids (remote w1)"
    using axios_inv [of w "bearer tok" req] axios_pos [of w "bearer tok" req] rejected assms(1)
    by (simp add: provider_inv_def)
  then show ?thesis using assms(1) rejected by (simp add: mutation_rejected provider_inv_def)
next
  case (resolved tok x w1)
  have "provider_inv (st\<lparr>loading := False\<rparr>) w1"
    using axios_inv [of w "bearer tok" req] axios_pos [of w "bearer tok" req] resolved assms(1)
    by (simp add: provider_inv_def)
  then have "provider_inv (fst (fetchVendas None (st\<lparr>loading := True\<rparr>) w1))
                          (snd (fetchVendas None (st\<lparr>loading := True\<rparr>) w1))"
    using fetchVendas_inv [of "st\<lparr>loading := True\<rparr>" w1 None] by simp
  then show ?thesis using resolved assms(2) by (simp add: mutation_resolved provider_inv_def)
qed

lemma getTotalVendas_inv:
  assumes "provider_inv st w"
  shows "provider_inv (fst (snd (getTotalVendas st w))) (snd (snd (getTotalVendas st w)))"
proof (cases "get_token w")
  case (Some tok)
  obtain r w1 where ax: "axios w (bearer tok) Get_total = (r, w1)"
    by (cases "axios w (bearer tok) Get_total")
  have "remote w1 = remote w" using axios_read_remote(2) [of w "bearer tok"] ax by simp
  then show ?thesis using assms Some ax
    by (cases r) (simp_all add: getTotalVendas_defs provider_inv_def)
qed (use assms in \<open>simp add: getTotalVendas_defs provider_inv_def\<close>)

lemma of_result_state [simp]: "snd (of_result r) = snd r"
  by (auto simp: of_result_def split: prod.split sum.split)

lemmas mutation_inv_ops =
  mutation_inv [of _ _ "\<lambda>st. st\<lparr>novaVenda := None, errors := []\<rparr>", simplified]
  mutation_inv [of _ _ "\<lambda>st. st\<lparr>editVenda := None, errors := []\<rparr>", simplified]
  mutation_inv [of _ _ "\<lambda>st. st", simplified]

text \<open>Every operation of the context value keeps the invariant.\<close>

lemma store_dispatch_inv:
  assumes "provider_inv st w"
  shows "provider_inv (fst (snd (store_dispatch op (st, w)))) (snd (snd (store_dispatch op (st, w))))"
proof (cases op)
  case (Op_handleDelete ok i)
  then show ?thesis using assms mutation_inv_ops(3) [of st w "Delete_venda i" Erro_deletar_venda]
    by (simp add: handleDelete_def deleteVenda_def split_beta)
next
  case (Op_handleSubmit d v)
  then show ?thesis using assms mutation_inv_ops(1,2)
    by (simp add: handleSubmit_def handleUpdate_def mutation_defs split: option.split)
next
  case (Op_handleEdit i)
  then show ?thesis using assms by (simp add: handleEdit_def provider_inv_def split: option.split)
next
  case Op_getTotalVendas
  then show ?thesis using assms getTotalVendas_inv [of st w]
    by (simp add: split_beta split: sum.split)
next
  case (Op_fetchVendas f)
  then show ?thesis using assms fetchVendas_inv [of st w f]
    by (simp add: provider_inv_def)
next
  case Op_validateForm
  then show ?thesis using assms by (simp add: validateForm_def Let_def provider_inv_def)
qed (use assms mutation_inv_ops in \<open>simp_all add: mutation_defs handleUpdate_def provider_inv_def\<close>)

subsection \<open>Runs of the provider\<close>

text \<open>Claim C11: in every run of the provider (from its initial state against a server whose
  identifiers are distinct and positive, then any sequence of context operations, failures
  and lost requests included) no operation is left with \<open>loading\<close> on, the server keeps its
  invariant, the cached list holds distinct positive identifiers, and so the rows
  \<open>VendaTable\<close> renders from it have distinct React keys.\<close>

theorem provider_reachable_inv:
  assumes "provider_reachable c"
  shows "provider_inv (fst c) (snd c)
         \<and> distinct (map vt_key (table_rows (venda_table (vendas (fst c)) (loading (fst c)))))"
proof -
  have inv: "provider_inv (fst c) (snd c)"
    using assms
  proof (induction rule: provider_reachable.induct)
    case (init w)
    then show ?case by (simp add: provider_inv_def init_state_def)
  next
    case (step c op)
    then show ?case using store_dispatch_inv [of "fst c" "snd c" op] by simp
  qed
  then have "0 \<notin> venda_id ` set (vendas (fst c))"
    by (auto simp: provider_inv_def list_all_iff)
  then show ?thesis using inv table_keys_distinct [of "vendas (fst c)"]
    by (simp add: provider_inv_def)
qed

subsection \<open>Witnesses\<close>

theorem provider_reachable_inv_witness:
  "provider_reachable (snd (store_dispatch (Op_fetchVendas None) (init_state, demo_world)))
   \<and> provider_inv (fst (snd (store_dispatch (Op_fetchVendas None) (init_state, demo_world))))
                  (snd (snd (store_dispatch (Op_fetchVendas None) (init_state, demo_world))))"
proof -
  have r: "provider_reachable (snd (store_dispatch (Op_fetchVendas None) (init_state, demo_world)))"
    by (rule provider_reachable.step, rule provider_reachable.init)
       (simp_all add: demo_simps server_inv_def pos_ids_def)
  show ?thesis using provider_reachable_inv [OF r] r by simp
qed

end
