(* ===== verification/Settings_Pages.thy ===== *)
theory Settings_Pages
  imports Prelude
begin

text \<open>
  The two pages whose handlers only write to the console: the settings page
  \<open>Configuracoes\<close> (\<open>src/src/pages/Configuracoes.tsx\<close>) and the reports page
  \<open>Relatorios\<close> (\<open>src/src/pages/Relatorios.tsx\<close>). Their state is local to the page and
  their only effect is the console, modelled as a log of entries (the Portuguese texts are
  constructors, being non-ASCII). The password fields and the theme and density radios are
  uncontrolled inputs without handlers: nothing reads them.
\<close>

subsection \<open>\<open>Configuracoes\<close>\<close>

record user_data =
  ud_nome :: string
  ud_email :: string
  ud_telefone :: string
  ud_endereco :: string

record notifications =
  emailVendas :: bool
  emailRelatorios :: bool
  pushVendas :: bool

record settings_page =
  sp_userData :: user_data
  sp_notifications :: notifications

definition init_settings_page :: settings_page where
  "init_settings_page =
     \<lparr>sp_userData = \<lparr>ud_nome = ''Maria Silva'', ud_email = ''maria@mei.com'', ud_telefone = [], ud_endereco = []\<rparr>,
      sp_notifications = \<lparr>emailVendas = True, emailRelatorios = False, pushVendas = True\<rparr>\<rparr>"

datatype console_entry =
    Salvando_perfil user_data
  | Salvando_notificacoes notifications
  | Exportando_dados
  | Importando_dados
  | Exportando_relatorio string

datatype settings_event =
    Set_nome string | Set_email string | Set_telefone string | Set_endereco string
  | Check_emailVendas bool | Check_emailRelatorios bool | Check_pushVendas bool
  | Salvar_perfil | Salvar_notificacoes | Exportar_dados | Importar_dados

text \<open>The handlers: the inputs' \<open>setUserData({...userData, f: value})\<close> and
  \<open>setNotifications({...notifications, f: checked})\<close>, and the four buttons, each of which
  only logs.\<close>

fun settings_step ::
  "settings_event \<Rightarrow> settings_page \<times> console_entry list \<Rightarrow> settings_page \<times> console_entry list" where
  "settings_step (Set_nome x) (st, c) = (st\<lparr>sp_userData := (sp_userData st)\<lparr>ud_nome := x\<rparr>\<rparr>, c)"
| "settings_step (Set_email x) (st, c) = (st\<lparr>sp_userData := (sp_userData st)\<lparr>ud_email := x\<rparr>\<rparr>, c)"
| "settings_step (Set_telefone x) (st, c) = (st\<lparr>sp_userData := (sp_userData st)\<lparr>ud_telefone := x\<rparr>\<rparr>, c)"
| "settings_step (Set_endereco x) (st, c) = (st\<lparr>sp_userData := (sp_userData st)\<lparr>ud_endereco := x\<rparr>\<rparr>, c)"
| "settings_step (Check_emailVendas b) (st, c) =
     (st\<lparr>sp_notifications := (sp_notifications st)\<lparr>emailVendas := b\<rparr>\<rparr>, c)"
| "settings_step (Check_emailRelatorios b) (st, c) =
     (st\<lparr>sp_notifications := (sp_notifications st)\<lparr>emailRelatorios := b\<rparr>\<rparr>, c)"
| "settings_step (Check_pushVendas b) (st, c) =
     (st\<lparr>sp_notifications := (sp_notifications st)\<lparr>pushVendas := b\<rparr>\<rparr>, c)"
| "settings_step Salvar_perfil (st, c) = (st, c @ [Salvando_perfil (sp_userData st)])"
| "settings_step Salvar_notificacoes (st, c) = (st, c @ [Salvando_notificacoes (sp_notifications st)])"
| "settings_step Exportar_dados (st, c) = (st, c @ [Exportando_dados])"
| "settings_step Importar_dados (st, c) = (st, c @ [Importando_dados])"

definition settings_run :: "settings_event list \<Rightarrow> settings_page \<times> console_entry list \<Rightarrow> settings_page \<times> console_entry list" where
  "settings_run es c = fold settings_step es c"

subsection \<open>\<open>Relatorios\<close>\<close>

text \<open>The six report cards, in the order of the page, each with the \<open>tipo\<close> its button
  passes to \<open>handleExport\<close>.\<close>

datatype relatorio_card =
    Vendas_por_periodo | Produtos_mais_vendidos | Analise_de_crescimento | Relatorio_mensal
  | Relatorio_fiscal | Exportacao_personalizada

definition relatorio_cards :: "relatorio_card list" where
  "relatorio_cards = [Vendas_por_periodo, Produtos_mais_vendidos, Analise_de_crescimento, Relatorio_mensal,
     Relatorio_fiscal, Exportacao_personalizada]"

fun card_tipo :: "relatorio_card \<Rightarrow> string" where
  "card_tipo Vendas_por_periodo = ''vendas-periodo''"
| "card_tipo Produtos_mais_vendidos = ''produtos-ranking''"
| "card_tipo Analise_de_crescimento = ''analise-crescimento''"
| "card_tipo Relatorio_mensal = ''relatorio-mensal''"
| "card_tipo Relatorio_fiscal = ''relatorio-fiscal''"
| "card_tipo Exportacao_personalizada = ''personalizado''"

text \<open>\<open>handleExport(tipo)\<close>: \<open>console.log(`Exportando relatorio: ${tipo}`)\<close>.\<close>

definition relatorios_handleExport :: "string \<Rightarrow> console_entry list \<Rightarrow> console_entry list" where
  "relatorios_handleExport tipo c = c @ [Exportando_relatorio tipo]"

definition relatorio_click :: "relatorio_card \<Rightarrow> console_entry list \<Rightarrow> console_entry list" where
  "relatorio_click k c = relatorios_handleExport (card_tipo k) c"

subsection \<open>Lemmas\<close>

text \<open>Saving never stores anything: the only trace of any sequence of events is the console,
  which grows by exactly the entries of the buttons pressed, each recording the values shown
  at that moment.\<close>

lemma settings_step_console:
  "\<exists>new. snd (settings_step e (st, c)) = c @ new \<and> length new \<le> 1"
  by (cases e) auto

lemma settings_run_console: "\<exists>new. snd (settings_run es (st, c)) = c @ new \<and> length new \<le> length es"
proof (induction es arbitrary: st c)
  case (Cons e es)
  obtain st' c' where s: "settings_step e (st, c) = (st', c')" by (cases "settings_step e (st, c)")
  obtain n1 where n1: "c' = c @ n1" "length n1 \<le> 1" using settings_step_console [of e st c] s by auto
  obtain n2 where n2: "snd (settings_run es (st', c')) = c' @ n2" "length n2 \<le> length es"
    using Cons.IH by blast
  show ?case using s n1 n2 by (auto simp: settings_run_def)
qed (simp add: settings_run_def)

lemma relatorio_tipos_distinct: "distinct (map card_tipo relatorio_cards)"
  by (simp add: relatorio_cards_def)

end
