(* ===== verification/Register_Page.thy ===== *)
theory Register_Page
  imports Auth_Routes
begin

text \<open>
  The rendered registration page of \<open>src/src/pages/Register.tsx\<close> and its user events:
  the four controlled inputs, the two password visibility toggles, the submit button and the
  link to the login page, every control disabled while \<open>loading\<close>. The state and
  \<open>handleRegister\<close> are those of \<open>Auth_Routes\<close>; the runs of the page are the states
  reached from the initial one by any sequence of events, against any script of server
  replies.
\<close>

datatype register_label = Criando_conta | Criar_conta

record register_view =
  rv_error :: "register_message option"
  rv_nome :: string
  rv_email :: string
  rv_senha :: string
  rv_confirmSenha :: string
  rv_senha_type :: string
  rv_confirmSenha_type :: string
  rv_disabled :: bool
  rv_label :: register_label

text \<open>\<open>{error && <div>{error}</div>}\<close>, the inputs' \<open>value\<close>, \<open>type={showPassword ?
  'text' : 'password'}\<close>, \<open>disabled={loading}\<close> and the submit button's label.\<close>

definition input_type :: "bool \<Rightarrow> string" where
  "input_type shown = (if shown then ''text'' else ''password'')"

definition render_register :: "register_page \<Rightarrow> register_view" where
  "render_register st =
     \<lparr>rv_error = rg_error st, rv_nome = rf_nome (rg_formData st), rv_email = rf_email (rg_formData st),
      rv_senha = rf_senha (rg_formData st), rv_confirmSenha = rf_confirmSenha (rg_formData st),
      rv_senha_type = input_type (rg_showPassword st),
      rv_confirmSenha_type = input_type (rg_showConfirmPassword st),
      rv_disabled = rg_loading st,
      rv_label = (if rg_loading st then Criando_conta else Criar_conta)\<rparr>"

datatype register_event =
    Input_field register_field string | Toggle_senha | Toggle_confirmSenha | Submit_register | Login_link

text \<open>A disabled control ignores its event; the \<open><Link to="/login">\<close> is never disabled.\<close>

fun register_step :: "register_event \<Rightarrow> register_page \<times> app_world \<Rightarrow> register_page \<times> app_world" where
  "register_step (Input_field f x) (st, w) = (if rg_loading st then (st, w) else (register_change f x st, w))"
| "register_step Toggle_senha (st, w) =
     (if rg_loading st then (st, w) else (st\<lparr>rg_showPassword := \<not> rg_showPassword st\<rparr>, w))"
| "register_step Toggle_confirmSenha (st, w) =
     (if rg_loading st then (st, w) else (st\<lparr>rg_showConfirmPassword := \<not> rg_showConfirmPassword st\<rparr>, w))"
| "register_step Submit_register (st, w) = (if rg_loading st then (st, w) else handleRegister st w)"
| "register_step Login_link (st, w) = (st, w\<lparr>location := ''/login''\<rparr>)"

inductive register_reachable :: "app_world \<Rightarrow> register_page \<times> app_world \<Rightarrow> bool" for w0 where
  init: "register_reachable w0 (init_register_page, w0)"
| step: "register_reachable w0 c \<Longrightarrow> register_reachable w0 (register_step e c)"

subsection \<open>The requests the page sends\<close>

text \<open>The password of a request's JSON body, when it has one.\<close>

definition body_senha :: "api_request \<Rightarrow> string option" where
  "body_senha r = (case req_body r of
                     Some b \<Rightarrow> (case map_of b ''senha'' of Some (JStr s) \<Rightarrow> Some s | _ \<Rightarrow> None)
                   | None \<Rightarrow> None)"

text \<open>A request the page may send: a registration whose password has passed the length
  check, or a login.\<close>

definition register_request_ok :: "api_request \<Rightarrow> bool" where
  "register_request_ok r \<longleftrightarrow>
     (req_url r = ''/auth/register'' \<and> (case body_senha r of Some s \<Rightarrow> 6 \<le> length s | None \<Rightarrow> False))
     \<or> req_url r = ''/auth/login''"

lemma request_interceptor_url_body [simp]:
  "req_url (request_interceptor t c) = req_url c" "req_body (request_interceptor t c) = req_body c"
  by (simp_all add: request_interceptor_def split: option.split)

lemma register_request_ok_auth:
  "6 \<le> length s \<Longrightarrow> register_request_ok (request_interceptor t (service_request (Auth (Register n e s))))"
  "register_request_ok (request_interceptor t (service_request (Auth (Login e s))))"
  by (simp_all add: register_request_ok_def body_senha_def request_def)

lemma call_log: "api_log (snd (call s w)) = api_log w @ [request_interceptor (ls_token w) (service_request s)]"
  by (simp add: call_def)

lemma handleRegister_loading: "\<not> rg_loading (fst (handleRegister st w))"
  by (simp add: handleRegister_def Let_def split: prod.split sum.split)

lemma handleRegister_log:
  "\<exists>new. api_log (snd (handleRegister st w)) = api_log w @ new \<and> list_all register_request_ok new"
proof -
  let ?f = "rg_formData st"
  let ?R = "Auth (Register (rf_nome ?f) (rf_email ?f) (rf_senha ?f))"
  let ?L = "Auth (Login (rf_email ?f) (rf_senha ?f))"
  show ?thesis
  proof (cases "rf_senha ?f \<noteq> rf_confirmSenha ?f \<or> length (rf_senha ?f) < 6")
    case True
    then show ?thesis by (auto simp: handleRegister_def Let_def)
  next
    case False
    then have "6 \<le> length (rf_senha ?f)" by simp
    then have okR: "register_request_ok (request_interceptor (ls_token w) (service_request ?R))"
      by (rule register_request_ok_auth(1))
    obtain r1 w1 where c1: "call ?R w = (r1, w1)" by (cases "call ?R w")
    have l1: "api_log w1 = api_log w @ [request_interceptor (ls_token w) (service_request ?R)]"
      using call_log [of ?R w] c1 by simp
    show ?thesis
    proof (cases r1)
      case (Inl e)
      then show ?thesis using False c1 l1 okR by (simp add: handleRegister_def Let_def)
    next
      case (Inr d)
      obtain r2 w2 where c2: "call ?L w1 = (r2, w2)" by (cases "call ?L w1")
      have l2: "api_log w2 = api_log w1 @ [request_interceptor (ls_token w1) (service_request ?L)]"
        using call_log [of ?L w1] c2 by simp
      have "api_log (snd (handleRegister st w)) = api_log w2"
        using False c1 c2 Inr by (cases r2) (simp_all add: handleRegister_def Let_def)
      then show ?thesis using l1 l2 okR register_request_ok_auth(2) by simp
    qed
  qed
qed

lemma register_change_loading [simp]: "rg_loading (register_change f x st) = rg_loading st"
  by (cases f) simp_all

lemma register_step_loading: "\<not> rg_loading (fst c) \<Longrightarrow> \<not> rg_loading (fst (register_step e c))"
  by (cases c; cases e) (simp_all add: handleRegister_loading)

lemma register_step_log:
  "\<exists>new. api_log (snd (register_step e c)) = api_log (snd c) @ new \<and> list_all register_request_ok new"
proof (cases c)
  case (Pair st w)
  show ?thesis
  proof (cases "e = Submit_register \<and> \<not> rg_loading st")
    case True
    then show ?thesis using Pair handleRegister_log [of st w] by simp
  next
    case False
    then have "api_log (snd (register_step e c)) = api_log (snd c)"
      using Pair by (cases e) auto
    then show ?thesis by (intro exI [of _ "[]"]) simp
  qed
qed

lemma register_reachable_fold:
  "register_reachable w0 c \<Longrightarrow> register_reachable w0 (fold register_step es c)"
proof (induction es arbitrary: c)
  case (Cons e es)
  then show ?case by (simp add: register_reachable.step)
qed simp

subsection \<open>Runs of the page\<close>

text \<open>Claim C10: in every run of the registration page (any sequence of typing, toggles,
  submissions and the login link, against any server replies) the page is never left
  loading, and every request it has sent is either a login or a registration whose password
  has at least six characters: the length check cannot be bypassed.\<close>

theorem register_requests_checked:
  assumes "register_reachable w0 c"
  shows "\<not> rg_loading (fst c)
         \<and> (\<exists>new. api_log (snd c) = api_log w0 @ new \<and> list_all register_request_ok new)"
  using assms
proof (induction rule: register_reachable.induct)
  case init
  then show ?case by (simp add: init_register_page_def)
next
  case (step c e)
  then obtain new where "api_log (snd c) = api_log w0 @ new" "list_all register_request_ok new"
    by blast
  moreover obtain new' where "api_log (snd (register_step e c)) = api_log (snd c) @ new'"
    "list_all register_request_ok new'"
    using register_step_log [of e c] by blast
  ultimately show ?case using step register_step_loading [of c e] by auto
qed

subsection \<open>Witnesses\<close>

theorem register_requests_checked_witness:
  "register_reachable demo_app_world
     (fold register_step [Input_field Senha ''segredo'', Input_field ConfirmSenha ''segredo'', Submit_register]
        (init_register_page, demo_app_world))
   \<and> \<not> rg_loading (fst (fold register_step [Input_field Senha ''segredo'', Input_field ConfirmSenha ''segredo'',
        Submit_register] (init_register_page, demo_app_world)))"
proof -
  have r: "register_reachable demo_app_world
     (fold register_step [Input_field Senha ''segredo'', Input_field ConfirmSenha ''segredo'', Submit_register]
        (init_register_page, demo_app_world))"
    by (intro register_reachable_fold register_reachable.init)
  show ?thesis using register_requests_checked [OF r] r by simp
qed

end
