(* ===== verification/Spec2Isabelle.thy ===== *)
theory Spec2Isabelle
  imports Venda_Form Venda_Pages Products_Page Dashboard_Page Layout_Nav Venda_Context Settings_Pages Register_Page
begin

text \<open>
  \<^bold>\<open>A verification model of the sales front end \<open>vendas-app-frontend\<close>.\<close>

  \<^bold>\<open>The program.\<close> A React single-page console for a micro-entrepreneur's sales. It has
  two generations of code. The older one is the sales store \<open>VendaProvider\<close>
  (\<open>src/src/context/VendaContext.tsx\<close>): an in-memory list of sales with day/month/year
  filters, a new-sale draft, an edit draft, an error list and a busy flag, whose operations
  call a REST API through raw \<open>axios\<close> and refresh the list after every mutation; the form,
  filter and report components and pages (\<open>VendaForm\<close>, \<open>VendaFormPage\<close>,
  \<open>VendaFilter\<close>, \<open>VendaFilterPage\<close>, \<open>VendaReportPage\<close>, \<open>VendaReport\<close>) read
  the store and call its operations. The newer one is the API gateway client
  \<open>src/src/services/api.ts\<close> (an \<open>axios\<close> instance with a token interceptor and a 401
  interceptor, and four service objects) and the pages that call it directly, among them the
  sales page \<open>src/src/pages/Vendas.tsx\<close> and the products page
  \<open>src/src/pages/Produtos.tsx\<close>.

  \<^bold>\<open>Theories.\<close>
  \<^item> \<open>Prelude\<close>: the JavaScript built-ins the sources use (\<open>??\<close>, truthiness,
    \<open>Number.prototype.toString\<close>, \<open>join\<close>, \<open>split\<close>, \<open>includes\<close>, \<open>startsWith\<close>,
    \<open>toLowerCase\<close>, \<open>parseInt\<close>, \<open>parseFloat\<close>, \<open>Number()\<close>, \<open>toFixed\<close>) as
    executable functions with their generic lemmas (split/join round trip, \<open>parseInt\<close> of a
    printed integer, \<open>includes\<close> equals \<open>sublist\<close>). JavaScript numbers are exact
    rationals: floating-point rounding and exponent notation are not modelled; \<open>toString\<close>
    prints at most twenty fraction digits, which covers every terminating decimal of that
    length and so every currency amount.
  \<^item> \<open>Js_Codec\<close>: the browser decoders \<open>atob\<close> (forgiving base64) and
    \<open>JSON.parse\<close> as executable functions, with the references \<open>btoa\<close> and a printer
    of flat objects; lemmas: \<open>atob\<close> inverts \<open>btoa\<close>, \<open>JSON.parse\<close> reads back every
    printed flat object, every successful parsing step consumes input, and the parser's fuel
    never runs out.
  \<^item> \<open>Intl_Format\<close>: \<open>Intl.NumberFormat('pt-BR', {style: 'currency', currency:
    'BRL'})\<close> (\<open>R$\<close>, a no-break space, thousands grouped with \<open>.\<close>, a decimal comma,
    two digits rounded half away from zero) with a reader of its texts, and \<open>new Date(s)\<close>
    on ECMA-262's date-time string format (date-only strings are UTC, date-times without
    zone local, an overflowing day carried into the next month, other strings left to the
    engine's heuristics as a parameter) shown by \<open>toLocaleDateString('pt-BR')\<close> in a
    fixed time zone, with the long weekday by Sakamoto's rule; lemmas: the currency text
    reads back within half a cent and as the same amount as \<open>toFixed(2)\<close> (the report
    page's rendering), the calendar steps are inverse, the weekday advances by one with each
    calendar step, a printed \<open>YYYY-MM-DD\<close> date parses back, the pt-BR date text
    determines the date.
  \<^item> \<open>Url_Query\<close>: \<open>URLSearchParams\<close>' serialiser, the server-side query parser, and
    their round trip for every list of pairs.
  \<^item> \<open>Venda_Data\<close>, \<open>Remote_Api\<close>, \<open>Venda_Store\<close>: the store's data, its server
    (modelled from section 6 of the specification, the list endpoint's filter left as a
    parameter; invariant and refinement to an abstract map \<open>id \<rightharpoonup> draft\<close>), the world
    (token, server, a script of transport faults, the log of requests), and each operation of
    \<open>VendaProvider\<close> as a function of the state record \<open>venda_state\<close> and the world.
    Claims C1 to C4, C6 to C8 and C12: the query of \<open>fetchVendas\<close>, failure swallowing,
    the refinement of \<open>createVenda\<close>, the resets after success, validation,
    the errors of the mutations, the CSV round trip.
  \<^item> \<open>Venda_Table\<close>: \<open>src/src/components/VendaTable.tsx\<close>, the rows it renders (React
    key \<open>id || dataFormatada\<close>, the amount with \<open>toFixed(2)\<close>, the delete button
    disabled for a falsy id), the fade while loading and the actions of its buttons.
  \<^item> \<open>Venda_Context\<close>: the value the provider puts into the context, as a datatype of its
    operations and one dispatch over the state and the world, and the runs of the provider
    (any sequence of operations from the initial state). Claim C11: in every run
    \<open>loading\<close> is off between operations, the server keeps distinct identifiers, and the
    cached list holds distinct positive identifiers, so the table's keys are distinct.
  \<^item> \<open>Venda_Form\<close>: \<open>VendaForm\<close>'s handlers composed with the store and the buttons of \<open>VendaFormPage\<close>; claims C13 to C15
    (edit mode can never submit, creation posts a validated draft, an edit is sent
    unvalidated); the two drafts are not kept exclusive (lemma \<open>drafts_not_exclusive\<close>).
  \<^item> \<open>Venda_Pages\<close>: the filter form and page and the report page. React's
    rendering is modelled by the provider states committed at the end of each synchronous
    part of \<open>getTotalVendas\<close> (\<open>getTotalVendas_begin\<close> up to the \<open>await\<close>,
    \<open>getTotalVendas_resume\<close> after it): updates within one part are batched, and the
    provider re-renders, giving the report page's effect a new \<open>getTotalVendas\<close>
    identity, exactly when a committed state differs from the one before. Claims C17 (with
    a token the effect re-runs forever, one request per round), C37 (without a token the
    updates cancel out and the effect settles after one round), C18
    (\<open>handleFilter\<close>'s stale closure queries the old day filter) and C39 (the report's
    \<open>toFixed(2)\<close> text reads back exactly for every amount of whole cents).
  \<^item> \<open>Api_Service\<close>: \<open>api.ts\<close> with the remote API as a script of replies (one per
    request, in order), so every statement holds for every server; claims C19 (the
    list queries carry exactly the truthy filters and read back exactly), C20 (the
    template-literal URLs are injectable for any plain texts), C22, C23 (the bearer header,
    the 401 interceptor), C29 (every service method builds a well-formed request) and C32
    (the period query reads back exactly when both dates are plain).
  \<^item> \<open>Sales_Page\<close>: \<open>Vendas.tsx\<close>: state, \<open>loadData\<close> with \<open>Promise.all\<close> (both
    requests leave before either reply), submission, the derived views, the rendered view,
    and the user's events as a step function with the inductive set of the page's runs;
    \<open>formatCurrency\<close> and \<open>formatDate\<close>; claims C9 (the currency text has two
    decimals within half a cent of the parsed value), C26 (a \<open>YYYY-MM-DD\<close>
    date is shown one day early west of UTC), C27, C28, C30, C31 (\<open>loadData\<close>,
    submission success, the error banner that never clears, the run invariant); lemmas: the
    search (with \<open>toLowerCase\<close> on the Latin-1 characters of the model, \<open>lower_char\<close>
    of \<open>Prelude\<close>) and the month filter, the total's \<open>reduce\<close> equal to a sum of the
    parsed totals or \<open>NaN\<close>, and the average ticket between the smallest and the largest
    total (\<open>ticket_medio_bounds\<close>).
  \<^item> \<open>Products_Page\<close>: \<open>Produtos.tsx\<close> in the same style; claims C33 to C35 (save routed to create or update, the delete handler's
    failure paths, the run invariant of edit mode).
  \<^item> \<open>Auth_Routes\<close>: \<open>Register.tsx\<close>, the route table of \<open>App.tsx\<close>, the guard
    \<open>ProtectedRoute\<close> and \<open>Layout\<close>'s logout; claim C36 (route resolution guards
    every protected screen); resolution ends within three look-ups and more fuel changes
    nothing (lemmas \<open>resolve_terminates\<close> and \<open>resolve_mono\<close>).
  \<^item> \<open>Register_Page\<close>: the rendered registration form (error box, values, input
    types, controls disabled while loading, button label) and its events as a step function
    with the inductive set of the page's runs; claim C10 (every request the page sends is a
    login or a registration whose password passed the length check).
  \<^item> \<open>Layout_Nav\<close>: \<open>Layout.tsx\<close>'s menu items, the active item, the sidebar and the
    links and buttons as a step function on the sidebar flag and the world, the rendered
    frame (\<open>render_layout\<close>: both menus, the mobile one only while open, the user block),
    and \<open>getUserName\<close>; claims C5 (a token whose payload is the base64 of a printed claims
    object shows its \<open>nome\<close>) and C21 (a payload in the base64url alphabet of JSON Web
    Tokens makes \<open>atob\<close> throw and shows the default name).
  \<^item> \<open>Settings_Pages\<close>: \<open>Configuracoes.tsx\<close> (the profile and notification state,
    every controlled input and button) and \<open>Relatorios.tsx\<close> (the six cards and the
    \<open>tipo\<close> each export passes), whose only effect is the console, a log of entries.
  \<^item> \<open>Dashboard_Page\<close>: \<open>Dashboard.tsx\<close> (the load on mount, export, the rendered screens with the last seven days,
    \<open>formatCurrency\<close> and the weekday labels of the days, which name the day before west of
    UTC, claim C24);
    claim C40 (the error screen is a dead end: no retry clears the error).
  \<^item> This theory: claims that span components: C16 (a menu link of \<open>Layout\<close> activates
    its item and, through \<open>App\<close>'s routes and \<open>ProtectedRoute\<close>, shows its screen with a
    token and the login screen after logout), C25 (the total \<open>Dashboard\<close> prints
    with \<open>formatCurrency\<close> and the report page's \<open>toFixed(2)\<close> total read back as
    the same number) and C38 (registration, the route guard and the
    request interceptor: a login answer without \<open>access_token\<close> leaves the user "logged
    in" with the token \<open>"undefined"\<close>).

  \<^bold>\<open>Bounds and fuel.\<close> \<open>report_effect\<close> runs a given number of rounds of the report page's
  effect: the claim is stated for every number, which is how a loop that never ends is shown.
  \<open>frac_digits\<close> prints at most twenty digits (see \<open>Prelude\<close>). \<open>resolve\<close> counts
  route look-ups: the longest chain is a redirect followed by one more look-up (\<open>/\<close> and
  unknown paths to \<open>/dashboard\<close>, a guarded screen without token to \<open>/login\<close>), so
  three are enough for every path and token (lemma \<open>resolve_terminates\<close>, with
  monotonicity in the fuel).
  \<open>JSON_parse\<close> runs the mutually recursive value, element and member parsers with fuel
  twice the length of the text and two more: every call on a value, and every second call
  along a chain of elements or members, consumes a character, so the fuel never runs out
  (lemma \<open>json_fuel_enough\<close>) and the parser's only failures are syntax errors. No other
  definition uses fuel; every recursive one is total.

  \<^bold>\<open>Not modelled.\<close> Rendering beyond the texts, keys and flags a page shows (markup and
  styling), routing and navigation side effects beyond the path reached, the rounding of binary
  doubles inside \<open>Intl\<close> (amounts are exact rationals), daylight saving time (the time
  zone is one fixed offset), the era notation of years before 1, the browser download mechanics beyond the file's name, type and
  content, interleavings of handlers whose awaits overlap (each handler runs to its end
  before the next event; the races of section 5 of the specification are therefore not
  stated). The password fields and the theme and density radios of \<open>Configuracoes\<close> are
  uncontrolled inputs without handlers. The login page named by \<open>App\<close> is not in the
  repository.
\<close>


text \<open>Claim C38 (registration, route guard and request interceptor together): when the
  login answer after a registration has no \<open>access_token\<close>, the page stores the string
  \<open>"undefined"\<close> as the token and navigates to \<open>/dashboard\<close>; \<open>ProtectedRoute\<close>
  accepts that token and shows the dashboard, and every later service request carries
  \<open>Authorization: Bearer undefined\<close>.\<close>

theorem register_without_access_token:
  assumes "rf_senha (rg_formData st) = rf_confirmSenha (rg_formData st)"
    and "6 \<le> length (rf_senha (rg_formData st))"
    and "replies w = Inr d # Inr (Auth_answer None) # rs"
  shows "ls_token (snd (handleRegister st w)) = Some ''undefined''
    \<and> location (snd (handleRegister st w)) = ''/dashboard''
    \<and> resolve 3 (ls_token (snd (handleRegister st w))) ''/dashboard'' = Some (''/dashboard'', Some Screen_dashboard)
    \<and> req_auth (last (api_log (snd (call s (snd (handleRegister st w)))))) = Some ''Bearer undefined''"
proof -
  have tok: "ls_token (snd (handleRegister st w)) = Some ''undefined''"
    and loc: "location (snd (handleRegister st w)) = ''/dashboard''"
    using handleRegister_accepted [of st w d "Auth_answer None" rs] assms
    by (simp_all add: access_token_str_def)
  have "req_auth (last (api_log (snd (call s (snd (handleRegister st w)))))) = Some (bearer ''undefined'')"
    by (simp add: call_def tok request_interceptor_def)
  then show ?thesis using tok loc by (simp add: eval_nat_numeral bearer_def route_simps)
qed

theorem register_without_access_token_witness:
  "ls_token (snd (handleRegister (init_register_page\<lparr>rg_formData := \<lparr>rf_nome = ''Ana'', rf_email = ''a@b.c'',
      rf_senha = ''segredo'', rf_confirmSenha = ''segredo''\<rparr>\<rparr>)
      (demo_app_world\<lparr>replies := [Inr (Other_payload []), Inr (Auth_answer None)]\<rparr>))) = Some ''undefined''"
proof -
  let ?st = "init_register_page\<lparr>rg_formData := \<lparr>rf_nome = ''Ana'', rf_email = ''a@b.c'',
      rf_senha = ''segredo'', rf_confirmSenha = ''segredo''\<rparr>\<rparr>"
  let ?w = "demo_app_world\<lparr>replies := [Inr (Other_payload []), Inr (Auth_answer None)]\<rparr>"
  have h: "rf_senha (rg_formData ?st) = rf_confirmSenha (rg_formData ?st)"
    "6 \<le> length (rf_senha (rg_formData ?st))"
    "replies ?w = Inr (Other_payload []) # Inr (Auth_answer None) # []"
    by simp_all
  show ?thesis using register_without_access_token [OF h, of "Relatorios Relatorio_dashboard"] by simp
qed

text \<open>Claim C16 (\<open>Layout\<close>'s menu, \<open>App\<close>'s routes and \<open>ProtectedRoute\<close> together):
  following a menu link makes that item, and it alone, active, and a mobile link closes the
  sidebar; with a truthy token the link's path shows a protected screen at that path; after
  the logout button, following any menu link ends on the login screen.\<close>

theorem menu_links_route:
  assumes "i \<in> set menuItems"
  shows "filter snd (render_menu (location (snd (layout_step (Mobile_link i) (s, w))))) = [(mi_name i, True)]
    \<and> \<not> fst (layout_step (Mobile_link i) (s, w))
    \<and> (truthy_str (ls_token w) \<longrightarrow>
         (\<exists>sc. resolve 3 (ls_token (snd (layout_step (Desktop_link i) (s, w))))
                  (location (snd (layout_step (Desktop_link i) (s, w)))) = Some (mi_href i, Some sc)
               \<and> is_protected sc))
    \<and> resolve 3 (ls_token (snd (layout_step (Desktop_link i) (layout_step Logout_button (s, w)))))
        (location (snd (layout_step (Desktop_link i) (layout_step Logout_button (s, w)))))
      = Some (''/login'', Some Screen_login)"
proof -
  have act: "filter snd (render_menu (mi_href i)) = [(mi_name i, True)]"
    using assms by (rule render_menu_active)
  have "truthy_str (ls_token w) \<longrightarrow> (\<exists>sc. resolve 3 (ls_token w) (mi_href i) = Some (mi_href i, Some sc) \<and> is_protected sc)"
   and "resolve 3 None (mi_href i) = Some (''/login'', Some Screen_login)"
    using assms by (auto simp: menuItems_def route_simps is_protected_def eval_nat_numeral)
  then show ?thesis using act by (simp add: layout_logout_def)
qed

theorem menu_links_route_witness:
  "location (snd (layout_step (Desktop_link \<lparr>mi_name = Menu_vendas, mi_href = ''/vendas''\<rparr>)
      (layout_step Logout_button (True, demo_app_world)))) = ''/vendas''
   \<and> resolve 3 (ls_token (snd (layout_step (Desktop_link \<lparr>mi_name = Menu_vendas, mi_href = ''/vendas''\<rparr>)
      (layout_step Logout_button (True, demo_app_world)))))
      ''/vendas'' = Some (''/login'', Some Screen_login)"
proof -
  have h: "\<lparr>mi_name = Menu_vendas, mi_href = ''/vendas''\<rparr> \<in> set menuItems" by (simp add: menuItems_def)
  show ?thesis using menu_links_route [OF h, of True demo_app_world] by (simp add: layout_logout_def)
qed

end
